(* ===== verification/Prelude.thy ===== *)
theory Prelude
  imports Main "HOL-Library.Word" "HOL-Library.Sublist"
begin

text \<open>
  What every component theory shares: the collections of automation, the type of an
  effectful operation that may stop with an error (\<open>act\<close>) with its combinators, frame
  reasoning over such operations (\<open>keeps\<close>), and the pieces of the Rust standard library
  that the sources use on byte strings (a \<open>string\<close> is the list of its UTF-8 bytes).
\<close>

named_theorems run_simps "equations that run an operation on a world"
named_theorems run_inv "inversions of a successful run"
named_theorems keeps_intro "introduction rules for frame facts of operations"

type_synonym u8 = "8 word"
type_synonym u32 = "32 word"
type_synonym i32 = "32 word"
type_synonym u64 = "64 word"
type_synonym i64 = "64 word"
type_synonym bytes = "8 word list"

lemma sint_i64: "- (2 ^ 63) \<le> i \<Longrightarrow> i < 2 ^ 63 \<Longrightarrow> sint (word_of_int i :: i64) = i"
  by (simp add: signed_of_int signed_take_bit_int_eq_self)

section \<open>Operations that read and change a world and may fail\<close>

type_synonym ('w, 'e, 'a) act = "'w \<Rightarrow> ('e + 'a) \<times> 'w"

text \<open>\<open>Ok(x)\<close>, \<open>Err(e)\<close> and the early return of \<open>?\<close>.\<close>

definition ret :: "'a \<Rightarrow> ('w, 'e, 'a) act" where
  "ret x w = (Inr x, w)"

definition fail :: "'e \<Rightarrow> ('w, 'e, 'a) act" where
  "fail e w = (Inl e, w)"

definition try_bind :: "('w, 'e, 'a) act \<Rightarrow> ('a \<Rightarrow> ('w, 'e, 'b) act) \<Rightarrow> ('w, 'e, 'b) act" where
  "try_bind m k w = (case m w of (Inl e, w') \<Rightarrow> (Inl e, w') | (Inr x, w') \<Rightarrow> k x w')"

text \<open>A pure fallible computation, a test with an early return, and the state accessors.\<close>

definition of_result :: "'e + 'a \<Rightarrow> ('w, 'e, 'a) act" where
  "of_result r w = (r, w)"

definition ok_or :: "'e \<Rightarrow> 'a option \<Rightarrow> 'e + 'a" where
  "ok_or e x = (case x of None \<Rightarrow> Inl e | Some y \<Rightarrow> Inr y)"

definition unwrap_or :: "'a \<Rightarrow> 'a option \<Rightarrow> 'a" where
  "unwrap_or d x = (case x of None \<Rightarrow> d | Some y \<Rightarrow> y)"

definition or_else :: "'a option \<Rightarrow> 'a option \<Rightarrow> 'a option" where
  "or_else x y = (case x of None \<Rightarrow> y | Some z \<Rightarrow> Some z)"

definition and_then :: "'e + 'a \<Rightarrow> ('a \<Rightarrow> 'e + 'b) \<Rightarrow> 'e + 'b" where
  "and_then r k = (case r of Inl e \<Rightarrow> Inl e | Inr x \<Rightarrow> k x)"

definition require :: "bool \<Rightarrow> 'e \<Rightarrow> ('w, 'e, unit) act" where
  "require b e w = (if b then Inr () else Inl e, w)"

definition gets :: "('w \<Rightarrow> 'a) \<Rightarrow> ('w, 'e, 'a) act" where
  "gets f w = (Inr (f w), w)"

definition puts :: "('w \<Rightarrow> 'w) \<Rightarrow> ('w, 'e, unit) act" where
  "puts f w = (Inr (), f w)"

text \<open>\<open>attempt\<close> runs an operation whose error the code inspects or drops (\<open>let _ = ...\<close>).\<close>

definition attempt :: "('w, 'e, 'a) act \<Rightarrow> ('w, 'f, 'e + 'a) act" where
  "attempt m w = (case m w of (r, w') \<Rightarrow> (Inr r, w'))"

definition map_err :: "('e \<Rightarrow> 'f) \<Rightarrow> ('w, 'e, 'a) act \<Rightarrow> ('w, 'f, 'a) act" where
  "map_err f m w = (case m w of (Inl e, w') \<Rightarrow> (Inl (f e), w') | (Inr x, w') \<Rightarrow> (Inr x, w'))"

fun for_each :: "'a list \<Rightarrow> ('a \<Rightarrow> ('w, 'e, unit) act) \<Rightarrow> ('w, 'e, unit) act" where
  "for_each [] f = ret ()"
| "for_each (x # xs) f = try_bind (f x) (\<lambda>_. for_each xs f)"

fun map_each :: "('a \<Rightarrow> ('w, 'e, 'b) act) \<Rightarrow> 'a list \<Rightarrow> ('w, 'e, 'b list) act" where
  "map_each f [] = ret []"
| "map_each f (x # xs) =
     try_bind (f x) (\<lambda>y. try_bind (map_each f xs) (\<lambda>ys. ret (y # ys)))"

lemma act_simps [run_simps]:
  "ret x w = (Inr x, w)"
  "fail e w = (Inl e, w)"
  "of_result r w = (r, w)"
  "gets f w = (Inr (f w), w)"
  "puts g w = (Inr (), g w)"
  by (simp_all add: ret_def fail_def of_result_def gets_def puts_def)

lemma require_simps [run_simps]: "require b e w = (if b then Inr () else Inl e, w)"
  by (simp add: require_def)

lemma try_bind_run:
  "m w = (Inr x, w1) \<Longrightarrow> try_bind m k w = k x w1"
  "m w = (Inl e, w1) \<Longrightarrow> try_bind m k w = (Inl e, w1)"
  by (simp_all add: try_bind_def)

text \<open>
  Inversion: a successful run of a sequence is a successful run of each part, which turns a
  handler's run into the chain of the values it computed.
\<close>

lemma try_bind_Inr:
  "try_bind m k w = (Inr y, w') \<longleftrightarrow> (\<exists>x w1. m w = (Inr x, w1) \<and> k x w1 = (Inr y, w'))"
  by (auto simp: try_bind_def split: prod.splits sum.splits)

lemma try_bind_Inl:
  "try_bind m k w = (Inl e, w') \<longleftrightarrow>
    m w = (Inl e, w') \<or> (\<exists>x w1. m w = (Inr x, w1) \<and> k x w1 = (Inl e, w'))"
  by (auto simp: try_bind_def split: prod.splits sum.splits)

lemma require_Inr: "require b e w = (Inr u, w') \<longleftrightarrow> b \<and> w' = w"
  by (auto simp: require_def)

lemma attempt_Inr: "attempt m w = (Inr r, w') \<longleftrightarrow> m w = (r, w')"
  by (auto simp: attempt_def split: prod.splits)

lemma attempt_not_Inl [simp]: "attempt m w \<noteq> (Inl e, w')"
  by (simp add: attempt_def split: prod.splits)

lemma map_err_Inr: "map_err f m w = (Inr x, w') \<longleftrightarrow> m w = (Inr x, w')"
  by (auto simp: map_err_def split: prod.splits sum.splits)

lemma and_then_simps [simp]: "and_then (Inl e) k = Inl e" "and_then (Inr x) k = k x"
  by (simp_all add: and_then_def)

lemma and_then_Inr: "and_then r k = Inr y \<longleftrightarrow> (\<exists>x. r = Inr x \<and> k x = Inr y)"
  by (cases r) auto

lemma ok_or_Inr [simp]: "ok_or e x = Inr y \<longleftrightarrow> x = Some y"
  by (auto simp: ok_or_def split: option.splits)

lemma ok_or_simps [simp]: "ok_or e None = Inl e" "ok_or e (Some y) = Inr y"
  by (simp_all add: ok_or_def)

declare try_bind_Inr [run_inv] require_Inr [run_inv] attempt_Inr [run_inv] map_err_Inr [run_inv]

section \<open>Frame facts: what a run may change\<close>

text \<open>
  \<open>keeps R m\<close>: whatever its result, a run of \<open>m\<close> relates the worlds before and
  after by \<open>R\<close>. With \<open>R = (\<lambda>w w'. f w' = f w)\<close> this is a frame property, with
  \<open>R = (\<lambda>w w'. P w \<longrightarrow> P w')\<close> an invariant.
\<close>

definition keeps :: "('w \<Rightarrow> 'w \<Rightarrow> bool) \<Rightarrow> ('w, 'e, 'a) act \<Rightarrow> bool" where
  "keeps R m \<longleftrightarrow> (\<forall>w. R w (snd (m w)))"

lemma keepsD: "keeps R m \<Longrightarrow> m w = (r, w') \<Longrightarrow> R w w'"
  unfolding keeps_def by (metis snd_conv)

locale run_preorder =
  fixes R :: "'w \<Rightarrow> 'w \<Rightarrow> bool"
  assumes R_refl: "R w w"
    and R_trans: "R u v \<Longrightarrow> R v w \<Longrightarrow> R u w"
begin

lemma keeps_pure [keeps_intro]:
  "keeps R (ret x)" "keeps R (fail e)" "keeps R (of_result r)"
  "keeps R (gets f)" "keeps R (require b e')"
  by (simp_all add: keeps_def act_simps require_def R_refl)

lemma keeps_bind [keeps_intro]:
  assumes "keeps R m" and "\<And>x. keeps R (k x)"
  shows "keeps R (try_bind m k)"
  using assms unfolding keeps_def try_bind_def
  by (auto split: prod.splits sum.splits intro: R_trans) (metis R_trans snd_conv)+

lemma keeps_attempt [keeps_intro]: "keeps R m \<Longrightarrow> keeps R (attempt m)"
  by (auto simp: keeps_def attempt_def split: prod.splits) (metis snd_conv)

lemma keeps_map_err [keeps_intro]: "keeps R m \<Longrightarrow> keeps R (map_err f m)"
  by (auto simp: keeps_def map_err_def split: prod.splits sum.splits) (metis snd_conv)+

lemma keeps_for_each: "(\<And>x. keeps R (f x)) \<Longrightarrow> keeps R (for_each xs f)"
  by (induction xs) (auto intro: keeps_pure keeps_bind)

lemma keeps_map_each [keeps_intro]: "(\<And>x. keeps R (f x)) \<Longrightarrow> keeps R (map_each f xs)"
  by (induction xs) (auto intro!: keeps_pure keeps_bind)

lemma keeps_if [keeps_intro]: "keeps R m \<Longrightarrow> keeps R n \<Longrightarrow> keeps R (if b then m else n)"
  by simp

lemma keeps_case_option [keeps_intro]:
  "keeps R m \<Longrightarrow> (\<And>x. keeps R (n x)) \<Longrightarrow> keeps R (case opt of None \<Rightarrow> m | Some x \<Rightarrow> n x)"
  by (simp split: option.split)

lemma keeps_case_sum [keeps_intro]:
  "(\<And>x. keeps R (m x)) \<Longrightarrow> (\<And>x. keeps R (n x)) \<Longrightarrow>
    keeps R (case s of Inl x \<Rightarrow> m x | Inr x \<Rightarrow> n x)"
  by (simp split: sum.split)

lemma keeps_case_prod [keeps_intro]:
  "(\<And>x y. keeps R (m x y)) \<Longrightarrow> keeps R (case p of (x, y) \<Rightarrow> m x y)"
  by (simp split: prod.split)

end

end
