(* ===== verification/Rust_Strings.thy ===== *)
theory Rust_Strings
  imports Prelude
begin

text \<open>
  The Rust standard library on strings and bytes, as far as the sources use it. A
  \<open>String\<close> is its list of UTF-8 bytes, so \<open>len\<close> is the length of the list.
\<close>

section \<open>Whitespace and \<open>str::trim\<close>\<close>

text \<open>The UTF-8 encodings of the code points with the Unicode property White_Space.\<close>

definition whitespace_seqs :: "string list" where
  "whitespace_seqs =
     [[CHR 0x09], [CHR 0x0A], [CHR 0x0B], [CHR 0x0C], [CHR 0x0D], [CHR 0x20],
      [CHR 0xC2, CHR 0x85], [CHR 0xC2, CHR 0xA0], [CHR 0xE1, CHR 0x9A, CHR 0x80],
      [CHR 0xE2, CHR 0x80, CHR 0x80], [CHR 0xE2, CHR 0x80, CHR 0x81],
      [CHR 0xE2, CHR 0x80, CHR 0x82], [CHR 0xE2, CHR 0x80, CHR 0x83],
      [CHR 0xE2, CHR 0x80, CHR 0x84], [CHR 0xE2, CHR 0x80, CHR 0x85],
      [CHR 0xE2, CHR 0x80, CHR 0x86], [CHR 0xE2, CHR 0x80, CHR 0x87],
      [CHR 0xE2, CHR 0x80, CHR 0x88], [CHR 0xE2, CHR 0x80, CHR 0x89],
      [CHR 0xE2, CHR 0x80, CHR 0x8A], [CHR 0xE2, CHR 0x80, CHR 0xA8],
      [CHR 0xE2, CHR 0x80, CHR 0xA9], [CHR 0xE2, CHR 0x80, CHR 0xAF],
      [CHR 0xE2, CHR 0x81, CHR 0x9F], [CHR 0xE3, CHR 0x80, CHR 0x80]]"

text \<open>Drop the listed sequences from the front as long as one of them is a prefix.\<close>

function strip_front :: "string list \<Rightarrow> string \<Rightarrow> string" where
  "strip_front seqs s =
     (case find (\<lambda>p. p \<noteq> [] \<and> prefix p s) seqs of
        None \<Rightarrow> s
      | Some p \<Rightarrow> strip_front seqs (drop (length p) s))"
  by pat_completeness auto
termination
proof (relation "measure (\<lambda>(seqs, s). length s)")
  show "wf (measure (\<lambda>(seqs, s). length s))" by simp
next
  fix seqs s p
  assume "find (\<lambda>p. p \<noteq> [] \<and> prefix p s) seqs = Some p"
  then have "p \<noteq> []" and "prefix p s" by (auto simp: find_Some_iff)
  then have "0 < length p" and "length p \<le> length s" by (auto dest: prefix_length_le)
  then have "length s - length p < length s" by linarith
  then show "((seqs, drop (length p) s), seqs, s) \<in> measure (\<lambda>(seqs, s). length s)"
    by simp
qed

declare strip_front.simps [simp del]

definition trim_start :: "string \<Rightarrow> string" where
  "trim_start s = strip_front whitespace_seqs s"

definition trim_end :: "string \<Rightarrow> string" where
  "trim_end s = rev (strip_front (map rev whitespace_seqs) (rev s))"

definition trim :: "string \<Rightarrow> string" where
  "trim s = trim_end (trim_start s)"

lemma strip_front_suffix: "suffix (strip_front seqs s) s"
proof (induction seqs s rule: strip_front.induct)
  case (1 seqs s)
  show ?case
  proof (cases "find (\<lambda>p. p \<noteq> [] \<and> prefix p s) seqs")
    case None
    then show ?thesis by (subst strip_front.simps) simp
  next
    case (Some p)
    then have "suffix (strip_front seqs (drop (length p) s)) (drop (length p) s)"
      by (rule "1.IH")
    then have "suffix (strip_front seqs (drop (length p) s)) s"
      by (meson suffix_drop suffix_order.trans)
    with Some show ?thesis by (subst strip_front.simps) simp
  qed
qed

lemma strip_front_stable: "strip_front seqs (strip_front seqs s) = strip_front seqs s"
proof (induction seqs s rule: strip_front.induct)
  case (1 seqs s)
  show ?case
  proof (cases "find (\<lambda>p. p \<noteq> [] \<and> prefix p s) seqs")
    case None
    then show ?thesis by (simp add: strip_front.simps [of seqs s])
  next
    case (Some p)
    then have "strip_front seqs s = strip_front seqs (drop (length p) s)"
      by (simp add: strip_front.simps [of seqs s])
    with "1.IH" [OF Some] show ?thesis by simp
  qed
qed

lemma length_strip_front: "length (strip_front seqs s) \<le> length s"
  using strip_front_suffix suffix_length_le by blast

lemma length_trim: "length (trim s) \<le> length s"
proof -
  have "length (trim s) \<le> length (trim_start s)"
    unfolding trim_def trim_end_def using length_strip_front [of _ "rev (trim_start s)"] by simp
  also have "\<dots> \<le> length s"
    unfolding trim_start_def by (rule length_strip_front)
  finally show ?thesis .
qed

lemma strip_front_fixed:
  "strip_front seqs s = s \<longleftrightarrow> (\<forall>p\<in>set seqs. p \<noteq> [] \<longrightarrow> \<not> prefix p s)"
proof (cases "find (\<lambda>p. p \<noteq> [] \<and> prefix p s) seqs")
  case None
  then have "strip_front seqs s = s" by (simp add: strip_front.simps [of seqs s])
  moreover have "\<forall>p\<in>set seqs. p \<noteq> [] \<longrightarrow> \<not> prefix p s"
    using None by (auto simp: find_None_iff)
  ultimately show ?thesis by simp
next
  case (Some p)
  then have p: "p \<in> set seqs" "p \<noteq> []" "prefix p s" by (auto simp: find_Some_iff)
  have "length (strip_front seqs (drop (length p) s)) < length s"
    using length_strip_front [of seqs "drop (length p) s"] p(2) prefix_length_le [OF p(3)]
    by (cases p) auto
  moreover have "strip_front seqs s = strip_front seqs (drop (length p) s)"
    using Some by (subst strip_front.simps) simp
  ultimately show ?thesis using p by auto
qed

definition trimmed :: "string \<Rightarrow> bool" where
  "trimmed s \<longleftrightarrow>
     (\<forall>p\<in>set whitespace_seqs. \<not> prefix p s) \<and> (\<forall>p\<in>set whitespace_seqs. \<not> suffix p s)"

lemma whitespace_nonempty: "p \<in> set whitespace_seqs \<Longrightarrow> p \<noteq> []"
  by (auto simp: whitespace_seqs_def)

lemma trim_start_fixed: "trim_start s = s \<longleftrightarrow> (\<forall>p\<in>set whitespace_seqs. \<not> prefix p s)"
  unfolding trim_start_def strip_front_fixed using whitespace_nonempty by blast

lemma trim_end_fixed: "trim_end s = s \<longleftrightarrow> (\<forall>p\<in>set whitespace_seqs. \<not> suffix p s)"
proof -
  have "trim_end s = s \<longleftrightarrow> strip_front (map rev whitespace_seqs) (rev s) = rev s"
    unfolding trim_end_def by (metis rev_rev_ident)
  then show ?thesis
    using whitespace_nonempty by (auto simp: strip_front_fixed suffix_to_prefix)
qed

lemma trim_fixed: "trimmed s \<Longrightarrow> trim s = s"
  by (simp add: trimmed_def trim_def trim_start_fixed [THEN iffD2] trim_end_fixed [THEN iffD2])

lemma trimmed_trim: "trimmed (trim s)"
proof -
  let ?u = "trim_start s"
  have u: "\<forall>p\<in>set whitespace_seqs. \<not> prefix p ?u"
    unfolding trim_start_fixed [symmetric] by (simp add: trim_start_def strip_front_stable)
  have "suffix (strip_front (map rev whitespace_seqs) (rev ?u)) (rev ?u)"
    by (rule strip_front_suffix)
  then have "prefix (trim s) ?u"
    by (simp add: trim_def trim_end_def suffix_to_prefix)
  with u have "\<forall>p\<in>set whitespace_seqs. \<not> prefix p (trim s)"
    using prefix_order.trans by blast
  moreover have "trim_end (trim s) = trim s"
    by (simp add: trim_def trim_end_def strip_front_stable)
  ultimately show ?thesis by (simp add: trimmed_def trim_end_fixed)
qed

section \<open>ASCII case, digits, prefixes and decimal output\<close>

definition ascii_upper :: "char \<Rightarrow> char" where
  "ascii_upper c =
     (if 97 \<le> (of_char c :: nat) \<and> (of_char c :: nat) \<le> 122 then char_of ((of_char c :: nat) - 32) else c)"

definition to_ascii_uppercase :: "string \<Rightarrow> string" where
  "to_ascii_uppercase s = map ascii_upper s"

lemma of_char_upper:
  "of_char (ascii_upper c) =
    (let n = of_char c in if 97 \<le> n \<and> n \<le> 122 then n - 32 else (n :: nat))"
  by (auto simp: ascii_upper_def Let_def)

lemma ascii_upper_idem [simp]: "ascii_upper (ascii_upper c) = ascii_upper c"
proof -
  have "(of_char (ascii_upper (ascii_upper c)) :: nat) = of_char (ascii_upper c)"
    by (simp only: of_char_upper Let_def split: if_splits) auto
  then show ?thesis by simp
qed

lemma whitespace_bytes: "\<forall>w\<in>set (concat whitespace_seqs). (of_char w :: nat) \<notin> {65..90}"
  by (simp add: whitespace_seqs_def)

lemma whitespace_upper:
  assumes "p \<in> set whitespace_seqs" and "map ascii_upper q = p"
  shows "q = p"
proof -
  have "ascii_upper c = c" if "c \<in> set q" for c
  proof -
    have "ascii_upper c \<in> set p" using that assms(2) by auto
    then have "ascii_upper c \<in> set (concat whitespace_seqs)" using assms(1) by auto
    then have "(of_char (ascii_upper c) :: nat) \<notin> {65..90}" using whitespace_bytes by blast
    then have "(of_char (ascii_upper c) :: nat) = of_char c"
      by (auto simp: of_char_upper Let_def split: if_splits)
    then show ?thesis by simp
  qed
  then have "map ascii_upper q = q" by (simp add: map_idI)
  with assms(2) show ?thesis by simp
qed

lemma trimmed_upper: "trimmed s \<Longrightarrow> trimmed (to_ascii_uppercase s)"
  unfolding trimmed_def to_ascii_uppercase_def
  by (metis map_mono_prefix prefix_def suffix_def map_eq_append_conv whitespace_upper)

definition is_ascii :: "string \<Rightarrow> bool" where
  "is_ascii s \<longleftrightarrow> list_all (\<lambda>c. (of_char c :: nat) < 128) s"

text \<open>\<open>char::to_digit(16)\<close> of one byte, and \<open>is_ascii_hexdigit\<close>.\<close>

definition hex_digit :: "char \<Rightarrow> nat option" where
  "hex_digit c =
     (let n = (of_char c :: nat)
      in if 48 \<le> n \<and> n \<le> 57 then Some (n - 48)
         else if 97 \<le> n \<and> n \<le> 102 then Some (n - 87)
         else if 65 \<le> n \<and> n \<le> 70 then Some (n - 55)
         else None)"

definition is_ascii_hexdigit :: "char \<Rightarrow> bool" where
  "is_ascii_hexdigit c \<longleftrightarrow> hex_digit c \<noteq> None"

definition strip_prefix :: "string \<Rightarrow> string \<Rightarrow> string option" where
  "strip_prefix p s = (if prefix p s then Some (drop (length p) s) else None)"

definition as_bytes :: "string \<Rightarrow> bytes" where
  "as_bytes s = map of_char s"

function dec :: "nat \<Rightarrow> string" where
  "dec n = (if n < 10 then [char_of (48 + n)] else dec (n div 10) @ [char_of (48 + n mod 10)])"
  by pat_completeness auto
termination
  by (relation "measure id") auto

declare dec.simps [simp del]

text \<open>\<open>str::split(sep)\<close> on a one-byte separator and \<open>[..].join(sep)\<close>.\<close>

fun split_on :: "char \<Rightarrow> string \<Rightarrow> string list" where
  "split_on sep [] = [[]]"
| "split_on sep (c # cs) =
     (if c = sep then [] # split_on sep cs
      else (case split_on sep cs of [] \<Rightarrow> [[c]] | w # ws \<Rightarrow> (c # w) # ws))"

fun join :: "string \<Rightarrow> string list \<Rightarrow> string" where
  "join sep [] = []"
| "join sep [w] = w"
| "join sep (w # v # ws) = w @ sep @ join sep (v # ws)"

lemma split_on_not_Nil [simp]: "split_on sep s \<noteq> []"
  by (cases s) (auto split: list.splits)

lemma join_split_on: "join [sep] (split_on sep s) = s"
proof (induction s)
  case Nil
  then show ?case by simp
next
  case (Cons c cs)
  obtain w ws where "split_on sep cs = w # ws"
    by (cases "split_on sep cs") auto
  with Cons show ?case by (cases ws) auto
qed

lemma strip_prefix_Some: "strip_prefix p s = Some t \<longleftrightarrow> s = p @ t"
  by (auto simp: strip_prefix_def prefix_def)

lemma hex_digit_bound: "hex_digit c = Some d \<Longrightarrow> d < 16"
  by (auto simp: hex_digit_def Let_def split: if_splits)

lemma length_as_bytes [simp]: "length (as_bytes s) = length s"
  by (simp add: as_bytes_def)

lemma as_bytes_append [simp]: "as_bytes (s @ t) = as_bytes s @ as_bytes t"
  by (simp add: as_bytes_def)

lemma unat_of_char [simp]: "unat (of_char c :: u8) = (of_char c :: nat)"
proof -
  have "(of_char c :: u8) = of_nat (of_char c)" by (simp add: of_nat_of_char)
  then show ?thesis by (simp add: unat_of_nat take_bit_eq_mod)
qed

lemma unat_u8_less: "unat (b :: u8) < 256"
proof -
  have "unat b < 2 ^ LENGTH(8)" by (rule unsigned_less)
  then show ?thesis by simp
qed

lemma as_bytes_inject [simp]: "as_bytes s = as_bytes t \<longleftrightarrow> s = t"
proof -
  have "inj (of_char :: char \<Rightarrow> u8)"
  proof (rule injI)
    fix x y :: char
    assume "(of_char x :: u8) = of_char y"
    then have "unat (of_char x :: u8) = unat (of_char y :: u8)" by (rule arg_cong)
    then show "x = y" by simp
  qed
  then show ?thesis unfolding as_bytes_def by (rule inj_map_eq_map)
qed

lemma take_as_bytes: "take n (as_bytes s) = as_bytes (take n s)"
  by (simp add: as_bytes_def take_map)

text \<open>Little-endian bytes of a \<open>u32\<close> and back (\<open>to_le_bytes\<close>, \<open>from_le_bytes\<close>).\<close>

definition to_le_bytes :: "u32 \<Rightarrow> bytes" where
  "to_le_bytes n = [ucast n, ucast (drop_bit 8 n), ucast (drop_bit 16 n), ucast (drop_bit 24 n)]"

definition from_le_bytes :: "u8 \<Rightarrow> u8 \<Rightarrow> u8 \<Rightarrow> u8 \<Rightarrow> u32" where
  "from_le_bytes a b c d =
     ucast a + push_bit 8 (ucast b) + push_bit 16 (ucast c) + push_bit 24 (ucast d)"

lemma length_to_le_bytes [simp]: "length (to_le_bytes n) = 4"
  by (simp add: to_le_bytes_def)

lemma to_le_bytes_inject [simp]: "to_le_bytes e = to_le_bytes e' \<longleftrightarrow> e = e'"
proof
  assume eq: "to_le_bytes e = to_le_bytes e'"
  show "e = e'"
  proof (rule bit_word_eqI)
    fix n
    assume "n < LENGTH(32)"
    then have "n div 8 < 4" by simp
    then have "n div 8 = 0 \<or> n div 8 = 1 \<or> n div 8 = 2 \<or> n div 8 = 3" by linarith
    then have "(ucast (drop_bit (8 * (n div 8)) e) :: u8) = ucast (drop_bit (8 * (n div 8)) e')"
      using eq by (auto simp: to_le_bytes_def)
    then have "bit (ucast (drop_bit (8 * (n div 8)) e) :: u8) (n mod 8) =
        bit (ucast (drop_bit (8 * (n div 8)) e') :: u8) (n mod 8)"
      by (rule arg_cong)
    then show "bit e n = bit e' n"
      by (simp add: bit_ucast_iff bit_drop_bit_eq)
  qed
qed simp

lemma unat_from_le_bytes:
  "unat (from_le_bytes a b c d) = unat a + 2 ^ 8 * unat b + 2 ^ 16 * unat c + 2 ^ 24 * unat d"
proof -
  have "unat a < 2 ^ 8" "unat b < 2 ^ 8" "unat c < 2 ^ 8" "unat d < 2 ^ 8"
    using unsigned_less [of a] unsigned_less [of b] unsigned_less [of c] unsigned_less [of d]
    by simp_all
  then show ?thesis
    by (simp add: from_le_bytes_def push_bit_eq_mult unat_word_ariths unsigned_ucast_eq take_bit_nat_eq_self)
qed

end
