(* ===== verification/Common_Types.thy ===== *)
theory Common_Types
  imports Rust_Strings
begin

text \<open>
  The crate \<^verbatim>\<open>rc-common\<close>: asset states, roles and actions with their database spelling
  (\<^verbatim>\<open>types.rs\<close>), the error enum and its \<open>Display\<close> text (\<^verbatim>\<open>errors.rs\<close>), the audit
  structures (\<^verbatim>\<open>audit.rs\<close>) and the prefixed resource ids (\<^verbatim>\<open>ids.rs\<close>).
\<close>

section \<open>States, roles, actions\<close>

datatype asset_state =
    PreMinted | FactoryLogged | Unassigned | RotatingKeys | EntangledPending | Activated
  | LegallySold | Transferred | Consumed | LegacyState | Tampered | Compromised | Destructed
  | Disputed

definition is_terminal :: "asset_state \<Rightarrow> bool" where
  "is_terminal s \<longleftrightarrow> (case s of
      Consumed \<Rightarrow> True | LegacyState \<Rightarrow> True | Tampered \<Rightarrow> True | Compromised \<Rightarrow> True
    | Destructed \<Rightarrow> True | _ \<Rightarrow> False)"

definition is_frozen :: "asset_state \<Rightarrow> bool" where
  "is_frozen s \<longleftrightarrow> (case s of Disputed \<Rightarrow> True | _ \<Rightarrow> False)"

fun as_db_str :: "asset_state \<Rightarrow> string" where
  "as_db_str PreMinted = ''PreMinted''"
| "as_db_str FactoryLogged = ''FactoryLogged''"
| "as_db_str Unassigned = ''Unassigned''"
| "as_db_str RotatingKeys = ''RotatingKeys''"
| "as_db_str EntangledPending = ''EntangledPending''"
| "as_db_str Activated = ''Activated''"
| "as_db_str LegallySold = ''LegallySold''"
| "as_db_str Transferred = ''Transferred''"
| "as_db_str Consumed = ''Consumed''"
| "as_db_str LegacyState = ''Legacy''"
| "as_db_str Tampered = ''Tampered''"
| "as_db_str Compromised = ''Compromised''"
| "as_db_str Destructed = ''Destructed''"
| "as_db_str Disputed = ''Disputed''"

definition from_db_str :: "string \<Rightarrow> asset_state option" where
  "from_db_str value =
     (if value = ''PreMinted'' then Some PreMinted
      else if value = ''FactoryLogged'' then Some FactoryLogged
      else if value = ''Unassigned'' then Some Unassigned
      else if value = ''RotatingKeys'' then Some RotatingKeys
      else if value = ''EntangledPending'' then Some EntangledPending
      else if value = ''Activated'' then Some Activated
      else if value = ''LegallySold'' then Some LegallySold
      else if value = ''Transferred'' then Some Transferred
      else if value = ''Consumed'' then Some Consumed
      else if value = ''Legacy'' then Some LegacyState
      else if value = ''Tampered'' then Some Tampered
      else if value = ''Compromised'' then Some Compromised
      else if value = ''Destructed'' then Some Destructed
      else if value = ''Disputed'' then Some Disputed
      else None)"

datatype actor_role = Platform | Factory | Brand | Consumer | Moderator

fun role_db_str :: "actor_role \<Rightarrow> string" where
  "role_db_str Platform = ''Platform''"
| "role_db_str Factory = ''Factory''"
| "role_db_str Brand = ''Brand''"
| "role_db_str Consumer = ''Consumer''"
| "role_db_str Moderator = ''Moderator''"

datatype asset_action =
    BlindLog | StockIn | ActivateRotateKeys | ActivateEntangle | ActivateConfirm | LegalSell
  | Transfer | Consume | LegacyAction | Freeze | Recover | MarkTampered | MarkCompromised
  | MarkDestructed

fun action_db_str :: "asset_action \<Rightarrow> string" where
  "action_db_str BlindLog = ''BlindLog''"
| "action_db_str StockIn = ''StockIn''"
| "action_db_str ActivateRotateKeys = ''ActivateRotateKeys''"
| "action_db_str ActivateEntangle = ''ActivateEntangle''"
| "action_db_str ActivateConfirm = ''ActivateConfirm''"
| "action_db_str LegalSell = ''LegalSell''"
| "action_db_str Transfer = ''Transfer''"
| "action_db_str Consume = ''Consume''"
| "action_db_str LegacyAction = ''Legacy''"
| "action_db_str Freeze = ''Freeze''"
| "action_db_str Recover = ''Recover''"
| "action_db_str MarkTampered = ''MarkTampered''"
| "action_db_str MarkCompromised = ''MarkCompromised''"
| "action_db_str MarkDestructed = ''MarkDestructed''"

record asset_record =
  ar_asset_id :: string
  ar_brand_id :: string
  ar_current_state :: asset_state
  ar_previous_state :: "asset_state option"

text \<open>
  The three enums are finite: enumerating them makes quantifiers over states, roles and
  actions executable.
\<close>

instantiation asset_state :: enum
begin

definition enum_asset_state :: "asset_state list" where
  "enum_asset_state =
     [PreMinted, FactoryLogged, Unassigned, RotatingKeys, EntangledPending, Activated,
      LegallySold, Transferred, Consumed, LegacyState, Tampered, Compromised, Destructed,
      Disputed]"

definition enum_all_asset_state :: "(asset_state \<Rightarrow> bool) \<Rightarrow> bool" where
  "enum_all_asset_state P \<longleftrightarrow> list_all P enum_class.enum"

definition enum_ex_asset_state :: "(asset_state \<Rightarrow> bool) \<Rightarrow> bool" where
  "enum_ex_asset_state P \<longleftrightarrow> list_ex P enum_class.enum"

instance
proof
  show univ: "(UNIV :: asset_state set) = set enum_class.enum"
  proof (rule set_eqI)
    fix s :: asset_state
    show "s \<in> UNIV \<longleftrightarrow> s \<in> set enum_class.enum"
      by (cases s) (simp_all add: enum_asset_state_def)
  qed
  show "distinct (enum_class.enum :: asset_state list)"
    by (simp add: enum_asset_state_def)
  fix P :: "asset_state \<Rightarrow> bool"
  show "enum_class.enum_all P \<longleftrightarrow> Ball UNIV P"
    by (simp only: univ enum_all_asset_state_def list_all_iff)
  show "enum_class.enum_ex P \<longleftrightarrow> Bex UNIV P"
    by (simp only: univ enum_ex_asset_state_def list_ex_iff)
qed

end

lemma from_as_db_str [simp]: "from_db_str (as_db_str s) = Some s"
  by (cases s) (simp_all add: from_db_str_def)

lemma as_db_str_inject [simp]: "as_db_str s = as_db_str t \<longleftrightarrow> s = t"
  by (metis from_as_db_str option.inject)

lemma from_db_str_Some: "from_db_str v = Some s \<longleftrightarrow> v = as_db_str s"
proof
  show "v = as_db_str s" if "from_db_str v = Some s"
    using that by (auto simp: from_db_str_def split: if_splits)
qed simp

lemma is_terminal_simps [simp]:
  "is_terminal Consumed" "is_terminal LegacyState" "is_terminal Tampered"
  "is_terminal Compromised" "is_terminal Destructed"
  "\<not> is_terminal PreMinted" "\<not> is_terminal FactoryLogged" "\<not> is_terminal Unassigned"
  "\<not> is_terminal RotatingKeys" "\<not> is_terminal EntangledPending" "\<not> is_terminal Activated"
  "\<not> is_terminal LegallySold" "\<not> is_terminal Transferred" "\<not> is_terminal Disputed"
  by (simp_all add: is_terminal_def)

lemma is_frozen_iff [simp]: "is_frozen s \<longleftrightarrow> s = Disputed"
  by (cases s) (simp_all add: is_frozen_def)

section \<open>Errors\<close>

datatype rc_error =
    InvalidStateTransition | PermissionDenied | FrozenAsset | TerminalState
  | MissingPreviousState | SecurityCheckFailed | AssetNotFound
  | MissingRequiredHeader string | InvalidHeader string | IdempotencyConflict
  | Database string | InvalidInput string | Unauthorized | TokenExpired | InvalidSignature
  | InvalidClaims string | BrandBoundaryViolation | Forbidden string | BrandNotFound
  | ProductNotFound | DuplicateResource string | NotFound string | Conflict string

text \<open>The \<open>Display\<close> text that \<open>#[error("...")]\<close> derives.\<close>

fun error_text :: "rc_error \<Rightarrow> string" where
  "error_text InvalidStateTransition = ''invalid state transition''"
| "error_text PermissionDenied = ''permission denied''"
| "error_text FrozenAsset = ''frozen asset blocks normal business action''"
| "error_text TerminalState = ''terminal state cannot transition''"
| "error_text MissingPreviousState = ''missing previous state for recover''"
| "error_text SecurityCheckFailed = ''security check failed''"
| "error_text AssetNotFound = ''asset not found''"
| "error_text (MissingRequiredHeader h) = ''missing required header: '' @ h"
| "error_text (InvalidHeader h) = ''invalid header: '' @ h"
| "error_text IdempotencyConflict = ''idempotency conflict''"
| "error_text (Database m) = ''database error: '' @ m"
| "error_text (InvalidInput m) = ''invalid input: '' @ m"
| "error_text Unauthorized = ''unauthorized''"
| "error_text TokenExpired = ''token expired''"
| "error_text InvalidSignature = ''invalid signature''"
| "error_text (InvalidClaims m) = ''invalid claims: '' @ m"
| "error_text BrandBoundaryViolation = ''brand boundary violation''"
| "error_text (Forbidden m) = ''forbidden: '' @ m"
| "error_text BrandNotFound = ''brand not found''"
| "error_text ProductNotFound = ''product not found''"
| "error_text (DuplicateResource m) = ''duplicate resource: '' @ m"
| "error_text (NotFound m) = ''not found: '' @ m"
| "error_text (Conflict m) = ''conflict: '' @ m"

section \<open>Audit structures\<close>

text \<open>A \<open>Uuid\<close> is its 128-bit value; its text form belongs to the uuid crate.\<close>

type_synonym uuid = "128 word"

record audit_context =
  ac_trace_id :: uuid
  ac_actor_id :: string
  ac_actor_role :: actor_role
  ac_actor_org :: "string option"
  ac_idempotency_key :: string
  ac_approval_id :: "string option"
  ac_policy_version :: "string option"
  ac_buyer_id :: "string option"

record audit_event =
  ae_event_id :: uuid
  ae_asset_id :: string
  ae_action :: asset_action
  ae_from_state :: "asset_state option"
  ae_to_state :: asset_state
  ae_context :: audit_context

section \<open>Prefixed resource ids\<close>

text \<open>
  \<open>ulid\<close> is the text of a freshly drawn ULID, \<open>ulid_ok\<close> the test
  \<open>Ulid::from_string(..).is_ok()\<close> of the ulid crate.
\<close>

definition generate_prefixed_id :: "string \<Rightarrow> string \<Rightarrow> string" where
  "generate_prefixed_id pre ulid = pre @ ''_'' @ ulid"

definition validate_prefixed_id :: "(string \<Rightarrow> bool) \<Rightarrow> string \<Rightarrow> string \<Rightarrow> rc_error + unit" where
  "validate_prefixed_id ulid_ok value pre =
     (let expected_prefix = pre @ ''_'' in
      case strip_prefix expected_prefix value of
        None \<Rightarrow> Inl (InvalidInput (''id must start with '' @ expected_prefix))
      | Some sfx \<Rightarrow>
          if length sfx \<noteq> 26
          then Inl (InvalidInput (''id suffix for '' @ pre @ '' must be 26 characters''))
          else if \<not> ulid_ok sfx
          then Inl (InvalidInput (''id suffix for '' @ pre @ '' must be a valid ULID''))
          else Inr ())"

text \<open>
  The five wrappers that \<open>define_resource_id!\<close> expands to: a validated string each.
\<close>

datatype resource_kind = BrandId | ProductId | AssetId | BatchId | SessionId

fun id_prefix :: "resource_kind \<Rightarrow> string" where
  "id_prefix BrandId = ''brand''"
| "id_prefix ProductId = ''product''"
| "id_prefix AssetId = ''asset''"
| "id_prefix BatchId = ''batch''"
| "id_prefix SessionId = ''session''"

definition resource_id_new ::
  "(string \<Rightarrow> bool) \<Rightarrow> resource_kind \<Rightarrow> string \<Rightarrow> rc_error + (resource_kind \<times> string)" where
  "resource_id_new ulid_ok k value =
     (case validate_prefixed_id ulid_ok value (id_prefix k) of
        Inl e \<Rightarrow> Inl e
      | Inr _ \<Rightarrow> Inr (k, value))"

definition generate_id :: "resource_kind \<Rightarrow> string \<Rightarrow> string" where
  "generate_id k ulid = generate_prefixed_id (id_prefix k) ulid"

lemma validate_prefixed_id_ok:
  "validate_prefixed_id ulid_ok v pre = Inr () \<longleftrightarrow>
    (\<exists>u. v = pre @ ''_'' @ u \<and> length u = 26 \<and> ulid_ok u)"
  by (auto simp: validate_prefixed_id_def Let_def strip_prefix_def prefix_def split: if_splits)

lemma id_prefix_no_underscore: "CHR ''_'' \<notin> set (id_prefix k)"
  by (cases k) simp_all

lemma prefix_underscore_unique:
  assumes "a @ ''_'' @ u = b @ ''_'' @ v" "CHR ''_'' \<notin> set a" "CHR ''_'' \<notin> set b"
  shows "a = b"
proof -
  have "takeWhile (\<lambda>c. c \<noteq> CHR ''_'') (a @ ''_'' @ u) = a"
    using assms(2) by (auto simp: takeWhile_append)
  moreover have "takeWhile (\<lambda>c. c \<noteq> CHR ''_'') (b @ ''_'' @ v) = b"
    using assms(3) by (auto simp: takeWhile_append)
  ultimately show ?thesis using assms(1) by simp
qed

lemma id_prefix_inject: "id_prefix j = id_prefix k \<longleftrightarrow> j = k"
  by (cases j; cases k) simp_all

text \<open>
  Ids of different kinds never mix: a string accepted as one kind of resource id is
  accepted as no other kind, and every generated id is accepted as its own kind.
\<close>

theorem resource_ids_disjoint:
  assumes "resource_id_new ulid_ok j v = Inr x" and "resource_id_new ulid_ok k v = Inr y"
  shows "j = k \<and> x = y \<and> snd x = v"
proof -
  from assms obtain u w where
    "v = id_prefix j @ ''_'' @ u" "v = id_prefix k @ ''_'' @ w"
    by (auto simp: resource_id_new_def validate_prefixed_id_ok split: sum.splits)
  then have "id_prefix j = id_prefix k"
    using prefix_underscore_unique id_prefix_no_underscore by metis
  then have "j = k" by (simp add: id_prefix_inject)
  with assms show ?thesis by (auto simp: resource_id_new_def split: sum.splits)
qed

theorem resource_ids_disjoint_witness:
  "resource_id_new (\<lambda>_. True) BrandId ''brand_01ARZ3NDEKTSV4RRFFQ69G5FAV'' =
     Inr (BrandId, ''brand_01ARZ3NDEKTSV4RRFFQ69G5FAV'')
   \<and> snd (BrandId, ''brand_01ARZ3NDEKTSV4RRFFQ69G5FAV'') = ''brand_01ARZ3NDEKTSV4RRFFQ69G5FAV''"
proof -
  have *: "resource_id_new (\<lambda>_. True) BrandId ''brand_01ARZ3NDEKTSV4RRFFQ69G5FAV'' =
     Inr (BrandId, ''brand_01ARZ3NDEKTSV4RRFFQ69G5FAV'')"
    by code_simp
  with resource_ids_disjoint [OF * *] show ?thesis by simp
qed

end
