(* ===== verification/Asset_Core.thy ===== *)
theory Asset_Core
  imports Common_Types
begin

text \<open>
  The crate \<^verbatim>\<open>rc-core\<close>: role permissions (\<^verbatim>\<open>permissions.rs\<close>), the state machine
  (\<^verbatim>\<open>state_machine.rs\<close>) and the protocol step \<open>apply_action\<close> (\<^verbatim>\<open>protocol.rs\<close>), with
  the transition graph and the permission matrix of \<^verbatim>\<open>docs/foundation\<close> as the abstract
  specification.
\<close>

section \<open>Permissions\<close>

definition can_role_initiate :: "actor_role \<Rightarrow> asset_state \<Rightarrow> asset_action \<Rightarrow> bool" where
  "can_role_initiate role current_state action =
     (case role of
        Platform \<Rightarrow> True
      | Factory \<Rightarrow>
          (current_state, action) \<in> {(PreMinted, BlindLog), (FactoryLogged, StockIn)}
      | Brand \<Rightarrow>
          (current_state, action) \<in>
            {(Unassigned, ActivateRotateKeys), (RotatingKeys, ActivateEntangle),
             (EntangledPending, ActivateConfirm), (Activated, LegalSell)}
      | Consumer \<Rightarrow>
          (current_state, action) \<in>
            {(LegallySold, Transfer), (Transferred, Transfer), (LegallySold, Consume),
             (Transferred, Consume), (LegallySold, LegacyAction), (Transferred, LegacyAction)}
      | Moderator \<Rightarrow>
          action \<in> {Freeze, Recover, MarkTampered, MarkCompromised, MarkDestructed})"

section \<open>State machine\<close>

text \<open>
  The arms of the source's \<open>match\<close> in their order. No arm after a guarded arm matches
  the same action with the guard false, so a failed guard ends in \<open>None\<close>.
\<close>

definition next_state_for_action_with_previous ::
  "asset_state \<Rightarrow> asset_action \<Rightarrow> asset_state option \<Rightarrow> asset_state option" where
  "next_state_for_action_with_previous current action previous_state =
     (case (current, action) of
        (PreMinted, BlindLog) \<Rightarrow> Some FactoryLogged
      | (FactoryLogged, StockIn) \<Rightarrow> Some Unassigned
      | (Unassigned, ActivateRotateKeys) \<Rightarrow> Some RotatingKeys
      | (RotatingKeys, ActivateEntangle) \<Rightarrow> Some EntangledPending
      | (EntangledPending, ActivateConfirm) \<Rightarrow> Some Activated
      | (Activated, LegalSell) \<Rightarrow> Some LegallySold
      | (LegallySold, Transfer) \<Rightarrow> Some Transferred
      | (Transferred, Transfer) \<Rightarrow> Some Transferred
      | (LegallySold, Consume) \<Rightarrow> Some Consumed
      | (Transferred, Consume) \<Rightarrow> Some Consumed
      | (LegallySold, LegacyAction) \<Rightarrow> Some LegacyState
      | (Transferred, LegacyAction) \<Rightarrow> Some LegacyState
      | (state, Freeze) \<Rightarrow>
          if \<not> is_terminal state \<and> \<not> is_frozen state then Some Disputed else None
      | (Disputed, Recover) \<Rightarrow>
          (case previous_state of
             None \<Rightarrow> None
           | Some s \<Rightarrow> if \<not> is_terminal s \<and> s \<noteq> Disputed then Some s else None)
      | (Disputed, MarkCompromised) \<Rightarrow> Some Compromised
      | (state, MarkTampered) \<Rightarrow> if \<not> is_terminal state then Some Tampered else None
      | (state, MarkCompromised) \<Rightarrow> if \<not> is_terminal state then Some Compromised else None
      | (state, MarkDestructed) \<Rightarrow> if \<not> is_terminal state then Some Destructed else None
      | _ \<Rightarrow> None)"

definition next_state_for_action :: "asset_state \<Rightarrow> asset_action \<Rightarrow> asset_state option" where
  "next_state_for_action current action =
     next_state_for_action_with_previous current action None"

definition can_transition :: "asset_state \<Rightarrow> asset_state \<Rightarrow> bool" where
  "can_transition from_state to_state \<longleftrightarrow>
     next_state_for_action from_state BlindLog = Some to_state \<or>
     next_state_for_action from_state StockIn = Some to_state \<or>
     next_state_for_action from_state ActivateRotateKeys = Some to_state \<or>
     next_state_for_action from_state ActivateEntangle = Some to_state \<or>
     next_state_for_action from_state ActivateConfirm = Some to_state \<or>
     next_state_for_action from_state LegalSell = Some to_state \<or>
     next_state_for_action from_state Transfer = Some to_state \<or>
     next_state_for_action from_state Consume = Some to_state \<or>
     next_state_for_action from_state LegacyAction = Some to_state \<or>
     next_state_for_action from_state Freeze = Some to_state \<or>
     next_state_for_action from_state Recover = Some to_state \<or>
     next_state_for_action from_state MarkTampered = Some to_state \<or>
     next_state_for_action from_state MarkCompromised = Some to_state \<or>
     next_state_for_action from_state MarkDestructed = Some to_state"

section \<open>The protocol step\<close>

definition is_business_action :: "asset_action \<Rightarrow> bool" where
  "is_business_action action \<longleftrightarrow>
     action \<in> {BlindLog, StockIn, ActivateRotateKeys, ActivateEntangle, ActivateConfirm,
               LegalSell, Transfer, Consume, LegacyAction}"

text \<open>\<open>event_id\<close> is the uuid that \<open>Uuid::new_v4()\<close> draws for the audit event.\<close>

definition apply_action ::
  "uuid \<Rightarrow> asset_record \<Rightarrow> asset_action \<Rightarrow> audit_context \<Rightarrow>
    rc_error + (asset_record \<times> audit_event)" where
  "apply_action event_id record action ctx =
     (if is_terminal (ar_current_state record) then Inl TerminalState
      else if is_frozen (ar_current_state record) \<and> is_business_action action
      then Inl FrozenAsset
      else if ac_actor_role ctx = Platform \<and> is_business_action action
                \<and> ac_approval_id ctx = None
      then Inl PermissionDenied
      else if \<not> can_role_initiate (ac_actor_role ctx) (ar_current_state record) action
      then Inl PermissionDenied
      else if action = LegalSell \<and> ac_buyer_id ctx = None
      then Inl (InvalidInput ''LegalSell requires buyer_id'')
      else
        (case (case action of
                 Recover \<Rightarrow>
                   next_state_for_action_with_previous (ar_current_state record) action
                     (ar_previous_state record)
               | _ \<Rightarrow> next_state_for_action (ar_current_state record) action) of
           None \<Rightarrow> Inl InvalidStateTransition
         | Some target_state \<Rightarrow>
             Inr (\<lparr>ar_asset_id = ar_asset_id record,
                   ar_brand_id = ar_brand_id record,
                   ar_current_state = target_state,
                   ar_previous_state =
                     (if target_state = Disputed then Some (ar_current_state record) else None)\<rparr>,
                  \<lparr>ae_event_id = event_id,
                   ae_asset_id = ar_asset_id record,
                   ae_action = action,
                   ae_from_state = Some (ar_current_state record),
                   ae_to_state = target_state,
                   ae_context = ctx\<rparr>)))"

section \<open>Facts the components above use\<close>

lemma next_state_terminal:
  "is_terminal s \<Longrightarrow> next_state_for_action_with_previous s a p = None"
  by (cases s; cases a)
    (simp_all add: next_state_for_action_with_previous_def split: option.splits)

text \<open>Only Recover reads the previous state.\<close>

lemma next_state_previous:
  "a \<noteq> Recover \<Longrightarrow> next_state_for_action_with_previous s a p = next_state_for_action s a"
  by (cases s; cases a)
    (simp_all add: next_state_for_action_with_previous_def next_state_for_action_def)

lemma apply_action_target:
  "(case a of Recover \<Rightarrow> next_state_for_action_with_previous s a p
     | _ \<Rightarrow> next_state_for_action s a) = next_state_for_action_with_previous s a p"
  by (cases a) (simp_all add: next_state_previous)

lemma next_state_Disputed:
  "next_state_for_action_with_previous s a p = Some Disputed \<longleftrightarrow>
    a = Freeze \<and> \<not> is_terminal s \<and> s \<noteq> Disputed"
  by (cases s; cases a)
    (auto simp: next_state_for_action_with_previous_def split: option.splits if_splits)

lemma next_state_Recover:
  "next_state_for_action_with_previous s Recover p = Some t \<longleftrightarrow>
    s = Disputed \<and> p = Some t \<and> \<not> is_terminal t \<and> t \<noteq> Disputed"
  by (cases s)
    (auto simp: next_state_for_action_with_previous_def split: option.splits if_splits)

lemma next_state_Freeze:
  "next_state_for_action_with_previous s Freeze p = Some t \<longleftrightarrow>
    \<not> is_terminal s \<and> s \<noteq> Disputed \<and> t = Disputed"
  by (cases s) (auto simp: next_state_for_action_with_previous_def)

lemma next_state_Transfer:
  "next_state_for_action_with_previous s Transfer p = Some t \<longleftrightarrow>
    (s = LegallySold \<or> s = Transferred) \<and> t = Transferred"
  by (cases s) (auto simp: next_state_for_action_with_previous_def)

lemma business_not_from_Disputed:
  "is_business_action a \<Longrightarrow> next_state_for_action_with_previous Disputed a p = None"
  by (cases a) (simp_all add: is_business_action_def next_state_for_action_with_previous_def)

text \<open>The transitions, action by action.\<close>

lemma next_state_Some:
  "next_state_for_action_with_previous s a p = Some t \<longleftrightarrow>
    (case a of
       BlindLog \<Rightarrow> s = PreMinted \<and> t = FactoryLogged
     | StockIn \<Rightarrow> s = FactoryLogged \<and> t = Unassigned
     | ActivateRotateKeys \<Rightarrow> s = Unassigned \<and> t = RotatingKeys
     | ActivateEntangle \<Rightarrow> s = RotatingKeys \<and> t = EntangledPending
     | ActivateConfirm \<Rightarrow> s = EntangledPending \<and> t = Activated
     | LegalSell \<Rightarrow> s = Activated \<and> t = LegallySold
     | Transfer \<Rightarrow> (s = LegallySold \<or> s = Transferred) \<and> t = Transferred
     | Consume \<Rightarrow> (s = LegallySold \<or> s = Transferred) \<and> t = Consumed
     | LegacyAction \<Rightarrow> (s = LegallySold \<or> s = Transferred) \<and> t = LegacyState
     | Freeze \<Rightarrow> \<not> is_terminal s \<and> s \<noteq> Disputed \<and> t = Disputed
     | Recover \<Rightarrow> s = Disputed \<and> p = Some t \<and> \<not> is_terminal t \<and> t \<noteq> Disputed
     | MarkTampered \<Rightarrow> \<not> is_terminal s \<and> t = Tampered
     | MarkCompromised \<Rightarrow> \<not> is_terminal s \<and> t = Compromised
     | MarkDestructed \<Rightarrow> \<not> is_terminal s \<and> t = Destructed)"
  by (cases a; cases s)
    (auto simp: next_state_for_action_with_previous_def split: option.splits if_splits)

text \<open>What a successful step is: its guards, and the record and event it builds.\<close>

definition step_allowed :: "asset_record \<Rightarrow> asset_action \<Rightarrow> audit_context \<Rightarrow> bool" where
  "step_allowed r a ctx \<longleftrightarrow>
     can_role_initiate (ac_actor_role ctx) (ar_current_state r) a \<and>
     (ac_actor_role ctx = Platform \<and> is_business_action a \<longrightarrow> ac_approval_id ctx \<noteq> None) \<and>
     (a = LegalSell \<longrightarrow> ac_buyer_id ctx \<noteq> None)"

lemma apply_action_Inr:
  "apply_action ev r a ctx = Inr (r', e) \<longleftrightarrow>
    step_allowed r a ctx \<and>
    (\<exists>t. next_state_for_action_with_previous (ar_current_state r) a (ar_previous_state r) = Some t
      \<and> r' = \<lparr>ar_asset_id = ar_asset_id r, ar_brand_id = ar_brand_id r, ar_current_state = t,
               ar_previous_state = (if t = Disputed then Some (ar_current_state r) else None)\<rparr>
      \<and> e = \<lparr>ae_event_id = ev, ae_asset_id = ar_asset_id r, ae_action = a,
              ae_from_state = Some (ar_current_state r), ae_to_state = t, ae_context = ctx\<rparr>)"
  unfolding apply_action_def apply_action_target step_allowed_def
  by (auto simp: next_state_terminal business_not_from_Disputed split: option.splits if_splits)

lemmas apply_action_cases = apply_action_Inr step_allowed_def

end
