(* ===== verification/Asset_Lifecycle.thy ===== *)
theory Asset_Lifecycle
  imports Asset_Core
begin

text \<open>
  What the protocol step guarantees over an asset's whole life: runs of \<open>apply_action\<close>
  as a step relation with its audit log, the invariant of the record, the replay of the log,
  the bound on irreversible progress, and the refinement of the transition graph and the
  permission matrix that \<^verbatim>\<open>docs/foundation/state-machine.md\<close> and
  \<^verbatim>\<open>docs/foundation/roles-and-permissions.md\<close> state.
\<close>

section \<open>Runs\<close>

inductive core_step :: "asset_record \<Rightarrow> audit_event \<Rightarrow> asset_record \<Rightarrow> bool" where
  applied: "apply_action ev r a ctx = Inr (r', e) \<Longrightarrow> core_step r e r'"

inductive core_run :: "asset_record \<Rightarrow> audit_event list \<Rightarrow> asset_record \<Rightarrow> bool" where
  start: "core_run r [] r"
| more: "core_run r es r1 \<Longrightarrow> core_step r1 e r2 \<Longrightarrow> core_run r (es @ [e]) r2"

inductive_cases core_stepE: "core_step r e r'"

lemma core_step_facts:
  assumes "core_step r e r'"
  shows "ar_asset_id r' = ar_asset_id r" and "ar_brand_id r' = ar_brand_id r"
    and "ae_asset_id e = ar_asset_id r"
    and "ae_from_state e = Some (ar_current_state r)"
    and "ae_to_state e = ar_current_state r'"
    and "next_state_for_action_with_previous (ar_current_state r) (ae_action e)
           (ar_previous_state r) = Some (ar_current_state r')"
    and "ar_previous_state r' =
           (if ar_current_state r' = Disputed then Some (ar_current_state r) else None)"
  using assms by (auto elim!: core_stepE simp: apply_action_Inr)

section \<open>The invariant of a record\<close>

text \<open>A previous state is stored exactly while the asset is frozen, and it can be resumed.\<close>

definition record_ok :: "asset_record \<Rightarrow> bool" where
  "record_ok r \<longleftrightarrow>
     (case ar_previous_state r of
        None \<Rightarrow> ar_current_state r \<noteq> Disputed
      | Some p \<Rightarrow> ar_current_state r = Disputed \<and> \<not> is_terminal p \<and> p \<noteq> Disputed)"

lemma core_step_record_ok: "core_step r e r' \<Longrightarrow> record_ok r'"
  using core_step_facts(6) [of r e r'] core_step_facts(7) [of r e r']
  by (auto simp: record_ok_def next_state_Disputed)

lemma core_run_record_ok: "core_run r es r' \<Longrightarrow> record_ok r \<Longrightarrow> record_ok r'"
  by (induction rule: core_run.induct) (auto intro: core_step_record_ok)

lemma core_run_identity:
  "core_run r es r' \<Longrightarrow> ar_asset_id r' = ar_asset_id r \<and> ar_brand_id r' = ar_brand_id r"
  by (induction rule: core_run.induct) (simp_all add: core_step_facts)

text \<open>
  C19. Over any sequence of accepted actions, by any actors, an asset keeps its identity and
  its brand, and it stores a previous state exactly while it is Disputed, always a state that
  can be resumed (neither terminal nor Disputed).
\<close>

theorem lifecycle_invariant:
  assumes "core_run r es r'" and "record_ok r"
  shows "record_ok r' \<and> ar_asset_id r' = ar_asset_id r \<and> ar_brand_id r' = ar_brand_id r"
  using core_run_record_ok [OF assms] core_run_identity [OF assms(1)] by simp

section \<open>The audit log\<close>

text \<open>Replaying a log: every event starts in the state the one before ended in.\<close>

fun replay :: "asset_state \<Rightarrow> audit_event list \<Rightarrow> asset_state option" where
  "replay s [] = Some s"
| "replay s (e # es) = (if ae_from_state e = Some s then replay (ae_to_state e) es else None)"

lemma replay_append:
  "replay s (es @ [e]) =
    (case replay s es of None \<Rightarrow> None
     | Some t \<Rightarrow> if ae_from_state e = Some t then Some (ae_to_state e) else None)"
  by (induction es arbitrary: s) simp_all

text \<open>
  C37. The audit log is complete: replaying the events of a run from the asset's first
  state ends exactly in the asset's present state, every event names the asset, and every
  event is a transition of the state machine.
\<close>

theorem audit_log_replays:
  assumes "core_run r es r'"
  shows "replay (ar_current_state r) es = Some (ar_current_state r')
    \<and> (\<forall>e\<in>set es. ae_asset_id e = ar_asset_id r
        \<and> (\<exists>s p. ae_from_state e = Some s
             \<and> next_state_for_action_with_previous s (ae_action e) p = Some (ae_to_state e)))"
  using assms
proof (induction rule: core_run.induct)
  case (start r)
  then show ?case by simp
next
  case (more r es r1 e r2)
  note facts = core_step_facts [OF more.hyps(2)]
  have "ar_asset_id r1 = ar_asset_id r"
    using core_run_identity [OF more.hyps(1)] by simp
  with more.IH facts show ?case
    by (auto simp: replay_append)
qed

section \<open>Terminal states and frozen assets\<close>

text \<open>
  Terminal states are absorbing: whatever the action, the actor and the client data, an
  asset in a terminal state is refused with TerminalState, and the state machine has no
  transition out of it.
\<close>

theorem terminal_is_absorbing:
  assumes "is_terminal (ar_current_state r)"
  shows "apply_action ev r a ctx = Inl TerminalState
    \<and> next_state_for_action_with_previous (ar_current_state r) a p = None
    \<and> \<not> can_transition (ar_current_state r) t"
  using assms
  by (simp add: apply_action_def next_state_terminal can_transition_def next_state_for_action_def)


section \<open>Irreversible progress is bounded\<close>

text \<open>How many irreversible steps are left; a frozen asset counts as what it resumes to.\<close>

fun stage :: "asset_state \<Rightarrow> nat" where
  "stage PreMinted = 7"
| "stage FactoryLogged = 6"
| "stage Unassigned = 5"
| "stage RotatingKeys = 4"
| "stage EntangledPending = 3"
| "stage Activated = 2"
| "stage LegallySold = 1"
| "stage Transferred = 1"
| "stage _ = 0"

definition rank :: "asset_record \<Rightarrow> nat" where
  "rank r = (case ar_previous_state r of None \<Rightarrow> stage (ar_current_state r) | Some p \<Rightarrow> stage p)"

definition irreversible :: "asset_action \<Rightarrow> bool" where
  "irreversible a \<longleftrightarrow> a \<notin> {Transfer, Freeze, Recover}"

lemma stage_positive: "\<not> is_terminal s \<Longrightarrow> s \<noteq> Disputed \<Longrightarrow> 0 < stage s"
  by (cases s) simp_all

lemma stage_bound: "stage s \<le> 7"
  by (cases s) simp_all

lemma stage_decreases:
  "next_state_for_action_with_previous s a p = Some t \<Longrightarrow> irreversible a \<Longrightarrow> s \<noteq> Disputed \<Longrightarrow>
    stage t < stage s"
  by (cases s; cases a)
    (auto simp: next_state_for_action_with_previous_def irreversible_def split: if_splits)

lemma from_Disputed:
  "next_state_for_action_with_previous Disputed a p = Some t \<Longrightarrow> irreversible a \<Longrightarrow>
    is_terminal t"
  by (cases a)
    (auto simp: next_state_for_action_with_previous_def irreversible_def split: if_splits)

lemma stage_terminal: "is_terminal t \<Longrightarrow> stage t = 0"
  by (cases t) simp_all

lemma irreversible_step_rank:
  assumes "core_step r e r'" and "record_ok r" and irr: "irreversible (ae_action e)"
  shows "rank r' < rank r"
proof -
  note next_state = core_step_facts(6) [OF assms(1)] and prev = core_step_facts(7) [OF assms(1)]
  from next_state irr have "ar_current_state r' \<noteq> Disputed"
    by (auto simp: next_state_Disputed irreversible_def)
  with prev have rank': "rank r' = stage (ar_current_state r')"
    by (simp add: rank_def)
  show ?thesis
  proof (cases "ar_current_state r = Disputed")
    case False
    with assms(2) have "ar_previous_state r = None"
      by (auto simp: record_ok_def split: option.splits)
    with stage_decreases [OF next_state irr False] rank' show ?thesis
      by (simp add: rank_def)
  next
    case d: True
    with assms(2) obtain p where p: "ar_previous_state r = Some p" "0 < stage p"
      by (auto simp: record_ok_def stage_positive split: option.splits)
    from from_Disputed next_state irr d have "is_terminal (ar_current_state r')" by metis
    with p rank' show ?thesis by (simp add: rank_def stage_terminal)
  qed
qed

lemma reversible_step_rank:
  assumes "core_step r e r'" and "record_ok r" and "\<not> irreversible (ae_action e)"
  shows "rank r' \<le> rank r"
proof -
  note next_state = core_step_facts(6) [OF assms(1)] and prev = core_step_facts(7) [OF assms(1)]
  from assms(3) consider "ae_action e = Transfer" | "ae_action e = Freeze" | "ae_action e = Recover"
    by (auto simp: irreversible_def)
  then show ?thesis
  proof cases
    case 1
    with next_state have "ar_current_state r' = Transferred"
      and s: "ar_current_state r = LegallySold \<or> ar_current_state r = Transferred"
      by (simp_all add: next_state_Transfer)
    with assms(2) prev have "ar_previous_state r = None" "ar_previous_state r' = None"
      by (auto simp: record_ok_def split: option.splits)
    with s \<open>ar_current_state r' = Transferred\<close> show ?thesis by (auto simp: rank_def)
  next
    case 2
    with next_state have "ar_current_state r' = Disputed" "ar_current_state r \<noteq> Disputed"
      by (simp_all add: next_state_Freeze)
    with assms(2) prev show ?thesis
      by (auto simp: record_ok_def rank_def split: option.splits)
  next
    case 3
    with next_state prev show ?thesis
      by (auto simp: next_state_Recover rank_def)
  qed
qed

lemma core_step_rank:
  assumes "core_step r e r'" and "record_ok r"
  shows "rank r' + (if irreversible (ae_action e) then 1 else 0) \<le> rank r"
  using irreversible_step_rank [OF assms] reversible_step_rank [OF assms] by auto

lemma core_run_rank:
  "core_run r es r' \<Longrightarrow> record_ok r \<Longrightarrow>
    rank r' + length (filter (\<lambda>e. irreversible (ae_action e)) es) \<le> rank r"
proof (induction rule: core_run.induct)
  case (start r)
  then show ?case by simp
next
  case (more r es r1 e r2)
  have "record_ok r1" using core_run_record_ok more.hyps(1) more.prems by blast
  from core_step_rank [OF more.hyps(2) this] more.IH [OF more.prems] show ?case
    by (auto split: if_splits)
qed


section \<open>The documented graph and permission matrix\<close>

text \<open>
  Section 4 of \<^verbatim>\<open>state-machine.md\<close>: the paths of production, activation, sale and
  retirement, the governance edges out of every non-terminal state, and recovery to the
  state before the freeze (\<open>prev\<close>).
\<close>

definition documented_path :: "(asset_state \<times> asset_state) set" where
  "documented_path =
     {(PreMinted, FactoryLogged), (FactoryLogged, Unassigned), (Unassigned, RotatingKeys),
      (RotatingKeys, EntangledPending), (EntangledPending, Activated), (Activated, LegallySold),
      (LegallySold, Transferred), (Transferred, Transferred), (LegallySold, Consumed),
      (LegallySold, LegacyState), (Transferred, Consumed), (Transferred, LegacyState)}"

definition documented_governance ::
  "asset_state option \<Rightarrow> asset_state \<Rightarrow> asset_state \<Rightarrow> bool" where
  "documented_governance prev s t \<longleftrightarrow>
     \<not> is_terminal s \<and>
     (t = Tampered \<or> t = Compromised \<or> (t = Disputed \<and> s \<noteq> Disputed) \<or>
      (s = Disputed \<and> prev = Some t \<and> \<not> is_terminal t \<and> t \<noteq> Disputed))"

text \<open>Section 4 of \<^verbatim>\<open>roles-and-permissions.md\<close>, one line per role.\<close>

fun documented_role ::
  "actor_role \<Rightarrow> asset_state option \<Rightarrow> asset_state \<Rightarrow> asset_state \<Rightarrow> bool" where
  "documented_role Platform prev s t \<longleftrightarrow>
     (s, t) \<in> documented_path \<or> documented_governance prev s t"
| "documented_role Factory prev s t \<longleftrightarrow>
     (s, t) \<in> {(PreMinted, FactoryLogged), (FactoryLogged, Unassigned)}"
| "documented_role Brand prev s t \<longleftrightarrow>
     (s, t) \<in> {(Unassigned, RotatingKeys), (RotatingKeys, EntangledPending),
               (EntangledPending, Activated), (Activated, LegallySold)}"
| "documented_role Consumer prev s t \<longleftrightarrow>
     (s, t) \<in> {(LegallySold, Transferred), (LegallySold, Consumed), (LegallySold, LegacyState),
               (Transferred, Transferred), (Transferred, Consumed), (Transferred, LegacyState)}"
| "documented_role Moderator prev s t \<longleftrightarrow> documented_governance prev s t"

text \<open>The actions each role may initiate, as case distinctions on an existential.\<close>

lemma role_actions:
  "(\<exists>a. can_role_initiate Factory s a \<and> P a) \<longleftrightarrow>
     s = PreMinted \<and> P BlindLog \<or> s = FactoryLogged \<and> P StockIn"
  "(\<exists>a. can_role_initiate Brand s a \<and> P a) \<longleftrightarrow>
     s = Unassigned \<and> P ActivateRotateKeys \<or> s = RotatingKeys \<and> P ActivateEntangle
     \<or> s = EntangledPending \<and> P ActivateConfirm \<or> s = Activated \<and> P LegalSell"
  "(\<exists>a. can_role_initiate Consumer s a \<and> P a) \<longleftrightarrow>
     (s = LegallySold \<or> s = Transferred) \<and> (P Transfer \<or> P Consume \<or> P LegacyAction)"
  "(\<exists>a. can_role_initiate Moderator s a \<and> P a) \<longleftrightarrow>
     P Freeze \<or> P Recover \<or> P MarkTampered \<or> P MarkCompromised \<or> P MarkDestructed"
  by (auto simp: can_role_initiate_def)

lemma moderator_edges:
  "(\<exists>a. can_role_initiate Moderator s a \<and>
        next_state_for_action_with_previous s a prev = Some t) \<longleftrightarrow>
    documented_governance prev s t \<or> (\<not> is_terminal s \<and> t = Destructed)"
  by (auto simp: role_actions next_state_Some documented_governance_def)

lemma business_role_edges:
  assumes "role = Factory \<or> role = Brand \<or> role = Consumer"
  shows "(\<exists>a. can_role_initiate role s a \<and>
        next_state_for_action_with_previous s a prev = Some t) \<longleftrightarrow>
    documented_role role prev s t"
  using assms by (elim disjE; cases s) (auto simp: role_actions next_state_Some)

lemma enabled_has_role:
  "next_state_for_action_with_previous s a p = Some t \<Longrightarrow>
    \<exists>role\<in>{Factory, Brand, Consumer, Moderator}. can_role_initiate role s a"
  by (cases a) (auto simp: next_state_Some can_role_initiate_def)

lemma documented_path_roles:
  "(s, t) \<in> documented_path \<longleftrightarrow>
    documented_role Factory p s t \<or> documented_role Brand p s t \<or> documented_role Consumer p s t"
  by (cases s) (simp_all add: documented_path_def)

lemma platform_edges:
  "(\<exists>a. next_state_for_action_with_previous s a prev = Some t) \<longleftrightarrow>
    (s, t) \<in> documented_path \<or> documented_governance prev s t \<or>
    (\<not> is_terminal s \<and> t = Destructed)"
proof -
  have "(\<exists>a. next_state_for_action_with_previous s a prev = Some t) \<longleftrightarrow>
      (\<exists>role\<in>{Factory, Brand, Consumer, Moderator}.
         \<exists>a. can_role_initiate role s a \<and> next_state_for_action_with_previous s a prev = Some t)"
    using enabled_has_role by blast
  then show ?thesis
    by (simp only: documented_path_roles [of s t prev] moderator_edges business_role_edges
        simp_thms bex_simps insert_iff empty_iff disj_assoc)
qed

text \<open>
  C21. The code refines the documented permission matrix: for every role and every stored
  previous state, the transitions the role may initiate are exactly the documented ones, plus
  one edge the documents do not have, from every non-terminal state into Destructed for
  Platform and Moderator.
\<close>

theorem role_matrix_refines_doc:
  "(\<exists>a. can_role_initiate role s a \<and>
        next_state_for_action_with_previous s a prev = Some t) \<longleftrightarrow>
    documented_role role prev s t \<or>
    (role \<in> {Platform, Moderator} \<and> \<not> is_terminal s \<and> t = Destructed)"
proof (cases role)
  case Platform
  then show ?thesis using platform_edges [of s prev t] by (simp add: can_role_initiate_def)
next
  case Moderator
  then show ?thesis using moderator_edges [of s prev t] by simp
qed (use business_role_edges [of role s prev t] in simp_all)

text \<open>
  Duties are separated: no action on an asset in a given state is open to two of
  the roles Factory, Brand and Consumer, a Moderator can take no business action, and a
  business action of Platform needs an approval id.
\<close>

theorem duties_separated:
  assumes "apply_action ev r a ctx = Inr (r', e)"
  shows "(is_business_action a \<longrightarrow> ac_actor_role ctx \<noteq> Moderator
            \<and> (ac_actor_role ctx = Platform \<longrightarrow> ac_approval_id ctx \<noteq> None))
    \<and> (ac_actor_role ctx \<in> {Factory, Brand, Consumer} \<longrightarrow>
         (\<forall>role\<in>{Factory, Brand, Consumer}.
            can_role_initiate role (ar_current_state r) a \<longrightarrow> role = ac_actor_role ctx))"
proof -
  from assms have "step_allowed r a ctx" by (simp add: apply_action_Inr)
  then show ?thesis
    by (cases "ac_actor_role ctx")
      (auto simp: step_allowed_def can_role_initiate_def is_business_action_def)
qed

text \<open>
  No asset is stuck: in every non-terminal state a Moderator can end the asset's life,
  and a frozen asset whose record is consistent can be resumed to its previous state.
\<close>

theorem moderator_never_stuck:
  assumes "\<not> is_terminal (ar_current_state r)" and "ac_actor_role ctx = Moderator"
    and "record_ok r"
  shows "(\<exists>r' e. apply_action ev r MarkDestructed ctx = Inr (r', e)
            \<and> is_terminal (ar_current_state r'))
    \<and> (ar_current_state r = Disputed \<longrightarrow>
         (\<exists>r' e. apply_action ev r Recover ctx = Inr (r', e)
            \<and> Some (ar_current_state r') = ar_previous_state r))"
proof -
  have "next_state_for_action_with_previous (ar_current_state r) MarkDestructed
      (ar_previous_state r) = Some Destructed"
    using assms(1) by (cases "ar_current_state r")
      (simp_all add: next_state_for_action_with_previous_def)
  moreover have "step_allowed r MarkDestructed ctx" "step_allowed r Recover ctx"
    using assms(2) by (simp_all add: step_allowed_def can_role_initiate_def is_business_action_def)
  ultimately show ?thesis
    using assms(3)
    by (auto simp: apply_action_Inr next_state_Recover record_ok_def split: option.splits)
qed

section \<open>Witnesses\<close>

definition demo_ctx :: "actor_role \<Rightarrow> audit_context" where
  "demo_ctx role =
     \<lparr>ac_trace_id = 1, ac_actor_id = ''actor-1'', ac_actor_role = role, ac_actor_org = None,
      ac_idempotency_key = ''idem-1'', ac_approval_id = Some ''appr-1'',
      ac_policy_version = None, ac_buyer_id = Some ''buyer-1''\<rparr>"

definition demo_record :: "asset_state \<Rightarrow> asset_record" where
  "demo_record s =
     \<lparr>ar_asset_id = ''asset_1'', ar_brand_id = ''brand_1'', ar_current_state = s,
      ar_previous_state = None\<rparr>"

definition demo_event ::
  "asset_action \<Rightarrow> asset_state \<Rightarrow> asset_state \<Rightarrow> actor_role \<Rightarrow> audit_event" where
  "demo_event a s t role =
     \<lparr>ae_event_id = 0, ae_asset_id = ''asset_1'', ae_action = a, ae_from_state = Some s,
      ae_to_state = t, ae_context = demo_ctx role\<rparr>"

definition demo_frozen :: asset_record where
  "demo_frozen = (demo_record Disputed)\<lparr>ar_previous_state := Some Activated\<rparr>"

lemmas demo_defs = demo_ctx_def demo_record_def demo_event_def demo_frozen_def

lemma demo_sell:
  "apply_action 0 (demo_record Activated) LegalSell (demo_ctx Brand) =
    Inr (demo_record LegallySold, demo_event LegalSell Activated LegallySold Brand)"
  by (simp add: demo_defs apply_action_def can_role_initiate_def next_state_for_action_def
      next_state_for_action_with_previous_def is_business_action_def)

lemma demo_freeze:
  "apply_action 0 (demo_record Activated) Freeze (demo_ctx Moderator) =
    Inr (demo_frozen, demo_event Freeze Activated Disputed Moderator)"
  by (simp add: demo_defs apply_action_def can_role_initiate_def next_state_for_action_def
      next_state_for_action_with_previous_def is_business_action_def)

lemma demo_recover:
  "apply_action 0 demo_frozen Recover (demo_ctx Moderator) =
    Inr (demo_record Activated, demo_event Recover Disputed Activated Moderator)"
  by (simp add: demo_defs apply_action_def can_role_initiate_def next_state_for_action_def
      next_state_for_action_with_previous_def is_business_action_def)

lemma demo_run:
  "core_run (demo_record Activated)
     ([] @ [demo_event LegalSell Activated LegallySold Brand]) (demo_record LegallySold)"
  by (rule core_run.more [OF core_run.start core_step.applied [OF demo_sell]])

lemma demo_record_ok: "record_ok (demo_record s) \<longleftrightarrow> s \<noteq> Disputed"
  by (simp add: record_ok_def demo_record_def)

theorem lifecycle_invariant_witness: "record_ok (demo_record LegallySold)"
  using lifecycle_invariant [OF demo_run] by (simp add: demo_record_ok)

theorem audit_log_replays_witness:
  "replay Activated [demo_event LegalSell Activated LegallySold Brand] = Some LegallySold"
  using audit_log_replays [OF demo_run] by (simp add: demo_defs)

theorem terminal_is_absorbing_witness:
  "apply_action 0 (demo_record Consumed) Recover (demo_ctx Platform) = Inl TerminalState"
  using terminal_is_absorbing [of "demo_record Consumed" 0 Recover "demo_ctx Platform"]
  by (simp add: demo_record_def)



theorem duties_separated_witness:
  "\<not> can_role_initiate Factory Activated LegalSell
    \<and> \<not> can_role_initiate Consumer Activated LegalSell"
proof -
  have "ac_actor_role (demo_ctx Brand) = Brand" by (simp add: demo_defs)
  with duties_separated [OF demo_sell] show ?thesis by (auto simp: demo_defs)
qed

theorem moderator_never_stuck_witness:
  "\<exists>r' e. apply_action 0 demo_frozen Recover (demo_ctx Moderator) = Inr (r', e)
     \<and> Some (ar_current_state r') = Some Activated"
  using moderator_never_stuck [of demo_frozen "demo_ctx Moderator" 0]
  by (simp add: demo_defs record_ok_def)

end
