(* ===== verification/Crypto.thy ===== *)
theory Crypto
  imports Rust_Strings
begin

text \<open>
  The crate \<^verbatim>\<open>rc-crypto\<close>. The primitives of the crates hmac, cmac, sha2 and subtle are
  the functions of a record that the definitions take as an argument; \<open>crypto_ok\<close> states
  what their types and documentation promise. Key material is a list of bytes; zeroing it
  after use has no counterpart here.
\<close>

record crypto =
  x_hmac_sha256 :: "bytes \<Rightarrow> bytes \<Rightarrow> bytes"
  x_cmac_aes128 :: "bytes \<Rightarrow> bytes \<Rightarrow> bytes"
  x_sha256 :: "bytes \<Rightarrow> bytes"
  x_ct_eq :: "bytes \<Rightarrow> bytes \<Rightarrow> bool"

definition crypto_ok :: "('z crypto_scheme) \<Rightarrow> bool" where
  "crypto_ok X \<longleftrightarrow>
     (\<forall>k m. length (x_hmac_sha256 X k m) = 32) \<and>
     (\<forall>k m. length (x_cmac_aes128 X k m) = 16) \<and>
     (\<forall>m. length (x_sha256 X m) = 32) \<and>
     (\<forall>a b. length a = length b \<longrightarrow> x_ct_eq X a b = (a = b))"

section \<open>\<^verbatim>\<open>secret_key.rs\<close>: keys and their Debug output\<close>

datatype secret_key = SecretKey32 (as_key_bytes: bytes) | SecretKey16 (as_key_bytes: bytes)

fun debug_key :: "secret_key \<Rightarrow> string" where
  "debug_key (SecretKey32 _) = ''SecretKey32([REDACTED])''"
| "debug_key (SecretKey16 _) = ''SecretKey16([REDACTED])''"

section \<open>\<^verbatim>\<open>hmac_sha256.rs\<close>, \<^verbatim>\<open>cmac_aes128.rs\<close>, \<^verbatim>\<open>constant_time.rs\<close>\<close>

definition hmac_compute :: "('z crypto_scheme) \<Rightarrow> bytes \<Rightarrow> bytes \<Rightarrow> bytes" where
  "hmac_compute X key message = x_hmac_sha256 X key message"

definition cmac_compute_full :: "('z crypto_scheme) \<Rightarrow> bytes \<Rightarrow> bytes \<Rightarrow> bytes" where
  "cmac_compute_full X key message = x_cmac_aes128 X key message"

definition cmac_compute_truncated :: "('z crypto_scheme) \<Rightarrow> bytes \<Rightarrow> bytes \<Rightarrow> bytes" where
  "cmac_compute_truncated X key message =
     (let full = cmac_compute_full X key message
      in map (\<lambda>i. full ! (i * 2 + 1)) [0..<8])"

definition constant_time_eq :: "('z crypto_scheme) \<Rightarrow> bytes \<Rightarrow> bytes \<Rightarrow> bool" where
  "constant_time_eq X a b = (if length a \<noteq> length b then False else x_ct_eq X a b)"

section \<open>\<^verbatim>\<open>sun.rs\<close>: the dynamic message of an NTAG 424 DNA\<close>

definition sun_message :: "bytes \<Rightarrow> bytes \<Rightarrow> bytes" where
  "sun_message uid ctr = [0x3C, 0xC3] @ uid @ ctr"

definition verify_sun_message ::
  "('z crypto_scheme) \<Rightarrow> bytes \<Rightarrow> bytes \<Rightarrow> bytes \<Rightarrow> bytes \<Rightarrow> bool" where
  "verify_sun_message X key uid ctr cmac_received =
     constant_time_eq X (cmac_compute_truncated X key (sun_message uid ctr)) cmac_received"

section \<open>\<^verbatim>\<open>kdf.rs\<close>: key derivation\<close>

definition kdf_brand_key :: "('z crypto_scheme) \<Rightarrow> bytes \<Rightarrow> bytes \<Rightarrow> bytes \<Rightarrow> bytes" where
  "kdf_brand_key X root_key brand_id system_id = hmac_compute X root_key (brand_id @ system_id)"

definition kdf_chip_key :: "('z crypto_scheme) \<Rightarrow> bytes \<Rightarrow> bytes \<Rightarrow> bytes \<Rightarrow> bytes" where
  "kdf_chip_key X brand_key uid epoch_le = take 16 (hmac_compute X brand_key (uid @ epoch_le))"

definition kdf_honey_key :: "('z crypto_scheme) \<Rightarrow> bytes \<Rightarrow> bytes \<Rightarrow> bytes" where
  "kdf_honey_key X brand_key serial_be = hmac_compute X brand_key serial_be"

section \<open>Lemmas\<close>

lemma crypto_okD:
  assumes "crypto_ok X"
  shows "length (x_hmac_sha256 X k m) = 32" "length (x_cmac_aes128 X k m) = 16"
    "length (x_sha256 X m) = 32" "constant_time_eq X a b \<longleftrightarrow> a = b"
  using assms by (auto simp: crypto_ok_def constant_time_eq_def)

lemma length_cmac_truncated [simp]: "length (cmac_compute_truncated X k m) = 8"
  by (simp add: cmac_compute_truncated_def Let_def)

lemma length_kdf:
  assumes "crypto_ok X"
  shows "length (kdf_brand_key X r b s) = 32" "length (kdf_chip_key X k u e) = 16"
    "length (kdf_honey_key X k n) = 32"
  using crypto_okD [OF assms]
  by (simp_all add: kdf_brand_key_def kdf_chip_key_def kdf_honey_key_def hmac_compute_def)

text \<open>
  C26. SUN verification accepts exactly one received value: the odd-indexed bytes of the
  CMAC of the message 3C C3 followed by the uid and the counter, whatever its length.
\<close>

theorem sun_accepts_iff:
  assumes "crypto_ok X"
  shows "verify_sun_message X key uid ctr received \<longleftrightarrow>
    length received = 8 \<and>
    (\<forall>i<8. received ! i = x_cmac_aes128 X key ([0x3C, 0xC3] @ uid @ ctr) ! (2 * i + 1))"
proof -
  let ?t = "cmac_compute_truncated X key (sun_message uid ctr)"
  have "?t ! i = x_cmac_aes128 X key ([0x3C, 0xC3] @ uid @ ctr) ! (2 * i + 1)" if "i < 8" for i
    using that
    by (simp add: cmac_compute_truncated_def cmac_compute_full_def sun_message_def Let_def
        mult.commute)
  then have "?t = received \<longleftrightarrow> length received = 8 \<and>
      (\<forall>i<8. received ! i = x_cmac_aes128 X key ([0x3C, 0xC3] @ uid @ ctr) ! (2 * i + 1))"
    by (auto simp: list_eq_iff_nth_eq)
  then show ?thesis
    by (simp add: verify_sun_message_def crypto_okD(4) [OF assms])
qed

text \<open>
  The messages that are authenticated and derived from determine their parts: two SUN
  messages agree only for the same uid and counter, two chip-key messages only for the same
  uid and epoch, and two brand-key messages under one system id only for the same brand.
\<close>

theorem derivation_messages_injective:
  assumes "length u = length u'"
  shows "(sun_message u c = sun_message u' c' \<longleftrightarrow> u = u' \<and> c = c')
    \<and> (u @ to_le_bytes e = u' @ to_le_bytes e' \<longleftrightarrow> u = u' \<and> e = e')
    \<and> (as_bytes b @ s = as_bytes b' @ s \<longleftrightarrow> b = b')"
  using assms by (auto simp: sun_message_def)

text \<open>
  Chip keys and honey keys are not separated: the chip key of a uid and an epoch is a
  prefix of the honey key of the serial number made of the same bytes.
\<close>

theorem chip_key_is_honey_prefix:
  "kdf_chip_key X brand_key uid epoch_le = take 16 (kdf_honey_key X brand_key (uid @ epoch_le))"
  by (simp add: kdf_chip_key_def kdf_honey_key_def)

section \<open>An instance for the witnesses\<close>

definition demo_crypto :: crypto where
  "demo_crypto =
     \<lparr>x_hmac_sha256 = (\<lambda>k m. take 32 (rev m @ k @ replicate 32 0)),
      x_cmac_aes128 = (\<lambda>k m. take 16 (rev m @ k @ replicate 16 0)),
      x_sha256 = (\<lambda>m. take 32 (rev m @ replicate 32 0)),
      x_ct_eq = (\<lambda>a b. a = b)\<rparr>"

lemma demo_crypto_ok: "crypto_ok demo_crypto"
  by (auto simp: crypto_ok_def demo_crypto_def)

theorem sun_accepts_iff_witness:
  "verify_sun_message demo_crypto (replicate 16 1) [4, 17, 34, 51, 68, 85, 102] [1, 0, 0]
     [0, 102, 68, 34, 4, 0x3C, 1, 1]"
  using sun_accepts_iff [OF demo_crypto_ok,
      of "replicate 16 1" "[4, 17, 34, 51, 68, 85, 102]" "[1, 0, 0]"
        "[0, 102, 68, 34, 4, 0x3C, 1, 1]"]
  by (simp add: demo_crypto_def eval_nat_numeral All_less_Suc)

theorem derivation_messages_injective_witness:
  "sun_message [1, 2] [3] \<noteq> sun_message [1, 3] [3]"
  using derivation_messages_injective [of "[1, 2]" "[1, 3]"] by simp

end
