(* ===== verification/Kms.thy ===== *)
theory Kms
  imports Crypto
begin

text \<open>
  The crate \<^verbatim>\<open>rc-kms\<close>: the error enum (\<^verbatim>\<open>error.rs\<close>), loading the root key
  (\<^verbatim>\<open>root_key.rs\<close>), and \<open>SoftwareKms\<close> with its cache of brand keys
  (\<^verbatim>\<open>software_kms.rs\<close>) as an implementation of the trait \<open>KeyProvider\<close>
  (\<^verbatim>\<open>provider.rs\<close>), which is the locale \<open>key_provider\<close>.
\<close>

section \<open>Errors\<close>

datatype kms_error =
  RootKeyMissing | RootKeyInvalidFormat | SystemIdMissing | BrandKeyDerivationFailed

fun kms_error_text :: "kms_error \<Rightarrow> string" where
  "kms_error_text RootKeyMissing = ''RC_ROOT_KEY_HEX environment variable is not set''"
| "kms_error_text RootKeyInvalidFormat = ''RC_ROOT_KEY_HEX is not a valid 64-char hex string''"
| "kms_error_text SystemIdMissing = ''RC_SYSTEM_ID environment variable is not set''"
| "kms_error_text BrandKeyDerivationFailed = ''brand key derivation failed''"

section \<open>Loading the root key\<close>

text \<open>
  \<open>u8::from_str_radix(s, 16)\<close> on the bytes of \<open>s\<close>: an optional leading plus sign
  when more follows, then hexadecimal digits; two digits at most are ever passed, so the value
  fits a byte.
\<close>

fun digits_value :: "nat \<Rightarrow> string \<Rightarrow> nat option" where
  "digits_value acc [] = Some acc"
| "digits_value acc (c # cs) =
     (case hex_digit c of None \<Rightarrow> None | Some d \<Rightarrow> digits_value (16 * acc + d) cs)"

definition from_str_radix_16 :: "string \<Rightarrow> u8 option" where
  "from_str_radix_16 s =
     (case s of
        [] \<Rightarrow> None
      | [c] \<Rightarrow> map_option word_of_nat (hex_digit c)
      | c # cs \<Rightarrow>
          map_option word_of_nat (digits_value 0 (if c = CHR ''+'' then cs else s)))"

text \<open>
  Slicing \<open>&s[i..j]\<close> panics when \<open>i\<close> or \<open>j\<close> is inside the encoding of a
  code point: a byte of the form 10xxxxxx is not a boundary.
\<close>

definition is_char_boundary :: "string \<Rightarrow> nat \<Rightarrow> bool" where
  "is_char_boundary s i \<longleftrightarrow>
     i = length s \<or> (i < length s \<and> (let b = (of_char (s ! i) :: nat) in b < 128 \<or> 192 \<le> b))"

datatype 'a load_result = Loaded 'a | LoadErr kms_error | Panicked

fun decode_pairs :: "string \<Rightarrow> nat list \<Rightarrow> bytes load_result" where
  "decode_pairs hex_str [] = Loaded []"
| "decode_pairs hex_str (i # is) =
     (if \<not> (is_char_boundary hex_str (i * 2) \<and> is_char_boundary hex_str (i * 2 + 2))
      then Panicked
      else (case from_str_radix_16 (take 2 (drop (i * 2) hex_str)) of
              None \<Rightarrow> LoadErr RootKeyInvalidFormat
            | Some b \<Rightarrow>
                (case decode_pairs hex_str is of
                   Loaded bs \<Rightarrow> Loaded (b # bs)
                 | r \<Rightarrow> r)))"

text \<open>The argument is the value of \<open>RC_ROOT_KEY_HEX\<close>, if it is set.\<close>

definition load_root_key_from_env :: "string option \<Rightarrow> bytes load_result" where
  "load_root_key_from_env var =
     (case var of
        None \<Rightarrow> LoadErr RootKeyMissing
      | Some hex_str \<Rightarrow>
          if length hex_str \<noteq> 64 then LoadErr RootKeyInvalidFormat
          else decode_pairs hex_str [0..<32])"

section \<open>The provider's state and operations\<close>

record software_kms =
  kms_root_key :: bytes
  kms_system_id :: string
  kms_brand_key_cache :: "string \<rightharpoonup> bytes"

definition from_env :: "string option \<Rightarrow> string option \<Rightarrow> software_kms load_result" where
  "from_env root_var system_var =
     (case load_root_key_from_env root_var of
        Loaded root_key \<Rightarrow>
          (case system_var of
             None \<Rightarrow> LoadErr SystemIdMissing
           | Some system_id \<Rightarrow>
               Loaded \<lparr>kms_root_key = root_key, kms_system_id = system_id,
                       kms_brand_key_cache = Map.empty\<rparr>)
      | LoadErr e \<Rightarrow> LoadErr e
      | Panicked \<Rightarrow> Panicked)"

text \<open>
  \<open>with_brand_key\<close>: a lookup under the read lock, and on a miss the section under the
  write lock, which looks again before it derives. Other threads may run between the two
  locks, so the section takes the state it finds there.
\<close>

definition brand_key_fast :: "software_kms \<Rightarrow> string \<Rightarrow> (bytes \<Rightarrow> 'a) \<Rightarrow> 'a option" where
  "brand_key_fast kms brand_id f = map_option f (kms_brand_key_cache kms brand_id)"

definition brand_key_slow ::
  "('z crypto_scheme) \<Rightarrow> software_kms \<Rightarrow> string \<Rightarrow> (bytes \<Rightarrow> 'a) \<Rightarrow> 'a \<times> software_kms" where
  "brand_key_slow X kms brand_id f =
     (case kms_brand_key_cache kms brand_id of
        Some key \<Rightarrow> (f key, kms)
      | None \<Rightarrow>
          (let brand_key = kdf_brand_key X (kms_root_key kms) (as_bytes brand_id)
                             (as_bytes (kms_system_id kms))
           in (f brand_key,
               kms\<lparr>kms_brand_key_cache := (kms_brand_key_cache kms)(brand_id \<mapsto> brand_key)\<rparr>)))"

definition with_brand_key ::
  "('z crypto_scheme) \<Rightarrow> software_kms \<Rightarrow> string \<Rightarrow> (bytes \<Rightarrow> 'a) \<Rightarrow>
    (kms_error + 'a) \<times> software_kms" where
  "with_brand_key X kms brand_id f =
     (case brand_key_fast kms brand_id f of
        Some r \<Rightarrow> (Inr r, kms)
      | None \<Rightarrow> (case brand_key_slow X kms brand_id f of (r, kms') \<Rightarrow> (Inr r, kms')))"

definition derive_chip_key ::
  "('z crypto_scheme) \<Rightarrow> software_kms \<Rightarrow> string \<Rightarrow> bytes \<Rightarrow> u32 \<Rightarrow>
    (kms_error + bytes) \<times> software_kms" where
  "derive_chip_key X kms brand_id uid epoch =
     with_brand_key X kms brand_id
       (\<lambda>brand_key. kdf_chip_key X brand_key uid (to_le_bytes epoch))"

definition derive_honey_key ::
  "('z crypto_scheme) \<Rightarrow> software_kms \<Rightarrow> string \<Rightarrow> bytes \<Rightarrow>
    (kms_error + bytes) \<times> software_kms" where
  "derive_honey_key X kms brand_id serial =
     with_brand_key X kms brand_id (\<lambda>brand_key. kdf_honey_key X brand_key serial)"

definition mother_uid_7 :: "bytes \<Rightarrow> bytes" where
  "mother_uid_7 authority_uid =
     (if 7 \<le> length authority_uid then take 7 authority_uid
      else authority_uid @ replicate (7 - length authority_uid) 0)"

definition derive_mother_key ::
  "('z crypto_scheme) \<Rightarrow> software_kms \<Rightarrow> string \<Rightarrow> bytes \<Rightarrow> u32 \<Rightarrow>
    (kms_error + bytes) \<times> software_kms" where
  "derive_mother_key X kms brand_id authority_uid epoch =
     with_brand_key X kms brand_id
       (\<lambda>brand_key. kdf_chip_key X brand_key (mother_uid_7 authority_uid) (to_le_bytes epoch))"

text \<open>\<open>drop\<close> empties the cache of brand keys.\<close>

definition drop_kms :: "software_kms \<Rightarrow> software_kms" where
  "drop_kms kms = kms\<lparr>kms_brand_key_cache := Map.empty\<rparr>"

text \<open>The specification of the derivations: functions of the root key and the system id.\<close>

definition brand_key_spec :: "('z crypto_scheme) \<Rightarrow> bytes \<Rightarrow> string \<Rightarrow> string \<Rightarrow> bytes" where
  "brand_key_spec X root system brand_id = kdf_brand_key X root (as_bytes brand_id) (as_bytes system)"

definition kms_inv :: "('z crypto_scheme) \<Rightarrow> software_kms \<Rightarrow> bool" where
  "kms_inv X kms \<longleftrightarrow>
     (\<forall>b k. kms_brand_key_cache kms b = Some k \<longrightarrow>
        k = brand_key_spec X (kms_root_key kms) (kms_system_id kms) b)"

abbreviation kms_ident :: "software_kms \<Rightarrow> bytes \<times> string" where
  "kms_ident kms \<equiv> (kms_root_key kms, kms_system_id kms)"

lemma map_le_insert: "m k = None \<Longrightarrow> m \<subseteq>\<^sub>m m(k \<mapsto> v)"
  by (auto simp: map_le_def)

lemma with_brand_key_spec:
  assumes "kms_inv X kms" and "with_brand_key X kms b f = (r, kms')"
  shows "r = Inr (f (brand_key_spec X (kms_root_key kms) (kms_system_id kms) b))"
    and "kms_inv X kms'" and "kms_ident kms' = kms_ident kms"
  using assms
  by (auto simp: with_brand_key_def brand_key_fast_def brand_key_slow_def kms_inv_def
      brand_key_spec_def Let_def split: option.splits if_splits)

section \<open>The trait \<open>KeyProvider\<close>\<close>

text \<open>A request to a provider, and serving a sequence of them.\<close>

datatype key_request =
  ChipReq string bytes u32 | HoneyReq string bytes | MotherReq string bytes u32

type_synonym 'k chip_fn = "'k \<Rightarrow> string \<Rightarrow> bytes \<Rightarrow> u32 \<Rightarrow> (kms_error + bytes) \<times> 'k"
type_synonym 'k honey_fn = "'k \<Rightarrow> string \<Rightarrow> bytes \<Rightarrow> (kms_error + bytes) \<times> 'k"

fun serve_request ::
  "'k chip_fn \<Rightarrow> 'k honey_fn \<Rightarrow> 'k chip_fn \<Rightarrow> 'k \<Rightarrow> key_request \<Rightarrow> (kms_error + bytes) \<times> 'k" where
  "serve_request chip honey mother k (ChipReq b u e) = chip k b u e"
| "serve_request chip honey mother k (HoneyReq b s) = honey k b s"
| "serve_request chip honey mother k (MotherReq b u e) = mother k b u e"

fun serve_all ::
  "'k chip_fn \<Rightarrow> 'k honey_fn \<Rightarrow> 'k chip_fn \<Rightarrow> 'k \<Rightarrow> key_request list \<Rightarrow>
    (kms_error + bytes) list \<times> 'k" where
  "serve_all chip honey mother k [] = ([], k)"
| "serve_all chip honey mother k (q # qs) =
     (case serve_request chip honey mother k q of
        (r, k1) \<Rightarrow> (case serve_all chip honey mother k1 qs of (rs, k2) \<Rightarrow> (r # rs, k2)))"

text \<open>
  What a client relies on: a provider in a good state answers from its identity alone, and
  neither its goodness nor its identity is lost by a call.
\<close>

locale key_provider =
  fixes chip :: "'k chip_fn"
    and honey :: "'k honey_fn"
    and mother :: "'k chip_fn"
    and inv :: "'k \<Rightarrow> bool"
    and ident :: "'k \<Rightarrow> 'i"
    and spec :: "'i \<Rightarrow> key_request \<Rightarrow> bytes"
  assumes chip_law: "inv k \<Longrightarrow> chip k b u e = (r, k') \<Longrightarrow>
      r = Inr (spec (ident k) (ChipReq b u e)) \<and> inv k' \<and> ident k' = ident k"
    and honey_law: "inv k \<Longrightarrow> honey k b s = (r, k') \<Longrightarrow>
      r = Inr (spec (ident k) (HoneyReq b s)) \<and> inv k' \<and> ident k' = ident k"
    and mother_law: "inv k \<Longrightarrow> mother k b u e = (r, k') \<Longrightarrow>
      r = Inr (spec (ident k) (MotherReq b u e)) \<and> inv k' \<and> ident k' = ident k"
begin

lemma serve_law:
  "inv k \<Longrightarrow> serve_request chip honey mother k q = (r, k') \<Longrightarrow>
    r = Inr (spec (ident k) q) \<and> inv k' \<and> ident k' = ident k"
  by (cases q) (auto dest: chip_law honey_law mother_law)

lemma serve_all_law:
  "inv k \<Longrightarrow> serve_all chip honey mother k qs = (rs, k') \<Longrightarrow>
    rs = map (\<lambda>q. Inr (spec (ident k) q)) qs \<and> inv k' \<and> ident k' = ident k"
proof (induction qs arbitrary: k rs k')
  case Nil
  then show ?case by simp
next
  case (Cons q qs)
  obtain r k1 where q: "serve_request chip honey mother k q = (r, k1)" by fastforce
  obtain rs' k2 where qs: "serve_all chip honey mother k1 qs = (rs', k2)" by fastforce
  from serve_law [OF Cons.prems(1) q] Cons.IH [OF _ qs] Cons.prems(2) q qs show ?case by auto
qed

text \<open>The same request gets the same answer before and after any other requests.\<close>

lemma stable:
  assumes "inv k" and "serve_request chip honey mother k q = (r, k1)"
    and "serve_all chip honey mother k1 qs = (rs, k2)"
  shows "fst (serve_request chip honey mother k2 q) = r"
proof -
  from serve_law [OF assms(1,2)] have k1: "inv k1" "ident k1 = ident k"
    and r: "r = Inr (spec (ident k) q)" by simp_all
  from serve_all_law [OF k1(1) assms(3)] have "inv k2" "ident k2 = ident k"
    using k1(2) by simp_all
  with serve_law [of k2 q] r show ?thesis by (metis prod.collapse)
qed

end

fun kms_spec :: "('z crypto_scheme) \<Rightarrow> bytes \<times> string \<Rightarrow> key_request \<Rightarrow> bytes" where
  "kms_spec X (root, system) (ChipReq b u e) =
     kdf_chip_key X (brand_key_spec X root system b) u (to_le_bytes e)"
| "kms_spec X (root, system) (HoneyReq b s) = kdf_honey_key X (brand_key_spec X root system b) s"
| "kms_spec X (root, system) (MotherReq b u e) =
     kdf_chip_key X (brand_key_spec X root system b) (mother_uid_7 u) (to_le_bytes e)"

interpretation software: key_provider "derive_chip_key X" "derive_honey_key X"
  "derive_mother_key X" "kms_inv X" kms_ident "kms_spec X" for X
  by unfold_locales
    (auto simp: derive_chip_key_def derive_honey_key_def derive_mother_key_def
      dest: with_brand_key_spec)

lemma kms_inv_empty: "kms_brand_key_cache kms = Map.empty \<Longrightarrow> kms_inv X kms"
  by (simp add: kms_inv_def)

section \<open>Properties\<close>

text \<open>
  The brand-key cache is invisible: a service started from its environment answers any
  sequence of derivation requests with the keys the specification derives from the loaded root
  key and the system id, never with an error, however the requests repeat and mix.
\<close>

theorem kms_cache_transparent:
  assumes "from_env root_var system_var = Loaded kms"
    and "serve_all (derive_chip_key X) (derive_honey_key X) (derive_mother_key X) kms qs
          = (rs, kms')"
  shows "rs = map (\<lambda>q. Inr (kms_spec X (kms_ident kms) q)) qs
    \<and> load_root_key_from_env root_var = Loaded (kms_root_key kms')
    \<and> system_var = Some (kms_system_id kms')"
proof -
  from assms(1) have "kms_inv X kms" "load_root_key_from_env root_var = Loaded (kms_root_key kms)"
    "system_var = Some (kms_system_id kms)"
    by (auto simp: from_env_def kms_inv_empty split: load_result.splits option.splits)
  with software.serve_all_law [OF _ assms(2)] show ?thesis by simp
qed

text \<open>
  Double-checked locking is sound: if a thread misses in the cache and other threads
  change the cache (keeping it consistent, under the same root key and system id) before it
  takes the write lock, it still uses the specified brand key and leaves the cache consistent,
  and an entry already there is not replaced.
\<close>

theorem double_check_sound:
  assumes "kms_inv X kms1" and "kms_ident kms1 = kms_ident kms0"
    and "brand_key_fast kms0 b f = None"
    and "brand_key_slow X kms1 b f = (r, kms2)"
  shows "r = f (brand_key_spec X (kms_root_key kms0) (kms_system_id kms0) b)
    \<and> kms_inv X kms2
    \<and> kms_brand_key_cache kms1 \<subseteq>\<^sub>m kms_brand_key_cache kms2
    \<and> brand_key_fast kms2 b f = Some r"
  using assms
  by (auto simp: brand_key_slow_def brand_key_fast_def kms_inv_def brand_key_spec_def Let_def
      map_le_insert split: option.splits if_splits)

text \<open>
  C40. Mother keys of virtual cards collide: an authority uid that is longer than seven bytes
  counts only by its first seven, so all virtual cards of a brand and an epoch whose uid is
  vauth- followed by the same character share one mother key, whatever follows it.
\<close>

theorem virtual_mother_keys_collide:
  "fst (derive_mother_key X kms b (as_bytes (''vauth-'' @ c # s)) e) =
    fst (derive_mother_key X kms b (as_bytes (''vauth-'' @ c # t)) e)"
proof -
  have "mother_uid_7 (as_bytes (''vauth-'' @ c # s)) =
      mother_uid_7 (as_bytes (''vauth-'' @ c # t))"
    by (simp add: mother_uid_7_def as_bytes_def)
  then show ?thesis by (simp add: derive_mother_key_def)
qed

section \<open>Root key text\<close>

text \<open>Lower-case hexadecimal text of bytes, the intended format of the variable.\<close>

definition hex_char :: "nat \<Rightarrow> char" where
  "hex_char n = (if n < 10 then char_of (48 + n) else char_of (87 + n))"

definition hex_pair :: "u8 \<Rightarrow> string" where
  "hex_pair b = [hex_char (unat b div 16), hex_char (unat b mod 16)]"

definition hex_text :: "bytes \<Rightarrow> string" where
  "hex_text bs = concat (map hex_pair bs)"

lemma of_hex_char: "n < 16 \<Longrightarrow> (of_char (hex_char n) :: nat) = (if n < 10 then 48 + n else 87 + n)"
  by (simp add: hex_char_def)

lemma hex_digit_hex_char: "n < 16 \<Longrightarrow> hex_digit (hex_char n) = Some n"
  by (auto simp: hex_digit_def of_hex_char Let_def)

lemma hex_char_not_plus: "n < 16 \<Longrightarrow> hex_char n \<noteq> CHR ''+''"
  using hex_digit_hex_char [of n] by (auto simp: hex_digit_def)

lemma unat_div_16: "unat (b :: u8) div 16 < 16"
  using unat_u8_less [of b] by simp

lemma from_str_radix_hex_pair: "from_str_radix_16 (hex_pair b) = Some b"
proof -
  have "16 * (unat b div 16) + unat b mod 16 = unat b" by simp
  then show ?thesis
    by (simp add: from_str_radix_16_def hex_pair_def hex_digit_hex_char unat_div_16
        hex_char_not_plus)
qed

lemma length_hex_text [simp]: "length (hex_text bs) = 2 * length bs"
  by (induction bs) (simp_all add: hex_text_def hex_pair_def)

lemma hex_text_pair: "i < length bs \<Longrightarrow> take 2 (drop (i * 2) (hex_text bs)) = hex_pair (bs ! i)"
proof (induction bs arbitrary: i)
  case Nil
  then show ?case by simp
next
  case (Cons b bs)
  then show ?case by (cases i) (simp_all add: hex_text_def hex_pair_def)
qed

lemma hex_text_boundary: "i \<le> length bs \<Longrightarrow> is_char_boundary (hex_text bs) (i * 2)"
proof (cases "i < length bs")
  case True
  then have "hex_text bs ! (i * 2) = hex_pair (bs ! i) ! 0"
    using True by (simp flip: hex_text_pair [OF True])
  then show ?thesis
    using True unat_div_16 [of "bs ! i"]
    by (auto simp: is_char_boundary_def hex_pair_def of_hex_char Let_def)
next
  case False
  moreover assume "i \<le> length bs"
  ultimately show ?thesis by (simp add: is_char_boundary_def)
qed

lemma decode_pairs_map:
  assumes "\<forall>i\<in>set is. is_char_boundary s (i * 2) \<and> is_char_boundary s (i * 2 + 2)
    \<and> from_str_radix_16 (take 2 (drop (i * 2) s)) = Some (f i)"
  shows "decode_pairs s is = Loaded (map f is)"
  using assms by (induction "is") auto

lemma decode_pairs_length: "decode_pairs s is = Loaded bs \<Longrightarrow> length bs = length is"
  by (induction "is" arbitrary: bs) (auto split: option.splits load_result.splits if_splits)

text \<open>
  Root key loading: the hexadecimal text of any 32 bytes loads as those bytes, and
  whatever loads has 32 bytes and came from a text of 64 bytes. But the check is weaker than
  the documented format: a plus sign is accepted in place of the first digit of a pair.
\<close>

theorem root_key_loading:
  "(length bs = 32 \<longrightarrow> load_root_key_from_env (Some (hex_text bs)) = Loaded bs)
    \<and> (load_root_key_from_env var = Loaded k \<longrightarrow>
         length k = 32 \<and> (\<exists>s. var = Some s \<and> length s = 64))
    \<and> load_root_key_from_env (Some (concat (replicate 32 ''+1''))) = Loaded (replicate 32 1)"
proof (intro conjI impI)
  assume "length bs = 32"
  moreover have "decode_pairs (hex_text bs) [0..<length bs] = Loaded (map ((!) bs) [0..<length bs])"
  proof (rule decode_pairs_map, rule ballI)
    fix i
    assume "i \<in> set [0..<length bs]"
    then have i: "i < length bs" by simp
    with hex_text_boundary [of i bs] hex_text_boundary [of "Suc i" bs] hex_text_pair [OF i]
    show "is_char_boundary (hex_text bs) (i * 2) \<and> is_char_boundary (hex_text bs) (i * 2 + 2)
      \<and> from_str_radix_16 (take 2 (drop (i * 2) (hex_text bs))) = Some (bs ! i)"
      by (simp add: from_str_radix_hex_pair)
  qed
  moreover have "map ((!) bs) [0..<length bs] = bs" by (rule map_nth)
  ultimately show "load_root_key_from_env (Some (hex_text bs)) = Loaded bs"
    by (simp add: load_root_key_from_env_def)
next
  assume "load_root_key_from_env var = Loaded k"
  then show "length k = 32" and "\<exists>s. var = Some s \<and> length s = 64"
    by (auto simp: load_root_key_from_env_def dest: decode_pairs_length
        split: option.splits if_splits)
next
  show "load_root_key_from_env (Some (concat (replicate 32 ''+1''))) = Loaded (replicate 32 1)"
    by code_simp
qed

section \<open>Witnesses\<close>

definition demo_kms :: software_kms where
  "demo_kms = \<lparr>kms_root_key = replicate 32 1, kms_system_id = ''sys-1'',
     kms_brand_key_cache = Map.empty\<rparr>"

lemma demo_from_env:
  "from_env (Some (concat (replicate 32 ''+1''))) (Some ''sys-1'') = Loaded demo_kms"
proof -
  have "load_root_key_from_env (Some (concat (replicate 32 ''+1''))) = Loaded (replicate 32 1)"
    by code_simp
  then show ?thesis by (simp add: from_env_def demo_kms_def)
qed

theorem kms_cache_transparent_witness:
  "fst (serve_all (derive_chip_key demo_crypto) (derive_honey_key demo_crypto)
      (derive_mother_key demo_crypto) demo_kms [ChipReq ''b'' [1] 0, ChipReq ''b'' [1] 0]) =
    [Inr (kms_spec demo_crypto (kms_ident demo_kms) (ChipReq ''b'' [1] 0)),
     Inr (kms_spec demo_crypto (kms_ident demo_kms) (ChipReq ''b'' [1] 0))]"
  using kms_cache_transparent [OF demo_from_env,
      of demo_crypto "[ChipReq ''b'' [1] 0, ChipReq ''b'' [1] 0]"]
  by (metis (no_types, lifting) list.simps(8,9) prod.collapse)

theorem double_check_sound_witness:
  "brand_key_fast (snd (brand_key_slow demo_crypto demo_kms ''b'' length)) ''b'' length =
    Some (fst (brand_key_slow demo_crypto demo_kms ''b'' length))"
proof -
  have "kms_inv demo_crypto demo_kms" by (simp add: kms_inv_empty demo_kms_def)
  moreover have "brand_key_fast demo_kms ''b'' length = (None :: nat option)"
    by (simp add: brand_key_fast_def demo_kms_def)
  ultimately show ?thesis
    using double_check_sound [of demo_crypto demo_kms demo_kms "''b''" length] by (metis prod.collapse)
qed

theorem root_key_loading_witness:
  "load_root_key_from_env (Some (hex_text (replicate 32 171))) = Loaded (replicate 32 171)"
  using root_key_loading [of "replicate 32 171" None "[]"] by simp

end
