(* ===== verification/World.thy ===== *)
theory World
  imports Kms Common_Types
begin

text \<open>
  What the server \<^verbatim>\<open>rc-api\<close> acts on: the PostgreSQL tables of
  \<^verbatim>\<open>rust/rc-api/migrations\<close>, Redis, the in-process counter cache, the key service, the
  clock, the environment variables and the sources of fresh ids. Third-party functions are
  fields of \<open>externs\<close>. Every SQL statement is one atomic step that can fail; which ones
  do is decided by the world's list of faults.
\<close>

section \<open>Third-party functions\<close>

datatype json =
  JNull | JBool bool | JNum int | JStr string | JArr "json list" | JObj "(string \<times> json) list"

text \<open>
  \<open>x_ulid n\<close>, \<open>x_uuid n\<close>, \<open>x_nanoid n\<close> and \<open>x_rand16 n\<close> are the \<open>n\<close>-th values
  drawn from the ulid, uuid, nanoid and rand crates; the others are the codecs, ed25519, the
  Unicode upper case of non-ASCII text, and the text of a PostgreSQL constraint error.
\<close>

record externs = crypto +
  x_ulid :: "nat \<Rightarrow> string"
  x_uuid :: "nat \<Rightarrow> uuid"
  x_nanoid12 :: "nat \<Rightarrow> string"
  x_rand16 :: "nat \<Rightarrow> bytes"
  x_parse_uuid :: "string \<Rightarrow> uuid option"
  x_uuid_text :: "uuid \<Rightarrow> string"
  x_hex_encode :: "bytes \<Rightarrow> string"
  x_hex_decode :: "string \<Rightarrow> string + bytes"
  x_json_bytes :: "json \<Rightarrow> string + bytes"
  x_rfc3339 :: "int \<Rightarrow> string"
  x_ed_sign :: "bytes \<Rightarrow> bytes \<Rightarrow> bytes"
  x_ed_public :: "bytes \<Rightarrow> bytes"
  x_ed_sig_from_slice :: "bytes \<Rightarrow> string + bytes"
  x_ed_verify :: "bytes \<Rightarrow> bytes \<Rightarrow> bytes \<Rightarrow> bool"
  x_unicode_upper :: "string \<Rightarrow> string"
  x_pg_message :: "string \<Rightarrow> string"

text \<open>\<open>str::to_uppercase\<close>: exact on ASCII, the Unicode tables beyond it.\<close>

definition to_uppercase :: "('z externs_scheme) \<Rightarrow> string \<Rightarrow> string" where
  "to_uppercase X s = (if is_ascii s then to_ascii_uppercase s else x_unicode_upper X s)"

section \<open>Tables\<close>

type_synonym time = int

record asset_row =
  as_asset_id :: string
  as_brand_id :: string
  as_product_id :: "string option"
  as_uid :: "string option"
  as_current_state :: string
  as_previous_state :: "string option"
  as_owner_id :: "string option"
  as_last_verified_ctr :: "i32 option"
  as_epoch :: i32
  as_key_epoch :: i32
  as_batch_id :: "string option"
  as_external_product_id :: "string option"
  as_external_product_name :: "string option"
  as_external_product_url :: "string option"
  as_asset_commitment_id :: "string option"
  as_activated_at :: "time option"
  as_sold_at :: "time option"
  as_created_at :: time
  as_updated_at :: time

record state_event_row =
  se_event_id :: uuid
  se_asset_id :: string
  se_action :: string
  se_from_state :: "string option"
  se_to_state :: string
  se_trace_id :: uuid
  se_actor_id :: string
  se_actor_role :: string
  se_actor_org :: "string option"
  se_idempotency_key :: string
  se_approval_id :: "string option"
  se_policy_version :: "string option"
  se_asset_commitment_id :: "string option"
  se_occurred_at :: time

record idempotency_row =
  ir_idempotency_key :: string
  ir_resource_type :: string
  ir_resource_id :: string
  ir_request_hash :: string
  ir_response_snapshot :: json

record authority_device_row =
  ad_authority_id :: uuid
  ad_authority_uid :: string
  ad_authority_type :: string
  ad_brand_id :: string
  ad_status :: string
  ad_key_epoch :: i32
  ad_virtual_credential_hash :: "string option"
  ad_bound_user_id :: "string option"
  ad_physical_chip_uid :: "string option"
  ad_last_known_ctr :: "i32 option"
  ad_created_by :: "string option"

record entanglement_row =
  en_entanglement_id :: uuid
  en_asset_id :: string
  en_child_uid :: string
  en_authority_id :: uuid
  en_authority_uid :: string
  en_entanglement_state :: string
  en_bound_by :: string
  en_created_at :: time

record asset_commitment_record =
  cm_commitment_id :: string
  cm_payload_version :: string
  cm_brand_id :: string
  cm_asset_uid :: string
  cm_chip_binding :: string
  cm_epoch :: i32
  cm_metadata_hash :: string
  cm_canonical_payload :: json
  cm_created_at :: time

text \<open>
  Brand and platform attestations have the same shape; \<open>at_issuer_id\<close> is the column
  \<^verbatim>\<open>brand_id\<close> or \<^verbatim>\<open>platform_id\<close>.
\<close>

record attestation_record =
  at_attestation_id :: string
  at_version :: string
  at_issuer_id :: string
  at_asset_commitment_id :: string
  at_statement :: string
  at_key_id :: string
  at_canonical_payload :: json
  at_signature :: string
  at_issued_at :: time

text \<open>
  A row of \<^verbatim>\<open>brands\<close> and the structure read from it, which leaves out the column
  \<open>br_api_key_hash\<close>.
\<close>

record brand_record =
  br_brand_id :: string
  br_brand_name :: string
  br_contact_email :: string
  br_industry :: string
  br_status :: string
  br_created_at :: time
  br_updated_at :: time
  br_api_key_hash :: "string option"

record api_key_record =
  ak_key_id :: string
  ak_brand_id :: string
  ak_key_hash :: string
  ak_key_prefix :: string
  ak_status :: string
  ak_created_at :: time
  ak_revoked_at :: "time option"
  ak_last_used_at :: "time option"

record batch_row =
  ba_batch_id :: string
  ba_brand_id :: string
  ba_batch_name :: "string option"
  ba_factory_id :: "string option"
  ba_status :: string
  ba_expected_count :: "i32 option"
  ba_actual_count :: i32
  ba_created_at :: time
  ba_closed_at :: "time option"

record factory_session_row =
  fs_session_id :: string
  fs_batch_id :: string
  fs_created_at :: time

record product_row =
  pr_product_id :: string
  pr_brand_id :: string
  pr_product_name :: string
  pr_created_at :: time
  pr_updated_at :: time

text \<open>\<open>tr_status\<close> is the member \<^verbatim>\<open>status\<close> of the JSON column \<^verbatim>\<open>metadata\<close>.\<close>

record transfer_row =
  tr_transfer_id :: uuid
  tr_asset_id :: string
  tr_from_user_id :: string
  tr_to_user_id :: string
  tr_from_owner_id :: string
  tr_to_owner_id :: string
  tr_transfer_type :: string
  tr_idempotency_key :: string
  tr_trace_id :: string
  tr_status :: "string option"
  tr_transferred_at :: time

record verification_event_row =
  ve_uid :: string
  ve_asset_id :: "string option"
  ve_ctr :: i32
  ve_verification_status :: string
  ve_risk_flags :: "string list"
  ve_cmac_valid :: bool
  ve_client_ip :: "string option"
  ve_asset_commitment_id :: "string option"
  ve_verification_version :: "string option"
  ve_brand_attestation_status :: "string option"
  ve_platform_attestation_status :: "string option"

record webhook_config_row =
  wc_webhook_id :: uuid
  wc_brand_id :: string
  wc_url :: string
  wc_secret :: "string option"
  wc_events :: "string list"
  wc_status :: string

record webhook_delivery_row =
  wd_delivery_id :: uuid
  wd_webhook_id :: uuid
  wd_event_type :: string
  wd_payload :: json
  wd_status :: string
  wd_attempts :: i32

text \<open>
  Only \<^verbatim>\<open>deploy/postgres/init\<close> creates the webhook tables; in a database the migrations made they
  do not exist (\<open>None\<close>).
\<close>

record webhook_tables =
  wt_configs :: "webhook_config_row list"
  wt_deliveries :: "webhook_delivery_row list"

record database =
  db_assets :: "asset_row list"
  db_events :: "state_event_row list"
  db_idempotency :: "idempotency_row list"
  db_devices :: "authority_device_row list"
  db_entanglements :: "entanglement_row list"
  db_commitments :: "asset_commitment_record list"
  db_brand_attestations :: "attestation_record list"
  db_platform_attestations :: "attestation_record list"
  db_brands :: "brand_record list"
  db_api_keys :: "api_key_record list"
  db_batches :: "batch_row list"
  db_products :: "product_row list"
  db_transfers :: "transfer_row list"
  db_verifications :: "verification_event_row list"
  db_sessions :: "factory_session_row list"
  db_webhooks :: "webhook_tables option"

section \<open>The world\<close>

text \<open>\<^verbatim>\<open>app.rs\<close>: the fallback strategy and an entry of the in-process counter cache.\<close>

datatype fallback_strategy = Auto | DirectPg

record ctr_entry =
  ce_ctr :: u32
  ce_cached_at :: time

text \<open>Redis: counters with their expiry, sorted sets and hashes.\<close>

record redis_store =
  rd_counters :: "string \<rightharpoonup> u32 \<times> time"
  rd_zsets :: "string \<rightharpoonup> (string \<times> int) list"
  rd_hashes :: "string \<rightharpoonup> (string \<rightharpoonup> string)"

record world =
  w_db :: database
  w_l1 :: "string \<rightharpoonup> ctr_entry"
  w_redis :: "redis_store option"
  w_kms :: software_kms
  w_now :: time
  w_draws :: nat
  w_faults :: "string option list"
  w_redis_faults :: "bool list"
  w_env :: "string \<rightharpoonup> string"
  w_fallback :: fallback_strategy

text \<open>
  An operation of the server stops with an error or with a panic (\<^verbatim>\<open>expect\<close>,
  \<^verbatim>\<open>unwrap\<close>, a \<^verbatim>\<open>NULL\<close> column read as a non-optional type); a panic kills the task and
  no response is sent.
\<close>

datatype abort = Err rc_error | Panic

type_synonym 'a op = "(world, abort, 'a) act"

definition throw :: "rc_error \<Rightarrow> 'a op" where
  "throw e = fail (Err e)"

definition panic :: "'a op" where
  "panic = fail Panic"

definition lift :: "rc_error + 'a \<Rightarrow> 'a op" where
  "lift r = of_result (map_sum Err id r)"

definition check :: "bool \<Rightarrow> rc_error \<Rightarrow> unit op" where
  "check b e = require b (Err e)"

definition expect :: "'a option \<Rightarrow> 'a op" where
  "expect x = of_result (ok_or Panic x)"

section \<open>SQL statements\<close>

text \<open>
  A statement reads or changes the database or is refused by a constraint, and then changes
  nothing. \<open>db_call\<close> runs one; a pending fault makes it fail instead.
\<close>

datatype sqlx_error = UniqueViolation string | SqlError string

fun sqlx_text :: "sqlx_error \<Rightarrow> string" where
  "sqlx_text (UniqueViolation m) = ''error returned from database: '' @ m"
| "sqlx_text (SqlError m) = m"

definition db_call ::
  "(database \<Rightarrow> sqlx_error + 'a \<times> database) \<Rightarrow> (world, sqlx_error, 'a) act" where
  "db_call q w =
     (case w_faults w of
        Some m # fs \<Rightarrow> (Inl (SqlError m), w\<lparr>w_faults := fs\<rparr>)
      | fs \<Rightarrow>
          (let w1 = w\<lparr>w_faults := tl fs\<rparr>
           in case q (w_db w) of
                Inl e \<Rightarrow> (Inl e, w1)
              | Inr (x, d) \<Rightarrow> (Inr x, w1\<lparr>w_db := d\<rparr>)))"

definition sql :: "(database \<Rightarrow> sqlx_error + 'a \<times> database) \<Rightarrow> 'a op" where
  "sql q = map_err (\<lambda>e. Err (Database (sqlx_text e))) (db_call q)"

definition select_rows :: "(database \<Rightarrow> 'a) \<Rightarrow> 'a op" where
  "select_rows f = sql (\<lambda>d. Inr (f d, d))"

definition execute_sql :: "(database \<Rightarrow> database) \<Rightarrow> unit op" where
  "execute_sql f = sql (\<lambda>d. Inr ((), f d))"

text \<open>
  A transaction: begin, body, commit. When the body or the commit fails the transaction is
  dropped and the database is as it was at the beginning.
\<close>

definition transaction :: "'a op \<Rightarrow> 'a op" where
  "transaction body w =
     (case execute_sql id w of
        (Inl e, w0) \<Rightarrow> (Inl e, w0)
      | (Inr _, w0) \<Rightarrow>
          (case body w0 of
             (Inl e, w1) \<Rightarrow> (Inl e, w1\<lparr>w_db := w_db w0\<rparr>)
           | (Inr x, w1) \<Rightarrow>
               (case execute_sql id w1 of
                  (Inl e, w2) \<Rightarrow> (Inl e, w2\<lparr>w_db := w_db w0\<rparr>)
                | (Inr _, w2) \<Rightarrow> (Inr x, w2))))"

text \<open>
  A statement under constraints: each is the condition that violates it and the error. Then
  \<open>SELECT .. WHERE p LIMIT 1\<close> and \<open>UPDATE .. SET f WHERE p\<close>.
\<close>

definition constrained ::
  "((database \<Rightarrow> bool) \<times> sqlx_error) list \<Rightarrow> (database \<Rightarrow> database)
    \<Rightarrow> database \<Rightarrow> sqlx_error + unit \<times> database" where
  "constrained cs f d =
     (case find (\<lambda>c. fst c d) cs of Some c \<Rightarrow> Inl (snd c) | None \<Rightarrow> Inr ((), f d))"

definition fetch_first :: "('r \<Rightarrow> bool) \<Rightarrow> (database \<Rightarrow> 'r list) \<Rightarrow> 'r option op" where
  "fetch_first p tbl = select_rows (\<lambda>d. find p (tbl d))"

text \<open>\<open>ORDER BY key DESC\<close>: ties in the order of insertion.\<close>

definition order_desc :: "('r \<Rightarrow> time) \<Rightarrow> 'r list \<Rightarrow> 'r list" where
  "order_desc key rs = sort_key (\<lambda>r. - key r) rs"

definition first_of :: "'r list \<Rightarrow> 'r option" where
  "first_of rs = (case rs of [] \<Rightarrow> None | r # _ \<Rightarrow> Some r)"

text \<open>An optional \<open>column = value\<close> condition.\<close>

definition matches_filter :: "'a option \<Rightarrow> 'a \<Rightarrow> bool" where
  "matches_filter wanted x = (case wanted of None \<Rightarrow> True | Some v \<Rightarrow> x = v)"

text \<open>\<open>LIMIT .. OFFSET ..\<close>; PostgreSQL refuses a negative value of either.\<close>

definition limit_offset ::
  "('z externs_scheme) \<Rightarrow> i64 \<Rightarrow> i64 \<Rightarrow> 'r list \<Rightarrow> sqlx_error + 'r list" where
  "limit_offset X limit offset rs =
     (if sint offset < 0 then Inl (SqlError (x_pg_message X ''negative offset''))
      else if sint limit < 0 then Inl (SqlError (x_pg_message X ''negative limit''))
      else Inr (take (nat (sint limit)) (drop (nat (sint offset)) rs)))"

definition select_page ::
  "('z externs_scheme) \<Rightarrow> i64 \<Rightarrow> i64 \<Rightarrow> (database \<Rightarrow> 'r list) \<Rightarrow> 'r list op" where
  "select_page X limit offset f =
     sql (\<lambda>d. case limit_offset X limit offset (f d) of Inl e \<Rightarrow> Inl e | Inr rs \<Rightarrow> Inr (rs, d))"

definition required :: "rc_error \<Rightarrow> 'a option \<Rightarrow> 'a op" where
  "required e x = lift (ok_or e x)"

definition update_rows :: "('r \<Rightarrow> bool) \<Rightarrow> ('r \<Rightarrow> 'r) \<Rightarrow> 'r list \<Rightarrow> 'r list" where
  "update_rows p f rs = map (\<lambda>r. if p r then f r else r) rs"

section \<open>Fresh values, the clock and the environment\<close>

definition draw :: "(nat \<Rightarrow> 'a) \<Rightarrow> (world, 'e, 'a) act" where
  "draw src w = (Inr (src (w_draws w)), w\<lparr>w_draws := Suc (w_draws w)\<rparr>)"

definition utc_now :: "(world, 'e, time) act" where
  "utc_now = gets w_now"

definition env_var :: "string \<Rightarrow> (world, 'e, string option) act" where
  "env_var name = gets (\<lambda>w. w_env w name)"

text \<open>A call of the key service; its state is part of the world.\<close>

definition kms_call ::
  "(software_kms \<Rightarrow> (kms_error + 'a) \<times> software_kms) \<Rightarrow> (world, kms_error, 'a) act" where
  "kms_call f w = (case f (w_kms w) of (r, k) \<Rightarrow> (r, w\<lparr>w_kms := k\<rparr>))"

section \<open>HTTP\<close>

text \<open>
  A header value is text or bytes that \<open>to_str\<close> refuses; a response has a status and a
  body.
\<close>

datatype header_value = HeaderText string | HeaderOpaque

type_synonym headers = "string \<rightharpoonup> header_value"

datatype body = TextBody string | JsonBody json

datatype response = Response (resp_status: nat) (resp_body: body)

definition to_str :: "header_value \<Rightarrow> string option" where
  "to_str v = (case v of HeaderText s \<Rightarrow> Some s | HeaderOpaque \<Rightarrow> None)"

definition required_header :: "headers \<Rightarrow> string \<Rightarrow> rc_error + string" where
  "required_header headers key =
     (case headers key of
        None \<Rightarrow> Inl (MissingRequiredHeader key)
      | Some v \<Rightarrow> ok_or (InvalidHeader key) (to_str v))"

definition optional_header :: "headers \<Rightarrow> string \<Rightarrow> string option" where
  "optional_header headers key = Option.bind (headers key) to_str"

text \<open>A handler whose errors are turned into responses by \<open>er\<close>; a panic sends none.\<close>

definition respond ::
  "(rc_error \<Rightarrow> response) \<Rightarrow> response op \<Rightarrow> world \<Rightarrow> response option \<times> world" where
  "respond er h w =
     (case h w of
        (Inl (Err e), w') \<Rightarrow> (Some (er e), w')
      | (Inl Panic, w') \<Rightarrow> (None, w')
      | (Inr r, w') \<Rightarrow> (Some r, w'))"

definition opt_str :: "string option \<Rightarrow> json" where
  "opt_str s = (case s of None \<Rightarrow> JNull | Some t \<Rightarrow> JStr t)"

section \<open>Running and framing the primitives\<close>

lemma lift_simps [run_simps]:
  "lift (Inl e) w = (Inl (Err e), w)" "lift (Inr x) w = (Inr x, w)"
  "throw e w = (Inl (Err e), w)" "panic w = (Inl Panic, w)"
  "check b e w = (if b then Inr () else Inl (Err e), w)"
  "expect (Some x) w = (Inr x, w)" "expect None w = (Inl Panic, w)"
  by (simp_all add: lift_def throw_def panic_def check_def expect_def act_simps require_simps)

lemma lift_Inr [run_inv]: "lift r w = (Inr x, w') \<longleftrightarrow> r = Inr x \<and> w' = w"
  by (cases r) (auto simp: lift_simps)

lemma required_run [run_simps]:
  "required e None w = (Inl (Err e), w)" "required e (Some x) w = (Inr x, w)"
  by (simp_all add: required_def lift_simps)

lemma required_Inr [run_inv]: "required e r w = (Inr x, w') \<longleftrightarrow> r = Some x \<and> w' = w"
  by (auto simp: required_def lift_Inr)

lemma check_Inr [run_inv]: "check b e w = (Inr u, w') \<longleftrightarrow> b \<and> w' = w"
  by (auto simp: lift_simps)

lemma expect_Inr [run_inv]: "expect r w = (Inr x, w') \<longleftrightarrow> r = Some x \<and> w' = w"
  by (cases r) (auto simp: lift_simps)

lemma no_Inr [run_inv]: "throw e w \<noteq> (Inr x, w')" "panic w \<noteq> (Inr x, w')"
  by (simp_all add: lift_simps)

lemma pure_Inr [run_inv]:
  "ret x w = (Inr y, w') \<longleftrightarrow> y = x \<and> w' = w"
  "gets f w = (Inr z, w') \<longleftrightarrow> z = f w \<and> w' = w"
  "puts g w = (Inr u, w') \<longleftrightarrow> w' = g w"
  "of_result r w = (Inr y, w') \<longleftrightarrow> r = Inr y \<and> w' = w"
  by (auto simp: act_simps)

definition calm :: "world \<Rightarrow> bool" where
  "calm w \<longleftrightarrow> w_faults w = []"

lemma db_call_Inr:
  "db_call q w = (Inr x, w') \<longleftrightarrow>
    (\<exists>d. q (w_db w) = Inr (x, d) \<and> (\<forall>m fs. w_faults w \<noteq> Some m # fs)
       \<and> w' = w\<lparr>w_faults := tl (w_faults w), w_db := d\<rparr>)"
  by (auto simp: db_call_def Let_def split: list.splits option.splits sum.splits)

lemma sql_Inr [run_inv]:
  "sql q w = (Inr x, w') \<longleftrightarrow>
    (\<exists>d. q (w_db w) = Inr (x, d) \<and> (\<forall>m fs. w_faults w \<noteq> Some m # fs)
       \<and> w' = w\<lparr>w_faults := tl (w_faults w), w_db := d\<rparr>)"
  by (simp add: sql_def map_err_Inr db_call_Inr)

lemma sql_Inl_db: "sql q w = (Inl e, w') \<Longrightarrow> w_db w' = w_db w"
  by (auto simp: sql_def map_err_def db_call_def Let_def
      split: list.splits option.splits sum.splits prod.splits)

lemma calm_sql [run_simps]:
  "calm w \<Longrightarrow> sql q w =
    (case q (w_db w) of Inl e \<Rightarrow> (Inl (Err (Database (sqlx_text e))), w)
     | Inr (x, d) \<Rightarrow> (Inr x, w\<lparr>w_db := d\<rparr>))"
  by (auto simp: calm_def sql_def map_err_def db_call_def Let_def split: sum.splits prod.splits)

lemma calm_select [run_simps]: "calm w \<Longrightarrow> select_rows f w = (Inr (f (w_db w)), w)"
  by (simp add: select_rows_def calm_sql)

lemma calm_execute [run_simps]: "calm w \<Longrightarrow> execute_sql f w = (Inr (), w\<lparr>w_db := f (w_db w)\<rparr>)"
  by (simp add: execute_sql_def calm_sql)

lemma calm_transaction [run_simps]:
  "calm w \<Longrightarrow> transaction m w =
    (case m w of
       (Inl e, w1) \<Rightarrow> (Inl e, w1\<lparr>w_db := w_db w\<rparr>)
     | (Inr x, w1) \<Rightarrow>
         (case execute_sql id w1 of
            (Inl e, w2) \<Rightarrow> (Inl e, w2\<lparr>w_db := w_db w\<rparr>) | (Inr _, w2) \<Rightarrow> (Inr x, w2)))"
  by (simp add: transaction_def calm_execute)

lemma calm_updates [simp]:
  "calm (w\<lparr>w_db := d\<rparr>) = calm w" "calm (w\<lparr>w_draws := n\<rparr>) = calm w"
  "calm (w\<lparr>w_kms := k\<rparr>) = calm w" "calm (w\<lparr>w_l1 := l\<rparr>) = calm w"
  "calm (w\<lparr>w_redis := s\<rparr>) = calm w" "calm (w\<lparr>w_redis_faults := fs\<rparr>) = calm w"
  by (simp_all add: calm_def)

lemma select_Inr [run_inv]:
  "select_rows f w = (Inr x, w') \<longleftrightarrow>
    x = f (w_db w) \<and> (\<forall>m fs. w_faults w \<noteq> Some m # fs) \<and> w' = w\<lparr>w_faults := tl (w_faults w)\<rparr>"
  by (auto simp: select_rows_def sql_Inr)

lemma fetch_Inr [run_inv]:
  "fetch_first p tbl w = (Inr x, w') \<longleftrightarrow>
    x = find p (tbl (w_db w)) \<and> (\<forall>m fs. w_faults w \<noteq> Some m # fs)
      \<and> w' = w\<lparr>w_faults := tl (w_faults w)\<rparr>"
  by (simp add: fetch_first_def select_Inr)

lemma calm_fetch [run_simps]:
  "calm w \<Longrightarrow> fetch_first p tbl w = (Inr (find p (tbl (w_db w))), w)"
  by (simp add: fetch_first_def calm_select)

lemma execute_Inr [run_inv]:
  "execute_sql f w = (Inr x, w') \<longleftrightarrow>
    (\<forall>m fs. w_faults w \<noteq> Some m # fs)
      \<and> w' = w\<lparr>w_faults := tl (w_faults w), w_db := f (w_db w)\<rparr>"
  by (auto simp: execute_sql_def sql_Inr)

text \<open>A relation on databases as a relation on worlds, and what keeps it.\<close>

definition on_db :: "(database \<Rightarrow> database \<Rightarrow> bool) \<Rightarrow> world \<Rightarrow> world \<Rightarrow> bool" where
  "on_db r w w' \<longleftrightarrow> r (w_db w) (w_db w')"

locale db_preorder =
  fixes r :: "database \<Rightarrow> database \<Rightarrow> bool"
  assumes r_refl: "r d d"
    and r_trans: "r a b \<Longrightarrow> r b c \<Longrightarrow> r a c"
begin

sublocale run_preorder "on_db r"
  by unfold_locales (auto simp: on_db_def intro: r_refl r_trans)

lemma keeps_sql:
  assumes "\<And>d x d'. q d = Inr (x, d') \<Longrightarrow> r d d'"
  shows "keeps (on_db r) (sql q)"
  unfolding keeps_def on_db_def
proof
  fix w
  obtain x w' where run: "sql q w = (x, w')" by fastforce
  show "r (w_db w) (w_db (snd (sql q w)))"
  proof (cases x)
    case (Inl e)
    with run have "w_db w' = w_db w" by (auto dest: sql_Inl_db)
    with run show ?thesis by (simp add: r_refl)
  next
    case (Inr y)
    with run obtain d where "q (w_db w) = Inr (y, d)" and "w_db w' = d"
      by (auto simp: sql_Inr)
    with assms run show ?thesis by (metis snd_conv)
  qed
qed

lemma keeps_select [keeps_intro]: "keeps (on_db r) (select_rows f)"
  unfolding select_rows_def by (rule keeps_sql) (simp add: r_refl)

lemma keeps_fetch [keeps_intro]: "keeps (on_db r) (fetch_first p tbl)"
  unfolding fetch_first_def by (rule keeps_select)

lemma keeps_page [keeps_intro]: "keeps (on_db r) (select_page X limit offset f)"
  unfolding select_page_def by (rule keeps_sql) (auto split: sum.splits intro: r_refl)

lemma keeps_constrained:
  "(\<And>d. r d (f d)) \<Longrightarrow> keeps (on_db r) (sql (constrained cs f))"
  by (rule keeps_sql) (auto simp: constrained_def split: option.splits)

lemma keeps_execute: "(\<And>d. r d (f d)) \<Longrightarrow> keeps (on_db r) (execute_sql f)"
  unfolding execute_sql_def by (rule keeps_sql) auto

lemma keeps_transaction:
  assumes "keeps (on_db r) m"
  shows "keeps (on_db r) (transaction m)"
  unfolding keeps_def on_db_def
proof
  fix w
  have same: "w_db w' = w_db v" if "execute_sql id v = (x, w')" for x v w'
    using that sql_Inl_db by (cases x) (auto simp: execute_sql_def sql_Inr)
  obtain x w0 where b: "execute_sql id w = (x, w0)" by fastforce
  obtain y w1 where m: "m w0 = (y, w1)" by fastforce
  obtain z w2 where c: "execute_sql id w1 = (z, w2)" by fastforce
  have "r (w_db w0) (w_db w1)" using keepsD [OF assms m] by (simp add: on_db_def)
  with same [OF b] same [OF c] b m c show "r (w_db w) (w_db (snd (transaction m w)))"
    by (auto simp: transaction_def r_refl split: sum.splits)
qed

lemma keeps_other [keeps_intro]:
  "keeps (on_db r) (draw src)" "keeps (on_db r) utc_now" "keeps (on_db r) (env_var s)"
  "keeps (on_db r) (kms_call g)"
  by (simp_all add: keeps_def on_db_def draw_def utc_now_def env_var_def gets_def kms_call_def
      r_refl split: prod.split)

lemma keeps_abort [keeps_intro]:
  "keeps (on_db r) (throw e)" "keeps (on_db r) panic" "keeps (on_db r) (lift u)"
  "keeps (on_db r) (check b e)" "keeps (on_db r) (expect x)" "keeps (on_db r) (required e v)"
  by (simp_all add: required_def throw_def panic_def lift_def check_def expect_def keeps_pure)

lemma keeps_puts: "(\<And>w. w_db (g w) = w_db w) \<Longrightarrow> keeps (on_db r) (puts g)"
  by (simp add: keeps_def on_db_def puts_def r_refl)

lemma respond_keeps:
  assumes "keeps (on_db r) h" and "respond er h w = (resp, w')"
  shows "r (w_db w) (w_db w')"
proof -
  obtain x v where h: "h w = (x, v)" by fastforce
  from keepsD [OF assms(1) h] assms(2) h show ?thesis
    by (auto simp: on_db_def respond_def split: sum.splits abort.splits)
qed

end

text \<open>The two preorders used throughout: nothing changes, and one column list does not.\<close>

interpretation db_unchanged: db_preorder "(=)"
  by unfold_locales auto

interpretation assets_unchanged: db_preorder "\<lambda>d d'. db_assets d' = db_assets d"
  by unfold_locales auto

end
