(* ===== verification/Attestation.thy ===== *)
theory Attestation
  imports World "HOL-Library.Countable"
begin

text \<open>
  \<^verbatim>\<open>asset_commitment.rs\<close>, \<^verbatim>\<open>attestation_brand.rs\<close> and \<^verbatim>\<open>attestation_platform.rs\<close>:
  the commitment that names an asset by the hash of its canonical payload, and the two ed25519
  attestations over it. The locale \<open>attestation_scheme\<close> is the contract the two modules
  share; both are interpretations of it.
\<close>

section \<open>Asset commitments\<close>

record asset_commitment_payload =
  cp_version :: string
  cp_brand_id :: string
  cp_asset_uid :: string
  cp_chip_binding :: string
  cp_epoch :: u32
  cp_metadata_hash :: string

definition hex_sha256 :: "('z externs_scheme) \<Rightarrow> bytes \<Rightarrow> string" where
  "hex_sha256 X input = x_hex_encode X (x_sha256 X input)"

definition normalize_uid :: "string \<Rightarrow> string" where
  "normalize_uid uid = to_ascii_uppercase (trim uid)"

definition build_chip_binding :: "('z externs_scheme) \<Rightarrow> string \<Rightarrow> u32 \<Rightarrow> string" where
  "build_chip_binding X uid epoch =
     hex_sha256 X (as_bytes (normalize_uid uid @ ''|ntag424dna|'' @ dec (unat epoch)))"

text \<open>The serialisation is unwrapped with \<^verbatim>\<open>expect\<close>: \<open>None\<close> is the panic.\<close>

definition build_metadata_hash ::
  "('z externs_scheme) \<Rightarrow> string \<Rightarrow> string option \<Rightarrow> string option \<Rightarrow> string option
    \<Rightarrow> string option" where
  "build_metadata_hash X external_product_id external_product_name external_product_url batch_id =
     (case x_json_bytes X
             (JObj
               [(''batch_id'', opt_str (map_option trim batch_id)),
                (''external_product_id'', JStr (trim external_product_id)),
                (''external_product_name'', opt_str (map_option trim external_product_name)),
                (''external_product_url'', opt_str (map_option trim external_product_url))]) of
        Inl _ \<Rightarrow> None
      | Inr bs \<Rightarrow> Some (hex_sha256 X bs))"

definition build_asset_commitment_payload ::
  "('z externs_scheme) \<Rightarrow> string \<Rightarrow> string \<Rightarrow> u32 \<Rightarrow> string \<Rightarrow> asset_commitment_payload" where
  "build_asset_commitment_payload X brand_id asset_uid epoch metadata_hash =
     (let normalized_uid = normalize_uid asset_uid
      in \<lparr>cp_version = ''ac_v1'', cp_brand_id = trim brand_id, cp_asset_uid = normalized_uid,
          cp_chip_binding = build_chip_binding X normalized_uid epoch, cp_epoch = epoch,
          cp_metadata_hash = metadata_hash\<rparr>)"

definition commitment_payload_json :: "asset_commitment_payload \<Rightarrow> json" where
  "commitment_payload_json payload =
     JObj
       [(''asset_uid'', JStr (cp_asset_uid payload)),
        (''brand_id'', JStr (cp_brand_id payload)),
        (''chip_binding'', JStr (cp_chip_binding payload)),
        (''epoch'', JNum (uint (cp_epoch payload))),
        (''metadata_hash'', JStr (cp_metadata_hash payload)),
        (''version'', JStr (cp_version payload))]"

definition compute_asset_commitment_id ::
  "('z externs_scheme) \<Rightarrow> asset_commitment_payload \<Rightarrow> rc_error + string" where
  "compute_asset_commitment_id X payload =
     and_then
       (map_sum (\<lambda>err. Database (''serialize asset commitment payload: '' @ err)) id
         (x_json_bytes X (commitment_payload_json payload)))
       (\<lambda>bs. Inr (hex_sha256 X bs))"

definition build_asset_commitment_record ::
  "('z externs_scheme) \<Rightarrow> string \<Rightarrow> string \<Rightarrow> u32 \<Rightarrow> string \<Rightarrow> string option
    \<Rightarrow> string option \<Rightarrow> string option \<Rightarrow> asset_commitment_record op" where
  "build_asset_commitment_record X brand_id asset_uid epoch external_product_id
     external_product_name external_product_url batch_id =
     try_bind
       (expect (build_metadata_hash X external_product_id external_product_name
                  external_product_url batch_id)) (\<lambda>metadata_hash.
     let payload = build_asset_commitment_payload X brand_id asset_uid epoch metadata_hash
     in try_bind (lift (compute_asset_commitment_id X payload)) (\<lambda>commitment_id.
        try_bind utc_now (\<lambda>now.
        ret \<lparr>cm_commitment_id = commitment_id, cm_payload_version = cp_version payload,
             cm_brand_id = cp_brand_id payload, cm_asset_uid = cp_asset_uid payload,
             cm_chip_binding = cp_chip_binding payload, cm_epoch = cp_epoch payload,
             cm_metadata_hash = cp_metadata_hash payload,
             cm_canonical_payload = commitment_payload_json payload, cm_created_at = now\<rparr>)))"

section \<open>Attestation payloads\<close>

text \<open>
  The payload struct of both modules: \<open>pl_issuer_id\<close> is \<^verbatim>\<open>brand_id\<close> in one and
  \<^verbatim>\<open>platform_id\<close> in the other. A signing key is its 32 secret bytes.
\<close>

record attestation_payload =
  pl_version :: string
  pl_issuer_id :: string
  pl_asset_commitment_id :: string
  pl_statement :: string
  pl_issued_at :: string
  pl_key_id :: string

section \<open>Brand attestations\<close>

definition build_brand_attestation_payload ::
  "('z externs_scheme) \<Rightarrow> string \<Rightarrow> string \<Rightarrow> time \<Rightarrow> string \<Rightarrow> attestation_payload" where
  "build_brand_attestation_payload X brand_id asset_commitment_id issued_at key_id =
     \<lparr>pl_version = ''ba_v1'', pl_issuer_id = trim brand_id,
      pl_asset_commitment_id = trim asset_commitment_id,
      pl_statement = ''brand_issues_asset'', pl_issued_at = x_rfc3339 X issued_at,
      pl_key_id = trim key_id\<rparr>"

definition brand_payload_json :: "attestation_payload \<Rightarrow> json" where
  "brand_payload_json payload =
     JObj
       [(''asset_commitment_id'', JStr (pl_asset_commitment_id payload)),
        (''brand_id'', JStr (pl_issuer_id payload)),
        (''issued_at'', JStr (pl_issued_at payload)),
        (''key_id'', JStr (pl_key_id payload)),
        (''statement'', JStr (pl_statement payload)),
        (''version'', JStr (pl_version payload))]"

definition brand_payload_bytes ::
  "('z externs_scheme) \<Rightarrow> attestation_payload \<Rightarrow> rc_error + bytes" where
  "brand_payload_bytes X payload =
     map_sum (\<lambda>err. Database (''serialize brand attestation payload: '' @ err)) id
       (x_json_bytes X (brand_payload_json payload))"

definition brand_signing_key :: "('z externs_scheme) \<Rightarrow> string \<Rightarrow> rc_error + bytes" where
  "brand_signing_key X secret =
     (let trimmed = trim secret
      in and_then
           (if length trimmed = 64 \<and> list_all is_ascii_hexdigit trimmed
            then map_sum (\<lambda>err. InvalidInput (''invalid brand attestation secret hex: '' @ err)) id
                   (x_hex_decode X trimmed)
            else Inr (x_sha256 X (as_bytes trimmed)))
           (\<lambda>candidate_bytes.
              if length candidate_bytes = 32 then Inr candidate_bytes
              else Inl (InvalidInput ''brand attestation secret must resolve to 32 bytes'')))"

definition load_brand_signing_key :: "('z externs_scheme) \<Rightarrow> (string \<times> bytes) op" where
  "load_brand_signing_key X =
     try_bind (env_var ''RC_BRAND_ATTESTATION_KEY_ID'') (\<lambda>k.
     try_bind (env_var ''RC_BRAND_ATTESTATION_SECRET'') (\<lambda>s.
     try_bind (lift (brand_signing_key X (unwrap_or ''rc-brand-attestation-dev-secret'' s)))
       (\<lambda>signing_key. ret (unwrap_or ''brand-key-2026-01'' k, signing_key))))"

definition sign_brand_attestation ::
  "('z externs_scheme) \<Rightarrow> attestation_payload \<Rightarrow> bytes \<Rightarrow> rc_error + string" where
  "sign_brand_attestation X payload signing_key =
     and_then (brand_payload_bytes X payload)
       (\<lambda>bs. Inr (x_hex_encode X (x_ed_sign X signing_key bs)))"

definition verify_brand_attestation ::
  "('z externs_scheme) \<Rightarrow> attestation_payload \<Rightarrow> string \<Rightarrow> bytes \<Rightarrow> rc_error + bool" where
  "verify_brand_attestation X payload signature_hex verifying_key =
     and_then (brand_payload_bytes X payload) (\<lambda>bs.
     and_then
       (map_sum (\<lambda>err. InvalidInput (''invalid brand attestation signature hex: '' @ err)) id
         (x_hex_decode X signature_hex)) (\<lambda>sig_bytes.
     and_then
       (map_sum (\<lambda>err. InvalidInput (''invalid brand attestation signature bytes: '' @ err)) id
         (x_ed_sig_from_slice X sig_bytes)) (\<lambda>sig.
     Inr (x_ed_verify X verifying_key bs sig))))"

definition build_brand_attestation_record ::
  "('z externs_scheme) \<Rightarrow> string \<Rightarrow> string \<Rightarrow> time \<Rightarrow> string \<Rightarrow> bytes
    \<Rightarrow> rc_error + attestation_record" where
  "build_brand_attestation_record X brand_id asset_commitment_id issued_at key_id signing_key =
     (let payload = build_brand_attestation_payload X brand_id asset_commitment_id issued_at key_id;
          canonical_payload = brand_payload_json payload
      in and_then (sign_brand_attestation X payload signing_key) (\<lambda>sig.
         and_then (map_sum Database id (x_json_bytes X canonical_payload)) (\<lambda>bs.
         Inr \<lparr>at_attestation_id = ''ba_'' @ x_hex_encode X (x_sha256 X bs),
              at_version = pl_version payload, at_issuer_id = pl_issuer_id payload,
              at_asset_commitment_id = pl_asset_commitment_id payload,
              at_statement = pl_statement payload, at_key_id = pl_key_id payload,
              at_canonical_payload = canonical_payload, at_signature = sig,
              at_issued_at = issued_at\<rparr>)))"

section \<open>Platform attestations\<close>

definition build_platform_attestation_payload ::
  "('z externs_scheme) \<Rightarrow> string \<Rightarrow> string \<Rightarrow> time \<Rightarrow> string \<Rightarrow> attestation_payload" where
  "build_platform_attestation_payload X platform_id asset_commitment_id issued_at key_id =
     \<lparr>pl_version = ''pa_v1'', pl_issuer_id = trim platform_id,
      pl_asset_commitment_id = trim asset_commitment_id,
      pl_statement = ''platform_accepts_asset'', pl_issued_at = x_rfc3339 X issued_at,
      pl_key_id = trim key_id\<rparr>"

definition platform_payload_json :: "attestation_payload \<Rightarrow> json" where
  "platform_payload_json payload =
     JObj
       [(''asset_commitment_id'', JStr (pl_asset_commitment_id payload)),
        (''issued_at'', JStr (pl_issued_at payload)),
        (''key_id'', JStr (pl_key_id payload)),
        (''platform_id'', JStr (pl_issuer_id payload)),
        (''statement'', JStr (pl_statement payload)),
        (''version'', JStr (pl_version payload))]"

definition platform_payload_bytes ::
  "('z externs_scheme) \<Rightarrow> attestation_payload \<Rightarrow> rc_error + bytes" where
  "platform_payload_bytes X payload =
     map_sum (\<lambda>err. Database (''serialize platform attestation payload: '' @ err)) id
       (x_json_bytes X (platform_payload_json payload))"

definition platform_signing_key :: "('z externs_scheme) \<Rightarrow> string \<Rightarrow> rc_error + bytes" where
  "platform_signing_key X secret =
     (let trimmed = trim secret
      in and_then
           (if length trimmed = 64 \<and> list_all is_ascii_hexdigit trimmed
            then map_sum (\<lambda>err. InvalidInput (''invalid platform attestation secret hex: '' @ err)) id
                   (x_hex_decode X trimmed)
            else Inr (x_sha256 X (as_bytes trimmed)))
           (\<lambda>candidate_bytes.
              if length candidate_bytes = 32 then Inr candidate_bytes
              else Inl (InvalidInput ''platform attestation secret must resolve to 32 bytes'')))"

definition load_platform_signing_key ::
  "('z externs_scheme) \<Rightarrow> (string \<times> string \<times> bytes) op" where
  "load_platform_signing_key X =
     try_bind (env_var ''RC_PLATFORM_ID'') (\<lambda>p.
     try_bind (env_var ''RC_SYSTEM_ID'') (\<lambda>sys.
     try_bind (env_var ''RC_PLATFORM_ATTESTATION_KEY_ID'') (\<lambda>k.
     try_bind (env_var ''RC_PLATFORM_ATTESTATION_SECRET'') (\<lambda>s.
     try_bind (lift (platform_signing_key X (unwrap_or ''rc-platform-attestation-dev-secret'' s)))
       (\<lambda>signing_key.
          ret (unwrap_or ''rcprotocol-main'' (or_else p sys),
               unwrap_or ''platform-key-2026-01'' k, signing_key))))))"

definition sign_platform_attestation ::
  "('z externs_scheme) \<Rightarrow> attestation_payload \<Rightarrow> bytes \<Rightarrow> rc_error + string" where
  "sign_platform_attestation X payload signing_key =
     and_then (platform_payload_bytes X payload)
       (\<lambda>bs. Inr (x_hex_encode X (x_ed_sign X signing_key bs)))"

definition verify_platform_attestation ::
  "('z externs_scheme) \<Rightarrow> attestation_payload \<Rightarrow> string \<Rightarrow> bytes \<Rightarrow> rc_error + bool" where
  "verify_platform_attestation X payload signature_hex verifying_key =
     and_then (platform_payload_bytes X payload) (\<lambda>bs.
     and_then
       (map_sum (\<lambda>err. InvalidInput (''invalid platform attestation signature hex: '' @ err)) id
         (x_hex_decode X signature_hex)) (\<lambda>sig_bytes.
     and_then
       (map_sum (\<lambda>err. InvalidInput (''invalid platform attestation signature bytes: '' @ err)) id
         (x_ed_sig_from_slice X sig_bytes)) (\<lambda>sig.
     Inr (x_ed_verify X verifying_key bs sig))))"

definition build_platform_attestation_record ::
  "('z externs_scheme) \<Rightarrow> string \<Rightarrow> string \<Rightarrow> time \<Rightarrow> string \<Rightarrow> bytes
    \<Rightarrow> rc_error + attestation_record" where
  "build_platform_attestation_record X platform_id asset_commitment_id issued_at key_id signing_key =
     (let payload = build_platform_attestation_payload X platform_id asset_commitment_id issued_at key_id;
          canonical_payload = platform_payload_json payload
      in and_then (sign_platform_attestation X payload signing_key) (\<lambda>sig.
         and_then (map_sum Database id (x_json_bytes X canonical_payload)) (\<lambda>bs.
         Inr \<lparr>at_attestation_id = ''pa_'' @ x_hex_encode X (x_sha256 X bs),
              at_version = pl_version payload, at_issuer_id = pl_issuer_id payload,
              at_asset_commitment_id = pl_asset_commitment_id payload,
              at_statement = pl_statement payload, at_key_id = pl_key_id payload,
              at_canonical_payload = canonical_payload, at_signature = sig,
              at_issued_at = issued_at\<rparr>)))"

section \<open>The contract of an attestation module\<close>

text \<open>
  \<open>ed_ok\<close>: hex decoding inverts encoding, a signature survives its byte form and verifies
  under the signer's key for the message it was made for and no other, and serde_json renders
  different values differently.
\<close>

definition ed_ok :: "('z externs_scheme) \<Rightarrow> bool" where
  "ed_ok X \<longleftrightarrow>
     (\<forall>b. x_hex_decode X (x_hex_encode X b) = Inr b) \<and>
     (\<forall>k m. x_ed_sig_from_slice X (x_ed_sign X k m) = Inr (x_ed_sign X k m)) \<and>
     (\<forall>k m m'. x_ed_verify X (x_ed_public X k) m (x_ed_sign X k m') \<longleftrightarrow> m = m') \<and>
     (\<forall>a b bs. x_json_bytes X a = Inr bs \<and> x_json_bytes X b = Inr bs \<longrightarrow> a = b)"

lemma ed_ok_codec:
  assumes "ed_ok X"
  shows "x_hex_decode X (x_hex_encode X b) = Inr b"
    and "x_ed_sig_from_slice X (x_ed_sign X k m) = Inr (x_ed_sign X k m)"
    and "x_ed_verify X (x_ed_public X k) m (x_ed_sign X k m') \<longleftrightarrow> m = m'"
  using assms by (simp_all add: ed_ok_def)

lemma ed_ok_json: "ed_ok X \<Longrightarrow> x_json_bytes X a = Inr bs \<Longrightarrow> x_json_bytes X b = Inr bs \<Longrightarrow> a = b"
  unfolding ed_ok_def by blast

locale attestation_scheme =
  fixes payload_json :: "attestation_payload \<Rightarrow> json"
    and payload_bytes :: "externs \<Rightarrow> attestation_payload \<Rightarrow> rc_error + bytes"
    and sign :: "externs \<Rightarrow> attestation_payload \<Rightarrow> bytes \<Rightarrow> rc_error + string"
    and verify :: "externs \<Rightarrow> attestation_payload \<Rightarrow> string \<Rightarrow> bytes \<Rightarrow> rc_error + bool"
  assumes json_inject: "payload_json p = payload_json q \<Longrightarrow> p = q"
    and bytes_Inr: "payload_bytes X p = Inr b \<longleftrightarrow> x_json_bytes X (payload_json p) = Inr b"
    and sign_Inr: "sign X p k = Inr s \<longleftrightarrow>
      (\<exists>b. payload_bytes X p = Inr b \<and> s = x_hex_encode X (x_ed_sign X k b))"
    and verify_Inr: "verify X p s pk = Inr v \<longleftrightarrow>
      (\<exists>b raw sig. payload_bytes X p = Inr b \<and> x_hex_decode X s = Inr raw
         \<and> x_ed_sig_from_slice X raw = Inr sig \<and> v = x_ed_verify X pk b sig)"
begin

lemma verify_signed:
  assumes "ed_ok X"
  shows "verify X q (x_hex_encode X (x_ed_sign X k m)) (x_ed_public X k) = Inr True
    \<longleftrightarrow> x_json_bytes X (payload_json q) = Inr m"
  by (auto simp: verify_Inr bytes_Inr ed_ok_codec [OF assms])

lemma verifies_iff:
  assumes "ed_ok X" and "sign X p k = Inr s"
  shows "verify X q s (x_ed_public X k) = Inr True \<longleftrightarrow> q = p"
proof -
  from assms(2) obtain b where "x_json_bytes X (payload_json p) = Inr b"
    and "s = x_hex_encode X (x_ed_sign X k b)" by (auto simp: sign_Inr bytes_Inr)
  with verify_signed [OF assms(1)] ed_ok_json [OF assms(1)] json_inject show ?thesis by blast
qed

lemma foreign_signature_rejected:
  assumes "ed_ok X" and "x_json_bytes X j = Inr m" and "\<forall>p. payload_json p \<noteq> j"
  shows "verify X q (x_hex_encode X (x_ed_sign X k m)) (x_ed_public X k) \<noteq> Inr True"
  using verify_signed [OF assms(1)] ed_ok_json [OF assms(1)] assms(2,3) by blast

end

lemma map_sum_Inr [simp]: "map_sum f id r = Inr x \<longleftrightarrow> r = Inr x"
  by (cases r) simp_all

interpretation brand_scheme: attestation_scheme
  brand_payload_json brand_payload_bytes sign_brand_attestation verify_brand_attestation
  by unfold_locales
    (auto simp: brand_payload_json_def brand_payload_bytes_def sign_brand_attestation_def
      verify_brand_attestation_def and_then_Inr)

interpretation platform_scheme: attestation_scheme
  platform_payload_json platform_payload_bytes sign_platform_attestation
  verify_platform_attestation
  by unfold_locales
    (auto simp: platform_payload_json_def platform_payload_bytes_def
      sign_platform_attestation_def verify_platform_attestation_def and_then_Inr)

lemma brand_record_Inr:
  "build_brand_attestation_record X b c t kid k = Inr r \<Longrightarrow>
    sign_brand_attestation X (build_brand_attestation_payload X b c t kid) k = Inr (at_signature r)
    \<and> at_asset_commitment_id r = trim c \<and> at_issuer_id r = trim b
    \<and> at_statement r = ''brand_issues_asset''"
  by (auto simp: build_brand_attestation_record_def and_then_Inr Let_def
      build_brand_attestation_payload_def)

lemma platform_record_Inr:
  "build_platform_attestation_record X b c t kid k = Inr r \<Longrightarrow>
    sign_platform_attestation X (build_platform_attestation_payload X b c t kid) k
      = Inr (at_signature r)
    \<and> at_asset_commitment_id r = trim c \<and> at_issuer_id r = trim b
    \<and> at_statement r = ''platform_accepts_asset''"
  by (auto simp: build_platform_attestation_record_def and_then_Inr Let_def
      build_platform_attestation_payload_def)

section \<open>Normal form of chip uids\<close>

lemma trim_normalize [simp]: "trim (normalize_uid s) = normalize_uid s"
  by (simp add: normalize_uid_def trim_fixed trimmed_upper trimmed_trim)

lemma normalize_uid_idem [simp]: "normalize_uid (normalize_uid s) = normalize_uid s"
  by (simp add: normalize_uid_def trim_fixed trimmed_upper trimmed_trim)
    (simp add: to_ascii_uppercase_def)

lemma commitment_payload_json_inject [simp]:
  "commitment_payload_json p = commitment_payload_json q \<longleftrightarrow> p = q"
  by (auto simp: commitment_payload_json_def word_uint_eq_iff
      intro: asset_commitment_payload.equality)

section \<open>Properties\<close>

text \<open>
  C27. A brand attestation that was issued verifies under the signing key for exactly the
  payload it was issued for: the same brand, commitment, time and key id. It never verifies as
  a platform attestation, even when both modules use the same secret key, because the canonical
  payloads have different members.
\<close>

theorem brand_attestation_binds:
  fixes X :: externs
  assumes "ed_ok X"
    and "build_brand_attestation_record X brand_id commitment_id t key_id k = Inr r"
  shows "(verify_brand_attestation X q (at_signature r) (x_ed_public X k) = Inr True
            \<longleftrightarrow> q = build_brand_attestation_payload X brand_id commitment_id t key_id)
       \<and> verify_platform_attestation X q (at_signature r) (x_ed_public X k) \<noteq> Inr True"
proof -
  let ?p = "build_brand_attestation_payload X brand_id commitment_id t key_id"
  have signed: "sign_brand_attestation X ?p k = Inr (at_signature r)"
    using brand_record_Inr [OF assms(2)] by simp
  then obtain m where "x_json_bytes X (brand_payload_json ?p) = Inr m"
    and "at_signature r = x_hex_encode X (x_ed_sign X k m)"
    by (auto simp: brand_scheme.sign_Inr brand_scheme.bytes_Inr)
  moreover have "\<forall>p. platform_payload_json p \<noteq> brand_payload_json ?p"
    by (simp add: platform_payload_json_def brand_payload_json_def)
  ultimately show ?thesis
    using brand_scheme.verifies_iff [OF assms(1) signed]
      platform_scheme.foreign_signature_rejected [OF assms(1)] by metis
qed

text \<open>
  C28. A commitment id identifies its payload: two payloads with the same id are equal, version,
  brand, uid, chip binding, epoch and metadata hash, unless their serialisations are an explicit
  SHA-256 collision. And the payload depends on the uid only up to surrounding white space and
  ASCII case.
\<close>

theorem commitment_id_identifies:
  assumes "ed_ok X"
    and "compute_asset_commitment_id X p = Inr h" and "compute_asset_commitment_id X q = Inr h"
  shows "(p = q \<or>
          (\<exists>a b. x_json_bytes X (commitment_payload_json p) = Inr a
             \<and> x_json_bytes X (commitment_payload_json q) = Inr b
             \<and> a \<noteq> b \<and> x_sha256 X a = x_sha256 X b))
       \<and> build_asset_commitment_payload X brand_id (normalize_uid uid) epoch mh
           = build_asset_commitment_payload X brand_id uid epoch mh"
proof -
  obtain a b where a: "x_json_bytes X (commitment_payload_json p) = Inr a"
    and b: "x_json_bytes X (commitment_payload_json q) = Inr b"
    and same: "x_hex_encode X (x_sha256 X a) = x_hex_encode X (x_sha256 X b)"
    using assms(2,3) by (auto simp: compute_asset_commitment_id_def and_then_Inr hex_sha256_def)
  from assms(1) same have "x_sha256 X a = x_sha256 X b"
    unfolding ed_ok_def by (metis sum.inject(2))
  moreover have "p = q" if "a = b"
    using assms(1) a b that commitment_payload_json_inject unfolding ed_ok_def by metis
  ultimately show ?thesis
    using a b by (auto simp: build_asset_commitment_payload_def Let_def)
qed

section \<open>Witnesses\<close>

text \<open>A concrete instance of the parameters: codecs are the identity on bytes.\<close>

instance json :: countable
  by countable_datatype

definition demo_externs :: externs where
  "demo_externs = crypto.extend demo_crypto
     (externs.fields (\<lambda>n. replicate 26 CHR ''0'') of_nat (\<lambda>n. replicate 12 CHR ''n'')
       (\<lambda>n. replicate 16 (of_nat n)) (\<lambda>s. None) (\<lambda>u. [])
       (map (\<lambda>b. char_of (unat b))) (\<lambda>s. Inr (as_bytes s))
       (\<lambda>j. Inr (replicate (to_nat j) 0)) (\<lambda>t. [])
       (\<lambda>k m. k @ m) id Inr (\<lambda>k m s. s = k @ m) id id)"

lemma as_bytes_of_bytes [simp]: "as_bytes (map (\<lambda>b. char_of (unat b)) bs) = bs"
proof -
  have "of_char (char_of (unat b)) = b" for b :: u8
  proof -
    have "unat (of_char (char_of (unat b)) :: u8) = unat b"
      using unat_u8_less [of b] by (simp only: unat_of_char of_char_of) simp
    then show ?thesis by (simp only: word_unat_eq_iff)
  qed
  then show ?thesis by (simp add: as_bytes_def comp_def)
qed

lemma demo_ed_ok: "ed_ok demo_externs"
  by (auto simp: ed_ok_def demo_externs_def crypto.defs externs.defs replicate_eq_replicate)

theorem brand_attestation_binds_witness:
  "verify_brand_attestation demo_externs
     (build_brand_attestation_payload demo_externs ''brand_1'' ''c1'' 7 ''k'')
     (at_signature (projr
       (build_brand_attestation_record demo_externs ''brand_1'' ''c1'' 7 ''k'' [1, 2])))
     (x_ed_public demo_externs [1, 2]) = Inr True"
proof -
  obtain r where r: "build_brand_attestation_record demo_externs ''brand_1'' ''c1'' 7 ''k'' [1, 2] = Inr r"
    by (simp add: build_brand_attestation_record_def Let_def sign_brand_attestation_def
        brand_payload_bytes_def demo_externs_def crypto.defs externs.defs)
  show ?thesis
    using brand_attestation_binds [OF demo_ed_ok r] by (simp add: r)
qed

definition demo_commitment :: asset_commitment_payload where
  "demo_commitment = build_asset_commitment_payload demo_externs ''brand_1'' ''04a1'' 2 ''mh''"

theorem commitment_id_identifies_witness:
  "build_asset_commitment_payload demo_externs ''b'' (normalize_uid '' 04a1 '') 1 ''mh''
     = build_asset_commitment_payload demo_externs ''b'' '' 04a1 '' 1 ''mh''"
proof -
  obtain h where h: "compute_asset_commitment_id demo_externs demo_commitment = Inr h"
    by (simp add: compute_asset_commitment_id_def demo_externs_def crypto.defs externs.defs)
  show ?thesis
    using commitment_id_identifies [OF demo_ed_ok h h] by simp
qed

end
