(* ===== verification/Db_Assets.thy ===== *)
theory Db_Assets
  imports Attestation Asset_Core
begin

text \<open>
  \<^verbatim>\<open>db/mod.rs\<close> and the tables around an asset: \<^verbatim>\<open>db/assets.rs\<close>,
  \<^verbatim>\<open>asset_commitments.rs\<close>, \<^verbatim>\<open>brand_attestations.rs\<close>,
  \<^verbatim>\<open>platform_attestations.rs\<close>, \<^verbatim>\<open>authority_devices.rs\<close> and
  \<^verbatim>\<open>entanglements.rs\<close>, statement by statement with the constraints of the migrations.
\<close>

section \<open>\<^verbatim>\<open>mod.rs\<close>: loading an asset and writing an action\<close>

record idempotency_record =
  id_request_hash :: string
  id_response_snapshot :: json

record verify_asset_view =
  vv_asset_id :: string
  vv_brand_id :: string
  vv_product_id :: "string option"
  vv_uid :: "string option"
  vv_current_state :: string
  vv_previous_state :: "string option"
  vv_event_count :: nat

definition asset_with_id :: "string \<Rightarrow> asset_row \<Rightarrow> bool" where
  "asset_with_id asset_id a \<longleftrightarrow> as_asset_id a = asset_id"

definition decode_asset :: "asset_row \<Rightarrow> rc_error + asset_record" where
  "decode_asset row =
     and_then
       (case as_previous_state row of
          None \<Rightarrow> Inr None
        | Some value \<Rightarrow>
            (case from_db_str value of
               None \<Rightarrow> Inl (Database (''unknown previous_state: '' @ value))
             | Some s \<Rightarrow> Inr (Some s))) (\<lambda>previous_state.
     and_then
       (ok_or (Database (''unknown current_state: '' @ as_current_state row))
         (from_db_str (as_current_state row))) (\<lambda>current_state.
     Inr \<lparr>ar_asset_id = as_asset_id row, ar_brand_id = as_brand_id row,
          ar_current_state = current_state, ar_previous_state = previous_state\<rparr>))"

definition fetch_asset :: "string \<Rightarrow> asset_record op" where
  "fetch_asset asset_id =
     try_bind (fetch_first (asset_with_id asset_id) db_assets) (\<lambda>r.
     try_bind (required AssetNotFound r) (\<lambda>row. lift (decode_asset row)))"

definition fetch_verify_view :: "string \<Rightarrow> verify_asset_view op" where
  "fetch_verify_view asset_id =
     try_bind
       (select_rows (\<lambda>d. map_option
          (\<lambda>a. \<lparr>vv_asset_id = as_asset_id a, vv_brand_id = as_brand_id a,
               vv_product_id = as_product_id a, vv_uid = as_uid a,
               vv_current_state = as_current_state a, vv_previous_state = as_previous_state a,
               vv_event_count = length (filter (\<lambda>e. se_asset_id e = asset_id) (db_events d))\<rparr>)
          (find (asset_with_id asset_id) (db_assets d))))
       (required AssetNotFound)"

definition load_idempotency_record :: "string \<Rightarrow> idempotency_record option op" where
  "load_idempotency_record idempotency_key =
     try_bind (fetch_first (\<lambda>r. ir_idempotency_key r = idempotency_key) db_idempotency) (\<lambda>row.
     ret (map_option (\<lambda>r. \<lparr>id_request_hash = ir_request_hash r,
                          id_response_snapshot = ir_response_snapshot r\<rparr>) row))"

definition update_asset :: "string \<Rightarrow> (asset_row \<Rightarrow> asset_row) \<Rightarrow> database \<Rightarrow> database" where
  "update_asset asset_id f d =
     d\<lparr>db_assets := update_rows (asset_with_id asset_id) f (db_assets d)\<rparr>"

definition asset_exists :: "string \<Rightarrow> database \<Rightarrow> bool" where
  "asset_exists asset_id d \<longleftrightarrow> list_ex (asset_with_id asset_id) (db_assets d)"

definition event_row :: "audit_event \<Rightarrow> string option \<Rightarrow> time \<Rightarrow> state_event_row" where
  "event_row ev asset_commitment_id now =
     (let c = ae_context ev
      in \<lparr>se_event_id = ae_event_id ev, se_asset_id = ae_asset_id ev,
          se_action = action_db_str (ae_action ev),
          se_from_state = map_option as_db_str (ae_from_state ev),
          se_to_state = as_db_str (ae_to_state ev), se_trace_id = ac_trace_id c,
          se_actor_id = ac_actor_id c, se_actor_role = role_db_str (ac_actor_role c),
          se_actor_org = ac_actor_org c, se_idempotency_key = ac_idempotency_key c,
          se_approval_id = ac_approval_id c, se_policy_version = ac_policy_version c,
          se_asset_commitment_id = asset_commitment_id, se_occurred_at = now\<rparr>)"

definition insert_idempotency ::
  "string \<Rightarrow> string \<Rightarrow> string \<Rightarrow> string \<Rightarrow> json \<Rightarrow> database \<Rightarrow> database" where
  "insert_idempotency key rtype rid rhash snapshot d =
     (if list_ex (\<lambda>r. ir_idempotency_key r = key \<and> ir_resource_type r = rtype) (db_idempotency d)
      then d
      else d\<lparr>db_idempotency := db_idempotency d @
             [\<lparr>ir_idempotency_key = key, ir_resource_type = rtype, ir_resource_id = rid,
               ir_request_hash = rhash, ir_response_snapshot = snapshot\<rparr>]\<rparr>)"

definition insert_event :: "('z externs_scheme) \<Rightarrow> state_event_row \<Rightarrow> unit op" where
  "insert_event X e =
     sql (constrained
       [(\<lambda>d. list_ex (\<lambda>x. se_event_id x = se_event_id e) (db_events d),
         UniqueViolation (x_pg_message X ''asset_state_events_pkey'')),
        (\<lambda>d. \<not> asset_exists (se_asset_id e) d,
         SqlError (x_pg_message X ''asset_state_events_asset_id_fkey''))]
       (\<lambda>d. d\<lparr>db_events := db_events d @ [e]\<rparr>))"

definition persist_action ::
  "('z externs_scheme) \<Rightarrow> asset_record \<Rightarrow> audit_event \<Rightarrow> string \<Rightarrow> json \<Rightarrow> string option
    \<Rightarrow> unit op" where
  "persist_action X next_record audit_event request_hash response_snapshot asset_commitment_id =
     try_bind utc_now (\<lambda>now.
     let aid = ar_asset_id next_record
     in transaction
       (try_bind
          (if ae_action audit_event \<in> {Transfer, Consume, LegacyAction}
           then try_bind (fetch_first (asset_with_id aid) db_assets) (\<lambda>_. ret ())
           else ret ()) (\<lambda>_.
        try_bind
          (execute_sql (update_asset aid (\<lambda>a. a\<lparr>
             as_current_state := as_db_str (ar_current_state next_record),
             as_previous_state := map_option as_db_str (ar_previous_state next_record),
             as_updated_at := now\<rparr>))) (\<lambda>_.
        try_bind
          (case ae_action audit_event of
             LegalSell \<Rightarrow>
               try_bind (expect (ac_buyer_id (ae_context audit_event))) (\<lambda>buyer.
               execute_sql (update_asset aid (\<lambda>a. a\<lparr>as_owner_id := Some buyer\<rparr>)))
           | Transfer \<Rightarrow>
               execute_sql (update_asset aid
                 (\<lambda>a. a\<lparr>as_owner_id := Some (ac_actor_id (ae_context audit_event))\<rparr>))
           | Consume \<Rightarrow> execute_sql (update_asset aid (\<lambda>a. a\<lparr>as_owner_id := None\<rparr>))
           | LegacyAction \<Rightarrow> execute_sql (update_asset aid (\<lambda>a. a\<lparr>as_owner_id := None\<rparr>))
           | _ \<Rightarrow> ret ()) (\<lambda>_.
        try_bind (insert_event X (event_row audit_event asset_commitment_id now)) (\<lambda>_.
        execute_sql
          (insert_idempotency (ac_idempotency_key (ae_context audit_event)) ''asset_action''
             (ae_asset_id audit_event) request_hash response_snapshot)))))))"

section \<open>\<^verbatim>\<open>asset_commitments.rs\<close>\<close>

definition brand_exists :: "string \<Rightarrow> database \<Rightarrow> bool" where
  "brand_exists brand_id d \<longleftrightarrow> list_ex (\<lambda>b. br_brand_id b = brand_id) (db_brands d)"

definition insert_asset_commitment ::
  "('z externs_scheme) \<Rightarrow> asset_commitment_record \<Rightarrow> unit op" where
  "insert_asset_commitment X record =
     try_bind utc_now (\<lambda>now.
     sql (\<lambda>d.
       if list_ex (\<lambda>c. cm_commitment_id c = cm_commitment_id record) (db_commitments d)
       then Inr ((), d)
       else constrained
         [(\<lambda>d. \<not> brand_exists (cm_brand_id record) d,
           SqlError (x_pg_message X ''asset_commitments_brand_id_fkey''))]
         (\<lambda>d. d\<lparr>db_commitments := db_commitments d @ [record\<lparr>cm_created_at := now\<rparr>]\<rparr>) d))"

definition fetch_asset_commitment_by_id :: "string \<Rightarrow> asset_commitment_record op" where
  "fetch_asset_commitment_by_id commitment_id =
     try_bind (fetch_first (\<lambda>c. cm_commitment_id c = commitment_id) db_commitments)
       (required (NotFound (''asset commitment not found: '' @ commitment_id)))"

definition fetch_asset_commitment_by_uid_epoch ::
  "string \<Rightarrow> i32 \<Rightarrow> asset_commitment_record option op" where
  "fetch_asset_commitment_by_uid_epoch asset_uid epoch =
     select_rows (\<lambda>d. first_of (order_desc cm_created_at
       (filter (\<lambda>c. cm_asset_uid c = asset_uid \<and> cm_epoch c = epoch) (db_commitments d))))"

definition bind_asset_commitment_to_asset :: "string \<Rightarrow> string \<Rightarrow> unit op" where
  "bind_asset_commitment_to_asset asset_id commitment_id =
     try_bind utc_now (\<lambda>now.
     execute_sql (update_asset asset_id
       (\<lambda>a. a\<lparr>as_asset_commitment_id := Some commitment_id, as_updated_at := now\<rparr>)))"

section \<open>\<^verbatim>\<open>brand_attestations.rs\<close> and \<^verbatim>\<open>platform_attestations.rs\<close>\<close>

text \<open>
  \<open>same_claim\<close> is the unique pair of columns; \<^verbatim>\<open>created_at\<close> is the time of insertion, so
  the newest row is the last one.
\<close>

definition same_claim :: "attestation_record \<Rightarrow> attestation_record \<Rightarrow> bool" where
  "same_claim a b \<longleftrightarrow> at_asset_commitment_id a = at_asset_commitment_id b
     \<and> at_statement a = at_statement b"

definition insert_brand_attestation :: "('z externs_scheme) \<Rightarrow> attestation_record \<Rightarrow> unit op" where
  "insert_brand_attestation X record =
     sql (\<lambda>d.
       if list_ex (same_claim record) (db_brand_attestations d) then Inr ((), d)
       else constrained
         [(\<lambda>d. list_ex (\<lambda>a. at_attestation_id a = at_attestation_id record)
                 (db_brand_attestations d),
           UniqueViolation (x_pg_message X ''brand_attestations_pkey'')),
          (\<lambda>d. \<not> brand_exists (at_issuer_id record) d,
           SqlError (x_pg_message X ''brand_attestations_brand_id_fkey''))]
         (\<lambda>d. d\<lparr>db_brand_attestations := db_brand_attestations d @ [record]\<rparr>) d)"

definition fetch_brand_attestation_by_commitment :: "string \<Rightarrow> attestation_record option op" where
  "fetch_brand_attestation_by_commitment asset_commitment_id =
     select_rows (\<lambda>d. first_of (rev
       (filter (\<lambda>a. at_asset_commitment_id a = asset_commitment_id) (db_brand_attestations d))))"

definition fetch_brand_attestation_by_id :: "string \<Rightarrow> attestation_record op" where
  "fetch_brand_attestation_by_id attestation_id =
     try_bind (fetch_first (\<lambda>a. at_attestation_id a = attestation_id) db_brand_attestations)
       (required (NotFound (''brand attestation not found: '' @ attestation_id)))"

definition insert_platform_attestation ::
  "('z externs_scheme) \<Rightarrow> attestation_record \<Rightarrow> unit op" where
  "insert_platform_attestation X record =
     sql (\<lambda>d.
       if list_ex (same_claim record) (db_platform_attestations d) then Inr ((), d)
       else constrained
         [(\<lambda>d. list_ex (\<lambda>a. at_attestation_id a = at_attestation_id record)
                 (db_platform_attestations d),
           UniqueViolation (x_pg_message X ''platform_attestations_pkey''))]
         (\<lambda>d. d\<lparr>db_platform_attestations := db_platform_attestations d @ [record]\<rparr>) d)"

definition fetch_platform_attestation_by_commitment ::
  "string \<Rightarrow> attestation_record option op" where
  "fetch_platform_attestation_by_commitment asset_commitment_id =
     select_rows (\<lambda>d. first_of (rev
       (filter (\<lambda>a. at_asset_commitment_id a = asset_commitment_id) (db_platform_attestations d))))"

definition fetch_platform_attestation_by_id :: "string \<Rightarrow> attestation_record op" where
  "fetch_platform_attestation_by_id attestation_id =
     try_bind (fetch_first (\<lambda>a. at_attestation_id a = attestation_id) db_platform_attestations)
       (required (NotFound (''platform attestation not found: '' @ attestation_id)))"

section \<open>\<^verbatim>\<open>authority_devices.rs\<close> and \<^verbatim>\<open>entanglements.rs\<close>\<close>

definition authority_types :: "string list" where
  "authority_types = [''PHYSICAL_NFC'', ''VIRTUAL_QR'', ''VIRTUAL_APP'', ''VIRTUAL_BIOMETRIC'']"

definition insert_authority_device ::
  "('z externs_scheme) \<Rightarrow> string \<Rightarrow> string \<Rightarrow> string \<Rightarrow> i32 \<Rightarrow> string option \<Rightarrow> string option
    \<Rightarrow> string option \<Rightarrow> uuid op" where
  "insert_authority_device X authority_uid authority_type brand_id key_epoch
     virtual_credential_hash bound_user_id created_by =
     try_bind (draw (x_uuid X)) (\<lambda>authority_id.
     try_bind (sql (constrained
       [(\<lambda>d. authority_type \<notin> set authority_types,
         SqlError (x_pg_message X ''chk_authority_type'')),
        (\<lambda>d. list_ex (\<lambda>a. ad_authority_id a = authority_id) (db_devices d),
         UniqueViolation (x_pg_message X ''authority_devices_pkey'')),
        (\<lambda>d. list_ex (\<lambda>a. ad_authority_uid a = authority_uid) (db_devices d),
         UniqueViolation (x_pg_message X ''authority_devices_authority_uid_key'')),
        (\<lambda>d. \<not> brand_exists brand_id d,
         SqlError (x_pg_message X ''authority_devices_brand_id_fkey''))]
       (\<lambda>d. d\<lparr>db_devices := db_devices d @
          [\<lparr>ad_authority_id = authority_id, ad_authority_uid = authority_uid,
            ad_authority_type = authority_type, ad_brand_id = brand_id, ad_status = ''Active'',
            ad_key_epoch = key_epoch, ad_virtual_credential_hash = virtual_credential_hash,
            ad_bound_user_id = bound_user_id, ad_physical_chip_uid = None,
            ad_last_known_ctr = None, ad_created_by = created_by\<rparr>]\<rparr>))) (\<lambda>_.
     ret authority_id))"

definition active_entanglement :: "string \<Rightarrow> entanglement_row \<Rightarrow> bool" where
  "active_entanglement asset_id e \<longleftrightarrow>
     en_asset_id e = asset_id \<and> en_entanglement_state e = ''Active''"

text \<open>The rows of the inner join of devices and active entanglements of an asset.\<close>

definition bound_devices ::
  "string \<Rightarrow> database \<Rightarrow> (authority_device_row \<times> entanglement_row) list" where
  "bound_devices asset_id d =
     [(a, e). a \<leftarrow> db_devices d, e \<leftarrow> db_entanglements d,
        en_authority_id e = ad_authority_id a \<and> active_entanglement asset_id e]"

definition fetch_authority_device_by_asset :: "string \<Rightarrow> authority_device_row op" where
  "fetch_authority_device_by_asset asset_id =
     try_bind (select_rows (\<lambda>d. first_of (bound_devices asset_id d))) (\<lambda>row.
     try_bind (required AssetNotFound row) (\<lambda>r. ret (fst r)))"

text \<open>\<open>last_known_ctr < $1\<close> compares signed integers.\<close>

definition ctr_advances :: "i32 \<Rightarrow> i32 option \<Rightarrow> bool" where
  "ctr_advances new_ctr old = (case old of None \<Rightarrow> True | Some c \<Rightarrow> sint c < sint new_ctr)"

definition atomic_update_ctr :: "uuid \<Rightarrow> i32 \<Rightarrow> bool op" where
  "atomic_update_ctr authority_id new_ctr =
     sql (\<lambda>d.
       let hit = (\<lambda>a. ad_authority_id a = authority_id \<and> ctr_advances new_ctr (ad_last_known_ctr a))
       in Inr (list_ex hit (db_devices d),
               d\<lparr>db_devices := update_rows hit
                  (\<lambda>a. a\<lparr>ad_last_known_ctr := Some new_ctr\<rparr>) (db_devices d)\<rparr>))"

definition insert_entanglement ::
  "('z externs_scheme) \<Rightarrow> string \<Rightarrow> string \<Rightarrow> uuid \<Rightarrow> string \<Rightarrow> string \<Rightarrow> uuid op" where
  "insert_entanglement X asset_id child_uid authority_id authority_uid bound_by =
     try_bind (draw (x_uuid X)) (\<lambda>entanglement_id.
     try_bind utc_now (\<lambda>now.
     try_bind (sql (constrained
       [(\<lambda>d. list_ex (\<lambda>e. en_entanglement_id e = entanglement_id) (db_entanglements d),
         UniqueViolation (x_pg_message X ''asset_entanglements_pkey'')),
        (\<lambda>d. list_ex (active_entanglement asset_id) (db_entanglements d),
         UniqueViolation (x_pg_message X ''uq_entanglement_active'')),
        (\<lambda>d. \<not> asset_exists asset_id d,
         SqlError (x_pg_message X ''asset_entanglements_asset_id_fkey'')),
        (\<lambda>d. \<not> list_ex (\<lambda>a. ad_authority_id a = authority_id) (db_devices d),
         SqlError (x_pg_message X ''asset_entanglements_authority_id_fkey''))]
       (\<lambda>d. d\<lparr>db_entanglements := db_entanglements d @
          [\<lparr>en_entanglement_id = entanglement_id, en_asset_id = asset_id, en_child_uid = child_uid,
            en_authority_id = authority_id, en_authority_uid = authority_uid,
            en_entanglement_state = ''Active'', en_bound_by = bound_by,
            en_created_at = now\<rparr>]\<rparr>))) (\<lambda>_.
     ret entanglement_id)))"

definition fetch_active_entanglement :: "string \<Rightarrow> entanglement_row option op" where
  "fetch_active_entanglement asset_id = fetch_first (active_entanglement asset_id) db_entanglements"

end
