(* ===== verification/Persistence.thy ===== *)
theory Persistence
  imports Db_Assets
begin

text \<open>
  What \<open>persist_action\<close> does to the database, as one function: either all of it or nothing,
  whichever statements fail.
\<close>

section \<open>Specification\<close>

definition owner_after :: "audit_event \<Rightarrow> asset_row \<Rightarrow> asset_row" where
  "owner_after ev =
     (case ae_action ev of
        LegalSell \<Rightarrow> (\<lambda>a. a\<lparr>as_owner_id := ac_buyer_id (ae_context ev)\<rparr>)
      | Transfer \<Rightarrow> (\<lambda>a. a\<lparr>as_owner_id := Some (ac_actor_id (ae_context ev))\<rparr>)
      | Consume \<Rightarrow> (\<lambda>a. a\<lparr>as_owner_id := None\<rparr>)
      | LegacyAction \<Rightarrow> (\<lambda>a. a\<lparr>as_owner_id := None\<rparr>)
      | _ \<Rightarrow> (\<lambda>a. a))"

text \<open>The owner an action by \<open>who\<close>, for \<open>buyer\<close>, leaves.\<close>

definition owner_new ::
  "asset_action \<Rightarrow> string \<Rightarrow> string option \<Rightarrow> string option \<Rightarrow> string option" where
  "owner_new action who buyer owner =
     (case action of
        LegalSell \<Rightarrow> buyer | Transfer \<Rightarrow> Some who | Consume \<Rightarrow> None | LegacyAction \<Rightarrow> None | _ \<Rightarrow> owner)"

definition state_after :: "asset_record \<Rightarrow> time \<Rightarrow> asset_row \<Rightarrow> asset_row" where
  "state_after r now a =
     a\<lparr>as_current_state := as_db_str (ar_current_state r),
       as_previous_state := map_option as_db_str (ar_previous_state r), as_updated_at := now\<rparr>"

definition append_event :: "state_event_row \<Rightarrow> database \<Rightarrow> database" where
  "append_event e d = d\<lparr>db_events := db_events d @ [e]\<rparr>"

definition persist_effect ::
  "asset_record \<Rightarrow> audit_event \<Rightarrow> string \<Rightarrow> json \<Rightarrow> string option \<Rightarrow> time \<Rightarrow> database \<Rightarrow> database" where
  "persist_effect r ev rhash snapshot cid now d =
     insert_idempotency (ac_idempotency_key (ae_context ev)) ''asset_action'' (ae_asset_id ev)
       rhash snapshot
       (append_event (event_row ev cid now)
         (update_asset (ar_asset_id r) (\<lambda>a. owner_after ev (state_after r now a)) d))"

section \<open>Transactions\<close>

lemma execute_id_db: "execute_sql id w = (x, w') \<Longrightarrow> w_db w' = w_db w"
  using sql_Inl_db by (cases x) (auto simp: execute_sql_def sql_Inr)

lemma transaction_Inl: "transaction m w = (Inl e, w') \<Longrightarrow> w_db w' = w_db w"
  using execute_id_db by (auto simp: transaction_def split: prod.splits sum.splits)

lemma transaction_Inr:
  assumes "transaction m w = (Inr x, w')"
  shows "\<exists>w1. m (w\<lparr>w_faults := tl (w_faults w)\<rparr>) = (Inr x, w1) \<and> w_db w' = w_db w1"
  using assms execute_id_db
  by (auto simp: transaction_def execute_Inr split: prod.splits sum.splits)

section \<open>The two outcomes\<close>

lemma event_row_simps [simp]:
  "se_event_id (event_row ev cid now) = ae_event_id ev"
  "se_asset_id (event_row ev cid now) = ae_asset_id ev"
  "se_from_state (event_row ev cid now) = map_option as_db_str (ae_from_state ev)"
  "se_to_state (event_row ev cid now) = as_db_str (ae_to_state ev)"
  by (simp_all add: event_row_def Let_def)

lemma update_rows_twice:
  "(\<And>a. p (f a) = p a) \<Longrightarrow>
    update_rows p g (update_rows p f rs) = update_rows p (\<lambda>a. g (f a)) rs"
  by (simp add: update_rows_def)

lemma update_asset_twice:
  "(\<And>a. as_asset_id (f a) = as_asset_id a) \<Longrightarrow>
    update_asset aid g (update_asset aid f d) = update_asset aid (\<lambda>a. g (f a)) d"
  by (simp add: update_asset_def update_rows_twice asset_with_id_def)

lemma update_rows_id [simp]: "update_rows p (\<lambda>a. a) rs = rs"
  by (simp add: update_rows_def)

lemma update_asset_id [simp]: "update_asset aid (\<lambda>a. a) d = d"
  by (simp add: update_asset_def)

lemma asset_exists_update [simp]:
  "(\<And>a. as_asset_id (f a) = as_asset_id a) \<Longrightarrow>
    asset_exists i (update_asset aid f d) = asset_exists i d"
  by (auto simp: asset_exists_def update_asset_def update_rows_def asset_with_id_def list_ex_iff)

lemma insert_event_Inr:
  "insert_event X e w = (Inr u, w') \<Longrightarrow>
    asset_exists (se_asset_id e) (w_db w)
    \<and> se_event_id e \<notin> se_event_id ` set (db_events (w_db w))
    \<and> w_db w' = append_event e (w_db w) \<and> w_now w' = w_now w"
  by (auto simp: insert_event_def sql_Inr constrained_def append_event_def list_ex_iff
      split: option.splits if_splits)

lemma state_after_id [simp]: "as_asset_id (state_after r now a) = as_asset_id a"
  by (simp add: state_after_def)

lemma owner_after_id [simp]: "as_asset_id (owner_after ev a) = as_asset_id a"
  by (simp add: owner_after_def split: asset_action.split)

lemma owner_after_owner:
  "as_owner_id (owner_after ev a) =
    owner_new (ae_action ev) (ac_actor_id (ae_context ev)) (ac_buyer_id (ae_context ev)) (as_owner_id a)"
  by (simp add: owner_after_def owner_new_def split: asset_action.split)

lemma owner_step_Inr:
  assumes "(case ae_action ev of
             LegalSell \<Rightarrow>
               try_bind (expect (ac_buyer_id (ae_context ev))) (\<lambda>buyer.
               execute_sql (update_asset aid (\<lambda>a. a\<lparr>as_owner_id := Some buyer\<rparr>)))
           | Transfer \<Rightarrow>
               execute_sql (update_asset aid
                 (\<lambda>a. a\<lparr>as_owner_id := Some (ac_actor_id (ae_context ev))\<rparr>))
           | Consume \<Rightarrow> execute_sql (update_asset aid (\<lambda>a. a\<lparr>as_owner_id := None\<rparr>))
           | LegacyAction \<Rightarrow> execute_sql (update_asset aid (\<lambda>a. a\<lparr>as_owner_id := None\<rparr>))
           | _ \<Rightarrow> ret ()) w = (Inr u, w')"
  shows "w_db w' = update_asset aid (owner_after ev) (w_db w) \<and> w_now w' = w_now w
    \<and> (ae_action ev = LegalSell \<longrightarrow> ac_buyer_id (ae_context ev) \<noteq> None)"
  using assms by (cases "ae_action ev") (auto simp: run_inv owner_after_def)

theorem persist_action_Inl:
  "persist_action X r ev rhash snapshot cid w = (Inl e, w') \<Longrightarrow> w_db w' = w_db w"
  by (auto simp: persist_action_def try_bind_Inl utc_now_def act_simps Let_def
      dest: transaction_Inl)

theorem persist_action_Inr:
  assumes "persist_action X r ev rhash snapshot cid w = (Inr u, w')"
  shows "w_db w' = persist_effect r ev rhash snapshot cid (w_now w) (w_db w)
    \<and> asset_exists (ae_asset_id ev) (w_db w)
    \<and> ae_event_id ev \<notin> se_event_id ` set (db_events (w_db w))"
proof -
  let ?aid = "ar_asset_id r"
  let ?w0 = "w\<lparr>w_faults := tl (w_faults w)\<rparr>"
  from assms obtain w1 w2 w3 w4 w5 u1 u2 u3 where
    w1: "(if ae_action ev \<in> {Transfer, Consume, LegacyAction}
          then try_bind (fetch_first (asset_with_id ?aid) db_assets) (\<lambda>_. ret ())
          else ret ()) ?w0 = (Inr u1, w1)"
    and w2: "execute_sql (update_asset ?aid (state_after r (w_now w))) w1 = (Inr u2, w2)"
    and w3: "(case ae_action ev of
             LegalSell \<Rightarrow>
               try_bind (expect (ac_buyer_id (ae_context ev))) (\<lambda>buyer.
               execute_sql (update_asset ?aid (\<lambda>a. a\<lparr>as_owner_id := Some buyer\<rparr>)))
           | Transfer \<Rightarrow>
               execute_sql (update_asset ?aid
                 (\<lambda>a. a\<lparr>as_owner_id := Some (ac_actor_id (ae_context ev))\<rparr>))
           | Consume \<Rightarrow> execute_sql (update_asset ?aid (\<lambda>a. a\<lparr>as_owner_id := None\<rparr>))
           | LegacyAction \<Rightarrow> execute_sql (update_asset ?aid (\<lambda>a. a\<lparr>as_owner_id := None\<rparr>))
           | _ \<Rightarrow> ret ()) w2 = (Inr u3, w3)"
    and w4: "insert_event X (event_row ev cid (w_now w)) w3 = (Inr (), w4)"
    and w5: "execute_sql (insert_idempotency (ac_idempotency_key (ae_context ev)) ''asset_action''
               (ae_asset_id ev) rhash snapshot) w4 = (Inr u, w5)"
    and w': "w_db w' = w_db w5"
    unfolding persist_action_def state_after_def
    by (auto simp: try_bind_Inr utc_now_def act_simps Let_def dest!: transaction_Inr)
  have d1: "w_db w1 = w_db w" using w1 by (auto simp: run_inv split: if_splits)
  have d2: "w_db w2 = update_asset ?aid (state_after r (w_now w)) (w_db w)"
    using w2 d1 by (auto simp: run_inv)
  have d3: "w_db w3 = update_asset ?aid (\<lambda>a. owner_after ev (state_after r (w_now w) a)) (w_db w)"
    using owner_step_Inr [OF w3] by (simp add: d2 update_asset_twice)
  note event = insert_event_Inr [OF w4]
  have "w_db w5 = persist_effect r ev rhash snapshot cid (w_now w) (w_db w)"
    using w5 event by (auto simp: persist_effect_def d3 run_inv)
  moreover have "asset_exists (ae_asset_id ev) (w_db w)"
    using event by (simp add: d3)
  moreover have "db_events (w_db w3) = db_events (w_db w)"
    by (simp add: d3 update_asset_def)
  ultimately show ?thesis using w' event by simp
qed

lemma persist_effect_simps [simp]:
  "db_assets (persist_effect r ev h s cid now d) =
    update_rows (asset_with_id (ar_asset_id r)) (\<lambda>a. owner_after ev (state_after r now a)) (db_assets d)"
  "db_events (persist_effect r ev h s cid now d) = db_events d @ [event_row ev cid now]"
  "db_devices (persist_effect r ev h s cid now d) = db_devices d"
  "db_entanglements (persist_effect r ev h s cid now d) = db_entanglements d"
  by (simp_all add: persist_effect_def insert_idempotency_def append_event_def update_asset_def)

end
