(* ===== verification/Asset_Queries.thy ===== *)
theory Asset_Queries
  imports Db_Assets
begin

text \<open>
  \<^verbatim>\<open>db/assets.rs\<close>: the reads behind the asset endpoints and verification, and the
  counter update. A column read as \<^verbatim>\<open>String\<close> whose value is \<^verbatim>\<open>NULL\<close> is a panic.
\<close>

record asset_verify_row =
  av_asset_id :: string
  av_brand_id :: string
  av_product_id :: "string option"
  av_uid :: string
  av_current_state :: string
  av_last_verified_ctr :: "i32 option"
  av_epoch :: i32
  av_asset_commitment_id :: "string option"

record virtual_mother_card_detail =
  vm_authority_uid :: string
  vm_authority_type :: string
  vm_credential_hash :: "string option"
  vm_epoch :: i32

record asset_detail =
  de_asset_id :: string
  de_uid :: string
  de_brand_id :: string
  de_batch_id :: "string option"
  de_external_product_id :: "string option"
  de_external_product_name :: "string option"
  de_external_product_url :: "string option"
  de_asset_commitment_id :: "string option"
  de_asset_commitment_payload :: "json option"
  de_brand_attestation_status :: "string option"
  de_platform_attestation_status :: "string option"
  de_current_state :: string
  de_previous_state :: "string option"
  de_owner_id :: "string option"
  de_key_epoch :: i32
  de_activated_at :: "time option"
  de_sold_at :: "time option"
  de_created_at :: time
  de_updated_at :: time
  de_virtual_mother_card :: "virtual_mother_card_detail option"

record asset_state_event =
  ev_event_id :: string
  ev_asset_id :: string
  ev_action :: string
  ev_from_state :: "string option"
  ev_to_state :: string
  ev_actor_id :: string
  ev_actor_role :: string
  ev_trace_id :: "string option"
  ev_occurred_at :: time

definition attestation_status_from_count :: "nat \<Rightarrow> string option" where
  "attestation_status_from_count count = (if count > 0 then Some ''issued'' else None)"

definition fetch_asset_commitment_payload :: "string option \<Rightarrow> json option op" where
  "fetch_asset_commitment_payload commitment_id =
     (case commitment_id of
        None \<Rightarrow> ret None
      | Some c \<Rightarrow>
          try_bind (fetch_first (\<lambda>r. cm_commitment_id r = c) db_commitments)
            (\<lambda>r. ret (map_option cm_canonical_payload r)))"

definition fetch_asset_by_uid :: "string \<Rightarrow> asset_verify_row op" where
  "fetch_asset_by_uid uid =
     try_bind (fetch_first (\<lambda>a. as_uid a = Some uid) db_assets) (\<lambda>r.
     try_bind (required AssetNotFound r) (\<lambda>row.
     try_bind (expect (as_uid row)) (\<lambda>u.
     ret \<lparr>av_asset_id = as_asset_id row, av_brand_id = as_brand_id row,
          av_product_id = as_product_id row, av_uid = u,
          av_current_state = as_current_state row,
          av_last_verified_ctr = as_last_verified_ctr row, av_epoch = as_epoch row,
          av_asset_commitment_id = as_asset_commitment_id row\<rparr>)))"

definition update_asset_ctr :: "string \<Rightarrow> i32 \<Rightarrow> unit op" where
  "update_asset_ctr asset_id ctr =
     try_bind utc_now (\<lambda>now.
     execute_sql (update_asset asset_id
       (\<lambda>a. a\<lparr>as_last_verified_ctr := Some ctr, as_updated_at := now\<rparr>)))"

definition fetch_virtual_mother_card_detail ::
  "string \<Rightarrow> virtual_mother_card_detail option op" where
  "fetch_virtual_mother_card_detail asset_id =
     select_rows (\<lambda>d. map_option
       (\<lambda>(a, e). \<lparr>vm_authority_uid = ad_authority_uid a, vm_authority_type = ad_authority_type a,
                 vm_credential_hash = ad_virtual_credential_hash a, vm_epoch = ad_key_epoch a\<rparr>)
       (first_of (order_desc (\<lambda>(a, e). en_created_at e)
         (filter (\<lambda>(a, e). ad_authority_type a = ''VIRTUAL_APP'') (bound_devices asset_id d)))))"

definition count_attestations ::
  "(database \<Rightarrow> attestation_record list) \<Rightarrow> string \<Rightarrow> nat op" where
  "count_attestations tbl commitment_id =
     select_rows (\<lambda>d. length (filter (\<lambda>a. at_asset_commitment_id a = commitment_id) (tbl d)))"

text \<open>The part that \<^verbatim>\<open>fetch_asset_detail\<close> and \<^verbatim>\<open>list_assets\<close> do for one row.\<close>

definition asset_detail_of :: "asset_row \<Rightarrow> asset_detail op" where
  "asset_detail_of row =
     try_bind (fetch_asset_commitment_payload (as_asset_commitment_id row)) (\<lambda>payload.
     try_bind
       (case as_asset_commitment_id row of
          None \<Rightarrow> ret (None, None)
        | Some commitment_id \<Rightarrow>
            try_bind (count_attestations db_brand_attestations commitment_id) (\<lambda>b.
            try_bind (count_attestations db_platform_attestations commitment_id) (\<lambda>p.
            ret (attestation_status_from_count b, attestation_status_from_count p)))) (\<lambda>statuses.
     try_bind (fetch_virtual_mother_card_detail (as_asset_id row)) (\<lambda>card.
     try_bind (expect (as_uid row)) (\<lambda>uid.
     ret \<lparr>de_asset_id = as_asset_id row, de_uid = uid, de_brand_id = as_brand_id row,
          de_batch_id = as_batch_id row, de_external_product_id = as_external_product_id row,
          de_external_product_name = as_external_product_name row,
          de_external_product_url = as_external_product_url row,
          de_asset_commitment_id = as_asset_commitment_id row,
          de_asset_commitment_payload = payload,
          de_brand_attestation_status = fst statuses,
          de_platform_attestation_status = snd statuses,
          de_current_state = as_current_state row, de_previous_state = as_previous_state row,
          de_owner_id = as_owner_id row, de_key_epoch = as_key_epoch row,
          de_activated_at = as_activated_at row, de_sold_at = as_sold_at row,
          de_created_at = as_created_at row, de_updated_at = as_updated_at row,
          de_virtual_mother_card = card\<rparr>))))"

definition fetch_asset_detail :: "string \<Rightarrow> asset_detail op" where
  "fetch_asset_detail asset_id =
     try_bind (fetch_first (asset_with_id asset_id) db_assets) (\<lambda>r.
     try_bind (required AssetNotFound r) asset_detail_of)"

definition fetch_asset_history ::
  "('z externs_scheme) \<Rightarrow> string \<Rightarrow> asset_state_event list op" where
  "fetch_asset_history X asset_id =
     select_rows (\<lambda>d. map
       (\<lambda>e. \<lparr>ev_event_id = x_uuid_text X (se_event_id e), ev_asset_id = se_asset_id e,
            ev_action = se_action e, ev_from_state = se_from_state e,
            ev_to_state = se_to_state e, ev_actor_id = se_actor_id e,
            ev_actor_role = se_actor_role e,
            ev_trace_id = Some (x_uuid_text X (se_trace_id e)),
            ev_occurred_at = se_occurred_at e\<rparr>)
       (sort_key se_occurred_at (filter (\<lambda>e. se_asset_id e = asset_id) (db_events d))))"

definition listed_asset ::
  "string option \<Rightarrow> string option \<Rightarrow> string option \<Rightarrow> asset_row \<Rightarrow> bool" where
  "listed_asset brand_id batch_id current_state a \<longleftrightarrow>
     matches_filter brand_id (as_brand_id a)
     \<and> matches_filter (map_option Some batch_id) (as_batch_id a)
     \<and> matches_filter current_state (as_current_state a)"

definition list_assets ::
  "('z externs_scheme) \<Rightarrow> string option \<Rightarrow> string option \<Rightarrow> string option \<Rightarrow> i64 \<Rightarrow> i64
    \<Rightarrow> (asset_detail list \<times> nat) op" where
  "list_assets X brand_id batch_id current_state limit offset =
     (let hit = listed_asset brand_id batch_id current_state
      in try_bind (select_rows (\<lambda>d. length (filter hit (db_assets d)))) (\<lambda>total.
         try_bind
           (select_page X limit offset (\<lambda>d. order_desc as_created_at (filter hit (db_assets d))))
           (\<lambda>rows.
         try_bind (map_each asset_detail_of rows) (\<lambda>items. ret (items, total)))))"

end
