(* ===== verification/Db_Registry.thy ===== *)
theory Db_Registry
  imports Db_Assets
begin

text \<open>
  \<^verbatim>\<open>db/brands.rs\<close>, \<^verbatim>\<open>batches.rs\<close>, \<^verbatim>\<open>products.rs\<close>,
  \<^verbatim>\<open>transfers.rs\<close> and \<^verbatim>\<open>verification.rs\<close>: the tables of brands and their API
  keys, production batches, the deprecated products, ownership transfers and the log of scans.
\<close>

section \<open>Pagination\<close>

text \<open>
  The methods of the three \<^verbatim>\<open>PaginationParams\<close>/\<^verbatim>\<open>AssetListQuery\<close> structs: an
  absent page is 1, an absent size 20; sizes are clamped to 1..100. The offset is computed in
  64-bit arithmetic that wraps in release builds.
\<close>

record pagination_params =
  pg_page :: "i64 option"
  pg_page_size :: "i64 option"

definition i64_max :: "i64 \<Rightarrow> i64 \<Rightarrow> i64" where
  "i64_max a b = (if sint a \<le> sint b then b else a)"

definition i64_clamp :: "i64 \<Rightarrow> i64 \<Rightarrow> i64 \<Rightarrow> i64" where
  "i64_clamp lo hi x = (if sint x < sint lo then lo else if sint hi < sint x then hi else x)"

definition params_page :: "pagination_params \<Rightarrow> i64" where
  "params_page p = i64_max (unwrap_or 1 (pg_page p)) 1"

definition params_page_size :: "pagination_params \<Rightarrow> i64" where
  "params_page_size p = i64_clamp 1 100 (unwrap_or 20 (pg_page_size p))"

definition params_offset :: "pagination_params \<Rightarrow> i64" where
  "params_offset p = (params_page p - 1) * params_page_size p"

section \<open>\<^verbatim>\<open>brands.rs\<close>: brands\<close>

definition contains :: "string \<Rightarrow> string \<Rightarrow> bool" where
  "contains needle s \<longleftrightarrow> list_ex (prefix needle) (suffixes s)"

text \<open>\<open>brand_id LIKE 'brand_%'\<close>, where the underscore stands for any one character.\<close>

definition brand_id_like :: "string \<Rightarrow> bool" where
  "brand_id_like s \<longleftrightarrow> prefix ''brand'' s \<and> 6 \<le> length s"

definition email_taken_msg :: string where
  "email_taken_msg =
     [CHR 0xE9, CHR 0x82, CHR 0xAE, CHR 0xE7, CHR 0xAE, CHR 0xB1, CHR 0xE5, CHR 0xB7, CHR 0xB2,
      CHR 0xE8, CHR 0xA2, CHR 0xAB, CHR 0xE6, CHR 0xB3, CHR 0xA8, CHR 0xE5, CHR 0x86, CHR 0x8C]"

definition name_taken_msg :: string where
  "name_taken_msg =
     [CHR 0xE5, CHR 0x93, CHR 0x81, CHR 0xE7, CHR 0x89, CHR 0x8C, CHR 0xE5, CHR 0x90, CHR 0x8D,
      CHR 0xE7, CHR 0xA7, CHR 0xB0, CHR 0xE5, CHR 0xB7, CHR 0xB2, CHR 0xE5, CHR 0xAD, CHR 0x98,
      CHR 0xE5, CHR 0x9C, CHR 0xA8]"

fun create_brand_error :: "sqlx_error \<Rightarrow> rc_error" where
  "create_brand_error (UniqueViolation m) =
     (if contains ''brands_contact_email_key'' m \<or> contains ''idx_brands_contact_email'' m
      then Conflict email_taken_msg
      else if contains ''uq_brands_name'' m then Conflict name_taken_msg
      else Database (sqlx_text (UniqueViolation m)))"
| "create_brand_error (SqlError m) = Database (sqlx_text (SqlError m))"

definition create_brand ::
  "('z externs_scheme) \<Rightarrow> string \<Rightarrow> string \<Rightarrow> string \<Rightarrow> string \<Rightarrow> brand_record op" where
  "create_brand X brand_id brand_name contact_email industry =
     try_bind utc_now (\<lambda>now.
     let row = \<lparr>br_brand_id = brand_id, br_brand_name = brand_name,
                br_contact_email = contact_email, br_industry = industry,
                br_status = ''Active'', br_created_at = now, br_updated_at = now,
                br_api_key_hash = None\<rparr>
     in map_err (\<lambda>e. Err (create_brand_error e))
       (try_bind (db_call (constrained
          [(\<lambda>d. \<not> brand_id_like brand_id,
            SqlError (x_pg_message X ''chk_brands_brand_id_prefix'')),
           (brand_exists brand_id, UniqueViolation (x_pg_message X ''brands_pkey'')),
           (\<lambda>d. list_ex (\<lambda>b. br_brand_name b = brand_name) (db_brands d),
            UniqueViolation (x_pg_message X ''uq_brands_name'')),
           (\<lambda>d. list_ex (\<lambda>b. br_contact_email b = contact_email) (db_brands d),
            UniqueViolation (x_pg_message X ''idx_brands_contact_email''))]
          (\<lambda>d. d\<lparr>db_brands := db_brands d @ [row]\<rparr>))) (\<lambda>_. ret row)))"

definition fetch_brand_by_id :: "string \<Rightarrow> brand_record option op" where
  "fetch_brand_by_id brand_id = fetch_first (\<lambda>b. br_brand_id b = brand_id) db_brands"

definition fetch_brand_by_email :: "string \<Rightarrow> brand_record option op" where
  "fetch_brand_by_email email = fetch_first (\<lambda>b. br_contact_email b = email) db_brands"

text \<open>\<open>BrandDetailResponse\<close> has the fields of \<open>BrandRecord\<close>: \<open>From\<close> is the identity.\<close>

definition fetch_brand_detail :: "string \<Rightarrow> brand_record op" where
  "fetch_brand_detail brand_id =
     try_bind (fetch_brand_by_id brand_id)
       (required (NotFound (''Brand '' @ brand_id @ '' not found'')))"

section \<open>\<^verbatim>\<open>brands.rs\<close>: API keys\<close>

definition create_api_key ::
  "('z externs_scheme) \<Rightarrow> string \<Rightarrow> string \<Rightarrow> string \<Rightarrow> string \<Rightarrow> api_key_record op" where
  "create_api_key X key_id brand_id key_hash key_prefix =
     try_bind utc_now (\<lambda>now.
     let row = \<lparr>ak_key_id = key_id, ak_brand_id = brand_id, ak_key_hash = key_hash,
                ak_key_prefix = key_prefix, ak_status = ''Active'', ak_created_at = now,
                ak_revoked_at = None, ak_last_used_at = None\<rparr>
     in try_bind (sql (constrained
          [(\<lambda>d. list_ex (\<lambda>k. ak_key_id k = key_id) (db_api_keys d),
            UniqueViolation (x_pg_message X ''api_keys_pkey'')),
           (\<lambda>d. list_ex (\<lambda>k. ak_key_hash k = key_hash) (db_api_keys d),
            UniqueViolation (x_pg_message X ''idx_api_keys_key_hash'')),
           (\<lambda>d. \<not> brand_exists brand_id d,
            SqlError (x_pg_message X ''api_keys_brand_id_fkey''))]
          (\<lambda>d. d\<lparr>db_api_keys := db_api_keys d @ [row]\<rparr>))) (\<lambda>_. ret row))"

definition revoke_api_key :: "string \<Rightarrow> string option \<Rightarrow> unit op" where
  "revoke_api_key key_id reason =
     try_bind utc_now (\<lambda>now.
     execute_sql (\<lambda>d. d\<lparr>db_api_keys :=
       update_rows (\<lambda>k. ak_key_id k = key_id)
         (\<lambda>k. k\<lparr>ak_status := ''Revoked'', ak_revoked_at := Some now\<rparr>) (db_api_keys d)\<rparr>))"

definition fetch_api_keys_by_brand :: "string \<Rightarrow> api_key_record list op" where
  "fetch_api_keys_by_brand brand_id =
     select_rows (\<lambda>d. order_desc ak_created_at
       (filter (\<lambda>k. ak_brand_id k = brand_id) (db_api_keys d)))"

definition active_keys :: "string \<Rightarrow> database \<Rightarrow> api_key_record list" where
  "active_keys brand_id d =
     filter (\<lambda>k. ak_brand_id k = brand_id \<and> ak_status k = ''Active'') (db_api_keys d)"

definition fetch_active_api_key_by_brand :: "string \<Rightarrow> api_key_record option op" where
  "fetch_active_api_key_by_brand brand_id =
     select_rows (\<lambda>d. first_of (order_desc ak_created_at (active_keys brand_id d)))"

definition update_api_key_last_used :: "string \<Rightarrow> unit op" where
  "update_api_key_last_used key_id =
     try_bind utc_now (\<lambda>now.
     execute_sql (\<lambda>d. d\<lparr>db_api_keys :=
       update_rows (\<lambda>k. ak_key_id k = key_id)
         (\<lambda>k. k\<lparr>ak_last_used_at := Some now\<rparr>) (db_api_keys d)\<rparr>))"

text \<open>\<open>fetch_one\<close>: no row is an error of sqlx.\<close>

definition row_not_found :: string where
  "row_not_found = ''no rows returned by a query that expected to return at least one row''"

definition fetch_active_api_key :: "string \<Rightarrow> api_key_record op" where
  "fetch_active_api_key brand_id =
     try_bind (fetch_active_api_key_by_brand brand_id) (required (Database row_not_found))"

definition list_api_keys :: "string \<Rightarrow> api_key_record list op" where
  "list_api_keys brand_id = fetch_api_keys_by_brand brand_id"

definition brands_of_key :: "string \<Rightarrow> database \<Rightarrow> brand_record list" where
  "brands_of_key key_hash d =
     [b. b \<leftarrow> db_brands d, k \<leftarrow> db_api_keys d,
        br_brand_id b = ak_brand_id k \<and> ak_key_hash k = key_hash \<and> ak_status k = ''Active'']"

definition fetch_brand_by_api_key_hash :: "string \<Rightarrow> brand_record option op" where
  "fetch_brand_by_api_key_hash key_hash = select_rows (\<lambda>d. first_of (brands_of_key key_hash d))"

section \<open>\<^verbatim>\<open>brands.rs\<close>: listing and updating\<close>

record brand_response =
  bp_brand_id :: string
  bp_brand_name :: string
  bp_brand_logo :: "string option"
  bp_brand_website :: "string option"
  bp_webhook_url :: "string option"
  bp_status :: string
  bp_created_at :: time
  bp_updated_at :: time

definition brand_response_of :: "brand_record \<Rightarrow> brand_response" where
  "brand_response_of r =
     \<lparr>bp_brand_id = br_brand_id r, bp_brand_name = br_brand_name r, bp_brand_logo = None,
      bp_brand_website = None, bp_webhook_url = None, bp_status = br_status r,
      bp_created_at = br_created_at r, bp_updated_at = br_updated_at r\<rparr>"

definition list_brands ::
  "('z externs_scheme) \<Rightarrow> string option \<Rightarrow> pagination_params \<Rightarrow> (brand_response list \<times> nat) op" where
  "list_brands X brand_filter params =
     (let hit = (\<lambda>b. matches_filter brand_filter (br_brand_id b))
      in try_bind (select_rows (\<lambda>d. length (filter hit (db_brands d)))) (\<lambda>total.
         try_bind (select_page X (params_page_size params) (params_offset params)
                     (\<lambda>d. order_desc br_created_at (filter hit (db_brands d)))) (\<lambda>records.
         ret (map brand_response_of records, total))))"

record update_brand_request =
  ub_brand_name :: "string option"
  ub_brand_logo :: "string option"
  ub_brand_website :: "string option"
  ub_webhook_url :: "string option"

text \<open>
  The dynamic update is built and dropped: whatever the payload names, only
  \<^verbatim>\<open>updated_at\<close> is written.
\<close>

definition update_brand :: "string \<Rightarrow> update_brand_request \<Rightarrow> brand_response op" where
  "update_brand brand_id payload =
     (let reread = try_bind (fetch_brand_detail brand_id) (\<lambda>r. ret (brand_response_of r))
      in if ub_brand_name payload = None \<and> ub_brand_logo payload = None
            \<and> ub_brand_website payload = None \<and> ub_webhook_url payload = None
         then reread
         else try_bind utc_now (\<lambda>now.
              try_bind (execute_sql (\<lambda>d. d\<lparr>db_brands :=
                update_rows (\<lambda>b. br_brand_id b = brand_id) (\<lambda>b. b\<lparr>br_updated_at := now\<rparr>)
                  (db_brands d)\<rparr>)) (\<lambda>_. reread)))"

definition fetch_brands_batch :: "string list \<Rightarrow> brand_response list op" where
  "fetch_brands_batch brand_ids =
     select_rows (\<lambda>d. map brand_response_of
       (filter (\<lambda>b. br_brand_id b \<in> set brand_ids) (db_brands d)))"

section \<open>\<^verbatim>\<open>batches.rs\<close>\<close>

record create_batch_request =
  cb_brand_id :: string
  cb_batch_name :: "string option"
  cb_factory_id :: "string option"
  cb_expected_count :: "i32 option"

definition create_batch ::
  "('z externs_scheme) \<Rightarrow> create_batch_request \<Rightarrow> batch_row op" where
  "create_batch X req =
     try_bind (draw (x_ulid X)) (\<lambda>ulid.
     try_bind utc_now (\<lambda>now.
     let batch_id = generate_id BatchId ulid;
         row = \<lparr>ba_batch_id = batch_id, ba_brand_id = cb_brand_id req,
                ba_batch_name = cb_batch_name req, ba_factory_id = cb_factory_id req,
                ba_status = ''Open'', ba_expected_count = cb_expected_count req,
                ba_actual_count = 0, ba_created_at = now, ba_closed_at = None\<rparr>
     in try_bind (sql (constrained
          [(\<lambda>d. list_ex (\<lambda>b. ba_batch_id b = batch_id) (db_batches d),
            UniqueViolation (x_pg_message X ''batches_pkey'')),
           (\<lambda>d. \<not> brand_exists (cb_brand_id req) d,
            SqlError (x_pg_message X ''batches_brand_id_fkey''))]
          (\<lambda>d. d\<lparr>db_batches := db_batches d @ [row]\<rparr>))) (\<lambda>_. ret row)))"

definition fetch_batch :: "string \<Rightarrow> batch_row op" where
  "fetch_batch batch_id =
     try_bind (fetch_first (\<lambda>b. ba_batch_id b = batch_id) db_batches) (required AssetNotFound)"

text \<open>\<open>UPDATE .. RETURNING\<close>: the first updated row in its new form.\<close>

definition close_batch :: "string \<Rightarrow> batch_row op" where
  "close_batch batch_id =
     try_bind utc_now (\<lambda>now.
     let hit = (\<lambda>b. ba_batch_id b = batch_id \<and> ba_status b = ''Open'');
         upd = (\<lambda>b. b\<lparr>ba_status := ''Closed'', ba_closed_at := Some now\<rparr>)
     in try_bind
          (sql (\<lambda>d. Inr (map_option upd (find hit (db_batches d)),
                         d\<lparr>db_batches := update_rows hit upd (db_batches d)\<rparr>)))
          (required (InvalidInput ''Batch not found or already closed'')))"

definition list_batches ::
  "('z externs_scheme) \<Rightarrow> string option \<Rightarrow> i64 \<Rightarrow> i64 \<Rightarrow> (batch_row list \<times> nat) op" where
  "list_batches X brand_id limit offset =
     (let hit = (\<lambda>b. matches_filter brand_id (ba_brand_id b))
      in try_bind (select_rows (\<lambda>d. length (filter hit (db_batches d)))) (\<lambda>total.
         try_bind (select_page X limit offset
                     (\<lambda>d. order_desc ba_created_at (filter hit (db_batches d)))) (\<lambda>items.
         ret (items, total))))"

section \<open>\<^verbatim>\<open>products.rs\<close>\<close>

definition fetch_product :: "string \<Rightarrow> string \<Rightarrow> product_row op" where
  "fetch_product brand_id product_id =
     try_bind (fetch_first (\<lambda>p. pr_product_id p = product_id \<and> pr_brand_id p = brand_id)
                 db_products) (required ProductNotFound)"

definition list_products ::
  "('z externs_scheme) \<Rightarrow> string \<Rightarrow> pagination_params \<Rightarrow> (product_row list \<times> nat) op" where
  "list_products X brand_id params =
     (let hit = (\<lambda>p. pr_brand_id p = brand_id)
      in try_bind (select_page X (params_page_size params) (params_offset params)
                     (\<lambda>d. order_desc pr_created_at (filter hit (db_products d)))) (\<lambda>items.
         try_bind (select_rows (\<lambda>d. length (filter hit (db_products d)))) (\<lambda>total.
         ret (items, total))))"

definition fetch_products_batch :: "string list \<Rightarrow> product_row list op" where
  "fetch_products_batch product_ids =
     (if product_ids = [] then ret []
      else select_rows (\<lambda>d. filter (\<lambda>p. pr_product_id p \<in> set product_ids) (db_products d)))"

section \<open>\<^verbatim>\<open>transfers.rs\<close>\<close>

record transfer_record =
  tf_transfer_id :: uuid
  tf_asset_id :: string
  tf_from_user_id :: string
  tf_to_user_id :: string
  tf_from_owner_id :: string
  tf_to_owner_id :: string
  tf_transfer_type :: string
  tf_status :: string
  tf_created_at :: time

definition transfer_record_of :: "transfer_row \<Rightarrow> transfer_record" where
  "transfer_record_of t =
     \<lparr>tf_transfer_id = tr_transfer_id t, tf_asset_id = tr_asset_id t,
      tf_from_user_id = tr_from_user_id t, tf_to_user_id = tr_to_user_id t,
      tf_from_owner_id = tr_from_owner_id t, tf_to_owner_id = tr_to_owner_id t,
      tf_transfer_type = tr_transfer_type t, tf_status = unwrap_or ''pending'' (tr_status t),
      tf_created_at = tr_transferred_at t\<rparr>"

definition insert_transfer ::
  "('z externs_scheme) \<Rightarrow> string \<Rightarrow> string \<Rightarrow> string \<Rightarrow> string \<Rightarrow> string \<Rightarrow> string \<Rightarrow> uuid op" where
  "insert_transfer X asset_id from_owner_id to_owner_id transfer_type idempotency_key trace_id =
     try_bind (draw (x_uuid X)) (\<lambda>transfer_id.
     try_bind utc_now (\<lambda>now.
     try_bind (sql (constrained
       [(\<lambda>d. list_ex (\<lambda>t. tr_transfer_id t = transfer_id) (db_transfers d),
         UniqueViolation (x_pg_message X ''asset_transfers_pkey'')),
        (\<lambda>d. \<not> asset_exists asset_id d,
         SqlError (x_pg_message X ''asset_transfers_asset_id_fkey''))]
       (\<lambda>d. d\<lparr>db_transfers := db_transfers d @
          [\<lparr>tr_transfer_id = transfer_id, tr_asset_id = asset_id,
            tr_from_user_id = from_owner_id, tr_to_user_id = to_owner_id,
            tr_from_owner_id = from_owner_id, tr_to_owner_id = to_owner_id,
            tr_transfer_type = transfer_type, tr_idempotency_key = idempotency_key,
            tr_trace_id = trace_id, tr_status = Some ''pending'', tr_transferred_at = now\<rparr>]\<rparr>)))
       (\<lambda>_. ret transfer_id)))"

definition fetch_transfer :: "uuid \<Rightarrow> transfer_record op" where
  "fetch_transfer transfer_id =
     try_bind (fetch_first (\<lambda>t. tr_transfer_id t = transfer_id) db_transfers) (\<lambda>row.
     try_bind (required (NotFound ''transfer not found'') row) (\<lambda>t. ret (transfer_record_of t)))"

definition pending_transfer :: "uuid \<Rightarrow> transfer_row \<Rightarrow> bool" where
  "pending_transfer transfer_id t \<longleftrightarrow>
     tr_transfer_id t = transfer_id \<and> unwrap_or ''pending'' (tr_status t) = ''pending''"

definition update_transfer_status :: "uuid \<Rightarrow> string \<Rightarrow> transfer_record op" where
  "update_transfer_status transfer_id target_status =
     (let hit = pending_transfer transfer_id;
          upd = (\<lambda>t. t\<lparr>tr_status := Some target_status\<rparr>)
      in try_bind
           (sql (\<lambda>d. Inr (map_option upd (find hit (db_transfers d)),
                          d\<lparr>db_transfers := update_rows hit upd (db_transfers d)\<rparr>))) (\<lambda>row.
         case row of
           Some t \<Rightarrow> ret (transfer_record_of t)
         | None \<Rightarrow>
             try_bind (fetch_transfer transfer_id) (\<lambda>existing.
             if tf_status existing \<noteq> ''pending''
             then throw (Conflict ''transfer already processed'')
             else throw (Conflict ''transfer status update failed''))))"

definition confirm_transfer :: "uuid \<Rightarrow> transfer_record op" where
  "confirm_transfer transfer_id = update_transfer_status transfer_id ''confirmed''"

definition reject_transfer :: "uuid \<Rightarrow> transfer_record op" where
  "reject_transfer transfer_id = update_transfer_status transfer_id ''rejected''"

section \<open>\<^verbatim>\<open>verification.rs\<close>\<close>

text \<open>
  The column \<^verbatim>\<open>asset_id\<close> is \<^verbatim>\<open>NOT NULL REFERENCES assets\<close>, so an event without
  an asset is refused.
\<close>

definition insert_scan :: "('z externs_scheme) \<Rightarrow> verification_event_row \<Rightarrow> unit op" where
  "insert_scan X e =
     sql (constrained
       [(\<lambda>d. ve_asset_id e = None, SqlError (x_pg_message X ''verification_events.asset_id'')),
        (\<lambda>d. \<not> asset_exists (unwrap_or [] (ve_asset_id e)) d,
         SqlError (x_pg_message X ''verification_events_asset_id_fkey''))]
       (\<lambda>d. d\<lparr>db_verifications := db_verifications d @ [e]\<rparr>))"

definition insert_verification_event ::
  "('z externs_scheme) \<Rightarrow> string \<Rightarrow> string option \<Rightarrow> i32 \<Rightarrow> string \<Rightarrow> string list \<Rightarrow> bool
    \<Rightarrow> string option \<Rightarrow> unit op" where
  "insert_verification_event X uid asset_id ctr verification_status risk_flags cmac_valid
     client_ip =
     insert_scan X
       \<lparr>ve_uid = uid, ve_asset_id = asset_id, ve_ctr = ctr,
        ve_verification_status = verification_status, ve_risk_flags = risk_flags,
        ve_cmac_valid = cmac_valid, ve_client_ip = client_ip, ve_asset_commitment_id = None,
        ve_verification_version = None, ve_brand_attestation_status = None,
        ve_platform_attestation_status = None\<rparr>"

definition insert_verification_event_v2 ::
  "('z externs_scheme) \<Rightarrow> string \<Rightarrow> string option \<Rightarrow> i32 \<Rightarrow> string \<Rightarrow> string list \<Rightarrow> bool
    \<Rightarrow> string option \<Rightarrow> string option \<Rightarrow> string option \<Rightarrow> string option \<Rightarrow> unit op" where
  "insert_verification_event_v2 X uid asset_id ctr verification_status risk_flags cmac_valid
     client_ip asset_commitment_id brand_attestation_status platform_attestation_status =
     insert_scan X
       \<lparr>ve_uid = uid, ve_asset_id = asset_id, ve_ctr = ctr,
        ve_verification_status = verification_status, ve_risk_flags = risk_flags,
        ve_cmac_valid = cmac_valid, ve_client_ip = client_ip,
        ve_asset_commitment_id = asset_commitment_id, ve_verification_version = Some ''v2'',
        ve_brand_attestation_status = brand_attestation_status,
        ve_platform_attestation_status = platform_attestation_status\<rparr>"

end
