(* ===== verification/Auth.thy ===== *)
theory Auth
  imports Db_Registry
begin

text \<open>
  The module \<^verbatim>\<open>auth\<close> without \<^verbatim>\<open>authorization.rs\<close>: API keys, JWT claims, the
  middleware that turns a request into claims, and the extractor that hands a handler its
  \<open>actor_context\<close>.
\<close>

section \<open>\<^verbatim>\<open>api_key.rs\<close>\<close>

definition generate_api_key :: "('z externs_scheme) \<Rightarrow> string op" where
  "generate_api_key X =
     try_bind (draw (x_rand16 X)) (\<lambda>random_bytes.
     ret (''rcpk_live_'' @ x_hex_encode X random_bytes))"

definition hash_api_key :: "('z externs_scheme) \<Rightarrow> string \<Rightarrow> string" where
  "hash_api_key X api_key = hex_sha256 X (as_bytes api_key)"

text \<open>\<open>&api_key[..16]\<close> panics when byte 16 is inside a character: \<open>None\<close>.\<close>

definition extract_key_prefix :: "string \<Rightarrow> string option" where
  "extract_key_prefix api_key =
     (if length api_key \<ge> 16
      then if is_char_boundary api_key 16 then Some (take 16 api_key @ ''****'') else None
      else Some (api_key @ ''****''))"

definition generate_key_id :: "('z externs_scheme) \<Rightarrow> string op" where
  "generate_key_id X = try_bind (draw (x_ulid X)) (\<lambda>ulid. ret (''key_'' @ ulid))"

definition generate_brand_id :: "('z externs_scheme) \<Rightarrow> string op" where
  "generate_brand_id X = try_bind (draw (x_ulid X)) (\<lambda>ulid. ret (generate_id BrandId ulid))"

section \<open>\<^verbatim>\<open>mod.rs\<close>, \<^verbatim>\<open>claims.rs\<close>\<close>

datatype auth_error =
  MissingToken | AuthInvalidSignature | AuthTokenExpired | AuthInvalidClaims string

text \<open>The derived \<open>Debug\<close> text; the messages need no escapes.\<close>

fun auth_error_debug :: "auth_error \<Rightarrow> string" where
  "auth_error_debug MissingToken = ''MissingToken''"
| "auth_error_debug AuthInvalidSignature = ''InvalidSignature''"
| "auth_error_debug AuthTokenExpired = ''TokenExpired''"
| "auth_error_debug (AuthInvalidClaims m) = ''InvalidClaims(\"'' @ m @ ''\")''"

record claims =
  sub :: string
  role :: string
  org_id :: "string option"
  claims_brand_id :: "string option"
  scopes :: "string list"
  exp :: u64
  iat :: u64

definition claims_actor_role :: "claims \<Rightarrow> auth_error + actor_role" where
  "claims_actor_role c =
     (if role c = ''Platform'' then Inr Platform
      else if role c = ''Factory'' then Inr Factory
      else if role c = ''Brand'' then Inr Brand
      else if role c = ''Consumer'' then Inr Consumer
      else if role c = ''Moderator'' then Inr Moderator
      else Inl (AuthInvalidClaims ''unknown role''))"

definition claims_validate :: "claims \<Rightarrow> auth_error + unit" where
  "claims_validate c =
     and_then (claims_actor_role c) (\<lambda>r.
     if r \<in> {Brand, Factory} \<and> claims_brand_id c = None
     then Inl (AuthInvalidClaims ''brand_id required for Brand/Factory role'')
     else Inr ())"

section \<open>\<^verbatim>\<open>jwt.rs\<close>\<close>

text \<open>
  \<open>x_jwt_decode secret now token\<close> is the crate jsonwebtoken with HS256 and the required claims
  sub, exp, iat; \<open>JwtOther\<close> is every other error kind.
\<close>

datatype jwt_error = JwtExpired | JwtBadSignature | JwtOther

record auth_externs = externs +
  x_jwt_decode :: "bytes \<Rightarrow> time \<Rightarrow> string \<Rightarrow> jwt_error + claims"

definition jwt_decode ::
  "('z auth_externs_scheme) \<Rightarrow> bytes \<Rightarrow> time \<Rightarrow> string \<Rightarrow> auth_error + claims" where
  "jwt_decode X secret now token =
     and_then
       (map_sum
          (\<lambda>e. case e of JwtExpired \<Rightarrow> AuthTokenExpired | JwtBadSignature \<Rightarrow> AuthInvalidSignature
               | JwtOther \<Rightarrow> AuthInvalidClaims ''token decode failed'') id
          (x_jwt_decode X secret now token)) (\<lambda>c.
     and_then (claims_validate c) (\<lambda>_. Inr c))"

section \<open>\<^verbatim>\<open>middleware.rs\<close>\<close>

record auth_state =
  au_jwt_secret :: bytes
  au_disabled :: bool
  au_api_key_secret :: bytes

definition unauthorized_response :: "string \<Rightarrow> response" where
  "unauthorized_response message =
     Response 401 (JsonBody (JObj
       [(''error'', JStr ''unauthorized''), (''message'', JStr message)]))"

definition extract_api_key :: "headers \<Rightarrow> string option" where
  "extract_api_key hs = Option.bind (hs ''X-Api-Key'') to_str"

definition extract_api_key_hash :: "headers \<Rightarrow> string option" where
  "extract_api_key_hash hs = Option.bind (hs ''X-Api-Key-Hash'') to_str"

definition authenticate_api_key_hash :: "string \<Rightarrow> (world, response, claims) act" where
  "authenticate_api_key_hash api_key_hash =
     try_bind
       (map_err (\<lambda>_. unauthorized_response ''invalid_api_key'')
         (fetch_brand_by_api_key_hash api_key_hash)) (\<lambda>b.
     try_bind (of_result (ok_or (unauthorized_response ''invalid_api_key'') b)) (\<lambda>brand.
     ret \<lparr>sub = ''apikey:'' @ br_brand_id brand, role = ''Brand'', org_id = None,
          claims_brand_id = Some (br_brand_id brand), scopes = [], exp = - 1, iat = 0\<rparr>))"

definition extract_bearer_token :: "headers \<Rightarrow> string option" where
  "extract_bearer_token hs =
     Option.bind (Option.bind (hs ''Authorization'') to_str) (strip_prefix ''Bearer '')"

definition build_fallback_claims :: "headers \<Rightarrow> response + claims" where
  "build_fallback_claims hs =
     (let actor_id = unwrap_or ''anonymous'' (Option.bind (hs ''Authorization'') to_str);
          r = unwrap_or ''Platform'' (Option.bind (hs ''X-Actor-Role'') to_str);
          brand_id = Option.bind (hs ''X-Brand-Id'') to_str
      in if (r = ''Brand'' \<or> r = ''Factory'') \<and> brand_id = None
         then Inl (unauthorized_response ''Brand/Factory role requires X-Brand-Id header'')
         else Inr \<lparr>sub = actor_id, role = r, org_id = None, claims_brand_id = brand_id,
                   scopes = [], exp = - 1, iat = 0\<rparr>)"

definition authenticate ::
  "('z auth_externs_scheme) \<Rightarrow> auth_state \<Rightarrow> headers \<Rightarrow> (world, response, claims) act" where
  "authenticate X auth hs =
     (if au_disabled auth then of_result (build_fallback_claims hs)
      else case extract_api_key_hash hs of
        Some api_key_hash \<Rightarrow> authenticate_api_key_hash api_key_hash
      | None \<Rightarrow>
          (case extract_api_key hs of
             Some api_key \<Rightarrow> authenticate_api_key_hash (hash_api_key X api_key)
           | None \<Rightarrow>
               try_bind
                 (of_result (ok_or
                    (unauthorized_response ''missing or invalid Authorization header'')
                    (extract_bearer_token hs))) (\<lambda>token.
               try_bind utc_now (\<lambda>now.
               of_result (map_sum (\<lambda>e. unauthorized_response (auth_error_debug e)) id
                 (jwt_decode X (au_jwt_secret auth) now token))))))"

definition auth_middleware ::
  "('z auth_externs_scheme) \<Rightarrow> auth_state \<Rightarrow> headers \<Rightarrow> (claims \<Rightarrow> (world, response, 'r) act)
    \<Rightarrow> (world, response, 'r) act" where
  "auth_middleware X auth hs next_handler = try_bind (authenticate X auth hs) next_handler"

section \<open>\<^verbatim>\<open>extractor.rs\<close>\<close>

record actor_context =
  actor_id :: string
  the_role :: actor_role
  actor_org :: "string option"
  brand_of :: "string option"

definition actor_from_request :: "claims option \<Rightarrow> response + actor_context" where
  "actor_from_request extension =
     and_then (ok_or (unauthorized_response ''missing claims'') extension) (\<lambda>c.
     and_then
       (map_sum (\<lambda>e. unauthorized_response (auth_error_debug e)) id (claims_actor_role c))
       (\<lambda>r. Inr \<lparr>actor_id = sub c, the_role = r, actor_org = org_id c,
                 brand_of = claims_brand_id c\<rparr>))"

section \<open>Lemmas\<close>

lemma first_of_Some: "first_of xs = Some x \<Longrightarrow> x \<in> set xs"
  by (cases xs) (auto simp: first_of_def)

lemma claims_actor_role_Inr: "claims_actor_role c = Inr r \<longleftrightarrow> role c = role_db_str r"
  by (cases r) (auto simp: claims_actor_role_def split: if_splits)

lemma jwt_decode_Inr:
  "jwt_decode X secret now token = Inr c \<longleftrightarrow>
    x_jwt_decode X secret now token = Inr c \<and> claims_validate c = Inr ()"
  by (auto simp: jwt_decode_def and_then_Inr)

lemma brands_of_key_mem:
  "b \<in> set (brands_of_key h d) \<longleftrightarrow> b \<in> set (db_brands d) \<and>
    (\<exists>k\<in>set (db_api_keys d). ak_brand_id k = br_brand_id b \<and> ak_key_hash k = h
       \<and> ak_status k = ''Active'')"
  by (auto simp: brands_of_key_def)

lemma authenticate_api_key_hash_Inr:
  "authenticate_api_key_hash h w = (Inr c, w') \<Longrightarrow>
    \<exists>b k. b \<in> set (db_brands (w_db w)) \<and> k \<in> set (db_api_keys (w_db w))
      \<and> ak_brand_id k = br_brand_id b \<and> ak_key_hash k = h \<and> ak_status k = ''Active''
      \<and> claims_brand_id c = Some (br_brand_id b) \<and> role c = ''Brand''
      \<and> sub c = ''apikey:'' @ br_brand_id b \<and> w_db w' = w_db w"
proof -
  assume run: "authenticate_api_key_hash h w = (Inr c, w')"
  then obtain b where b: "first_of (brands_of_key h (w_db w)) = Some b"
    and c: "claims_brand_id c = Some (br_brand_id b)" "role c = ''Brand''"
      "sub c = ''apikey:'' @ br_brand_id b" "w_db w' = w_db w"
    by (auto simp: authenticate_api_key_hash_def fetch_brand_by_api_key_hash_def run_inv)
  from first_of_Some [OF b] c show ?thesis unfolding brands_of_key_mem by blast
qed

lemma authenticate_token:
  assumes "\<not> au_disabled auth" and "extract_api_key_hash hs = None" "extract_api_key hs = None"
  shows "authenticate X auth hs w = (Inr c, w') \<longleftrightarrow>
    (\<exists>token. extract_bearer_token hs = Some token \<and> w' = w
      \<and> jwt_decode X (au_jwt_secret auth) (w_now w) token = Inr c)"
  using assms by (auto simp: authenticate_def utc_now_def run_inv)

section \<open>Properties\<close>

text \<open>
  C11. With authentication on, a request reaches a handler as an actor only through a valid
  credential: an \<^verbatim>\<open>Active\<close> API key row whose hash the request gives (directly or by
  the key itself), and then as a Brand actor confined to the brand that owns the key; or a token
  that the JWT library accepts under the server's secret. In every case a Brand or Factory actor
  carries a brand id, and authenticating changes nothing in the database.
\<close>

theorem authenticated_actor_is_credentialed:
  assumes "\<not> au_disabled auth"
    and "authenticate X auth hs w = (Inr c, w')"
    and "actor_from_request (Some c) = Inr actor"
  shows "((\<exists>k h. k \<in> set (db_api_keys (w_db w)) \<and> ak_status k = ''Active'' \<and> ak_key_hash k = h
             \<and> (extract_api_key_hash hs = Some h
                \<or> (\<exists>key. extract_api_key hs = Some key \<and> h = hash_api_key X key))
             \<and> the_role actor = Brand \<and> brand_of actor = Some (ak_brand_id k))
          \<or> (\<exists>token. extract_bearer_token hs = Some token
               \<and> x_jwt_decode X (au_jwt_secret auth) (w_now w) token = Inr c))
       \<and> (the_role actor \<in> {Brand, Factory} \<longrightarrow> brand_of actor \<noteq> None)
       \<and> w_db w' = w_db w"
proof -
  from assms(3) have role: "role c = role_db_str (the_role actor)"
    and brand: "brand_of actor = claims_brand_id c"
    by (auto simp: actor_from_request_def and_then_Inr claims_actor_role_Inr)
  show ?thesis
  proof (cases "\<exists>h. authenticate X auth hs = authenticate_api_key_hash h
      \<and> (extract_api_key_hash hs = Some h
         \<or> (\<exists>key. extract_api_key hs = Some key \<and> h = hash_api_key X key))")
    case True
    then obtain h where h: "authenticate_api_key_hash h w = (Inr c, w')"
      and given: "extract_api_key_hash hs = Some h
         \<or> (\<exists>key. extract_api_key hs = Some key \<and> h = hash_api_key X key)"
      using assms(2) by auto
    from authenticate_api_key_hash_Inr [OF h] obtain b k where
      k: "k \<in> set (db_api_keys (w_db w))" "ak_key_hash k = h" "ak_status k = ''Active''"
      and c: "claims_brand_id c = Some (ak_brand_id k)" "role c = ''Brand''" "w_db w' = w_db w"
      by auto
    from c(2) role have "the_role actor = Brand" by (cases "the_role actor") auto
    with k c brand given show ?thesis by auto
  next
    case False
    then have jwt: "extract_api_key_hash hs = None" "extract_api_key hs = None"
      using assms(1) by (auto simp: authenticate_def split: option.splits)
    with assms(1,2) obtain token where
      t: "extract_bearer_token hs = Some token" "w' = w"
         "jwt_decode X (au_jwt_secret auth) (w_now w) token = Inr c"
      by (auto simp: authenticate_token)
    then have "claims_validate c = Inr ()" by (simp add: jwt_decode_Inr)
    moreover have "claims_actor_role c = Inr (the_role actor)"
      using role by (simp add: claims_actor_role_Inr)
    ultimately have "the_role actor \<in> {Brand, Factory} \<longrightarrow> brand_of actor \<noteq> None"
      by (auto simp: claims_validate_def brand split: if_splits)
    moreover have "x_jwt_decode X (au_jwt_secret auth) (w_now w) token = Inr c"
      using t(3) by (simp add: jwt_decode_Inr)
    ultimately show ?thesis using t(1,2) by blast
  qed
qed

end
