(* ===== verification/Routes_Protocol.thy ===== *)
theory Routes_Protocol
  imports Asset_Queries Auth
begin

text \<open>
  \<^verbatim>\<open>routes/protocol.rs\<close>: the endpoints that drive an asset through its life cycle. The
  bodies are the parsed structs; the response of a handler is its result turned into HTTP by
  \<open>respond protocol_error_response\<close>. JSON objects list their members in the order of
  \<^verbatim>\<open>serde_json\<close>'s sorted maps.
\<close>

section \<open>Requests, headers and error codes\<close>

record asset_action_request =
  aq_previous_state :: "asset_state option"
  aq_buyer_id :: "string option"

record activate_request =
  vq_external_product_id :: string
  vq_external_product_name :: "string option"
  vq_external_product_url :: "string option"

record required_headers =
  rh_trace_id :: uuid
  rh_idempotency_key :: string
  rh_approval_id :: "string option"
  rh_policy_version :: "string option"

definition parse_required_headers ::
  "('z externs_scheme) \<Rightarrow> headers \<Rightarrow> rc_error + required_headers" where
  "parse_required_headers X hs =
     and_then (required_header hs ''X-Trace-Id'') (\<lambda>trace_id.
     and_then (required_header hs ''X-Idempotency-Key'') (\<lambda>idempotency_key.
     and_then (ok_or (InvalidHeader ''X-Trace-Id'') (x_parse_uuid X trace_id)) (\<lambda>trace.
     Inr \<lparr>rh_trace_id = trace, rh_idempotency_key = idempotency_key,
          rh_approval_id = optional_header hs ''X-Approval-Id'',
          rh_policy_version = optional_header hs ''X-Policy-Version''\<rparr>)))"

text \<open>\<open>{:?}\<close> of an \<open>Option<&str>\<close> whose text needs no escapes.\<close>

definition debug_option_str :: "string option \<Rightarrow> string" where
  "debug_option_str s = (case s of None \<Rightarrow> ''None'' | Some v \<Rightarrow> ''Some(\"'' @ v @ ''\")'')"

definition build_request_hash ::
  "('z externs_scheme) \<Rightarrow> string \<Rightarrow> asset_action \<Rightarrow> asset_action_request \<Rightarrow> actor_context
    \<Rightarrow> required_headers \<Rightarrow> string" where
  "build_request_hash X asset_id action payload actor hs =
     ''asset='' @ asset_id @ ''|action='' @ action_db_str action @
     ''|trace='' @ x_uuid_text X (rh_trace_id hs) @ ''|role='' @ role_db_str (the_role actor) @
     ''|approval='' @ unwrap_or [] (rh_approval_id hs) @
     ''|policy='' @ unwrap_or [] (rh_policy_version hs) @
     ''|prev='' @ debug_option_str (map_option as_db_str (aq_previous_state payload))"

definition verification_result_label :: "string \<Rightarrow> string" where
  "verification_result_label state =
     (if state \<in> {''Activated'', ''LegallySold'', ''Transferred''} then ''verified''
      else if state \<in> {''Disputed'', ''Tampered'', ''Compromised'', ''Destructed''} then ''restricted''
      else ''pending'')"

fun protocol_status :: "rc_error \<Rightarrow> nat" where
  "protocol_status AssetNotFound = 404"
| "protocol_status (MissingRequiredHeader _) = 400"
| "protocol_status (InvalidHeader _) = 400"
| "protocol_status IdempotencyConflict = 409"
| "protocol_status (Database _) = 500"
| "protocol_status _ = 400"

definition protocol_error_response :: "rc_error \<Rightarrow> response" where
  "protocol_error_response err = Response (protocol_status err) (TextBody (error_text err))"

definition ok_json :: "json \<Rightarrow> response" where
  "ok_json j = Response 200 (JsonBody j)"

definition check_brand_boundary :: "actor_context \<Rightarrow> string \<Rightarrow> rc_error + unit" where
  "check_brand_boundary actor brand_id =
     (if the_role actor \<in> {Brand, Factory}
      then if brand_of actor = Some brand_id then Inr () else Inl BrandBoundaryViolation
      else Inr ())"

section \<open>Reading an asset\<close>

definition verify_asset :: "string \<Rightarrow> response op" where
  "verify_asset asset_id =
     try_bind (fetch_verify_view asset_id) (\<lambda>view.
     ret (ok_json (JObj
       [(''asset_id'', JStr (vv_asset_id view)), (''brand_id'', JStr (vv_brand_id view)),
        (''current_state'', JStr (vv_current_state view)),
        (''event_count'', JNum (int (vv_event_count view))),
        (''previous_state'', opt_str (vv_previous_state view)),
        (''product_id'', opt_str (vv_product_id view)), (''uid'', opt_str (vv_uid view)),
        (''verification_result'',
         JStr (verification_result_label (vv_current_state view)))])))"

section \<open>The common parts of the writing handlers\<close>

text \<open>The lookup of the idempotency key in front of the fresh path.\<close>

definition with_idempotency :: "string \<Rightarrow> string \<Rightarrow> response op \<Rightarrow> response op" where
  "with_idempotency key request_hash fresh =
     try_bind (load_idempotency_record key) (\<lambda>found.
     case found of
       Some record \<Rightarrow>
         try_bind (check (id_request_hash record = request_hash) IdempotencyConflict) (\<lambda>_.
         ret (ok_json (id_response_snapshot record)))
     | None \<Rightarrow> fresh)"

definition audit_context_of ::
  "actor_context \<Rightarrow> required_headers \<Rightarrow> string option \<Rightarrow> audit_context" where
  "audit_context_of actor hs buyer_id =
     \<lparr>ac_trace_id = rh_trace_id hs, ac_actor_id = actor_id actor,
      ac_actor_role = the_role actor, ac_actor_org = actor_org actor,
      ac_idempotency_key = rh_idempotency_key hs, ac_approval_id = rh_approval_id hs,
      ac_policy_version = rh_policy_version hs, ac_buyer_id = buyer_id\<rparr>"

text \<open>A previous state named by the client replaces the stored one.\<close>

definition with_client_previous :: "asset_action_request \<Rightarrow> asset_record \<Rightarrow> asset_record" where
  "with_client_previous payload record =
     (if aq_previous_state payload \<noteq> None
      then record\<lparr>ar_previous_state := aq_previous_state payload\<rparr> else record)"

definition action_response ::
  "('z externs_scheme) \<Rightarrow> string \<Rightarrow> asset_action \<Rightarrow> asset_record \<Rightarrow> asset_record \<Rightarrow> audit_event
    \<Rightarrow> json" where
  "action_response X asset_id action record next_record ev =
     JObj
       [(''action'', JStr (action_db_str action)), (''asset_id'', JStr asset_id),
        (''audit_event_id'', JStr (x_uuid_text X (ae_event_id ev))),
        (''from_state'', JStr (as_db_str (ar_current_state record))),
        (''to_state'', JStr (as_db_str (ar_current_state next_record)))]"

section \<open>The virtual mother card\<close>

record virtual_mother_card =
  vc_authority_uid :: string
  vc_authority_type :: string
  vc_credential_hash :: string
  vc_epoch :: i32

definition kms_or_error ::
  "string \<Rightarrow> (software_kms \<Rightarrow> (kms_error + 'a) \<times> software_kms) \<Rightarrow> 'a op" where
  "kms_or_error what f =
     map_err (\<lambda>e. Err (Database (what @ kms_error_text e))) (kms_call f)"

definition credential_hash ::
  "('z externs_scheme) \<Rightarrow> bytes \<Rightarrow> string \<Rightarrow> string" where
  "credential_hash X k_chip_mother authority_uid =
     x_hex_encode X (hmac_compute X k_chip_mother (as_bytes authority_uid))"

definition generate_virtual_mother_card_with_result ::
  "('z externs_scheme) \<Rightarrow> string \<Rightarrow> string \<Rightarrow> string \<Rightarrow> virtual_mother_card op" where
  "generate_virtual_mother_card_with_result X asset_id brand_id the_actor_id =
     try_bind (fetch_first (asset_with_id asset_id) db_assets) (\<lambda>r.
     try_bind (required AssetNotFound r) (\<lambda>row.
     try_bind (required (InvalidInput ''asset has no UID'') (as_uid row)) (\<lambda>child_uid.
     let epoch = as_epoch row in
     try_bind (draw (x_nanoid12 X)) (\<lambda>nanoid.
     let authority_uid = ''vauth-'' @ nanoid in
     try_bind (kms_or_error ''KMS derive_mother_key failed: ''
                 (\<lambda>k. derive_mother_key X k brand_id (as_bytes authority_uid) epoch))
       (\<lambda>k_chip_mother.
     let chash = credential_hash X k_chip_mother authority_uid in
     try_bind (insert_authority_device X authority_uid ''VIRTUAL_APP'' brand_id epoch
                 (Some chash) (Some the_actor_id) (Some the_actor_id)) (\<lambda>authority_id.
     try_bind (insert_entanglement X asset_id child_uid authority_id authority_uid the_actor_id)
       (\<lambda>_.
     ret \<lparr>vc_authority_uid = authority_uid, vc_authority_type = ''VIRTUAL_APP'',
          vc_credential_hash = chash, vc_epoch = epoch\<rparr>)))))))"

section \<open>\<^verbatim>\<open>execute_asset_action\<close>\<close>

text \<open>
  \<open>prepare_action\<close> is what the handler does before it writes, \<open>commit_action\<close> the
  rest; the requests of other clients can run between the two. The uuid of the audit event is
  drawn before \<open>apply_action\<close> decides, which only renumbers later draws.
\<close>

record action_plan =
  ap_fetched :: asset_record
  ap_next :: asset_record
  ap_event :: audit_event
  ap_hash :: string
  ap_response :: json

definition prepare_action ::
  "('z externs_scheme) \<Rightarrow> string \<Rightarrow> asset_action \<Rightarrow> actor_context \<Rightarrow> required_headers
    \<Rightarrow> asset_action_request \<Rightarrow> action_plan op" where
  "prepare_action X asset_id action actor hs payload =
     try_bind (fetch_asset asset_id) (\<lambda>fetched.
     let asset_record = with_client_previous payload fetched in
     try_bind (draw (x_uuid X)) (\<lambda>event_id.
     try_bind (lift (apply_action event_id asset_record action
                       (audit_context_of actor hs (aq_buyer_id payload)))) (\<lambda>(next_record, ev).
     ret \<lparr>ap_fetched = asset_record, ap_next = next_record, ap_event = ev,
          ap_hash = build_request_hash X asset_id action payload actor hs,
          ap_response = action_response X asset_id action asset_record next_record ev\<rparr>)))"

definition persist_plan ::
  "('z externs_scheme) \<Rightarrow> string option \<Rightarrow> action_plan \<Rightarrow> response op" where
  "persist_plan X cid plan =
     try_bind (persist_action X (ap_next plan) (ap_event plan) (ap_hash plan) (ap_response plan) cid)
       (\<lambda>_. ret (ok_json (ap_response plan)))"

definition commit_action ::
  "('z externs_scheme) \<Rightarrow> string \<Rightarrow> asset_action \<Rightarrow> actor_context \<Rightarrow> action_plan \<Rightarrow> response op" where
  "commit_action X asset_id action actor plan =
     try_bind (persist_plan X None plan) (\<lambda>response.
     if action = ActivateEntangle
     then try_bind (generate_virtual_mother_card_with_result X asset_id
                      (ar_brand_id (ap_fetched plan)) (actor_id actor)) (\<lambda>_. ret response)
     else ret response)"

definition execute_asset_action ::
  "('z externs_scheme) \<Rightarrow> string \<Rightarrow> asset_action \<Rightarrow> actor_context \<Rightarrow> headers
    \<Rightarrow> asset_action_request \<Rightarrow> response op" where
  "execute_asset_action X asset_id action actor headers payload =
     try_bind
       (check (\<not> (action = LegalSell \<and> (aq_buyer_id payload = None \<or> aq_buyer_id payload = Some [])))
          (InvalidInput ''LegalSell requires buyer_id'')) (\<lambda>_.
     try_bind (lift (parse_required_headers X headers)) (\<lambda>hs.
     with_idempotency (rh_idempotency_key hs)
       (build_request_hash X asset_id action payload actor hs)
       (try_bind (prepare_action X asset_id action actor hs payload)
          (commit_action X asset_id action actor))))"

text \<open>The handlers that only name their action.\<close>

definition blind_log_asset where
  "blind_log_asset X asset_id = execute_asset_action X asset_id BlindLog"

definition stock_in_asset where
  "stock_in_asset X asset_id = execute_asset_action X asset_id StockIn"

definition activate_confirm_asset where
  "activate_confirm_asset X asset_id = execute_asset_action X asset_id ActivateConfirm"

definition legal_sell_asset where
  "legal_sell_asset X asset_id = execute_asset_action X asset_id LegalSell"

definition consume_asset where
  "consume_asset X asset_id = execute_asset_action X asset_id Consume"

definition legacy_asset where
  "legacy_asset X asset_id = execute_asset_action X asset_id LegacyAction"

definition freeze_asset where
  "freeze_asset X asset_id = execute_asset_action X asset_id Freeze"

definition recover_asset where
  "recover_asset X asset_id = execute_asset_action X asset_id Recover"

definition mark_tampered_asset where
  "mark_tampered_asset X asset_id = execute_asset_action X asset_id MarkTampered"

definition mark_compromised_asset where
  "mark_compromised_asset X asset_id = execute_asset_action X asset_id MarkCompromised"

definition mark_destructed_asset where
  "mark_destructed_asset X asset_id = execute_asset_action X asset_id MarkDestructed"

section \<open>Activation\<close>

definition update_asset_product_mapping ::
  "string \<Rightarrow> string \<Rightarrow> string option \<Rightarrow> string option \<Rightarrow> unit op" where
  "update_asset_product_mapping asset_id external_product_id external_product_name
     external_product_url =
     try_bind utc_now (\<lambda>now.
     execute_sql (update_asset asset_id (\<lambda>a. a\<lparr>
       as_external_product_id := Some external_product_id,
       as_external_product_name := external_product_name,
       as_external_product_url := external_product_url, as_updated_at := now\<rparr>)))"

text \<open>Commitment and attestations of an activation, up to the persisted action.\<close>

definition issue_attestations ::
  "('z externs_scheme) \<Rightarrow> string \<Rightarrow> string \<Rightarrow> activate_request \<Rightarrow> string op" where
  "issue_attestations X asset_id brand_id payload =
     try_bind (update_asset_product_mapping asset_id (vq_external_product_id payload)
                 (vq_external_product_name payload) (vq_external_product_url payload)) (\<lambda>_.
     try_bind (fetch_first (asset_with_id asset_id) db_assets) (\<lambda>r.
     try_bind (required AssetNotFound r) (\<lambda>snapshot.
     try_bind (required (InvalidInput ''asset has no UID'') (as_uid snapshot)) (\<lambda>uid.
     try_bind (build_asset_commitment_record X brand_id uid (as_key_epoch snapshot)
                 (vq_external_product_id payload) (vq_external_product_name payload)
                 (vq_external_product_url payload) (as_batch_id snapshot)) (\<lambda>commitment.
     try_bind (insert_asset_commitment X commitment) (\<lambda>_.
     try_bind (bind_asset_commitment_to_asset asset_id (cm_commitment_id commitment)) (\<lambda>_.
     try_bind utc_now (\<lambda>issued_at.
     try_bind (load_brand_signing_key X) (\<lambda>(brand_key_id, brand_signing_key).
     try_bind (lift (build_brand_attestation_record X brand_id (cm_commitment_id commitment)
                       issued_at brand_key_id brand_signing_key)) (\<lambda>brand_attestation.
     try_bind (insert_brand_attestation X brand_attestation) (\<lambda>_.
     try_bind (load_platform_signing_key X) (\<lambda>(platform_id, platform_key_id, platform_signing_key).
     try_bind (lift (build_platform_attestation_record X platform_id (cm_commitment_id commitment)
                       issued_at platform_key_id platform_signing_key)) (\<lambda>platform_attestation.
     try_bind (insert_platform_attestation X platform_attestation) (\<lambda>_.
     ret (cm_commitment_id commitment)))))))))))))))"

definition activate_response ::
  "('z externs_scheme) \<Rightarrow> string \<Rightarrow> string \<Rightarrow> asset_record \<Rightarrow> asset_record \<Rightarrow> audit_event \<Rightarrow> json" where
  "activate_response X asset_id commitment_id record next_record ev =
     JObj
       [(''action'', JStr (action_db_str ActivateRotateKeys)),
        (''asset_commitment_id'', JStr commitment_id), (''asset_id'', JStr asset_id),
        (''audit_event_id'', JStr (x_uuid_text X (ae_event_id ev))),
        (''brand_attestation_status'', JStr ''issued''),
        (''from_state'', JStr (as_db_str (ar_current_state record))),
        (''platform_attestation_status'', JStr ''issued''),
        (''to_state'', JStr (as_db_str (ar_current_state next_record)))]"

definition prepare_activation ::
  "('z externs_scheme) \<Rightarrow> string \<Rightarrow> actor_context \<Rightarrow> required_headers \<Rightarrow> activate_request
    \<Rightarrow> string \<Rightarrow> (action_plan \<times> string) op" where
  "prepare_activation X asset_id actor hs payload request_hash =
     try_bind (fetch_asset asset_id) (\<lambda>asset_record.
     try_bind (lift (check_brand_boundary actor (ar_brand_id asset_record))) (\<lambda>_.
     try_bind (draw (x_uuid X)) (\<lambda>event_id.
     try_bind (lift (apply_action event_id asset_record ActivateRotateKeys
                       (audit_context_of actor hs None))) (\<lambda>(next_record, ev).
     try_bind (issue_attestations X asset_id (ar_brand_id asset_record) payload) (\<lambda>commitment_id.
     ret (\<lparr>ap_fetched = asset_record, ap_next = next_record, ap_event = ev,
           ap_hash = request_hash,
           ap_response =
             activate_response X asset_id commitment_id asset_record next_record ev\<rparr>,
          commitment_id))))))"

definition activate_asset ::
  "('z externs_scheme) \<Rightarrow> string \<Rightarrow> actor_context \<Rightarrow> headers \<Rightarrow> activate_request \<Rightarrow> response op" where
  "activate_asset X asset_id actor headers payload =
     try_bind (check (vq_external_product_id payload \<noteq> [])
                 (InvalidInput ''external_product_id is required'')) (\<lambda>_.
     try_bind (lift (parse_required_headers X headers)) (\<lambda>hs.
     let request_hash =
           ''asset='' @ asset_id @ ''|action=ActivateRotateKeys|trace='' @
           x_uuid_text X (rh_trace_id hs) @ ''|role='' @ role_db_str (the_role actor) @
           ''|product='' @ vq_external_product_id payload
     in with_idempotency (rh_idempotency_key hs) request_hash
       (try_bind (prepare_activation X asset_id actor hs payload request_hash)
          (\<lambda>(plan, commitment_id). persist_plan X (Some commitment_id) plan))))"

definition card_json :: "virtual_mother_card \<Rightarrow> json" where
  "card_json c =
     JObj
       [(''authority_type'', JStr (vc_authority_type c)),
        (''authority_uid'', JStr (vc_authority_uid c)),
        (''credential_hash'', JStr (vc_credential_hash c)),
        (''epoch'', JNum (sint (vc_epoch c)))]"

definition prepare_entangle ::
  "('z externs_scheme) \<Rightarrow> string \<Rightarrow> actor_context \<Rightarrow> required_headers \<Rightarrow> asset_action_request
    \<Rightarrow> string \<Rightarrow> action_plan op" where
  "prepare_entangle X asset_id actor hs payload request_hash =
     try_bind (fetch_asset asset_id) (\<lambda>fetched.
     try_bind (lift (check_brand_boundary actor (ar_brand_id fetched))) (\<lambda>_.
     let asset_record = with_client_previous payload fetched in
     try_bind (draw (x_uuid X)) (\<lambda>event_id.
     try_bind (lift (apply_action event_id asset_record ActivateEntangle
                       (audit_context_of actor hs (aq_buyer_id payload)))) (\<lambda>(next_record, ev).
     try_bind (generate_virtual_mother_card_with_result X asset_id (ar_brand_id asset_record)
                 (actor_id actor)) (\<lambda>card.
     ret \<lparr>ap_fetched = asset_record, ap_next = next_record, ap_event = ev,
          ap_hash = request_hash,
          ap_response =
            (case action_response X asset_id ActivateEntangle asset_record next_record ev of
               JObj ms \<Rightarrow> JObj (ms @ [(''virtual_mother_card'', card_json card)]) | j \<Rightarrow> j)\<rparr>)))))"

definition activate_entangle_asset ::
  "('z externs_scheme) \<Rightarrow> string \<Rightarrow> actor_context \<Rightarrow> headers \<Rightarrow> asset_action_request
    \<Rightarrow> response op" where
  "activate_entangle_asset X asset_id actor headers payload =
     try_bind (lift (parse_required_headers X headers)) (\<lambda>hs.
     let request_hash = build_request_hash X asset_id ActivateEntangle payload actor hs
     in with_idempotency (rh_idempotency_key hs) request_hash
       (try_bind (prepare_entangle X asset_id actor hs payload request_hash)
          (persist_plan X None)))"

end
