(* ===== verification/Authorization.thy ===== *)
theory Authorization
  imports Routes_Protocol
begin

text \<open>
  \<^verbatim>\<open>auth/authorization.rs\<close>: whether the holder of a mother card, virtual or physical,
  authorises an operation on the asset it is entangled with.
\<close>

section \<open>Definitions\<close>

datatype authority_proof =
    VirtualToken (vt_user_id: string) (vt_credential_token: string)
  | PhysicalNfc (pn_uid: string) (pn_ctr: string) (pn_cmac: string)

record authorization_result =
  az_authorized :: bool
  az_authority_type :: string
  az_risk_flags :: "string list"

definition refuse :: "authority_device_row \<Rightarrow> string \<Rightarrow> authorization_result" where
  "refuse dev flag =
     \<lparr>az_authorized = False, az_authority_type = ad_authority_type dev, az_risk_flags = [flag]\<rparr>"

definition grant :: "authority_device_row \<Rightarrow> authorization_result" where
  "grant dev =
     \<lparr>az_authorized = True, az_authority_type = ad_authority_type dev, az_risk_flags = []\<rparr>"

definition verify_virtual_authority ::
  "('z externs_scheme) \<Rightarrow> string \<Rightarrow> string \<Rightarrow> string \<Rightarrow> authorization_result op" where
  "verify_virtual_authority X asset_id user_id credential_token =
     try_bind (fetch_authority_device_by_asset asset_id) (\<lambda>dev.
     if ad_authority_type dev \<noteq> ''VIRTUAL_APP'' then ret (refuse dev ''wrong_authority_type'')
     else if ad_status dev \<noteq> ''Active'' then ret (refuse dev ''authority_device_inactive'')
     else case ad_bound_user_id dev of
       None \<Rightarrow> ret (refuse dev ''no_bound_user'')
     | Some bound_user \<Rightarrow>
         if bound_user \<noteq> user_id then ret (refuse dev ''user_mismatch'')
         else
           try_bind (kms_or_error ''KMS derive_mother_key failed: ''
             (\<lambda>k. derive_mother_key X k (ad_brand_id dev) (as_bytes (ad_authority_uid dev))
                    (ad_key_epoch dev))) (\<lambda>k_chip_mother.
           let computed_hash = credential_hash X k_chip_mother (ad_authority_uid dev) in
           try_bind (required (Database ''virtual_credential_hash is NULL'')
                       (ad_virtual_credential_hash dev)) (\<lambda>stored_hash.
           if credential_token \<noteq> stored_hash then ret (refuse dev ''credential_mismatch'')
           else if computed_hash \<noteq> stored_hash
           then ret (refuse dev ''credential_integrity_failure'')
           else ret (grant dev))))"

definition parse_ctr :: "('z externs_scheme) \<Rightarrow> string \<Rightarrow> rc_error + u32" where
  "parse_ctr X ctr_hex =
     (if length ctr_hex \<noteq> 6 then Inl (InvalidInput ''ctr must be 6 hex characters'')
      else and_then (map_sum (\<lambda>_. InvalidInput ''invalid ctr hex'') id (x_hex_decode X ctr_hex))
        (\<lambda>ctr_bytes.
        if length ctr_bytes \<noteq> 3 then Inl (InvalidInput ''ctr must be 3 bytes'')
        else Inr (from_le_bytes (ctr_bytes ! 0) (ctr_bytes ! 1) (ctr_bytes ! 2) 0)))"

definition decode_hex :: "('z externs_scheme) \<Rightarrow> string \<Rightarrow> string \<Rightarrow> rc_error + bytes" where
  "decode_hex X s what = map_sum (\<lambda>_. InvalidInput what) id (x_hex_decode X s)"

text \<open>The part of \<^verbatim>\<open>verify_physical_authority\<close> after the replay test.\<close>

definition check_physical_tap ::
  "('z externs_scheme) \<Rightarrow> authority_device_row \<Rightarrow> string \<Rightarrow> string \<Rightarrow> string \<Rightarrow> u32
    \<Rightarrow> authorization_result op" where
  "check_physical_tap X dev uid_hex ctr_hex cmac_hex new_ctr =
     try_bind (lift (decode_hex X uid_hex ''invalid uid hex'')) (\<lambda>uid.
     try_bind (lift (decode_hex X ctr_hex ''invalid ctr hex'')) (\<lambda>ctr.
     try_bind (lift (decode_hex X cmac_hex ''invalid cmac hex'')) (\<lambda>cmac.
     try_bind (check (length uid = 7) (InvalidInput ''uid must be 7 bytes'')) (\<lambda>_.
     try_bind (check (length ctr = 3) (InvalidInput ''ctr must be 3 bytes'')) (\<lambda>_.
     try_bind (check (length cmac = 8) (InvalidInput ''cmac must be 8 bytes'')) (\<lambda>_.
     try_bind (kms_or_error ''KMS derive_chip_key failed: ''
                 (\<lambda>k. derive_chip_key X k (ad_brand_id dev) uid (ad_key_epoch dev))) (\<lambda>k_chip.
     if \<not> verify_sun_message X k_chip uid ctr cmac then ret (refuse dev ''cmac_invalid'')
     else
       try_bind (atomic_update_ctr (ad_authority_id dev) new_ctr) (\<lambda>ctr_updated.
       ret (if ctr_updated then grant dev else refuse dev ''ctr_replay'')))))))))"

definition verify_physical_authority ::
  "('z externs_scheme) \<Rightarrow> string \<Rightarrow> string \<Rightarrow> string \<Rightarrow> string \<Rightarrow> authorization_result op" where
  "verify_physical_authority X asset_id uid_hex ctr_hex cmac_hex =
     try_bind (fetch_authority_device_by_asset asset_id) (\<lambda>dev.
     if ad_authority_type dev \<noteq> ''PHYSICAL_NFC'' then ret (refuse dev ''wrong_authority_type'')
     else if ad_status dev \<noteq> ''Active'' then ret (refuse dev ''authority_device_inactive'')
     else case ad_physical_chip_uid dev of
       None \<Rightarrow> ret (refuse dev ''missing_physical_chip_uid'')
     | Some physical_chip_uid \<Rightarrow>
         if to_uppercase X uid_hex \<noteq> to_uppercase X physical_chip_uid
         then ret (refuse dev ''uid_mismatch'')
         else case parse_ctr X ctr_hex of
           Inl _ \<Rightarrow> ret (refuse dev ''invalid_ctr_format'')
         | Inr new_ctr \<Rightarrow>
             if (case ad_last_known_ctr dev of None \<Rightarrow> False
                 | Some last_ctr \<Rightarrow> sint new_ctr \<le> sint last_ctr)
             then ret (refuse dev ''ctr_replay'')
             else check_physical_tap X dev uid_hex ctr_hex cmac_hex new_ctr)"

definition verify_authority ::
  "('z externs_scheme) \<Rightarrow> string \<Rightarrow> authority_proof \<Rightarrow> authorization_result op" where
  "verify_authority X asset_id proof =
     (case proof of
        VirtualToken user_id credential_token \<Rightarrow>
          verify_virtual_authority X asset_id user_id credential_token
      | PhysicalNfc uid ctr cmac \<Rightarrow> verify_physical_authority X asset_id uid ctr cmac)"

end
