(* ===== verification/Routes_Transfer.thy ===== *)
theory Routes_Transfer
  imports Authorization
begin

text \<open>
  \<^verbatim>\<open>routes/mod.rs\<close> and \<^verbatim>\<open>routes/transfer.rs\<close>: handing an asset from one consumer to
  another with a tap of its tag and the proof of a mother card, and the recipient's answer.
\<close>

section \<open>\<^verbatim>\<open>routes/mod.rs\<close>\<close>

fun error_status :: "rc_error \<Rightarrow> nat" where
  "error_status AssetNotFound = 404"
| "error_status BrandNotFound = 404"
| "error_status ProductNotFound = 404"
| "error_status (NotFound _) = 404"
| "error_status (InvalidInput _) = 400"
| "error_status (DuplicateResource _) = 409"
| "error_status (Conflict _) = 409"
| "error_status (MissingRequiredHeader _) = 400"
| "error_status (InvalidHeader _) = 400"
| "error_status IdempotencyConflict = 409"
| "error_status (Database _) = 500"
| "error_status Unauthorized = 401"
| "error_status TokenExpired = 401"
| "error_status InvalidSignature = 401"
| "error_status (InvalidClaims _) = 401"
| "error_status BrandBoundaryViolation = 403"
| "error_status PermissionDenied = 403"
| "error_status (Forbidden _) = 403"
| "error_status _ = 400"

definition error_response :: "rc_error \<Rightarrow> response" where
  "error_response err = Response (error_status err) (TextBody (error_text err))"

section \<open>\<^verbatim>\<open>transfer.rs\<close>\<close>

record transfer_request =
  tq_new_owner_id :: string
  tq_child_uid :: string
  tq_child_ctr :: string
  tq_child_cmac :: string
  tq_authority_proof :: authority_proof

definition verify_child_tag ::
  "('z externs_scheme) \<Rightarrow> string \<Rightarrow> string \<Rightarrow> string \<Rightarrow> string \<Rightarrow> unit op" where
  "verify_child_tag X brand_id uid_hex ctr_hex cmac_hex =
     try_bind (lift (decode_hex X uid_hex ''invalid child_uid hex'')) (\<lambda>uid.
     try_bind (lift (decode_hex X ctr_hex ''invalid child_ctr hex'')) (\<lambda>ctr.
     try_bind (lift (decode_hex X cmac_hex ''invalid child_cmac hex'')) (\<lambda>cmac.
     try_bind (check (length uid = 7) (InvalidInput ''child_uid must be 7 bytes'')) (\<lambda>_.
     try_bind (check (length ctr = 3) (InvalidInput ''child_ctr must be 3 bytes'')) (\<lambda>_.
     try_bind (check (length cmac = 8) (InvalidInput ''child_cmac must be 8 bytes'')) (\<lambda>_.
     try_bind (fetch_first (\<lambda>a. as_uid a = Some uid_hex) db_assets) (\<lambda>r.
     try_bind (required AssetNotFound r) (\<lambda>row.
     try_bind (kms_or_error ''KMS derive_chip_key failed: ''
                 (\<lambda>k. derive_chip_key X k brand_id uid (as_epoch row))) (\<lambda>k_chip.
     check (verify_sun_message X k_chip uid ctr cmac)
       (InvalidInput ''child tag CMAC verification failed''))))))))))"

text \<open>\<open>{:?}\<close> of an asset state, whose variant names are its database texts, and of flags.\<close>

definition debug_strings :: "string list \<Rightarrow> string" where
  "debug_strings ss = ''['' @ join '', '' (map (\<lambda>s. ''\"'' @ s @ ''\"'') ss) @ '']''"

definition uuid_json :: "('z externs_scheme) \<Rightarrow> uuid \<Rightarrow> json" where
  "uuid_json X u = JStr (x_uuid_text X u)"

definition transfer_trace ::
  "('z externs_scheme) \<Rightarrow> headers \<Rightarrow> uuid op" where
  "transfer_trace X hs =
     (case Option.bind (optional_header hs ''X-Trace-Id'') (x_parse_uuid X) of
        Some u \<Rightarrow> ret u
      | None \<Rightarrow> draw (x_uuid X))"

definition transfer_event ::
  "actor_context \<Rightarrow> headers \<Rightarrow> string \<Rightarrow> asset_state \<Rightarrow> string \<Rightarrow> uuid \<Rightarrow> uuid \<Rightarrow> time
    \<Rightarrow> state_event_row" where
  "transfer_event actor hs asset_id from_state idempotency_key trace_id event_id now =
     \<lparr>se_event_id = event_id, se_asset_id = asset_id, se_action = ''Transfer'',
      se_from_state = Some (as_db_str from_state), se_to_state = as_db_str Transferred,
      se_trace_id = trace_id, se_actor_id = actor_id actor,
      se_actor_role = role_db_str (the_role actor), se_actor_org = actor_org actor,
      se_idempotency_key = idempotency_key,
      se_approval_id = optional_header hs ''X-Approval-Id'',
      se_policy_version = optional_header hs ''X-Policy-Version'',
      se_asset_commitment_id = None, se_occurred_at = now\<rparr>"

text \<open>Everything \<^verbatim>\<open>transfer_handler\<close> checks before it writes: the record and its owner.\<close>

definition authorize_transfer ::
  "('z externs_scheme) \<Rightarrow> string \<Rightarrow> actor_context \<Rightarrow> transfer_request
    \<Rightarrow> (asset_record \<times> string) op" where
  "authorize_transfer X asset_id actor payload =
     try_bind (fetch_asset asset_id) (\<lambda>asset_record.
     try_bind (check (ar_current_state asset_record \<in> {LegallySold, Transferred})
       (InvalidInput (''asset in state '' @ as_db_str (ar_current_state asset_record) @
          '' cannot be transferred''))) (\<lambda>_.
     try_bind (fetch_first (asset_with_id asset_id) db_assets) (\<lambda>r.
     try_bind (required (InvalidInput ''asset has no owner'') (Option.bind r as_owner_id))
       (\<lambda>current_owner.
     try_bind (check (actor_id actor = current_owner)
       (Forbidden ''only current owner can transfer'')) (\<lambda>_.
     try_bind (verify_child_tag X (ar_brand_id asset_record) (tq_child_uid payload)
                 (tq_child_ctr payload) (tq_child_cmac payload)) (\<lambda>_.
     try_bind (verify_authority X asset_id (tq_authority_proof payload)) (\<lambda>auth_result.
     try_bind (check (az_authorized auth_result)
       (Forbidden (''authority verification failed: '' @
          debug_strings (az_risk_flags auth_result)))) (\<lambda>_.
     ret (asset_record, current_owner)))))))))"

definition transfer_handler ::
  "('z externs_scheme) \<Rightarrow> string \<Rightarrow> actor_context \<Rightarrow> headers \<Rightarrow> transfer_request \<Rightarrow> response op" where
  "transfer_handler X asset_id actor hs payload =
     try_bind (lift (required_header hs ''X-Idempotency-Key'')) (\<lambda>idempotency_key.
     try_bind (authorize_transfer X asset_id actor payload) (\<lambda>(asset_record, current_owner).
     try_bind utc_now (\<lambda>now.
     try_bind (execute_sql (update_asset asset_id (\<lambda>a. a\<lparr>
        as_current_state := as_db_str Transferred,
        as_previous_state := Some (as_db_str (ar_current_state asset_record)),
        as_owner_id := Some (tq_new_owner_id payload), as_updated_at := now\<rparr>))) (\<lambda>_.
     try_bind (transfer_trace X hs) (\<lambda>trace_id.
     try_bind (insert_transfer X asset_id current_owner (tq_new_owner_id payload)
                 ''CONSUMER_TO_CONSUMER'' idempotency_key (x_uuid_text X trace_id)) (\<lambda>transfer_id.
     try_bind (draw (x_uuid X)) (\<lambda>event_id.
     try_bind (attempt (insert_event X
       (transfer_event actor hs asset_id (ar_current_state asset_record) idempotency_key trace_id
          event_id now))) (\<lambda>_.
     ret (ok_json (JObj
       [(''transfer_id'', uuid_json X transfer_id), (''asset_id'', JStr asset_id),
        (''from_owner_id'', JStr current_owner), (''to_owner_id'', JStr (tq_new_owner_id payload)),
        (''new_state'', JStr (as_db_str Transferred))])))))))))) "

definition to_transfer_detail_response :: "('z externs_scheme) \<Rightarrow> transfer_record \<Rightarrow> json" where
  "to_transfer_detail_response X t =
     JObj
       [(''transfer_id'', uuid_json X (tf_transfer_id t)), (''asset_id'', JStr (tf_asset_id t)),
        (''from_user_id'', JStr (tf_from_user_id t)), (''to_user_id'', JStr (tf_to_user_id t)),
        (''from_owner_id'', JStr (tf_from_owner_id t)), (''to_owner_id'', JStr (tf_to_owner_id t)),
        (''transfer_type'', JStr (tf_transfer_type t)), (''status'', JStr (tf_status t)),
        (''created_at'', JStr (x_rfc3339 X (tf_created_at t)))]"

definition get_transfer_handler ::
  "('z externs_scheme) \<Rightarrow> uuid \<Rightarrow> actor_context \<Rightarrow> response op" where
  "get_transfer_handler X transfer_id actor =
     try_bind (fetch_transfer transfer_id) (\<lambda>t.
     try_bind (check (\<not> (actor_id actor \<noteq> tf_from_user_id t \<and> actor_id actor \<noteq> tf_to_user_id t))
       (Forbidden ''only transfer participants can view transfer'')) (\<lambda>_.
     ret (ok_json (to_transfer_detail_response X t))))"

definition confirm_transfer_handler ::
  "('z externs_scheme) \<Rightarrow> actor_context \<Rightarrow> uuid \<Rightarrow> response op" where
  "confirm_transfer_handler X actor transfer_id =
     try_bind (fetch_transfer transfer_id) (\<lambda>existing.
     try_bind (check (actor_id actor = tf_to_user_id existing)
       (Forbidden ''only target owner can confirm transfer'')) (\<lambda>_.
     try_bind (confirm_transfer transfer_id) (\<lambda>confirmed.
     ret (ok_json (to_transfer_detail_response X confirmed)))))"

definition reject_transfer_handler ::
  "('z externs_scheme) \<Rightarrow> actor_context \<Rightarrow> uuid \<Rightarrow> response op" where
  "reject_transfer_handler X actor transfer_id =
     try_bind (fetch_transfer transfer_id) (\<lambda>existing.
     try_bind (check (actor_id actor = tf_to_user_id existing)
       (Forbidden ''only target owner can reject transfer'')) (\<lambda>_.
     try_bind (reject_transfer transfer_id) (\<lambda>rejected.
     ret (ok_json (to_transfer_detail_response X rejected)))))"

end
