(* ===== verification/Ctr_Cache.thy ===== *)
theory Ctr_Cache
  imports Asset_Queries
begin

text \<open>
  \<^verbatim>\<open>cache/ctr_cache.rs\<close>: the counter of a tag behind three levels, the process-local
  map, Redis and PostgreSQL. A Redis command fails when the world's list says so. Times are
  seconds.
\<close>

section \<open>Redis\<close>

definition redis_call :: "(redis_store \<Rightarrow> 'a \<times> redis_store) \<Rightarrow> (world, unit, 'a) act" where
  "redis_call f w =
     (case w_redis w of
        None \<Rightarrow> (Inl (), w)
      | Some store \<Rightarrow>
          (let w1 = w\<lparr>w_redis_faults := tl (w_redis_faults w)\<rparr>
           in if w_redis_faults w \<noteq> [] \<and> hd (w_redis_faults w) then (Inl (), w1)
              else (case f store of (x, store') \<Rightarrow> (Inr x, w1\<lparr>w_redis := Some store'\<rparr>))))"

definition redis_get_ctr :: "string \<Rightarrow> (world, unit, u32 option) act" where
  "redis_get_ctr key =
     try_bind (gets w_now) (\<lambda>now.
     redis_call (\<lambda>r. (case rd_counters r key of
        None \<Rightarrow> None | Some (v, expires) \<Rightarrow> if now < expires then Some v else None, r)))"

definition redis_set_ex :: "string \<Rightarrow> u32 \<Rightarrow> int \<Rightarrow> (world, unit, unit) act" where
  "redis_set_ex key v ttl =
     try_bind (gets w_now) (\<lambda>now.
     redis_call (\<lambda>r. ((), r\<lparr>rd_counters := (rd_counters r)(key \<mapsto> (v, now + ttl))\<rparr>)))"

section \<open>The cache\<close>

definition l1_ttl :: int where
  "l1_ttl = 300"

definition l2_ttl_secs :: int where
  "l2_ttl_secs = 86400"

datatype ctr_source = L1 | L2 | L3

definition ctr_key :: "string \<Rightarrow> string" where
  "ctr_key uid = ''ctr:'' @ uid"

definition redis_available :: "world \<Rightarrow> bool" where
  "redis_available w \<longleftrightarrow> w_redis w \<noteq> None \<and> w_fallback w \<noteq> DirectPg"

definition l1_insert :: "string \<Rightarrow> u32 \<Rightarrow> (world, 'e, unit) act" where
  "l1_insert uid ctr =
     puts (\<lambda>w. w\<lparr>w_l1 := (w_l1 w)(uid \<mapsto> \<lparr>ce_ctr = ctr, ce_cached_at = w_now w\<rparr>)\<rparr>)"

definition l1_remove :: "string \<Rightarrow> (world, 'e, unit) act" where
  "l1_remove uid = puts (\<lambda>w. w\<lparr>w_l1 := (w_l1 w)(uid := None)\<rparr>)"

definition backfill_l2 :: "string \<Rightarrow> u32 \<Rightarrow> (world, 'e, unit) act" where
  "backfill_l2 uid ctr =
     try_bind (gets redis_available) (\<lambda>available.
     if \<not> available then ret ()
     else try_bind (attempt (redis_set_ex (ctr_key uid) ctr l2_ttl_secs)) (\<lambda>_. ret ()))"

definition get_ctr :: "string \<Rightarrow> (u32 \<times> ctr_source) op" where
  "get_ctr uid =
     try_bind (gets (\<lambda>w. (w_l1 w uid, w_now w))) (\<lambda>(entry, now).
     if (case entry of None \<Rightarrow> False | Some e \<Rightarrow> now - ce_cached_at e < l1_ttl)
     then ret (ce_ctr (the entry), L1)
     else
       try_bind (if entry = None then ret () else l1_remove uid) (\<lambda>_.
       try_bind (gets redis_available) (\<lambda>available.
       try_bind
         (if available then attempt (redis_get_ctr (ctr_key uid)) else ret (Inr None)) (\<lambda>l2.
       case l2 of
         Inr (Some ctr) \<Rightarrow> try_bind (l1_insert uid ctr) (\<lambda>_. ret (ctr, L2))
       | _ \<Rightarrow>
           try_bind (fetch_first (\<lambda>a. as_uid a = Some uid) db_assets) (\<lambda>row.
           let ctr = unwrap_or 0 (Option.bind row as_last_verified_ctr) in
           try_bind (l1_insert uid ctr) (\<lambda>_.
           try_bind (backfill_l2 uid ctr) (\<lambda>_.
           ret (ctr, L3))))))))"

definition update_ctr :: "string \<Rightarrow> u32 \<Rightarrow> unit op" where
  "update_ctr uid new_ctr =
     try_bind (l1_insert uid new_ctr) (\<lambda>_. backfill_l2 uid new_ctr)"

end
