(* ===== verification/Routes_Verify.thy ===== *)
theory Routes_Verify
  imports Routes_Transfer Ctr_Cache
begin

text \<open>
  \<^verbatim>\<open>routes/verify.rs\<close>: the public verification of a tag, versions 1 and 2. A reply is
  the HTTP status with the response struct; \<open>reply_response\<close> renders it.
\<close>

section \<open>Parameters and replies\<close>

record verify_params =
  vp_uid :: "string option"
  vp_ctr :: "string option"
  vp_cmac :: "string option"

record parsed_sun_params =
  ps_uid :: bytes
  ps_ctr :: bytes
  ps_cmac :: bytes
  ps_ctr_value :: u32

record scan_metadata =
  sm_ctr :: u32
  sm_previous_ctr :: "u32 option"
  sm_verified_at :: string

record verify_asset_info =
  vi_asset_id :: string
  vi_brand_id :: string
  vi_product_id :: "string option"
  vi_uid :: string
  vi_current_state :: string
  vi_asset_commitment_id :: "string option"

record verify_response =
  vr_verification_status :: string
  vr_risk_flags :: "string list"
  vr_asset :: "verify_asset_info option"
  vr_scan_metadata :: "scan_metadata option"

record verification_v2_response =
  v2_tag_authentication :: string
  v2_asset_commitment_id :: "string option"
  v2_brand_attestation :: string
  v2_platform_attestation :: string
  v2_current_state :: "string option"
  v2_risk_flags :: "string list"
  v2_verification_status :: string
  v2_error_codes :: "string list"
  v2_asset :: "verify_asset_info option"
  v2_scan_metadata :: "scan_metadata option"

datatype verify_reply = ReplyV1 nat verify_response | ReplyV2 nat verification_v2_response

definition missing_param :: "string \<Rightarrow> string option \<Rightarrow> rc_error + string" where
  "missing_param name = ok_or (InvalidInput (''missing parameter: '' @ name))"

definition exact_length :: "nat \<Rightarrow> string \<Rightarrow> bytes \<Rightarrow> rc_error + bytes" where
  "exact_length n what bs = (if length bs = n then Inr bs else Inl (InvalidInput what))"

definition parse_sun_params ::
  "('z externs_scheme) \<Rightarrow> verify_params \<Rightarrow> rc_error + parsed_sun_params" where
  "parse_sun_params X params =
     and_then (missing_param ''uid'' (vp_uid params)) (\<lambda>uid_hex.
     and_then (missing_param ''ctr'' (vp_ctr params)) (\<lambda>ctr_hex.
     and_then (missing_param ''cmac'' (vp_cmac params)) (\<lambda>cmac_hex.
     and_then (decode_hex X uid_hex ''invalid uid hex format'') (\<lambda>uid_bytes.
     and_then (decode_hex X ctr_hex ''invalid ctr hex format'') (\<lambda>ctr_bytes.
     and_then (decode_hex X cmac_hex ''invalid cmac hex format'') (\<lambda>cmac_bytes.
     and_then (exact_length 7 ''uid must be 7 bytes (14 hex chars)'' uid_bytes) (\<lambda>uid.
     and_then (exact_length 3 ''ctr must be 3 bytes (6 hex chars)'' ctr_bytes) (\<lambda>ctr.
     and_then (exact_length 8 ''cmac must be 8 bytes (16 hex chars)'' cmac_bytes) (\<lambda>cmac.
     Inr \<lparr>ps_uid = uid, ps_ctr = ctr, ps_cmac = cmac,
          ps_ctr_value = from_le_bytes (ctr ! 0) (ctr ! 1) (ctr ! 2) 0\<rparr>)))))))))"

definition is_degraded_mode :: "verify_params \<Rightarrow> bool" where
  "is_degraded_mode params \<longleftrightarrow>
     vp_uid params \<noteq> None \<and> vp_ctr params = None \<and> vp_cmac params = None"

definition evaluate_status :: "string \<Rightarrow> string \<times> string list" where
  "evaluate_status current_state =
     (if current_state \<in> {''Activated'', ''LegallySold'', ''Transferred''}
      then (''display_allowed'', [])
      else if current_state = ''Disputed'' then (''restricted'', [''frozen_asset''])
      else if current_state \<in> {''Tampered'', ''Compromised'', ''Destructed''} then (''restricted'', [])
      else (''display_allowed'', []))"

definition v1_reply :: "string \<Rightarrow> verify_response" where
  "v1_reply status =
     \<lparr>vr_verification_status = status, vr_risk_flags = [], vr_asset = None,
      vr_scan_metadata = None\<rparr>"

definition v2_reply ::
  "string \<Rightarrow> string option \<Rightarrow> string \<Rightarrow> string list \<Rightarrow> verification_v2_response" where
  "v2_reply tag current_state status error_codes =
     \<lparr>v2_tag_authentication = tag, v2_asset_commitment_id = None,
      v2_brand_attestation = ''unknown'', v2_platform_attestation = ''unknown'',
      v2_current_state = current_state, v2_risk_flags = [], v2_verification_status = status,
      v2_error_codes = error_codes, v2_asset = None, v2_scan_metadata = None\<rparr>"

definition v2_error :: verification_v2_response where
  "v2_error = v2_reply ''error'' None ''error'' []"

definition bad_request :: "bool \<Rightarrow> verify_reply" where
  "bad_request v2 = (if v2 then ReplyV2 400 v2_error else ReplyV1 400 (v1_reply ''error''))"

definition server_error :: "bool \<Rightarrow> verify_reply" where
  "server_error v2 = (if v2 then ReplyV2 500 v2_error else ReplyV1 500 (v1_reply ''error''))"

definition unknown_tag :: "bool \<Rightarrow> verify_reply" where
  "unknown_tag v2 =
     (if v2 then ReplyV2 200 (v2_reply ''unknown_tag'' None ''unknown_tag'' [])
      else ReplyV1 200 (v1_reply ''unknown_tag''))"

text \<open>A \<open>match\<close> on a result: an error handler, a continuation; a panic passes through.\<close>

definition match_result :: "'a op \<Rightarrow> (rc_error \<Rightarrow> 'b op) \<Rightarrow> ('a \<Rightarrow> 'b op) \<Rightarrow> 'b op" where
  "match_result m h k =
     try_bind (attempt m) (\<lambda>r. case r of Inl (Err e) \<Rightarrow> h e | Inl Panic \<Rightarrow> panic | Inr x \<Rightarrow> k x)"

section \<open>Attestations of an asset\<close>

record summary =
  su_asset_commitment_id :: "string option"
  su_brand :: string
  su_platform :: string
  su_error_codes :: "string list"

text \<open>
  \<open>serde_json::from_value\<close> of a payload struct: the six members as strings, by name from an
  object or by position from an array.
\<close>

definition payload_of_fields :: "json option list \<Rightarrow> attestation_payload option" where
  "payload_of_fields fs =
     (case fs of
        [Some (JStr v), Some (JStr i), Some (JStr c), Some (JStr s), Some (JStr t), Some (JStr k)] \<Rightarrow>
          Some \<lparr>pl_version = v, pl_issuer_id = i, pl_asset_commitment_id = c, pl_statement = s,
                pl_issued_at = t, pl_key_id = k\<rparr>
      | _ \<Rightarrow> None)"

definition payload_from_value :: "string \<Rightarrow> json \<Rightarrow> attestation_payload option" where
  "payload_from_value issuer_member j =
     (case j of
        JObj ms \<Rightarrow> payload_of_fields (map (map_of ms)
          [''version'', issuer_member, ''asset_commitment_id'', ''statement'', ''issued_at'', ''key_id''])
      | JArr js \<Rightarrow> payload_of_fields (map Some js)
      | _ \<Rightarrow> None)"

definition resolve_asset_commitment_id :: "asset_verify_row \<Rightarrow> string option op" where
  "resolve_asset_commitment_id asset =
     (case av_asset_commitment_id asset of
        Some c \<Rightarrow> ret (Some c)
      | None \<Rightarrow>
          try_bind (fetch_asset_commitment_by_uid_epoch (av_uid asset) (av_epoch asset)) (\<lambda>r.
          ret (map_option cm_commitment_id r)))"

definition validate_brand_attestation ::
  "('z externs_scheme) \<Rightarrow> asset_verify_row \<Rightarrow> string \<Rightarrow> string op" where
  "validate_brand_attestation X asset commitment_id =
     try_bind (fetch_brand_attestation_by_commitment commitment_id) (\<lambda>found.
     case found of
       None \<Rightarrow> ret ''missing''
     | Some record \<Rightarrow>
         (case payload_from_value ''brand_id'' (at_canonical_payload record) of
            None \<Rightarrow> ret ''invalid''
          | Some payload \<Rightarrow>
              try_bind (load_brand_signing_key X) (\<lambda>(_, signing_key).
              try_bind (lift (verify_brand_attestation X payload (at_signature record)
                                (x_ed_public X signing_key))) (\<lambda>valid.
              let fields = pl_asset_commitment_id payload = commitment_id
                    \<and> pl_issuer_id payload = av_brand_id asset
                    \<and> pl_key_id payload = at_key_id record
                    \<and> pl_statement payload = at_statement record
                    \<and> pl_version payload = at_version record
              in ret (if valid \<and> fields then ''valid'' else ''invalid'')))))"

definition validate_platform_attestation ::
  "('z externs_scheme) \<Rightarrow> string \<Rightarrow> string op" where
  "validate_platform_attestation X commitment_id =
     try_bind (fetch_platform_attestation_by_commitment commitment_id) (\<lambda>found.
     case found of
       None \<Rightarrow> ret ''missing''
     | Some record \<Rightarrow>
         (case payload_from_value ''platform_id'' (at_canonical_payload record) of
            None \<Rightarrow> ret ''invalid''
          | Some payload \<Rightarrow>
              try_bind (load_platform_signing_key X) (\<lambda>(platform_id, _, signing_key).
              try_bind (lift (verify_platform_attestation X payload (at_signature record)
                                (x_ed_public X signing_key))) (\<lambda>valid.
              let fields = pl_asset_commitment_id payload = commitment_id
                    \<and> pl_issuer_id payload = platform_id
                    \<and> pl_key_id payload = at_key_id record
                    \<and> pl_statement payload = at_statement record
                    \<and> pl_version payload = at_version record
              in ret (if valid \<and> fields then ''valid'' else ''invalid'')))))"

definition attestation_errors :: "string \<Rightarrow> string \<Rightarrow> string \<Rightarrow> string list" where
  "attestation_errors missing invalid status =
     (if status = ''missing'' then [missing] else if status = ''invalid'' then [invalid] else [])"

definition build_summary :: "('z externs_scheme) \<Rightarrow> asset_verify_row \<Rightarrow> summary op" where
  "build_summary X asset =
     try_bind (resolve_asset_commitment_id asset) (\<lambda>cid.
     case cid of
       None \<Rightarrow>
         ret \<lparr>su_asset_commitment_id = None, su_brand = ''missing'', su_platform = ''missing'',
              su_error_codes = [''ASSET_COMMITMENT_NOT_FOUND'']\<rparr>
     | Some commitment_id \<Rightarrow>
         try_bind (validate_brand_attestation X asset commitment_id) (\<lambda>brand.
         try_bind (validate_platform_attestation X commitment_id) (\<lambda>platform.
         ret \<lparr>su_asset_commitment_id = Some commitment_id, su_brand = brand,
              su_platform = platform,
              su_error_codes =
                attestation_errors ''BRAND_ATTESTATION_MISSING'' ''BRAND_ATTESTATION_INVALID'' brand @
                attestation_errors ''PLATFORM_ATTESTATION_MISSING'' ''PLATFORM_ATTESTATION_INVALID''
                  platform\<rparr>)))"

section \<open>The handlers\<close>

definition asset_info :: "asset_verify_row \<Rightarrow> string option \<Rightarrow> verify_asset_info" where
  "asset_info row cid =
     \<lparr>vi_asset_id = av_asset_id row, vi_brand_id = av_brand_id row,
      vi_product_id = av_product_id row, vi_uid = av_uid row,
      vi_current_state = av_current_state row, vi_asset_commitment_id = cid\<rparr>"

definition handle_degraded ::
  "('z externs_scheme) \<Rightarrow> string \<Rightarrow> bool \<Rightarrow> verify_reply op" where
  "handle_degraded X uid_hex v2 =
     match_result (fetch_asset_by_uid uid_hex)
       (\<lambda>e. ret (if e = AssetNotFound then unknown_tag v2 else server_error v2))
       (\<lambda>row.
          if v2
          then match_result (build_summary X row) (\<lambda>_. ret (server_error True)) (\<lambda>s.
            ret (ReplyV2 200
              \<lparr>v2_tag_authentication = ''not_performed'',
               v2_asset_commitment_id = su_asset_commitment_id s,
               v2_brand_attestation = su_brand s, v2_platform_attestation = su_platform s,
               v2_current_state = Some (av_current_state row), v2_risk_flags = [],
               v2_verification_status = ''unverified'', v2_error_codes = su_error_codes s,
               v2_asset = Some (asset_info row (su_asset_commitment_id s)),
               v2_scan_metadata = None\<rparr>))
          else ret (ReplyV1 200 (v1_reply ''unverified'')))"

text \<open>The reply to an authenticated tap, after the counter has been judged.\<close>

definition reply_v2 ::
  "('z externs_scheme) \<Rightarrow> string \<Rightarrow> asset_verify_row \<Rightarrow> u32 \<Rightarrow> u32 option \<Rightarrow> string list \<Rightarrow> string
    \<Rightarrow> verify_reply op" where
  "reply_v2 X uid_hex asset new_ctr previous_ctr risk_flags state_status =
     try_bind utc_now (\<lambda>now.
     match_result (build_summary X asset) (\<lambda>_. ret (server_error True)) (\<lambda>s.
     let replay = ''replay_suspected'' \<in> set risk_flags;
         tag_authentication = (if replay then ''replay_suspected'' else ''passed'');
         error_codes = su_error_codes s @ (if replay then [''REPLAY_SUSPECTED''] else []);
         verification_status =
           (if tag_authentication = ''replay_suspected'' then ''replay_suspected''
            else if su_brand s \<noteq> ''valid'' \<or> su_platform s \<noteq> ''valid'' then ''incomplete_attestation''
            else if state_status = ''restricted'' then ''restricted''
            else ''authentic'')
     in try_bind (attempt (insert_verification_event_v2 X uid_hex (Some (av_asset_id asset)) new_ctr
          verification_status risk_flags True None (su_asset_commitment_id s) (Some (su_brand s))
          (Some (su_platform s)))) (\<lambda>_.
        ret (ReplyV2 200
          \<lparr>v2_tag_authentication = tag_authentication,
           v2_asset_commitment_id = su_asset_commitment_id s,
           v2_brand_attestation = su_brand s, v2_platform_attestation = su_platform s,
           v2_current_state = Some (av_current_state asset), v2_risk_flags = risk_flags,
           v2_verification_status = verification_status, v2_error_codes = error_codes,
           v2_asset = Some (asset_info asset (su_asset_commitment_id s)),
           v2_scan_metadata = Some \<lparr>sm_ctr = new_ctr, sm_previous_ctr = previous_ctr,
                                   sm_verified_at = x_rfc3339 X now\<rparr>\<rparr>))))"

definition reply_v1 ::
  "('z externs_scheme) \<Rightarrow> string \<Rightarrow> asset_verify_row \<Rightarrow> u32 \<Rightarrow> u32 option \<Rightarrow> string list \<Rightarrow> string
    \<Rightarrow> verify_reply op" where
  "reply_v1 X uid_hex asset new_ctr previous_ctr risk_flags state_status =
     try_bind utc_now (\<lambda>now.
     let verification_status =
           (if ''replay_suspected'' \<in> set risk_flags then ''replay_suspected''
            else if state_status = ''restricted'' then ''restricted'' else ''verified'')
     in try_bind (attempt (insert_verification_event X uid_hex (Some (av_asset_id asset)) new_ctr
          verification_status risk_flags True None)) (\<lambda>_.
        ret (ReplyV1 200
          \<lparr>vr_verification_status = verification_status, vr_risk_flags = risk_flags,
           vr_asset = Some (asset_info asset None),
           vr_scan_metadata = Some \<lparr>sm_ctr = new_ctr, sm_previous_ctr = previous_ctr,
                                   sm_verified_at = x_rfc3339 X now\<rparr>\<rparr>)))"

text \<open>The counter of an authenticated tap: \<open>None\<close> when the update failed.\<close>

definition judge_ctr :: "asset_verify_row \<Rightarrow> string \<Rightarrow> u32 \<Rightarrow> u32 \<Rightarrow> string list option op" where
  "judge_ctr asset uid_hex new_ctr cached_ctr =
     (if new_ctr \<le> cached_ctr \<and> cached_ctr > 0 then ret (Some [''replay_suspected''])
      else match_result (update_asset_ctr (av_asset_id asset) new_ctr) (\<lambda>_. ret None)
             (\<lambda>_. try_bind (update_ctr uid_hex new_ctr) (\<lambda>_. ret (Some []))))"

definition handle_full_verify ::
  "('z externs_scheme) \<Rightarrow> string \<Rightarrow> parsed_sun_params \<Rightarrow> bool \<Rightarrow> verify_reply op" where
  "handle_full_verify X uid_hex parsed v2 =
     match_result (fetch_asset_by_uid uid_hex)
       (\<lambda>e. if e = AssetNotFound
            then try_bind (attempt (insert_verification_event X uid_hex None (ps_ctr_value parsed)
                   ''unknown_tag'' [] False None)) (\<lambda>_. ret (unknown_tag v2))
            else ret (server_error v2))
       (\<lambda>asset.
     match_result (kms_or_error [] (\<lambda>k. derive_chip_key X k (av_brand_id asset) (ps_uid parsed)
                                           (av_epoch asset)))
       (\<lambda>_. ret (server_error v2)) (\<lambda>k_chip.
     if \<not> verify_sun_message X k_chip (ps_uid parsed) (ps_ctr parsed) (ps_cmac parsed)
     then try_bind (attempt (insert_verification_event X uid_hex (Some (av_asset_id asset))
            (ps_ctr_value parsed) ''authentication_failed'' [] False None)) (\<lambda>_.
          ret (if v2
               then ReplyV2 200 (v2_reply ''failed'' (Some (av_current_state asset))
                      ''authentication_failed'' [''TAG_AUTHENTICATION_FAILED''])
               else ReplyV1 200 (v1_reply ''authentication_failed'')))
     else
       match_result (get_ctr uid_hex) (\<lambda>_. ret (server_error v2)) (\<lambda>(cached_ctr, _).
       let new_ctr = ps_ctr_value parsed;
           previous_ctr = (if cached_ctr = 0 then None else Some cached_ctr) in
       try_bind (judge_ctr asset uid_hex new_ctr cached_ctr) (\<lambda>judged.
       case judged of
         None \<Rightarrow> ret (server_error v2)
       | Some ctr_flags \<Rightarrow>
           (case evaluate_status (av_current_state asset) of (state_status, state_flags) \<Rightarrow>
              (if v2 then reply_v2 else reply_v1) X uid_hex asset new_ctr previous_ctr
                (ctr_flags @ state_flags) state_status)))))"

definition verify_impl :: "('z externs_scheme) \<Rightarrow> verify_params \<Rightarrow> bool \<Rightarrow> verify_reply op" where
  "verify_impl X params v2 =
     (case vp_uid params of
        None \<Rightarrow> ret (bad_request v2)
      | Some uid_hex \<Rightarrow>
          if is_degraded_mode params then handle_degraded X uid_hex v2
          else (case parse_sun_params X params of
                  Inl _ \<Rightarrow> ret (bad_request v2)
                | Inr parsed \<Rightarrow> handle_full_verify X uid_hex parsed v2))"

section \<open>Rendering\<close>

definition member :: "string \<Rightarrow> json option \<Rightarrow> (string \<times> json) list" where
  "member name j = (case j of None \<Rightarrow> [] | Some v \<Rightarrow> [(name, v)])"

definition scan_json :: "scan_metadata \<Rightarrow> json" where
  "scan_json m =
     JObj ((''ctr'', JNum (uint (sm_ctr m))) #
       member ''previous_ctr'' (map_option (\<lambda>c. JNum (uint c)) (sm_previous_ctr m)) @
       [(''verified_at'', JStr (sm_verified_at m))])"

definition asset_info_json :: "verify_asset_info \<Rightarrow> json" where
  "asset_info_json i =
     JObj ([(''asset_id'', JStr (vi_asset_id i)), (''brand_id'', JStr (vi_brand_id i)),
            (''product_id'', opt_str (vi_product_id i)), (''uid'', JStr (vi_uid i)),
            (''current_state'', JStr (vi_current_state i))] @
       member ''asset_commitment_id'' (map_option JStr (vi_asset_commitment_id i)))"

definition strings_json :: "string list \<Rightarrow> json" where
  "strings_json ss = JArr (map JStr ss)"

fun reply_response :: "verify_reply \<Rightarrow> response" where
  "reply_response (ReplyV1 status r) =
     Response status (JsonBody (JObj
       ([(''verification_status'', JStr (vr_verification_status r)),
         (''risk_flags'', strings_json (vr_risk_flags r))] @
        member ''asset'' (map_option asset_info_json (vr_asset r)) @
        member ''scan_metadata'' (map_option scan_json (vr_scan_metadata r)))))"
| "reply_response (ReplyV2 status r) =
     Response status (JsonBody (JObj
       ([(''verification_version'', JStr ''v2''),
         (''tag_authentication'', JStr (v2_tag_authentication r)),
         (''attestation_status'', JObj
           (member ''asset_commitment_id'' (map_option JStr (v2_asset_commitment_id r)) @
            [(''brand_attestation'', JStr (v2_brand_attestation r)),
             (''platform_attestation'', JStr (v2_platform_attestation r))])),
         (''protocol_state'', JObj
           (member ''current_state'' (map_option JStr (v2_current_state r)) @
            [(''risk_flags'', strings_json (v2_risk_flags r))])),
         (''verification_status'', JStr (v2_verification_status r)),
         (''error_codes'', strings_json (v2_error_codes r))] @
        member ''asset'' (map_option asset_info_json (v2_asset r)) @
        member ''scan_metadata'' (map_option scan_json (v2_scan_metadata r)))))"

definition verify_handler :: "('z externs_scheme) \<Rightarrow> verify_params \<Rightarrow> response op" where
  "verify_handler X params = try_bind (verify_impl X params False) (\<lambda>r. ret (reply_response r))"

definition verify_v2_handler :: "('z externs_scheme) \<Rightarrow> verify_params \<Rightarrow> response op" where
  "verify_v2_handler X params = try_bind (verify_impl X params True) (\<lambda>r. ret (reply_response r))"

end
