(* ===== verification/Routes_Registry.thy ===== *)
theory Routes_Registry
  imports Routes_Transfer
begin

text \<open>
  \<^verbatim>\<open>routes/brand.rs\<close>, \<^verbatim>\<open>batch.rs\<close>, \<^verbatim>\<open>assets.rs\<close>,
  \<^verbatim>\<open>authority_devices.rs\<close> and \<^verbatim>\<open>health.rs\<close>: registering brands and rotating
  their keys, production batches, reading assets, and registering physical mother cards.
\<close>

section \<open>JSON of the listed records\<close>

definition opt_json :: "('a \<Rightarrow> json) \<Rightarrow> 'a option \<Rightarrow> json" where
  "opt_json f x = (case x of None \<Rightarrow> JNull | Some y \<Rightarrow> f y)"

definition time_json :: "('z externs_scheme) \<Rightarrow> time \<Rightarrow> json" where
  "time_json X t = JStr (x_rfc3339 X t)"

definition page_json :: "json list \<Rightarrow> nat \<Rightarrow> pagination_params \<Rightarrow> json" where
  "page_json items count params =
     JObj [(''items'', JArr items), (''total'', JNum (int count)),
           (''page'', JNum (sint (params_page params))),
           (''page_size'', JNum (sint (params_page_size params)))]"

definition brand_detail_json :: "('z externs_scheme) \<Rightarrow> brand_record \<Rightarrow> json" where
  "brand_detail_json X b =
     JObj [(''brand_id'', JStr (br_brand_id b)), (''brand_name'', JStr (br_brand_name b)),
           (''contact_email'', JStr (br_contact_email b)), (''industry'', JStr (br_industry b)),
           (''status'', JStr (br_status b)), (''created_at'', time_json X (br_created_at b)),
           (''updated_at'', time_json X (br_updated_at b))]"

definition brand_response_json :: "('z externs_scheme) \<Rightarrow> brand_response \<Rightarrow> json" where
  "brand_response_json X b =
     JObj [(''brand_id'', JStr (bp_brand_id b)), (''brand_name'', JStr (bp_brand_name b)),
           (''brand_logo'', opt_str (bp_brand_logo b)),
           (''brand_website'', opt_str (bp_brand_website b)),
           (''webhook_url'', opt_str (bp_webhook_url b)), (''status'', JStr (bp_status b)),
           (''created_at'', time_json X (bp_created_at b)),
           (''updated_at'', time_json X (bp_updated_at b))]"

definition batch_json :: "('z externs_scheme) \<Rightarrow> batch_row \<Rightarrow> json" where
  "batch_json X b =
     JObj [(''batch_id'', JStr (ba_batch_id b)), (''brand_id'', JStr (ba_brand_id b)),
           (''batch_name'', opt_str (ba_batch_name b)), (''factory_id'', opt_str (ba_factory_id b)),
           (''status'', JStr (ba_status b)),
           (''expected_count'', opt_json (\<lambda>n. JNum (sint n)) (ba_expected_count b)),
           (''actual_count'', JNum (sint (ba_actual_count b))),
           (''created_at'', time_json X (ba_created_at b)),
           (''closed_at'', opt_json (time_json X) (ba_closed_at b))]"

definition mother_card_json :: "virtual_mother_card_detail \<Rightarrow> json" where
  "mother_card_json c =
     JObj [(''authority_uid'', JStr (vm_authority_uid c)),
           (''authority_type'', JStr (vm_authority_type c)),
           (''credential_hash'', opt_str (vm_credential_hash c)),
           (''epoch'', JNum (sint (vm_epoch c)))]"

definition asset_detail_json :: "('z externs_scheme) \<Rightarrow> asset_detail \<Rightarrow> json" where
  "asset_detail_json X a =
     JObj ([(''asset_id'', JStr (de_asset_id a)), (''uid'', JStr (de_uid a)),
            (''brand_id'', JStr (de_brand_id a)), (''batch_id'', opt_str (de_batch_id a)),
            (''external_product_id'', opt_str (de_external_product_id a)),
            (''external_product_name'', opt_str (de_external_product_name a)),
            (''external_product_url'', opt_str (de_external_product_url a)),
            (''asset_commitment_id'', opt_str (de_asset_commitment_id a))] @
       (case de_asset_commitment_payload a of None \<Rightarrow> [] | Some p \<Rightarrow> [(''asset_commitment_payload'', p)]) @
       [(''brand_attestation_status'', opt_str (de_brand_attestation_status a)),
        (''platform_attestation_status'', opt_str (de_platform_attestation_status a)),
        (''current_state'', JStr (de_current_state a)),
        (''previous_state'', opt_str (de_previous_state a)), (''owner_id'', opt_str (de_owner_id a)),
        (''key_epoch'', JNum (sint (de_key_epoch a))),
        (''activated_at'', opt_json (time_json X) (de_activated_at a)),
        (''sold_at'', opt_json (time_json X) (de_sold_at a)),
        (''created_at'', time_json X (de_created_at a)),
        (''updated_at'', time_json X (de_updated_at a)),
        (''virtual_mother_card'', opt_json mother_card_json (de_virtual_mother_card a))])"

section \<open>\<^verbatim>\<open>brand.rs\<close>: validation and access\<close>

definition validate_name :: "string \<Rightarrow> string \<Rightarrow> rc_error + unit" where
  "validate_name name field =
     (let trimmed = trim name
      in if trimmed = [] then Inl (InvalidInput (field @ '' cannot be empty''))
         else if length trimmed > 200 then Inl (InvalidInput (field @ '' too long (max 200 chars)''))
         else Inr ())"

definition validate_email :: "string \<Rightarrow> rc_error + unit" where
  "validate_email email =
     (let trimmed = trim email
      in if trimmed = [] then Inl (InvalidInput ''email cannot be empty'')
         else if CHR ''@'' \<notin> set trimmed then Inl (InvalidInput ''invalid email format'')
         else if length trimmed > 255 then Inl (InvalidInput ''email too long (max 255 chars)'')
         else Inr ())"

definition valid_industries :: "string list" where
  "valid_industries = [''Watches'', ''Fashion'', ''Wine'', ''Jewelry'', ''Art'', ''Other'']"

definition validate_industry :: "string \<Rightarrow> rc_error + unit" where
  "validate_industry industry =
     (if industry \<in> set valid_industries then Inr ()
      else Inl (InvalidInput (''invalid industry, must be one of: '' @ join '', '' valid_industries)))"

definition check_role_allowed :: "actor_context \<Rightarrow> actor_role list \<Rightarrow> rc_error + unit" where
  "check_role_allowed actor allowed =
     (if the_role actor \<in> set allowed then Inr () else Inl PermissionDenied)"

definition own_brand :: "actor_context \<Rightarrow> string \<Rightarrow> rc_error + unit" where
  "own_brand actor brand_id =
     (if brand_of actor = Some brand_id then Inr () else Inl BrandBoundaryViolation)"

definition check_brand_read_access :: "actor_context \<Rightarrow> string \<Rightarrow> rc_error + unit" where
  "check_brand_read_access actor brand_id =
     (case the_role actor of
        Platform \<Rightarrow> Inr ()
      | Brand \<Rightarrow> own_brand actor brand_id
      | Factory \<Rightarrow> own_brand actor brand_id
      | _ \<Rightarrow> Inl PermissionDenied)"

definition check_brand_write_access :: "actor_context \<Rightarrow> string \<Rightarrow> rc_error + unit" where
  "check_brand_write_access actor brand_id =
     (case the_role actor of
        Platform \<Rightarrow> Inr ()
      | Brand \<Rightarrow> own_brand actor brand_id
      | _ \<Rightarrow> Inl PermissionDenied)"

section \<open>\<^verbatim>\<open>brand.rs\<close>: handlers\<close>

record register_brand_request =
  rb_brand_name :: string
  rb_contact_email :: string
  rb_industry :: string

definition brand_email_exists_msg :: string where
  "brand_email_exists_msg =
     [CHR 0xE5, CHR 0x93, CHR 0x81, CHR 0xE7, CHR 0x89, CHR 0x8C, CHR 0xE9, CHR 0x82, CHR 0xAE,
      CHR 0xE7, CHR 0xAE, CHR 0xB1, CHR 0xE5, CHR 0xB7, CHR 0xB2, CHR 0xE5, CHR 0xAD, CHR 0x98,
      CHR 0xE5, CHR 0x9C, CHR 0xA8]"

definition shown_once_note :: string where
  "shown_once_note =
     [CHR 0xE2, CHR 0x9A, CHR 0xA0, CHR 0xEF, CHR 0xB8, CHR 0x8F] @ '' '' @
     [CHR 0xE6, CHR 0xAD, CHR 0xA4] @ '' API Key '' @
     [CHR 0xE4, CHR 0xBB, CHR 0x85, CHR 0xE6, CHR 0x98, CHR 0xBE, CHR 0xE7, CHR 0xA4, CHR 0xBA,
      CHR 0xE4, CHR 0xB8, CHR 0x80, CHR 0xE6, CHR 0xAC, CHR 0xA1, CHR 0xEF, CHR 0xBC, CHR 0x8C,
      CHR 0xE8, CHR 0xAF, CHR 0xB7, CHR 0xE5, CHR 0xA6, CHR 0xA5, CHR 0xE5, CHR 0x96, CHR 0x84,
      CHR 0xE4, CHR 0xBF, CHR 0x9D, CHR 0xE7, CHR 0xAE, CHR 0xA1]"

definition old_key_note :: string where
  "old_key_note =
     [CHR 0xE2, CHR 0x9A, CHR 0xA0, CHR 0xEF, CHR 0xB8, CHR 0x8F] @ '' '' @
     [CHR 0xE6, CHR 0x97, CHR 0xA7] @ '' API Key '' @
     [CHR 0xE5, CHR 0xB7, CHR 0xB2, CHR 0xE5, CHR 0xA4, CHR 0xB1, CHR 0xE6, CHR 0x95, CHR 0x88,
      CHR 0xEF, CHR 0xBC, CHR 0x8C, CHR 0xE8, CHR 0xAF, CHR 0xB7, CHR 0xE4, CHR 0xBD, CHR 0xBF,
      CHR 0xE7, CHR 0x94, CHR 0xA8, CHR 0xE6, CHR 0x96, CHR 0xB0, CHR 0xE5, CHR 0xAF, CHR 0x86,
      CHR 0xE9, CHR 0x92, CHR 0xA5]"

definition register_brand ::
  "('z externs_scheme) \<Rightarrow> actor_context \<Rightarrow> register_brand_request \<Rightarrow> response op" where
  "register_brand X actor payload =
     try_bind (lift (check_role_allowed actor [Platform])) (\<lambda>_.
     try_bind (lift (validate_name (rb_brand_name payload) ''brand_name'')) (\<lambda>_.
     try_bind (lift (validate_email (rb_contact_email payload))) (\<lambda>_.
     try_bind (lift (validate_industry (rb_industry payload))) (\<lambda>_.
     try_bind (fetch_brand_by_email (rb_contact_email payload)) (\<lambda>existing.
     try_bind (check (existing = None) (Conflict brand_email_exists_msg)) (\<lambda>_.
     try_bind (generate_brand_id X) (\<lambda>brand_id.
     try_bind (generate_api_key X) (\<lambda>api_key_plain.
     try_bind (expect (extract_key_prefix api_key_plain)) (\<lambda>key_prefix.
     try_bind (generate_key_id X) (\<lambda>key_id.
     try_bind (transaction
       (try_bind (create_brand X brand_id (trim (rb_brand_name payload))
                    (trim (rb_contact_email payload)) (rb_industry payload)) (\<lambda>brand.
        try_bind (create_api_key X key_id brand_id (hash_api_key X api_key_plain) key_prefix)
          (\<lambda>api_key_record. ret (brand, api_key_record))))) (\<lambda>(brand, api_key_record).
     ret (Response 201 (JsonBody (JObj
       [(''brand_id'', JStr (br_brand_id brand)), (''brand_name'', JStr (br_brand_name brand)),
        (''contact_email'', JStr (br_contact_email brand)), (''industry'', JStr (br_industry brand)),
        (''status'', JStr (br_status brand)),
        (''api_key'', JObj
          [(''key_id'', JStr (ak_key_id api_key_record)), (''api_key'', JStr api_key_plain),
           (''created_at'', time_json X (ak_created_at api_key_record)), (''expires_at'', JNull),
           (''note'', JStr shown_once_note)]),
        (''created_at'', time_json X (br_created_at brand))]))))))))))))))"

definition list_brands_handler ::
  "('z externs_scheme) \<Rightarrow> actor_context \<Rightarrow> pagination_params \<Rightarrow> response op" where
  "list_brands_handler X actor params =
     try_bind (lift (check_role_allowed actor [Platform, Brand, Factory])) (\<lambda>_.
     try_bind (list_brands X (if the_role actor = Platform then None else brand_of actor) params)
       (\<lambda>(items, total).
     ret (ok_json (page_json (map (brand_response_json X) items) total params))))"

definition get_brand ::
  "('z externs_scheme) \<Rightarrow> actor_context \<Rightarrow> string \<Rightarrow> response op" where
  "get_brand X actor brand_id =
     try_bind (lift (check_brand_read_access actor brand_id)) (\<lambda>_.
     try_bind (fetch_brand_detail brand_id) (\<lambda>b. ret (ok_json (brand_detail_json X b))))"

definition update_brand_handler ::
  "('z externs_scheme) \<Rightarrow> actor_context \<Rightarrow> string \<Rightarrow> update_brand_request \<Rightarrow> response op" where
  "update_brand_handler X actor brand_id payload =
     try_bind (lift (check_brand_write_access actor brand_id)) (\<lambda>_.
     try_bind (lift (case ub_brand_name payload of None \<Rightarrow> Inr ()
                     | Some name \<Rightarrow> validate_name name ''brand_name'')) (\<lambda>_.
     try_bind (update_brand brand_id payload) (\<lambda>b. ret (ok_json (brand_response_json X b)))))"

definition rotate_api_key ::
  "('z externs_scheme) \<Rightarrow> actor_context \<Rightarrow> string \<Rightarrow> string option \<Rightarrow> response op" where
  "rotate_api_key X actor brand_id reason =
     try_bind (lift (check_brand_write_access actor brand_id)) (\<lambda>_.
     try_bind (generate_api_key X) (\<lambda>new_api_key.
     try_bind (expect (extract_key_prefix new_api_key)) (\<lambda>new_prefix.
     try_bind (generate_key_id X) (\<lambda>new_key_id.
     try_bind (transaction
       (try_bind (fetch_active_api_key brand_id) (\<lambda>old_key.
        try_bind (revoke_api_key (ak_key_id old_key) reason) (\<lambda>_.
        try_bind (create_api_key X new_key_id brand_id (hash_api_key X new_api_key) new_prefix)
          (\<lambda>new_key_record. ret (old_key, new_key_record)))))) (\<lambda>(old_key, new_key_record).
     ret (ok_json (JObj
       [(''key_id'', JStr (ak_key_id new_key_record)), (''api_key'', JStr new_api_key),
        (''created_at'', time_json X (ak_created_at new_key_record)), (''expires_at'', JNull),
        (''revoked_key_id'', JStr (ak_key_id old_key)), (''note'', JStr old_key_note)])))))))"

definition list_api_keys_handler ::
  "('z externs_scheme) \<Rightarrow> actor_context \<Rightarrow> string \<Rightarrow> response op" where
  "list_api_keys_handler X actor brand_id =
     try_bind (lift (check_brand_read_access actor brand_id)) (\<lambda>_.
     try_bind (list_api_keys brand_id) (\<lambda>keys.
     ret (ok_json (JObj [(''keys'', JArr (map
       (\<lambda>k. JObj
          [(''key_id'', JStr (ak_key_id k)), (''key_prefix'', JStr (ak_key_prefix k)),
           (''status'', JStr (ak_status k)), (''created_at'', time_json X (ak_created_at k)),
           (''last_used_at'', opt_json (time_json X) (ak_last_used_at k)),
           (''revoked_at'', opt_json (time_json X) (ak_revoked_at k))]) keys))]))))"

definition batch_brands ::
  "('z externs_scheme) \<Rightarrow> actor_context \<Rightarrow> string \<Rightarrow> response op" where
  "batch_brands X actor ids_param =
     (let ids = filter (\<lambda>s. s \<noteq> []) (map trim (split_on CHR '','' ids_param))
      in if ids = [] then ret (ok_json (JArr []))
         else try_bind (check (length ids \<le> 100) (InvalidInput ''batch size exceeds 100'')) (\<lambda>_.
              try_bind (fetch_brands_batch ids) (\<lambda>bs.
              ret (ok_json (JArr (map (brand_response_json X) bs))))))"

section \<open>\<^verbatim>\<open>batch.rs\<close>\<close>

definition create_batch_handler ::
  "('z externs_scheme) \<Rightarrow> actor_context \<Rightarrow> create_batch_request \<Rightarrow> response op" where
  "create_batch_handler X actor payload =
     try_bind (check (the_role actor \<in> {Platform, Brand, Factory}) PermissionDenied) (\<lambda>_.
     try_bind (lift (check_brand_boundary actor (cb_brand_id payload))) (\<lambda>_.
     try_bind (create_batch X payload) (\<lambda>b. ret (Response 201 (JsonBody (batch_json X b))))))"

definition get_batch ::
  "('z externs_scheme) \<Rightarrow> actor_context \<Rightarrow> string \<Rightarrow> response op" where
  "get_batch X actor batch_id =
     try_bind (fetch_batch batch_id) (\<lambda>b.
     try_bind (lift (check_brand_boundary actor (ba_brand_id b))) (\<lambda>_.
     ret (ok_json (batch_json X b))))"

definition close_batch_handler ::
  "('z externs_scheme) \<Rightarrow> actor_context \<Rightarrow> string \<Rightarrow> response op" where
  "close_batch_handler X actor batch_id =
     try_bind (fetch_batch batch_id) (\<lambda>b.
     try_bind (check (the_role actor \<in> {Platform, Brand}) PermissionDenied) (\<lambda>_.
     try_bind (lift (if the_role actor = Brand then own_brand actor (ba_brand_id b) else Inr ()))
       (\<lambda>_.
     try_bind (close_batch batch_id) (\<lambda>closed. ret (ok_json (batch_json X closed))))))"

definition list_batches_handler ::
  "('z externs_scheme) \<Rightarrow> actor_context \<Rightarrow> pagination_params \<Rightarrow> response op" where
  "list_batches_handler X actor params =
     try_bind (list_batches X (if the_role actor = Platform then None else brand_of actor)
                 (params_page_size params) (params_offset params)) (\<lambda>(items, total).
     ret (ok_json (page_json (map (batch_json X) items) total params)))"

section \<open>\<^verbatim>\<open>assets.rs\<close>\<close>

definition get_asset ::
  "('z externs_scheme) \<Rightarrow> actor_context \<Rightarrow> string \<Rightarrow> response op" where
  "get_asset X actor asset_id =
     try_bind (fetch_asset_detail asset_id) (\<lambda>a.
     try_bind (lift (check_brand_boundary actor (de_brand_id a))) (\<lambda>_.
     ret (ok_json (asset_detail_json X a))))"

definition event_json :: "('z externs_scheme) \<Rightarrow> asset_state_event \<Rightarrow> json" where
  "event_json X e =
     JObj [(''event_id'', JStr (ev_event_id e)), (''asset_id'', JStr (ev_asset_id e)),
           (''action'', JStr (ev_action e)), (''from_state'', opt_str (ev_from_state e)),
           (''to_state'', JStr (ev_to_state e)), (''actor_id'', JStr (ev_actor_id e)),
           (''actor_role'', JStr (ev_actor_role e)), (''trace_id'', opt_str (ev_trace_id e)),
           (''occurred_at'', time_json X (ev_occurred_at e))]"

definition get_asset_history ::
  "('z externs_scheme) \<Rightarrow> actor_context \<Rightarrow> string \<Rightarrow> response op" where
  "get_asset_history X actor asset_id =
     try_bind (fetch_asset_detail asset_id) (\<lambda>a.
     try_bind (lift (check_brand_boundary actor (de_brand_id a))) (\<lambda>_.
     try_bind (fetch_asset_history X asset_id) (\<lambda>events.
     ret (ok_json (JObj
       [(''asset_id'', JStr asset_id), (''events'', JArr (map (event_json X) events)),
        (''total'', JNum (int (length events)))])))))"

definition attestation_json :: "('z externs_scheme) \<Rightarrow> attestation_record \<Rightarrow> json" where
  "attestation_json X r =
     JObj [(''attestation_id'', JStr (at_attestation_id r)), (''version'', JStr (at_version r)),
           (''statement'', JStr (at_statement r)), (''key_id'', JStr (at_key_id r)),
           (''issued_at'', time_json X (at_issued_at r)), (''signature'', JStr (at_signature r)),
           (''canonical_payload'', at_canonical_payload r)]"

definition get_asset_attestations ::
  "('z externs_scheme) \<Rightarrow> actor_context \<Rightarrow> string \<Rightarrow> response op" where
  "get_asset_attestations X actor asset_id =
     try_bind (fetch_asset_detail asset_id) (\<lambda>a.
     try_bind (lift (check_brand_boundary actor (de_brand_id a))) (\<lambda>_.
     try_bind (case de_asset_commitment_id a of None \<Rightarrow> ret None
               | Some c \<Rightarrow> fetch_brand_attestation_by_commitment c) (\<lambda>b.
     try_bind (case de_asset_commitment_id a of None \<Rightarrow> ret None
               | Some c \<Rightarrow> fetch_platform_attestation_by_commitment c) (\<lambda>p.
     ret (ok_json (JObj
       ([(''asset_id'', JStr asset_id),
         (''asset_commitment_id'', opt_str (de_asset_commitment_id a)),
         (''brand_attestation_status'', opt_str (de_brand_attestation_status a)),
         (''platform_attestation_status'', opt_str (de_platform_attestation_status a))] @
        (case b of None \<Rightarrow> [] | Some r \<Rightarrow> [(''brand_attestation'', attestation_json X r)]) @
        (case p of None \<Rightarrow> [] | Some r \<Rightarrow> [(''platform_attestation'', attestation_json X r)]))))))))"

record asset_list_query =
  lq_brand_id :: "string option"
  lq_batch_id :: "string option"
  lq_current_state :: "string option"
  lq_paging :: pagination_params

definition list_filter :: "actor_context \<Rightarrow> asset_list_query \<Rightarrow> rc_error + string option" where
  "list_filter actor query =
     (if the_role actor = Platform then Inr (lq_brand_id query)
      else case brand_of actor of
        None \<Rightarrow> Inl PermissionDenied
      | Some own \<Rightarrow>
          (case lq_brand_id query of
             Some qb \<Rightarrow> if qb \<noteq> own then Inl BrandBoundaryViolation else Inr (Some own)
           | None \<Rightarrow> Inr (Some own)))"

definition list_assets_handler ::
  "('z externs_scheme) \<Rightarrow> actor_context \<Rightarrow> asset_list_query \<Rightarrow> response op" where
  "list_assets_handler X actor query =
     try_bind (lift (list_filter actor query)) (\<lambda>brand_filter.
     try_bind (list_assets X brand_filter (lq_batch_id query) (lq_current_state query)
                 (params_page_size (lq_paging query)) (params_offset (lq_paging query)))
       (\<lambda>(items, total).
     ret (ok_json (page_json (map (asset_detail_json X) items) total (lq_paging query)))))"

section \<open>\<^verbatim>\<open>authority_devices.rs\<close>\<close>

record register_physical_request =
  rp_chip_uid :: string
  rp_brand_id :: string
  rp_key_epoch :: i32
  rp_asset_id :: string

text \<open>
  A statement over the columns it names: PostgreSQL refuses it when the table has no such
  column. \<open>device_columns\<close> and \<open>entanglement_columns\<close> are the columns the migrations
  create.
\<close>

definition device_columns :: "string list" where
  "device_columns =
     [''authority_id'', ''authority_uid'', ''authority_type'', ''brand_id'', ''status'',
      ''key_epoch'', ''physical_chip_uid'', ''last_known_ctr'', ''virtual_credential_hash'',
      ''bound_user_id'', ''created_at'', ''created_by'', ''updated_at'', ''revoked_at'',
      ''revoked_reason'']"

definition entanglement_columns :: "string list" where
  "entanglement_columns =
     [''entanglement_id'', ''asset_id'', ''child_uid'', ''authority_id'', ''authority_uid'',
      ''entanglement_state'', ''bound_at'', ''bound_by'', ''unbound_at'', ''unbound_reason'',
      ''created_at'', ''updated_at'']"

definition over_columns ::
  "('z externs_scheme) \<Rightarrow> string list \<Rightarrow> string list \<Rightarrow> (database \<Rightarrow> sqlx_error + 'a \<times> database)
    \<Rightarrow> 'a op" where
  "over_columns X columns used q =
     sql (\<lambda>d. case find (\<lambda>c. c \<notin> set columns) used of
       Some c \<Rightarrow> Inl (SqlError (x_pg_message X (''undefined_column '' @ c)))
     | None \<Rightarrow> q d)"

definition register_physical_mother_card ::
  "('z externs_scheme) \<Rightarrow> actor_context \<Rightarrow> register_physical_request \<Rightarrow> response op" where
  "register_physical_mother_card X actor req =
     try_bind (check (the_role actor \<in> {Brand, Platform})
       (Forbidden ''Only Brand or Platform users can register physical mother cards'')) (\<lambda>_.
     try_bind (check (length (rp_chip_uid req) = 14)
       (InvalidInput ''chip_uid must be exactly 14 characters'')) (\<lambda>_.
     try_bind (check (list_all is_ascii_hexdigit (rp_chip_uid req))
       (InvalidInput ''chip_uid must contain only hexadecimal characters'')) (\<lambda>_.
     let chip_uid_upper = to_uppercase X (rp_chip_uid req) in
     try_bind (over_columns X device_columns [''device_id'', ''physical_chip_uid'']
       (\<lambda>d. Inr (find (\<lambda>a. ad_physical_chip_uid a = Some chip_uid_upper) (db_devices d), d)))
       (\<lambda>existing.
     try_bind (check (existing = None)
       (DuplicateResource (''Physical chip UID '' @ chip_uid_upper @ '' is already registered'')))
       (\<lambda>_.
     try_bind (draw (x_nanoid12 X)) (\<lambda>nanoid.
     let device_id = ''phys-'' @ nanoid in
     try_bind (draw (x_uuid X)) (\<lambda>authority_id.
     try_bind (transaction
       (try_bind (over_columns X device_columns
          [''device_id'', ''authority_type'', ''authority_uid'', ''physical_chip_uid'',
           ''virtual_credential_hash'', ''bound_user_id'', ''last_known_ctr'', ''status'',
           ''brand_id'', ''key_epoch'']
          (constrained
            [(\<lambda>d. True, SqlError (x_pg_message X ''chk_authority_status''))]
            (\<lambda>d. d\<lparr>db_devices := db_devices d @
               [\<lparr>ad_authority_id = authority_id, ad_authority_uid = chip_uid_upper,
                 ad_authority_type = ''PHYSICAL_NFC'', ad_brand_id = rp_brand_id req,
                 ad_status = ''active'', ad_key_epoch = rp_key_epoch req,
                 ad_virtual_credential_hash = None, ad_bound_user_id = None,
                 ad_physical_chip_uid = Some chip_uid_upper, ad_last_known_ctr = None,
                 ad_created_by = None\<rparr>]\<rparr>))) (\<lambda>_.
        over_columns X entanglement_columns
          [''asset_id'', ''device_id'', ''entanglement_type'', ''status'']
          (\<lambda>d. Inl (SqlError (x_pg_message X ''not_null_violation''))
             :: sqlx_error + unit \<times> database)))) (\<lambda>_.
     ret (Response 201 (JsonBody (JObj
       [(''device_id'', JStr device_id), (''chip_uid'', JStr chip_uid_upper),
        (''status'', JStr ''active'')])))))))))))"

section \<open>\<^verbatim>\<open>health.rs\<close>\<close>

definition healthz :: "response op" where
  "healthz =
     try_bind (gets (\<lambda>w. (w_fallback w, w_redis w \<noteq> None))) (\<lambda>(strategy, connected).
     ret (ok_json (JObj
       [(''redis'', JStr (if strategy = DirectPg then ''not_configured''
                         else if connected then ''connected'' else ''disconnected'')),
        (''status'', JStr ''ok'')])))"

end
