(* ===== verification/Ctr_Calibrate.thy ===== *)
theory Ctr_Calibrate
  imports Ctr_Cache
begin

text \<open>
  \<^verbatim>\<open>cli/ctr_calibrate.rs\<close>: the operator's commands that compare and repair the counters
  of Redis and PostgreSQL. What a command prints is its result; a failed statement is logged and
  its default used.
\<close>

section \<open>Data access\<close>

definition or_default :: "'a \<Rightarrow> (world, 'e, 'a) act \<Rightarrow> (world, 'f, 'a) act" where
  "or_default d m =
     try_bind (attempt m) (\<lambda>r. ret (case r of Inl _ \<Rightarrow> d | Inr x \<Rightarrow> x))"

definition fetch_all_uids_with_ctr :: "(world, 'e, (string \<times> i32) list) act" where
  "fetch_all_uids_with_ctr =
     or_default [] (select_rows (\<lambda>d.
       [(u, unwrap_or 0 (as_last_verified_ctr a)).
          (u, a) \<leftarrow> List.map_filter (\<lambda>a. map_option (\<lambda>u. (u, a)) (as_uid a)) (db_assets d)]))"

definition fetch_pg_ctr :: "string \<Rightarrow> (world, 'e, i32 option) act" where
  "fetch_pg_ctr uid =
     try_bind (or_default None (fetch_first (\<lambda>a. as_uid a = Some uid) db_assets)) (\<lambda>r.
     ret (Option.bind r as_last_verified_ctr))"

definition get_redis_ctr :: "string \<Rightarrow> (world, 'e, u32 option) act" where
  "get_redis_ctr uid = or_default None (redis_get_ctr (ctr_key uid))"

definition update_pg_ctr :: "string \<Rightarrow> u32 \<Rightarrow> (world, 'e, unit) act" where
  "update_pg_ctr uid ctr =
     or_default () (execute_sql (\<lambda>d. d\<lparr>db_assets :=
       update_rows (\<lambda>a. as_uid a = Some uid) (\<lambda>a. a\<lparr>as_last_verified_ctr := Some ctr\<rparr>)
         (db_assets d)\<rparr>))"

definition set_redis_ctr :: "string \<Rightarrow> u32 \<Rightarrow> (world, 'e, unit) act" where
  "set_redis_ctr uid ctr = or_default () (redis_set_ex (ctr_key uid) ctr l2_ttl_secs)"

section \<open>The commands\<close>

datatype calibrate_action = UseRedis | UsePg | UseMax | SetValue

datatype ctr_action = Check | AutoFix | Uid string calibrate_action "u32 option"

definition auto_skip_threshold :: nat where
  "auto_skip_threshold = 1000"

record check_report =
  cr_total :: nat
  cr_consistent :: nat
  cr_mismatches :: "(string \<times> u32 \<times> i32) list"

definition run_check :: "(world, 'e, check_report) act" where
  "run_check =
     try_bind fetch_all_uids_with_ctr (\<lambda>all_uids.
     try_bind (map_each (\<lambda>(uid, pg_ctr).
         try_bind (get_redis_ctr uid) (\<lambda>redis_ctr. ret (uid, redis_ctr, pg_ctr))) all_uids) (\<lambda>rows.
     let mismatches = List.map_filter (\<lambda>(uid, r, pg_ctr). case r of None \<Rightarrow> None
           | Some redis_ctr \<Rightarrow> if redis_ctr = pg_ctr then None else Some (uid, redis_ctr, pg_ctr)) rows
     in ret \<lparr>cr_total = length all_uids, cr_consistent = length all_uids - length mismatches,
             cr_mismatches = mismatches\<rparr>))"

definition suggestion :: "u32 \<Rightarrow> i32 \<Rightarrow> calibrate_action" where
  "suggestion redis_val pg_val = (if redis_val > pg_val then UseRedis else UsePg)"

datatype auto_outcome = Unchanged | Skipped | Corrected

definition auto_one :: "string \<Rightarrow> i32 \<Rightarrow> (world, 'e, auto_outcome) act" where
  "auto_one uid pg_ctr =
     try_bind (get_redis_ctr uid) (\<lambda>r.
     case r of
       None \<Rightarrow> ret Unchanged
     | Some redis_ctr \<Rightarrow>
         if redis_ctr = pg_ctr then ret Unchanged
         else if nat \<bar>uint redis_ctr - uint pg_ctr\<bar> > auto_skip_threshold then ret Skipped
         else if redis_ctr > pg_ctr
         then try_bind (update_pg_ctr uid redis_ctr) (\<lambda>_. ret Corrected)
         else try_bind (set_redis_ctr uid pg_ctr) (\<lambda>_. ret Corrected))"

definition run_auto :: "(world, 'e, nat \<times> nat) act" where
  "run_auto =
     try_bind fetch_all_uids_with_ctr (\<lambda>all_uids.
     try_bind (map_each (\<lambda>(uid, pg_ctr). auto_one uid pg_ctr) all_uids) (\<lambda>outcomes.
     ret (length (filter (\<lambda>x. x = Corrected) outcomes), length (filter (\<lambda>x. x = Skipped) outcomes))))"

text \<open>\<open>run_uid\<close>: \<open>False\<close> is the printed error.\<close>

definition run_uid ::
  "string \<Rightarrow> calibrate_action \<Rightarrow> u32 option \<Rightarrow> (world, 'e, bool) act" where
  "run_uid uid strategy value =
     try_bind (fetch_pg_ctr uid) (\<lambda>pg_ctr.
     try_bind (get_redis_ctr uid) (\<lambda>redis_ctr.
     case strategy of
       UseRedis \<Rightarrow>
         (case redis_ctr of None \<Rightarrow> ret False
          | Some r \<Rightarrow> try_bind (update_pg_ctr uid r) (\<lambda>_. ret True))
     | UsePg \<Rightarrow>
         (case pg_ctr of None \<Rightarrow> ret False
          | Some pg \<Rightarrow> try_bind (set_redis_ctr uid pg) (\<lambda>_. ret True))
     | UseMax \<Rightarrow>
         (let r = unwrap_or 0 redis_ctr;
              p = unwrap_or 0 pg_ctr;
              max_val = (if r \<le> p then p else r)
          in try_bind (if r < max_val then set_redis_ctr uid max_val else ret ()) (\<lambda>_.
             try_bind (if p < max_val then update_pg_ctr uid max_val else ret ()) (\<lambda>_.
             ret True)))
     | SetValue \<Rightarrow>
         (case value of None \<Rightarrow> ret False
          | Some v \<Rightarrow>
              try_bind (set_redis_ctr uid v) (\<lambda>_.
              try_bind (update_pg_ctr uid v) (\<lambda>_. ret True)))))"

end
