(* ===== verification/Frames.thy ===== *)
theory Frames
  imports Persistence Routes_Protocol Routes_Verify Routes_Registry Ctr_Calibrate
begin

text \<open>
  What the handlers may do to the database. \<open>db_frame\<close> lists the writes of the server other
  than a state change of an asset as laws of a relation between databases, \<open>db_contract\<close>
  adds the protocol's own state changes; every handler then keeps every such relation. The
  theory \<^verbatim>\<open>Server\<close> interprets the contract on the relations it needs.
\<close>

section \<open>The protocol-relevant part of an asset row\<close>

definition asset_core :: "asset_row \<Rightarrow> string \<times> string \<times> string \<times> string option \<times> string option" where
  "asset_core a =
     (as_asset_id a, as_brand_id a, as_current_state a, as_previous_state a, as_owner_id a)"

definition cores_same :: "database \<Rightarrow> database \<Rightarrow> bool" where
  "cores_same d d' \<longleftrightarrow> map asset_core (db_assets d') = map asset_core (db_assets d)"

definition asset_at :: "string \<Rightarrow> asset_record \<Rightarrow> database \<Rightarrow> bool" where
  "asset_at aid rec d \<longleftrightarrow>
     map_option decode_asset (find (asset_with_id aid) (db_assets d)) = Some (Inr rec)"

lemma decode_asset_core: "asset_core a = asset_core b \<Longrightarrow> decode_asset a = decode_asset b"
  by (simp add: asset_core_def decode_asset_def)

lemma find_core:
  "map asset_core xs = map asset_core ys \<Longrightarrow>
    map_option decode_asset (find (asset_with_id aid) xs) =
    map_option decode_asset (find (asset_with_id aid) ys)"
proof (induction xs arbitrary: ys)
  case (Cons x xs)
  then obtain y ys' where ys: "ys = y # ys'" "asset_core x = asset_core y"
    "map asset_core xs = map asset_core ys'" by auto
  have "asset_with_id aid x = asset_with_id aid y"
    using ys(2) by (simp add: asset_core_def asset_with_id_def)
  with Cons.IH [OF ys(3)] decode_asset_core [OF ys(2)] ys(1) show ?case by simp
qed simp

lemma asset_at_cores: "cores_same d d' \<Longrightarrow> asset_at aid rec d \<Longrightarrow> asset_at aid rec d'"
  using find_core by (metis asset_at_def cores_same_def)

lemma fetch_asset_Inr:
  "fetch_asset aid w = (Inr rec, w') \<Longrightarrow>
    asset_at aid rec (w_db w) \<and> w_db w' = w_db w \<and> w_now w' = w_now w"
  by (auto simp: fetch_asset_def run_inv asset_at_def)

lemma asset_at_id:
  assumes "asset_at aid rec d"
  shows "ar_asset_id rec = aid"
proof -
  obtain row where "find (asset_with_id aid) (db_assets d) = Some row"
    and "decode_asset row = Inr rec"
    using assms by (auto simp: asset_at_def)
  then show ?thesis
    by (auto simp: find_Some_iff asset_with_id_def decode_asset_def and_then_Inr)
qed

section \<open>The laws\<close>

text \<open>Reads and caches: what they keep needs no law about writes.\<close>

context db_preorder
begin

lemma keeps_redis [keeps_intro]: "keeps (on_db r) (redis_call g)"
  by (simp add: keeps_def on_db_def redis_call_def Let_def r_refl split: option.split prod.split)

lemma keeps_cache [keeps_intro]:
  "keeps (on_db r) (l1_insert u c)" "keeps (on_db r) (l1_remove u)"
  by (simp_all add: l1_insert_def l1_remove_def keeps_puts)

lemma keeps_redis_counters [keeps_intro]:
  "keeps (on_db r) (redis_get_ctr key)" "keeps (on_db r) (redis_set_ex key v ttl)"
  unfolding redis_get_ctr_def redis_set_ex_def by (intro keeps_intro)+

lemma keeps_backfill [keeps_intro]: "keeps (on_db r) (backfill_l2 u c)"
  unfolding backfill_l2_def by (intro keeps_intro)

lemma keeps_get_ctr [keeps_intro]: "keeps (on_db r) (get_ctr u)"
  unfolding get_ctr_def Let_def by (intro keeps_intro)

lemma keeps_update_ctr [keeps_intro]: "keeps (on_db r) (update_ctr u c)"
  unfolding update_ctr_def by (intro keeps_intro)

lemma keeps_kms_or_error [keeps_intro]: "keeps (on_db r) (kms_or_error what g)"
  unfolding kms_or_error_def by (intro keeps_intro)

lemma keeps_reads [keeps_intro]:
  "keeps (on_db r) (fetch_asset aid)" "keeps (on_db r) (load_idempotency_record k)"
  "keeps (on_db r) (fetch_verify_view aid)" "keeps (on_db r) (fetch_asset_detail aid)"
  "keeps (on_db r) (fetch_asset_by_uid u)" "keeps (on_db r) (fetch_transfer t)"
  "keeps (on_db r) (fetch_authority_device_by_asset aid)" "keeps (on_db r) (fetch_asset_history X aid)"
  "keeps (on_db r) (list_assets X b1 b2 s l off)" "keeps (on_db r) (fetch_brand_detail b)"
  unfolding fetch_asset_def load_idempotency_record_def fetch_verify_view_def fetch_asset_detail_def
    asset_detail_of_def fetch_asset_by_uid_def fetch_transfer_def fetch_authority_device_by_asset_def
    fetch_asset_history_def list_assets_def Let_def fetch_asset_commitment_payload_def
    count_attestations_def fetch_virtual_mother_card_detail_def fetch_brand_detail_def
    fetch_brand_by_id_def
  by (intro keeps_intro)+

lemma keeps_attestation_keys [keeps_intro]:
  "keeps (on_db r) (load_brand_signing_key X)" "keeps (on_db r) (load_platform_signing_key X)"
  "keeps (on_db r) (build_asset_commitment_record X b u e p n l t)"
  unfolding load_brand_signing_key_def load_platform_signing_key_def
    build_asset_commitment_record_def Let_def
  by (intro keeps_intro)+

lemma keeps_match_result [keeps_intro]:
  "keeps (on_db r) m \<Longrightarrow> (\<And>e. keeps (on_db r) (h e)) \<Longrightarrow> (\<And>x. keeps (on_db r) (k x)) \<Longrightarrow>
    keeps (on_db r) (match_result m h k)"
  unfolding match_result_def
  by (intro keeps_intro) (auto intro: keeps_intro split: abort.split)

lemma keeps_summary [keeps_intro]: "keeps (on_db r) (build_summary X asset)"
  unfolding build_summary_def resolve_asset_commitment_id_def validate_brand_attestation_def
    validate_platform_attestation_def fetch_brand_attestation_by_commitment_def
    fetch_platform_attestation_by_commitment_def fetch_asset_commitment_by_uid_epoch_def Let_def
  by (intro keeps_intro)

end

locale db_frame = db_preorder +
  assumes asset_columns:
      "(\<And>a. asset_core (f a) = asset_core a) \<Longrightarrow>
        r d (d\<lparr>db_assets := update_rows p f (db_assets d)\<rparr>)"
    and event_new: "r d (append_event e d)"
    and idempotency_new: "r d (insert_idempotency k t rid h s d)"
    and commitment_new: "r d (d\<lparr>db_commitments := db_commitments d @ [c]\<rparr>)"
    and brand_attestation_new: "r d (d\<lparr>db_brand_attestations := db_brand_attestations d @ [a]\<rparr>)"
    and platform_attestation_new:
      "r d (d\<lparr>db_platform_attestations := db_platform_attestations d @ [a]\<rparr>)"
    and device_new: "r d (d\<lparr>db_devices := db_devices d @ [dev]\<rparr>)"
    and device_ctr:
      "r d (d\<lparr>db_devices :=
         update_rows (\<lambda>a. ad_authority_id a = i \<and> ctr_advances ctr (ad_last_known_ctr a))
           (\<lambda>a. a\<lparr>ad_last_known_ctr := Some ctr\<rparr>) (db_devices d)\<rparr>)"
    and entanglement_new:
      "\<not> list_ex (active_entanglement (en_asset_id en)) (db_entanglements d) \<Longrightarrow>
        r d (d\<lparr>db_entanglements := db_entanglements d @ [en]\<rparr>)"
    and scan_new: "r d (d\<lparr>db_verifications := db_verifications d @ [v]\<rparr>)"
    and registry_new:
      "r d (d\<lparr>db_transfers := db_transfers d @ [tr]\<rparr>)" "r d (d\<lparr>db_brands := db_brands d @ [br]\<rparr>)"
      "r d (d\<lparr>db_batches := db_batches d @ [ba]\<rparr>)"
    and key_new:
      "\<not> list_ex (\<lambda>k. ak_key_hash k = ak_key_hash ak) (db_api_keys d) \<Longrightarrow>
        r d (d\<lparr>db_api_keys := db_api_keys d @ [ak]\<rparr>)"
    and transfer_decided:
      "r d (d\<lparr>db_transfers := update_rows (pending_transfer tid) (\<lambda>t. t\<lparr>tr_status := Some st\<rparr>)
         (db_transfers d)\<rparr>)"
    and key_revoked:
      "r d (d\<lparr>db_api_keys := update_rows (\<lambda>k. ak_key_id k = key_id)
         (\<lambda>k. k\<lparr>ak_status := ''Revoked'', ak_revoked_at := Some now\<rparr>) (db_api_keys d)\<rparr>)"
    and key_used:
      "r d (d\<lparr>db_api_keys := update_rows (\<lambda>k. ak_key_id k = key_id)
         (\<lambda>k. k\<lparr>ak_last_used_at := Some now\<rparr>) (db_api_keys d)\<rparr>)"
    and brand_touched:
      "r d (d\<lparr>db_brands := update_rows (\<lambda>b. br_brand_id b = brand_id)
         (\<lambda>b. b\<lparr>br_updated_at := now\<rparr>) (db_brands d)\<rparr>)"
    and batch_closed:
      "r d (d\<lparr>db_batches := update_rows (\<lambda>b. ba_batch_id b = batch_id \<and> ba_status b = ''Open'')
         (\<lambda>b. b\<lparr>ba_status := ''Closed'', ba_closed_at := Some now\<rparr>) (db_batches d)\<rparr>)"
begin

lemma keeps_meta:
  "(\<And>a. asset_core (f a) = asset_core a) \<Longrightarrow> keeps (on_db r) (execute_sql (update_asset aid f))"
  by (rule keeps_execute) (simp add: update_asset_def asset_columns)

lemma keeps_meta_rows:
  "(\<And>a. asset_core (f a) = asset_core a) \<Longrightarrow>
    keeps (on_db r) (execute_sql (\<lambda>d. d\<lparr>db_assets := update_rows p f (db_assets d)\<rparr>))"
  by (rule keeps_execute) (rule asset_columns)

lemma keeps_insert_event [keeps_intro]: "keeps (on_db r) (insert_event X e)"
  unfolding insert_event_def
  by (rule keeps_constrained) (metis append_event_def event_new)

lemma keeps_insert_scan [keeps_intro]: "keeps (on_db r) (insert_scan X e)"
  unfolding insert_scan_def by (rule keeps_constrained) (rule scan_new)

lemma keeps_scan_events [keeps_intro]:
  "keeps (on_db r) (insert_verification_event X u a c s fl v ip)"
  "keeps (on_db r) (insert_verification_event_v2 X u a c s fl v ip cid b p)"
  unfolding insert_verification_event_def insert_verification_event_v2_def
  by (rule keeps_insert_scan)+

lemma keeps_insert_commitment [keeps_intro]: "keeps (on_db r) (insert_asset_commitment X c)"
  unfolding insert_asset_commitment_def
  by (intro keeps_intro keeps_sql)
    (auto simp: constrained_def intro: commitment_new r_refl split: if_splits option.splits)

lemma keeps_insert_attestations [keeps_intro]:
  "keeps (on_db r) (insert_brand_attestation X a)" "keeps (on_db r) (insert_platform_attestation X a)"
  unfolding insert_brand_attestation_def insert_platform_attestation_def
  by (rule keeps_sql, auto simp: constrained_def
      intro: brand_attestation_new platform_attestation_new r_refl split: if_splits option.splits)+

lemma keeps_insert_device [keeps_intro]:
  "keeps (on_db r) (insert_authority_device X u t b e h bu cb)"
  unfolding insert_authority_device_def
  by (intro keeps_intro keeps_constrained) (rule device_new)

lemma keeps_atomic_ctr [keeps_intro]: "keeps (on_db r) (atomic_update_ctr i c)"
  unfolding atomic_update_ctr_def by (rule keeps_sql) (auto simp: Let_def intro: device_ctr)

lemma keeps_insert_entanglement [keeps_intro]:
  "keeps (on_db r) (insert_entanglement X aid cu i u b)"
  unfolding insert_entanglement_def
  by (intro keeps_intro keeps_sql)
    (auto simp: constrained_def intro: entanglement_new split: if_splits option.splits)

lemma keeps_registry_writes [keeps_intro]:
  "keeps (on_db r) (create_brand X i n m ind)" "keeps (on_db r) (create_api_key X k b h pre)"
  "keeps (on_db r) (revoke_api_key k reason)" "keeps (on_db r) (update_api_key_last_used k)"
  "keeps (on_db r) (insert_transfer X a f t ty ik tr)" "keeps (on_db r) (create_batch X req)"
proof -
  have "keeps (on_db r) (db_call (constrained cs (\<lambda>d. d\<lparr>db_brands := db_brands d @ [b]\<rparr>)))" for cs b
    unfolding keeps_def on_db_def db_call_def constrained_def
    by (auto simp: Let_def r_refl registry_new split: list.splits option.splits sum.splits)
  then show "keeps (on_db r) (create_brand X i n m ind)"
    unfolding create_brand_def Let_def by (intro keeps_intro)
  show "keeps (on_db r) (create_api_key X k b h pre)"
    unfolding create_api_key_def Let_def
    by (intro keeps_intro keeps_sql)
      (auto simp: constrained_def intro: key_new split: if_splits option.splits)
  show "keeps (on_db r) (revoke_api_key k reason)" "keeps (on_db r) (update_api_key_last_used k)"
    unfolding revoke_api_key_def update_api_key_last_used_def
    by (intro keeps_intro keeps_execute key_revoked key_used)+
  show "keeps (on_db r) (insert_transfer X a f t ty ik tr)"
    unfolding insert_transfer_def by (intro keeps_intro keeps_constrained registry_new)
  show "keeps (on_db r) (create_batch X req)"
    unfolding create_batch_def Let_def by (intro keeps_intro keeps_constrained registry_new)
qed

lemma keeps_registry_updates [keeps_intro]:
  "keeps (on_db r) (close_batch b)" "keeps (on_db r) (update_transfer_status t st)"
  "keeps (on_db r) (update_brand i payload)"
  unfolding close_batch_def update_transfer_status_def update_brand_def Let_def fetch_transfer_def
    fetch_brand_detail_def fetch_brand_by_id_def
  by (intro keeps_intro keeps_sql keeps_execute brand_touched;
    auto intro: batch_closed transfer_decided)+

lemma keeps_issue [keeps_intro]: "keeps (on_db r) (issue_attestations X aid b payload)"
  unfolding issue_attestations_def update_asset_product_mapping_def
    bind_asset_commitment_to_asset_def
  by (intro keeps_intro keeps_meta) (simp_all add: asset_core_def)

lemma keeps_virtual_card [keeps_intro]:
  "keeps (on_db r) (generate_virtual_mother_card_with_result X aid b u)"
  unfolding generate_virtual_mother_card_with_result_def Let_def by (intro keeps_intro)

lemma keeps_authority [keeps_intro]: "keeps (on_db r) (verify_authority X aid pf)"
  unfolding verify_authority_def verify_virtual_authority_def verify_physical_authority_def
    check_physical_tap_def Let_def
  by (cases pf) (simp_all, (intro keeps_intro)+)

lemma keeps_child_tag [keeps_intro]: "keeps (on_db r) (verify_child_tag X b u c m)"
  unfolding verify_child_tag_def by (intro keeps_intro)

lemma keeps_authorize_transfer [keeps_intro]:
  "keeps (on_db r) (authorize_transfer X aid actor payload)"
  unfolding authorize_transfer_def by (intro keeps_intro)

lemma keeps_transfer_trace [keeps_intro]: "keeps (on_db r) (transfer_trace X hs)"
  unfolding transfer_trace_def by (intro keeps_intro)

lemma keeps_prepare [keeps_intro]: "keeps (on_db r) (prepare_action X aid a actor hs payload)"
  unfolding prepare_action_def Let_def by (intro keeps_intro)

subsection \<open>Handlers that change no asset state\<close>

lemma keeps_judge [keeps_intro]: "keeps (on_db r) (judge_ctr asset u n c)"
  unfolding judge_ctr_def update_asset_ctr_def
  by (intro keeps_intro keeps_meta) (simp add: asset_core_def)

lemma keeps_replies [keeps_intro]:
  "keeps (on_db r) (reply_v1 X u asset n p fl st)" "keeps (on_db r) (reply_v2 X u asset n p fl st)"
  unfolding reply_v1_def reply_v2_def Let_def by (intro keeps_intro)+

lemma keeps_verify [keeps_intro]: "keeps (on_db r) (verify_impl X params v2)"
  unfolding verify_impl_def handle_degraded_def handle_full_verify_def Let_def
  by (cases v2) (simp_all, (intro keeps_intro)+)

lemma keeps_refused_columns [keeps_intro]:
  "keeps (on_db r) (over_columns X device_columns (''device_id'' # used) q)"
  "keeps (on_db r) (over_columns X cols us (\<lambda>d. Inl e))"
  unfolding over_columns_def
  by (rule keeps_sql, simp add: device_columns_def split: option.splits)+

lemma keeps_register_physical [keeps_intro]:
  "keeps (on_db r) (register_physical_mother_card X actor req)"
  unfolding register_physical_mother_card_def Let_def by (intro keeps_intro keeps_transaction)

lemmas registry_handler_defs =
  register_brand_def list_brands_handler_def get_brand_def update_brand_handler_def
  rotate_api_key_def list_api_keys_handler_def batch_brands_def create_batch_handler_def
  get_batch_def close_batch_handler_def list_batches_handler_def get_asset_def
  get_asset_history_def get_asset_attestations_def list_assets_handler_def healthz_def
  generate_api_key_def generate_key_id_def generate_brand_id_def fetch_brand_by_email_def
  fetch_active_api_key_def fetch_active_api_key_by_brand_def list_api_keys_def
  fetch_api_keys_by_brand_def fetch_brands_batch_def fetch_batch_def list_batches_def
  list_brands_def fetch_brand_attestation_by_commitment_def
  fetch_platform_attestation_by_commitment_def

lemma keeps_registry_handlers [keeps_intro]:
  "keeps (on_db r) (register_brand X actor rb)" "keeps (on_db r) (list_brands_handler X actor pg)"
  "keeps (on_db r) (get_brand X actor b)" "keeps (on_db r) (update_brand_handler X actor b ub)"
  "keeps (on_db r) (rotate_api_key X actor b reason)"
  "keeps (on_db r) (list_api_keys_handler X actor b)" "keeps (on_db r) (batch_brands X actor b)"
  "keeps (on_db r) (create_batch_handler X actor cb)" "keeps (on_db r) (get_batch X actor b)"
  "keeps (on_db r) (close_batch_handler X actor b)" "keeps (on_db r) (list_batches_handler X actor pg)"
  "keeps (on_db r) (get_asset X actor b)" "keeps (on_db r) (get_asset_history X actor b)"
  "keeps (on_db r) (get_asset_attestations X actor b)"
  "keeps (on_db r) (list_assets_handler X actor q)" "keeps (on_db r) healthz"
  unfolding registry_handler_defs Let_def by (intro keeps_intro keeps_transaction)+

lemma keeps_transfer_answers [keeps_intro]:
  "keeps (on_db r) (get_transfer_handler X t actor)"
  "keeps (on_db r) (confirm_transfer_handler X actor t)"
  "keeps (on_db r) (reject_transfer_handler X actor t)"
  unfolding get_transfer_handler_def confirm_transfer_handler_def reject_transfer_handler_def
    confirm_transfer_def reject_transfer_def
  by (intro keeps_intro)+

lemma keeps_or_default [keeps_intro]: "keeps (on_db r) m \<Longrightarrow> keeps (on_db r) (or_default d m)"
  unfolding or_default_def by (intro keeps_intro)

lemma keeps_pg_ctr [keeps_intro]: "keeps (on_db r) (update_pg_ctr uid c)"
  unfolding update_pg_ctr_def by (intro keeps_intro keeps_meta_rows) (simp add: asset_core_def)

lemma keeps_calibrate [keeps_intro]:
  "keeps (on_db r) run_check" "keeps (on_db r) run_auto" "keeps (on_db r) (run_uid u st v)"
proof -
  show "keeps (on_db r) run_check"
    unfolding run_check_def fetch_all_uids_with_ctr_def get_redis_ctr_def Let_def
    by (intro keeps_intro)
  show "keeps (on_db r) run_auto"
    unfolding run_auto_def fetch_all_uids_with_ctr_def auto_one_def get_redis_ctr_def
      set_redis_ctr_def
    by (intro keeps_intro)
  show "keeps (on_db r) (run_uid u st v)"
    unfolding run_uid_def fetch_pg_ctr_def get_redis_ctr_def set_redis_ctr_def Let_def
    by (intro keeps_intro) (auto intro!: keeps_intro split: calibrate_action.split)
qed

lemma keeps_verify_handlers [keeps_intro]:
  "keeps (on_db r) (verify_handler X params)" "keeps (on_db r) (verify_v2_handler X params)"
  "keeps (on_db r) (verify_asset aid)"
  unfolding verify_handler_def verify_v2_handler_def verify_asset_def by (intro keeps_intro)+

end

interpretation cores: db_frame cores_same
proof unfold_locales
  show "cores_same d (d\<lparr>db_assets := update_rows p f (db_assets d)\<rparr>)"
    if "\<And>a. asset_core (f a) = asset_core a" for f p d
    using that by (simp add: cores_same_def update_rows_def)
qed (simp_all add: cores_same_def append_event_def insert_idempotency_def)

section \<open>State changes\<close>

text \<open>The database holds the record, up to a previous state the client has named.\<close>

definition holds_state :: "string \<Rightarrow> asset_state \<Rightarrow> database \<Rightarrow> bool" where
  "holds_state aid s d \<longleftrightarrow> (\<exists>rec. asset_at aid rec d \<and> ar_current_state rec = s)"

lemma holds_state_cores: "cores_same d d' \<Longrightarrow> holds_state aid s d \<Longrightarrow> holds_state aid s d'"
  unfolding holds_state_def by (blast intro: asset_at_cores)

text \<open>
  A relation that keeps the steps of the state machine whose effect on the owner of the asset is
  \<open>allowed\<close>.
\<close>

locale db_steps = db_frame +
  fixes allowed :: "string \<Rightarrow> (string option \<Rightarrow> string option) \<Rightarrow> bool"
  assumes allowed_step:
    "allowed aid own \<Longrightarrow> holds_state aid s d \<Longrightarrow>
      next_state_for_action_with_previous s a p = Some t \<Longrightarrow>
      (\<And>x. as_asset_id (f x) = as_asset_id x \<and> as_brand_id (f x) = as_brand_id x
           \<and> as_current_state (f x) = as_db_str t \<and> as_owner_id (f x) = own (as_owner_id x)) \<Longrightarrow>
      r d (update_asset aid f d)"
begin

lemma step_of_action:
  assumes "holds_state aid (ar_current_state rec) d" and "ar_asset_id rec = aid"
    and "apply_action i rec a ctx = Inr (n, ev)"
    and own: "allowed aid (owner_new a (ac_actor_id ctx) (ac_buyer_id ctx))"
  shows "r d (persist_effect n ev h s cid now d)"
proof -
  from assms(3) obtain t where
    t: "next_state_for_action_with_previous (ar_current_state rec) a (ar_previous_state rec) = Some t"
    and n: "ar_current_state n = t" "ar_asset_id n = aid" and ev: "ae_action ev = a" "ae_context ev = ctx"
    by (auto simp: apply_action_Inr assms(2))
  have "r d (update_asset aid (\<lambda>x. owner_after ev (state_after n now x)) d)"
  proof (rule allowed_step [OF own assms(1) t])
    fix x
    have "as_owner_id (owner_after ev (state_after n now x)) =
        owner_new a (ac_actor_id ctx) (ac_buyer_id ctx) (as_owner_id x)"
      by (simp add: owner_after_owner ev state_after_def)
    then show "as_asset_id (owner_after ev (state_after n now x)) = as_asset_id x
      \<and> as_brand_id (owner_after ev (state_after n now x)) = as_brand_id x
      \<and> as_current_state (owner_after ev (state_after n now x)) = as_db_str t
      \<and> as_owner_id (owner_after ev (state_after n now x)) =
        owner_new a (ac_actor_id ctx) (ac_buyer_id ctx) (as_owner_id x)"
      by (simp add: owner_after_def state_after_def n split: asset_action.split)
  qed
  then show ?thesis
    unfolding persist_effect_def n by (meson event_new idempotency_new r_trans)
qed

lemma persist_keeps:
  assumes "holds_state aid (ar_current_state rec) (w_db w)" and "ar_asset_id rec = aid"
    and "apply_action i rec a ctx = Inr (n, ev)"
    and "allowed aid (owner_new a (ac_actor_id ctx) (ac_buyer_id ctx))"
  shows "on_db r w (snd (persist_action X n ev h s cid w))"
proof -
  obtain x w' where run: "persist_action X n ev h s cid w = (x, w')" by fastforce
  show ?thesis
  proof (cases x)
    case (Inl e)
    with run have "w_db w' = w_db w" by (auto dest: persist_action_Inl)
    with run show ?thesis by (simp add: on_db_def r_refl)
  next
    case (Inr u)
    with run have "w_db w' = persist_effect n ev h s cid (w_now w) (w_db w)"
      by (auto dest: persist_action_Inr)
    with run step_of_action [OF assms] show ?thesis by (simp add: on_db_def)
  qed
qed

lemma seq_keeps:
  assumes "on_db r w (snd (m w))"
    and "\<And>x v. m w = (Inr x, v) \<Longrightarrow> on_db r v (snd (k x v))"
  shows "on_db r w (snd (try_bind m k w))"
  using assms by (auto simp: try_bind_def on_db_def split: prod.split sum.split intro: r_trans)

lemma run_keeps: "keeps (on_db r) m \<Longrightarrow> on_db r w (snd (m w))"
  by (simp add: keeps_def)

end

text \<open>What the reading parts leave for the write.\<close>

lemma with_client_previous_simps [simp]:
  "ar_current_state (with_client_previous payload rec) = ar_current_state rec"
  "ar_asset_id (with_client_previous payload rec) = ar_asset_id rec"
  "ar_brand_id (with_client_previous payload rec) = ar_brand_id rec"
  by (simp_all add: with_client_previous_def)

definition plan_ok :: "string \<Rightarrow> action_plan \<Rightarrow> database \<Rightarrow> bool" where
  "plan_ok aid plan d \<longleftrightarrow>
     ar_asset_id (ap_fetched plan) = aid \<and> holds_state aid (ar_current_state (ap_fetched plan)) d \<and>
     (\<exists>i. apply_action i (ap_fetched plan) (ae_action (ap_event plan)) (ae_context (ap_event plan))
        = Inr (ap_next plan, ap_event plan))"

text \<open>The effect of a plan on the owner.\<close>

definition plan_owner :: "action_plan \<Rightarrow> string option \<Rightarrow> string option" where
  "plan_owner plan = owner_new (ae_action (ap_event plan)) (ac_actor_id (ae_context (ap_event plan)))
     (ac_buyer_id (ae_context (ap_event plan)))"

lemma plan_ok_cores: "cores_same d d' \<Longrightarrow> plan_ok aid plan d \<Longrightarrow> plan_ok aid plan d'"
  unfolding plan_ok_def by (blast intro: holds_state_cores)

lemma plan_okI:
  assumes "asset_at aid rec d" and "ap_fetched plan = with_client_previous payload rec"
    and "apply_action i (with_client_previous payload rec) a ctx = Inr (ap_next plan, ap_event plan)"
  shows "plan_ok aid plan d" "plan_owner plan = owner_new a (ac_actor_id ctx) (ac_buyer_id ctx)"
proof -
  from assms(3) have ev: "ae_action (ap_event plan) = a" "ae_context (ap_event plan) = ctx"
    by (auto simp: apply_action_Inr)
  with assms asset_at_id [OF assms(1)] show "plan_ok aid plan d"
    by (auto simp: plan_ok_def holds_state_def)
  from ev show "plan_owner plan = owner_new a (ac_actor_id ctx) (ac_buyer_id ctx)"
    by (simp add: plan_owner_def)
qed

lemma owner_new_simps [simp]:
  "owner_new LegalSell who b = (\<lambda>_. b)" "owner_new Transfer who b = (\<lambda>_. Some who)"
  "owner_new Consume who b = (\<lambda>_. None)" "owner_new LegacyAction who b = (\<lambda>_. None)"
  "a \<notin> {LegalSell, Transfer, Consume, LegacyAction} \<Longrightarrow> owner_new a who b = id"
  by (cases a; simp add: owner_new_def fun_eq_iff)+

lemma prepare_action_Inr:
  assumes "prepare_action X aid a actor hs payload w = (Inr plan, w')"
  shows "\<exists>rec i. asset_at aid rec (w_db w) \<and> w_db w' = w_db w \<and> w_now w' = w_now w
    \<and> ap_fetched plan = with_client_previous payload rec
    \<and> apply_action i (with_client_previous payload rec) a
        (audit_context_of actor hs (aq_buyer_id payload)) = Inr (ap_next plan, ap_event plan)
    \<and> ap_hash plan = build_request_hash X aid a payload actor hs
    \<and> ap_response plan = action_response X aid a (ap_fetched plan) (ap_next plan) (ap_event plan)"
proof -
  from assms obtain rec w1 i n ev where
    f: "fetch_asset aid w = (Inr rec, w1)"
    and ap: "apply_action i (with_client_previous payload rec) a
        (audit_context_of actor hs (aq_buyer_id payload)) = Inr (n, ev)"
    and w': "w' = w1\<lparr>w_draws := Suc (w_draws w1)\<rparr>"
    and plan: "plan = \<lparr>ap_fetched = with_client_previous payload rec, ap_next = n, ap_event = ev,
          ap_hash = build_request_hash X aid a payload actor hs,
          ap_response = action_response X aid a (with_client_previous payload rec) n ev\<rparr>"
    by (auto simp: prepare_action_def Let_def run_inv draw_def)
  from fetch_asset_Inr [OF f] ap show ?thesis unfolding w' plan by auto
qed

lemma no_client_previous [simp]:
  "with_client_previous \<lparr>aq_previous_state = None, aq_buyer_id = b\<rparr> rec = rec"
  by (simp add: with_client_previous_def)

lemma prepare_activation_Inr:
  assumes "prepare_activation X aid actor hs payload h w = (Inr (plan, cid), w')"
  shows "plan_ok aid plan (w_db w') \<and> plan_owner plan = id
    \<and> check_brand_boundary actor (ar_brand_id (ap_fetched plan)) = Inr ()
    \<and> asset_at aid (ap_fetched plan) (w_db w) \<and> ap_hash plan = h"
proof -
  from assms obtain rec w1 n ev where
    f: "fetch_asset aid w = (Inr rec, w1)" and b: "check_brand_boundary actor (ar_brand_id rec) = Inr ()"
    and ap: "apply_action (x_uuid X (w_draws w1)) rec ActivateRotateKeys
        (audit_context_of actor hs None) = Inr (n, ev)"
    and iss: "issue_attestations X aid (ar_brand_id rec) payload
        (w1\<lparr>w_draws := Suc (w_draws w1)\<rparr>) = (Inr cid, w')"
    and plan: "plan = \<lparr>ap_fetched = rec, ap_next = n, ap_event = ev, ap_hash = h,
        ap_response = activate_response X aid cid rec n ev\<rparr>"
    by (auto simp: prepare_activation_def run_inv draw_def)
  have at: "asset_at aid rec (w_db w)" and "w_db w1 = w_db w"
    using fetch_asset_Inr [OF f] by auto
  with keepsD [OF cores.keeps_issue iss] have "cores_same (w_db w) (w_db w')"
    by (simp add: on_db_def)
  moreover have "plan_ok aid plan (w_db w)" "plan_owner plan = id"
    using plan_okI [OF at, of plan "\<lparr>aq_previous_state = None, aq_buyer_id = None\<rparr>"] ap plan
    by simp_all
  ultimately show ?thesis using at b plan by (auto intro: plan_ok_cores)
qed

lemma prepare_entangle_Inr:
  assumes "prepare_entangle X aid actor hs payload h w = (Inr plan, w')"
  shows "plan_ok aid plan (w_db w') \<and> plan_owner plan = id
    \<and> check_brand_boundary actor (ar_brand_id (ap_fetched plan)) = Inr () \<and> ap_hash plan = h"
proof -
  from assms obtain rec w1 n ev card where
    f: "fetch_asset aid w = (Inr rec, w1)" and b: "check_brand_boundary actor (ar_brand_id rec) = Inr ()"
    and ap: "apply_action (x_uuid X (w_draws w1)) (with_client_previous payload rec) ActivateEntangle
        (audit_context_of actor hs (aq_buyer_id payload)) = Inr (n, ev)"
    and gen: "generate_virtual_mother_card_with_result X aid (ar_brand_id rec) (actor_id actor)
        (w1\<lparr>w_draws := Suc (w_draws w1)\<rparr>) = (Inr card, w')"
    and plan: "ap_fetched plan = with_client_previous payload rec" "ap_next plan = n"
      "ap_event plan = ev" "ap_hash plan = h"
    by (auto simp: prepare_entangle_def Let_def run_inv draw_def)
  have at: "asset_at aid rec (w_db w)" and "w_db w1 = w_db w"
    using fetch_asset_Inr [OF f] by auto
  with keepsD [OF cores.keeps_virtual_card gen] have "cores_same (w_db w) (w_db w')"
    by (simp add: on_db_def)
  moreover have "plan_ok aid plan (w_db w)" "plan_owner plan = id"
    using plan_okI [OF at plan(1)] ap plan by simp_all
  ultimately show ?thesis using b plan by (auto intro: plan_ok_cores)
qed

lemma authorize_transfer_Inr:
  assumes "authorize_transfer X aid actor payload w = (Inr (rec, owner), w')"
  shows "holds_state aid (ar_current_state rec) (w_db w')
    \<and> ar_current_state rec \<in> {LegallySold, Transferred} \<and> actor_id actor = owner"
proof -
  from assms obtain w1 where f: "fetch_asset aid w = (Inr rec, w1)"
    and rest: "ar_current_state rec \<in> {LegallySold, Transferred}" "actor_id actor = owner"
    by (auto simp: authorize_transfer_def run_inv)
  have "cores_same (w_db w) (w_db w')"
    using keepsD [OF cores.keeps_authorize_transfer assms] by (simp add: on_db_def)
  with fetch_asset_Inr [OF f] have "asset_at aid rec (w_db w')" by (blast intro: asset_at_cores)
  with rest show ?thesis by (auto simp: holds_state_def)
qed

context db_steps
begin

lemma keeps_idempotent:
  assumes "keeps (on_db r) fresh"
  shows "keeps (on_db r) (with_idempotency key h fresh)"
  unfolding with_idempotency_def using assms by (intro keeps_intro)

lemma persist_plan_keeps:
  assumes "plan_ok aid plan (w_db w)" and own: "allowed aid (plan_owner plan)"
  shows "on_db r w (snd (persist_plan X cid plan w))"
proof -
  from assms(1) obtain i where "holds_state aid (ar_current_state (ap_fetched plan)) (w_db w)"
    and "ar_asset_id (ap_fetched plan) = aid"
    and "apply_action i (ap_fetched plan) (ae_action (ap_event plan)) (ae_context (ap_event plan))
      = Inr (ap_next plan, ap_event plan)"
    by (auto simp: plan_ok_def)
  from persist_keeps [OF this own [unfolded plan_owner_def]] show ?thesis
    unfolding persist_plan_def by (rule seq_keeps) (intro run_keeps keeps_intro)
qed

lemma keeps_planned:
  assumes "keeps (on_db r) prep"
    and plan: "\<And>w x v. prep w = (Inr x, v) \<Longrightarrow> plan_ok aid (plan x) (w_db v) \<and> plan_owner (plan x) = own"
    and k: "\<And>x v. plan_ok aid (plan x) (w_db v) \<Longrightarrow> plan_owner (plan x) = own \<Longrightarrow>
      on_db r v (snd (k x v))"
  shows "keeps (on_db r) (try_bind prep k)"
  unfolding keeps_def
  by (intro allI seq_keeps) (blast intro: run_keeps assms(1) k dest: plan)+

lemma persist_then:
  assumes "plan_ok aid plan (w_db w)" "allowed aid (plan_owner plan)" and "\<And>x. keeps (on_db r) (k x)"
  shows "on_db r w (snd (try_bind (persist_plan X cid plan) k w))"
  by (intro seq_keeps persist_plan_keeps [OF assms(1,2)] run_keeps assms(3))

lemma prepare_action_ok:
  assumes "prepare_action X aid a actor hs payload w = (Inr plan, w')"
  shows "plan_ok aid plan (w_db w') \<and> plan_owner plan = owner_new a (actor_id actor) (aq_buyer_id payload)"
proof -
  from prepare_action_Inr [OF assms] obtain rec i where at: "asset_at aid rec (w_db w')"
    and plan: "ap_fetched plan = with_client_previous payload rec"
      "apply_action i (with_client_previous payload rec) a
        (audit_context_of actor hs (aq_buyer_id payload)) = Inr (ap_next plan, ap_event plan)"
    by auto
  from plan_okI [OF at plan] show ?thesis by (simp add: audit_context_of_def)
qed

lemma keeps_execute_asset:
  assumes "allowed aid (owner_new a (actor_id actor) (aq_buyer_id payload))"
  shows "keeps (on_db r) (execute_asset_action X aid a actor hs payload)"
proof -
  have "keeps (on_db r) (try_bind (prepare_action X aid a actor h payload)
          (commit_action X aid a actor))" for h
    by (rule keeps_planned [where plan = id and aid = aid])
      (auto simp: commit_action_def assms
         intro!: persist_then keeps_intro dest: prepare_action_ok)
  from keeps_idempotent [OF this] show ?thesis
    unfolding execute_asset_action_def by (intro keeps_intro)
qed

lemma keeps_prepare_more [keeps_intro]:
  "keeps (on_db r) (prepare_activation X aid actor h payload rh)"
  "keeps (on_db r) (prepare_entangle X aid actor h request rh)"
  unfolding prepare_activation_def prepare_entangle_def Let_def by (intro keeps_intro)+

lemma keeps_activation:
  assumes "allowed aid id"
  shows "keeps (on_db r) (activate_asset X aid actor hs payload)"
proof -
  have "keeps (on_db r) (try_bind (prepare_activation X aid actor h payload rh)
          (\<lambda>(plan, cid). persist_plan X (Some cid) plan))" for h rh
    by (rule keeps_planned [where plan = fst and aid = aid and own = id])
      (auto intro: keeps_intro persist_plan_keeps simp: assms dest: prepare_activation_Inr)
  from keeps_idempotent [OF this] show ?thesis
    unfolding activate_asset_def Let_def by (intro keeps_intro)
qed

lemma keeps_entanglement:
  assumes "allowed aid id"
  shows "keeps (on_db r) (activate_entangle_asset X aid actor hs payload)"
proof -
  have "keeps (on_db r) (try_bind (prepare_entangle X aid actor h payload rh)
          (persist_plan X None))" for h rh
    by (rule keeps_planned [where plan = id and aid = aid and own = id])
      (auto intro: keeps_intro persist_plan_keeps simp: assms dest: prepare_entangle_Inr)
  from keeps_idempotent [OF this] show ?thesis
    unfolding activate_entangle_asset_def Let_def by (intro keeps_intro)
qed

lemma transfer_write:
  assumes "holds_state aid s (w_db w)" and "s \<in> {LegallySold, Transferred}"
    and own: "allowed aid (\<lambda>_. Some new)"
    and "\<And>x. keeps (on_db r) (k x)"
  shows "on_db r w (snd (try_bind (execute_sql (update_asset aid
        (\<lambda>a. a\<lparr>as_current_state := as_db_str Transferred, as_previous_state := Some p,
               as_owner_id := Some new, as_updated_at := now\<rparr>))) k w))"
proof (rule seq_keeps)
  have "next_state_for_action_with_previous s Transfer None = Some Transferred"
    using assms(2) by (auto simp: next_state_for_action_with_previous_def)
  from allowed_step [OF own assms(1) this]
  show "on_db r w (snd (execute_sql (update_asset aid
        (\<lambda>a. a\<lparr>as_current_state := as_db_str Transferred, as_previous_state := Some p,
               as_owner_id := Some new, as_updated_at := now\<rparr>)) w))"
    by (auto simp: execute_sql_def sql_def db_call_def map_err_def on_db_def Let_def r_refl
         split: option.split list.split)
qed (rule run_keeps, rule assms(4))

lemma keeps_handover:
  assumes own: "allowed aid (\<lambda>_. Some (tq_new_owner_id payload))"
  shows "keeps (on_db r) (transfer_handler X aid actor hs payload)"
proof -
  have "keeps (on_db r) (try_bind (authorize_transfer X aid actor payload)
      (\<lambda>(rec, owner). try_bind utc_now (\<lambda>now. try_bind (execute_sql (update_asset aid
        (\<lambda>a. a\<lparr>as_current_state := as_db_str Transferred,
               as_previous_state := Some (as_db_str (ar_current_state rec)),
               as_owner_id := Some (tq_new_owner_id payload), as_updated_at := now\<rparr>))) (k rec owner now))))"
    if k: "\<And>rec owner now x. keeps (on_db r) (k rec owner now x)" for k
    unfolding keeps_def
  proof (intro allI seq_keeps, goal_cases)
    case (2 w x v)
    obtain rec owner where x: "x = (rec, owner)" by fastforce
    from 2 have "holds_state aid (ar_current_state rec) (w_db v)"
      "ar_current_state rec \<in> {LegallySold, Transferred}"
      by (auto dest: authorize_transfer_Inr simp: x)
    from transfer_write [OF this own k] show ?case
      by (simp add: x try_bind_def utc_now_def gets_def)
  qed (intro run_keeps keeps_intro)
  note writes = this
  show ?thesis
    unfolding transfer_handler_def by (intro keeps_bind [OF _ writes]) (intro keeps_intro)+
qed

end

text \<open>A relation that keeps every step of the state machine.\<close>

locale db_contract = db_frame +
  assumes asset_step:
    "holds_state aid s d \<Longrightarrow> next_state_for_action_with_previous s a p = Some t \<Longrightarrow>
      (\<And>x. as_asset_id (f x) = as_asset_id x \<and> as_brand_id (f x) = as_brand_id x
           \<and> as_current_state (f x) = as_db_str t) \<Longrightarrow>
      r d (update_asset aid f d)"
begin

sublocale db_steps r "\<lambda>_ _. True"
  by unfold_locales (rule asset_step, assumption+, blast)

lemmas keeps_write_handlers [keeps_intro] =
  keeps_execute_asset [OF TrueI] keeps_activation [OF TrueI] keeps_entanglement [OF TrueI]
  keeps_handover [OF TrueI]

end

end
