(* ===== verification/Server.thy ===== *)
theory Server
  imports Frames
begin

text \<open>
  The server as one process: \<^verbatim>\<open>main.rs\<close> puts the public routes beside the protected ones,
  whose requests pass the authentication layer first. A step of the system is a request, a run of
  the counter-calibration command, or anything outside the database (the clock, the failures to
  come, the caches, the environment). Requests are served one after the other here; what
  interleaving adds is stated in \<^verbatim>\<open>Spec2Isabelle\<close>.
\<close>

section \<open>The routes\<close>

datatype public_request =
    Healthz
  | VerifyTag verify_params
  | VerifyTagV2 verify_params
  | VerifyAsset string

datatype write_request =
    PostBlindLog string asset_action_request
  | PostStockIn string asset_action_request
  | PostActivate string activate_request
  | PostActivateEntangle string asset_action_request
  | PostActivateConfirm string asset_action_request
  | PostLegalSell string asset_action_request
  | PostConsume string asset_action_request
  | PostLegacy string asset_action_request
  | PostFreeze string asset_action_request
  | PostRecover string asset_action_request
  | PostMarkTampered string asset_action_request
  | PostMarkCompromised string asset_action_request
  | PostMarkDestructed string asset_action_request

datatype registry_request =
    GetAssets asset_list_query
  | GetAsset string
  | GetAssetHistory string
  | GetAssetAttestations string
  | PostBrand register_brand_request
  | GetBrands pagination_params
  | GetBrandsBatch string
  | GetBrand string
  | PutBrand string update_brand_request
  | PostRotateKey string "string option"
  | GetApiKeys string
  | PostBatch create_batch_request
  | GetBatches pagination_params
  | GetBatch string
  | PostCloseBatch string
  | PostTransfer string transfer_request
  | GetTransfer uuid
  | PostConfirmTransfer uuid
  | PostRejectTransfer uuid
  | PostPhysicalMotherCard register_physical_request

datatype protected_request = WriteRoute write_request | RegistryRoute registry_request

definition serve_public :: "('z externs_scheme) \<Rightarrow> public_request \<Rightarrow> world \<Rightarrow> response option \<times> world" where
  "serve_public X rq =
     (case rq of
        Healthz \<Rightarrow> respond error_response healthz
      | VerifyTag params \<Rightarrow> respond error_response (verify_handler X params)
      | VerifyTagV2 params \<Rightarrow> respond error_response (verify_v2_handler X params)
      | VerifyAsset asset_id \<Rightarrow> respond protocol_error_response (verify_asset asset_id))"

definition write_router ::
  "('z externs_scheme) \<Rightarrow> actor_context \<Rightarrow> headers \<Rightarrow> write_request \<Rightarrow> response op" where
  "write_router X actor hs rq =
     (case rq of
        PostBlindLog i p \<Rightarrow> blind_log_asset X i actor hs p
      | PostStockIn i p \<Rightarrow> stock_in_asset X i actor hs p
      | PostActivate i p \<Rightarrow> activate_asset X i actor hs p
      | PostActivateEntangle i p \<Rightarrow> activate_entangle_asset X i actor hs p
      | PostActivateConfirm i p \<Rightarrow> activate_confirm_asset X i actor hs p
      | PostLegalSell i p \<Rightarrow> legal_sell_asset X i actor hs p
      | PostConsume i p \<Rightarrow> consume_asset X i actor hs p
      | PostLegacy i p \<Rightarrow> legacy_asset X i actor hs p
      | PostFreeze i p \<Rightarrow> freeze_asset X i actor hs p
      | PostRecover i p \<Rightarrow> recover_asset X i actor hs p
      | PostMarkTampered i p \<Rightarrow> mark_tampered_asset X i actor hs p
      | PostMarkCompromised i p \<Rightarrow> mark_compromised_asset X i actor hs p
      | PostMarkDestructed i p \<Rightarrow> mark_destructed_asset X i actor hs p)"

definition registry_router ::
  "('z externs_scheme) \<Rightarrow> actor_context \<Rightarrow> headers \<Rightarrow> registry_request \<Rightarrow> response op" where
  "registry_router X actor hs rq =
     (case rq of
        GetAssets q \<Rightarrow> list_assets_handler X actor q
      | GetAsset i \<Rightarrow> get_asset X actor i
      | GetAssetHistory i \<Rightarrow> get_asset_history X actor i
      | GetAssetAttestations i \<Rightarrow> get_asset_attestations X actor i
      | PostBrand p \<Rightarrow> register_brand X actor p
      | GetBrands params \<Rightarrow> list_brands_handler X actor params
      | GetBrandsBatch ids \<Rightarrow> batch_brands X actor ids
      | GetBrand b \<Rightarrow> get_brand X actor b
      | PutBrand b p \<Rightarrow> update_brand_handler X actor b p
      | PostRotateKey b reason \<Rightarrow> rotate_api_key X actor b reason
      | GetApiKeys b \<Rightarrow> list_api_keys_handler X actor b
      | PostBatch p \<Rightarrow> create_batch_handler X actor p
      | GetBatches params \<Rightarrow> list_batches_handler X actor params
      | GetBatch b \<Rightarrow> get_batch X actor b
      | PostCloseBatch b \<Rightarrow> close_batch_handler X actor b
      | PostTransfer i p \<Rightarrow> transfer_handler X i actor hs p
      | GetTransfer t \<Rightarrow> get_transfer_handler X t actor
      | PostConfirmTransfer t \<Rightarrow> confirm_transfer_handler X actor t
      | PostRejectTransfer t \<Rightarrow> reject_transfer_handler X actor t
      | PostPhysicalMotherCard p \<Rightarrow> register_physical_mother_card X actor p)"

definition serve_protected ::
  "('z auth_externs_scheme) \<Rightarrow> auth_state \<Rightarrow> headers \<Rightarrow> protected_request \<Rightarrow> world
    \<Rightarrow> response option \<times> world" where
  "serve_protected X auth hs rq w =
     (case auth_middleware X auth hs
             (\<lambda>claims. of_result (actor_from_request (Some claims))) w of
        (Inl resp, w') \<Rightarrow> (Some resp, w')
      | (Inr actor, w') \<Rightarrow>
          (case rq of
             WriteRoute p \<Rightarrow> respond protocol_error_response (write_router X actor hs p) w'
           | RegistryRoute p \<Rightarrow> respond error_response (registry_router X actor hs p) w'))"

datatype request = Public public_request | Protected headers protected_request

definition serve ::
  "('z auth_externs_scheme) \<Rightarrow> auth_state \<Rightarrow> request \<Rightarrow> world \<Rightarrow> response option \<times> world" where
  "serve X auth rq =
     (case rq of
        Public p \<Rightarrow> serve_public X p
      | Protected hs p \<Rightarrow> serve_protected X auth hs p)"

section \<open>Runs\<close>

definition run_calibrate :: "ctr_action \<Rightarrow> world \<Rightarrow> world" where
  "run_calibrate cmd w =
     (case cmd of
        Check \<Rightarrow> snd ((run_check :: (world, unit, check_report) act) w)
      | AutoFix \<Rightarrow> snd ((run_auto :: (world, unit, nat \<times> nat) act) w)
      | Uid u strategy v \<Rightarrow> snd ((run_uid u strategy v :: (world, unit, bool) act) w))"

inductive server_step :: "('z auth_externs_scheme) \<Rightarrow> auth_state \<Rightarrow> world \<Rightarrow> world \<Rightarrow> bool"
  for X auth where
  request: "serve X auth rq w = (resp, w') \<Longrightarrow> server_step X auth w w'"
| calibrate: "server_step X auth w (run_calibrate cmd w)"
| environment: "w_db w' = w_db w \<Longrightarrow> server_step X auth w w'"

definition reaches :: "('z auth_externs_scheme) \<Rightarrow> auth_state \<Rightarrow> world \<Rightarrow> world \<Rightarrow> bool" where
  "reaches X auth = (server_step X auth)\<^sup>*\<^sup>*"

section \<open>Every step keeps every relation of the contract\<close>

text \<open>The asset a request may give another owner, and how.\<close>

definition owner_effect ::
  "actor_context \<Rightarrow> protected_request \<Rightarrow> string \<times> (string option \<Rightarrow> string option)" where
  "owner_effect actor p =
     (case p of
        WriteRoute (PostLegalSell i q) \<Rightarrow> (i, \<lambda>_. aq_buyer_id q)
      | WriteRoute (PostConsume i q) \<Rightarrow> (i, \<lambda>_. None)
      | WriteRoute (PostLegacy i q) \<Rightarrow> (i, \<lambda>_. None)
      | WriteRoute (PostBlindLog i q) \<Rightarrow> (i, id)
      | WriteRoute (PostStockIn i q) \<Rightarrow> (i, id)
      | WriteRoute (PostActivate i q) \<Rightarrow> (i, id)
      | WriteRoute (PostActivateEntangle i q) \<Rightarrow> (i, id)
      | WriteRoute (PostActivateConfirm i q) \<Rightarrow> (i, id)
      | WriteRoute (PostFreeze i q) \<Rightarrow> (i, id)
      | WriteRoute (PostRecover i q) \<Rightarrow> (i, id)
      | WriteRoute (PostMarkTampered i q) \<Rightarrow> (i, id)
      | WriteRoute (PostMarkCompromised i q) \<Rightarrow> (i, id)
      | WriteRoute (PostMarkDestructed i q) \<Rightarrow> (i, id)
      | RegistryRoute (PostTransfer i q) \<Rightarrow> (i, \<lambda>_. Some (tq_new_owner_id q))
      | RegistryRoute _ \<Rightarrow> ([], id))"

abbreviation signed_in ::
  "('z auth_externs_scheme) \<Rightarrow> auth_state \<Rightarrow> headers \<Rightarrow> (world, response, actor_context) act" where
  "signed_in X auth hs \<equiv> auth_middleware X auth hs (\<lambda>claims. of_result (actor_from_request (Some claims)))"

context db_frame
begin

lemma keeps_middleware: "keeps (on_db r) (signed_in X auth hs)"
  unfolding auth_middleware_def authenticate_def authenticate_api_key_hash_def
    fetch_brand_by_api_key_hash_def
  by (intro keeps_intro)

end

context db_steps
begin

lemma keeps_write_router:
  assumes "case owner_effect actor (WriteRoute rq) of (i, own) \<Rightarrow> allowed i own"
  shows "keeps (on_db r) (write_router X actor hs rq)"
  using assms
  by (cases rq)
    (simp_all add: write_router_def owner_effect_def blind_log_asset_def stock_in_asset_def
       activate_confirm_asset_def legal_sell_asset_def consume_asset_def legacy_asset_def
       freeze_asset_def recover_asset_def mark_tampered_asset_def mark_compromised_asset_def
       mark_destructed_asset_def keeps_execute_asset keeps_activation keeps_entanglement)

lemma keeps_registry_router:
  assumes "case owner_effect actor (RegistryRoute rq) of (i, own) \<Rightarrow> own \<noteq> id \<longrightarrow> allowed i own"
  shows "keeps (on_db r) (registry_router X actor hs rq)"
proof -
  have "(\<lambda>_. Some o') \<noteq> id" for o' :: string
    by (metis id_apply option.distinct(1))
  with assms show ?thesis
    by (cases rq) (simp_all add: registry_router_def owner_effect_def keeps_registry_handlers keeps_handover
         keeps_transfer_answers keeps_register_physical)
qed

lemma serve_allowed:
  assumes "serve X auth rq w = (resp, w')"
    and ok: "\<And>hs p actor v. rq = Protected hs p \<Longrightarrow> signed_in X auth hs w = (Inr actor, v) \<Longrightarrow>
      (case owner_effect actor p of (i, own) \<Rightarrow>
         (case p of WriteRoute _ \<Rightarrow> True | RegistryRoute _ \<Rightarrow> own \<noteq> id) \<longrightarrow> allowed i own)"
  shows "r (w_db w) (w_db w')"
proof (cases rq)
  case (Public p)
  with assms show ?thesis
    by (cases p) (auto simp: serve_def serve_public_def
        intro: respond_keeps keeps_registry_handlers keeps_verify_handlers)
next
  case (Protected hs p)
  obtain x v where m: "signed_in X auth hs w = (x, v)" by fastforce
  have first: "r (w_db w) (w_db v)" using keepsD [OF keeps_middleware m] by (simp add: on_db_def)
  show ?thesis
  proof (cases x)
    case (Inl e)
    with assms m first Protected show ?thesis by (simp add: serve_def serve_protected_def)
  next
    case (Inr actor)
    note allowed = ok [OF Protected m [unfolded Inr]]
    have "r (w_db v) (w_db w')"
    proof (cases p)
      case (WriteRoute q)
      with allowed have "keeps (on_db r) (write_router X actor hs q)"
        by (intro keeps_write_router) simp
      with assms m Protected Inr WriteRoute show ?thesis
        by (auto simp: serve_def serve_protected_def intro: respond_keeps)
    next
      case (RegistryRoute q)
      with allowed have "keeps (on_db r) (registry_router X actor hs q)"
        by (intro keeps_registry_router) simp
      with assms m Protected Inr RegistryRoute show ?thesis
        by (auto simp: serve_def serve_protected_def intro: respond_keeps)
    qed
    with first show ?thesis by (rule r_trans)
  qed
qed

end

context db_contract
begin

lemma serve_step: "serve X auth rq w = (resp, w') \<Longrightarrow> r (w_db w) (w_db w')"
  by (rule serve_allowed) (auto split: prod.split)

lemma step_keeps: "server_step X auth w w' \<Longrightarrow> r (w_db w) (w_db w')"
proof (induction rule: server_step.induct)
  case (calibrate w cmd)
  show ?case
    by (cases cmd) (simp_all add: run_calibrate_def
        run_keeps [OF keeps_calibrate(1), unfolded on_db_def]
        run_keeps [OF keeps_calibrate(2), unfolded on_db_def]
        run_keeps [OF keeps_calibrate(3), unfolded on_db_def])
qed (auto intro: serve_step simp: r_refl)

theorem reaches_keeps: "reaches X auth w w' \<Longrightarrow> r (w_db w) (w_db w')"
  unfolding reaches_def
  by (induction rule: rtranclp_induct) (auto intro: r_refl r_trans step_keeps)

end

end
