(* ===== verification/System_Invariants.thy ===== *)
theory System_Invariants
  imports Server "HOL-Library.Sublist"
begin

text \<open>
  The contract of \<^verbatim>\<open>Frames\<close> on four relations between databases: the histories only
  grow, assets move along the state machine, device counters only advance, and an asset has at
  most one active mother card. \<^verbatim>\<open>Server\<close> then gives each for every run of the server.
\<close>

section \<open>Tables whose rows evolve\<close>

text \<open>
  A table grows along \<open>R\<close>: its rows stay in place, each related to what it was by \<open>R\<close>,
  and new ones come after them.
\<close>

definition grows :: "('r \<Rightarrow> 'r \<Rightarrow> bool) \<Rightarrow> 'r list \<Rightarrow> 'r list \<Rightarrow> bool" where
  "grows R xs ys \<longleftrightarrow> (\<exists>old new. ys = old @ new \<and> list_all2 R xs old)"

locale row_order =
  fixes R :: "'r \<Rightarrow> 'r \<Rightarrow> bool"
  assumes row_refl: "R a a"
    and row_trans: "R a b \<Longrightarrow> R b c \<Longrightarrow> R a c"
begin

lemma grows_all: "list_all2 R xs ys \<Longrightarrow> grows R xs ys"
  unfolding grows_def by (intro exI [of _ ys] exI [of _ "[]"]) simp

lemma grows_refl: "grows R xs xs"
  by (intro grows_all list_all2_refl) (rule row_refl)

lemma grows_snoc: "grows R xs (xs @ new)"
  unfolding grows_def
  by (intro exI [of _ xs] exI [of _ new] conjI refl list_all2_refl) (rule row_refl)

lemma grows_update: "(\<And>a. a \<in> set xs \<Longrightarrow> p a \<Longrightarrow> R a (f a)) \<Longrightarrow> grows R xs (update_rows p f xs)"
  by (intro grows_all) (simp add: update_rows_def list_all2_conv_all_nth row_refl)

lemma grows_trans:
  assumes "grows R xs ys" and "grows R ys zs"
  shows "grows R xs zs"
proof -
  from assms obtain o1 n1 o2 n2 where
    1: "ys = o1 @ n1" "list_all2 R xs o1" and 2: "zs = o2 @ n2" "list_all2 R (o1 @ n1) o2"
    by (auto simp: grows_def)
  then obtain p q where "o2 = p @ q" "list_all2 R o1 p" by (auto simp: list_all2_append1)
  moreover from 1(2) this(2) have "list_all2 R xs p"
    using list_all2_trans [of R R R xs o1 p] row_trans by blast
  ultimately show ?thesis using 2(1) by (auto simp: grows_def)
qed

end

section \<open>Histories\<close>

definition history_grows :: "database \<Rightarrow> database \<Rightarrow> bool" where
  "history_grows d d' \<longleftrightarrow>
     prefix (db_events d) (db_events d') \<and> prefix (db_idempotency d) (db_idempotency d') \<and>
     prefix (db_commitments d) (db_commitments d') \<and>
     prefix (db_brand_attestations d) (db_brand_attestations d') \<and>
     prefix (db_platform_attestations d) (db_platform_attestations d') \<and>
     prefix (db_verifications d) (db_verifications d') \<and>
     prefix (db_entanglements d) (db_entanglements d')"

interpretation history: db_contract history_grows
  by unfold_locales
    (auto simp: history_grows_def append_event_def insert_idempotency_def update_asset_def
       intro: prefix_order.trans)

section \<open>Assets\<close>

definition state_edge :: "string \<Rightarrow> string \<Rightarrow> bool" where
  "state_edge x y \<longleftrightarrow>
     (\<exists>s a p t. x = as_db_str s \<and> y = as_db_str t
        \<and> next_state_for_action_with_previous s a p = Some t)"

definition row_follows :: "asset_row \<Rightarrow> asset_row \<Rightarrow> bool" where
  "row_follows a b \<longleftrightarrow>
     as_asset_id b = as_asset_id a \<and> as_brand_id b = as_brand_id a \<and>
     state_edge\<^sup>*\<^sup>* (as_current_state a) (as_current_state b)"

definition unique_assets :: "database \<Rightarrow> bool" where
  "unique_assets d \<longleftrightarrow> distinct (map as_asset_id (db_assets d))"

definition follows_protocol :: "database \<Rightarrow> database \<Rightarrow> bool" where
  "follows_protocol d d' \<longleftrightarrow>
     unique_assets d \<longrightarrow> list_all2 row_follows (db_assets d) (db_assets d')"

lemma row_follows_refl [simp]: "row_follows a a"
  by (simp add: row_follows_def)

lemma row_follows_trans: "row_follows a b \<Longrightarrow> row_follows b c \<Longrightarrow> row_follows a c"
  by (auto simp: row_follows_def)

lemma all_follow_trans:
  "list_all2 row_follows xs ys \<Longrightarrow> list_all2 row_follows ys zs \<Longrightarrow> list_all2 row_follows xs zs"
  by (rule list_all2_trans) (rule row_follows_trans)

lemma row_follows_ids: "list_all2 row_follows xs ys \<Longrightarrow> map as_asset_id ys = map as_asset_id xs"
  by (induction rule: list_all2_induct) (simp_all add: row_follows_def)

lemma all_follow_update:
  "(\<And>a. a \<in> set xs \<Longrightarrow> p a \<Longrightarrow> row_follows a (f a)) \<Longrightarrow> list_all2 row_follows xs (update_rows p f xs)"
  by (simp add: update_rows_def list_all2_conv_all_nth)

lemma holds_state_row:
  assumes "holds_state aid s d" and "unique_assets d"
    and "a \<in> set (db_assets d)" "as_asset_id a = aid"
  shows "as_current_state a = as_db_str s"
proof -
  obtain row where row: "find (asset_with_id aid) (db_assets d) = Some row"
    and s: "as_current_state row = as_db_str s"
    using assms(1)
    by (auto simp: holds_state_def asset_at_def decode_asset_def and_then_Inr from_db_str_Some)
  from row have "row \<in> set (db_assets d)" "as_asset_id row = aid"
    by (auto simp: find_Some_iff asset_with_id_def)
  with assms have "row = a" by (auto simp: unique_assets_def distinct_map inj_on_def)
  with s show ?thesis by simp
qed

interpretation protocol: db_contract follows_protocol
proof unfold_locales
  fix a b c :: database
  assume ab: "follows_protocol a b" and bc: "follows_protocol b c"
  show "follows_protocol a c"
    unfolding follows_protocol_def
  proof
    assume "unique_assets a"
    with ab have 1: "list_all2 row_follows (db_assets a) (db_assets b)"
      by (simp add: follows_protocol_def)
    with \<open>unique_assets a\<close> have "unique_assets b"
      by (simp add: unique_assets_def row_follows_ids)
    with bc have "list_all2 row_follows (db_assets b) (db_assets c)"
      by (simp add: follows_protocol_def)
    with 1 show "list_all2 row_follows (db_assets a) (db_assets c)"
      by (rule all_follow_trans)
  qed
next
  fix f :: "asset_row \<Rightarrow> asset_row" and d :: database and p
  assume core: "\<And>a. asset_core (f a) = asset_core a"
  have "row_follows a (f a)" for a
    using core [of a] by (simp add: asset_core_def row_follows_def)
  then show "follows_protocol d (d\<lparr>db_assets := update_rows p f (db_assets d)\<rparr>)"
    by (simp add: follows_protocol_def all_follow_update)
next
  fix aid s d a p t and f :: "asset_row \<Rightarrow> asset_row"
  assume held: "holds_state aid s d" and edge: "next_state_for_action_with_previous s a p = Some t"
    and f: "\<And>x. as_asset_id (f x) = as_asset_id x \<and> as_brand_id (f x) = as_brand_id x
           \<and> as_current_state (f x) = as_db_str t"
  show "follows_protocol d (update_asset aid f d)"
    unfolding follows_protocol_def update_asset_def
  proof (simp, intro impI all_follow_update)
    fix x
    assume "unique_assets d" "x \<in> set (db_assets d)" "asset_with_id aid x"
    with held have "as_current_state x = as_db_str s"
      by (auto simp: asset_with_id_def intro: holds_state_row)
    with edge f have "state_edge (as_current_state x) (as_current_state (f x))"
      unfolding state_edge_def by blast
    with f show "row_follows x (f x)" by (simp add: row_follows_def r_into_rtranclp)
  qed
qed (simp_all add: follows_protocol_def list_all2_refl append_event_def insert_idempotency_def)

section \<open>Devices\<close>

definition ctr_le :: "i32 option \<Rightarrow> i32 option \<Rightarrow> bool" where
  "ctr_le old new =
     (case (old, new) of
        (None, _) \<Rightarrow> True
      | (Some _, None) \<Rightarrow> False
      | (Some a, Some b) \<Rightarrow> sint a \<le> sint b)"

definition device_advances :: "authority_device_row \<Rightarrow> authority_device_row \<Rightarrow> bool" where
  "device_advances a b \<longleftrightarrow>
     b = a\<lparr>ad_last_known_ctr := ad_last_known_ctr b\<rparr> \<and>
     ctr_le (ad_last_known_ctr a) (ad_last_known_ctr b)"

definition devices_advance :: "database \<Rightarrow> database \<Rightarrow> bool" where
  "devices_advance d d' \<longleftrightarrow> grows device_advances (db_devices d) (db_devices d')"

lemma ctr_le_refl [simp]: "ctr_le c c"
  by (simp add: ctr_le_def split: option.split)

lemma ctr_le_trans: "ctr_le a b \<Longrightarrow> ctr_le b c \<Longrightarrow> ctr_le a c"
  by (auto simp: ctr_le_def split: option.splits)

lemma device_advances_refl [simp]: "device_advances a a"
  by (simp add: device_advances_def)

lemma device_advances_trans: "device_advances a b \<Longrightarrow> device_advances b c \<Longrightarrow> device_advances a c"
  unfolding device_advances_def
  by (cases a; cases b; cases c) (auto intro: ctr_le_trans)

interpretation device_row: row_order device_advances
  by unfold_locales (auto intro: device_advances_trans)

interpretation devices: db_contract devices_advance
proof unfold_locales
  fix a b c :: database
  assume "devices_advance a b" "devices_advance b c"
  then show "devices_advance a c" unfolding devices_advance_def by (rule device_row.grows_trans)
next
  fix d :: database and i ctr
  show "devices_advance d (d\<lparr>db_devices := update_rows
      (\<lambda>a. ad_authority_id a = i \<and> ctr_advances ctr (ad_last_known_ctr a))
      (\<lambda>a. a\<lparr>ad_last_known_ctr := Some ctr\<rparr>) (db_devices d)\<rparr>)"
    by (auto simp: devices_advance_def device_advances_def ctr_le_def ctr_advances_def
        intro!: device_row.grows_update split: option.splits)
qed (simp_all add: devices_advance_def device_row.grows_refl device_row.grows_snoc
  append_event_def insert_idempotency_def update_asset_def)

section \<open>Mother cards\<close>

text \<open>An asset gets at most one active mother card and keeps the one it has.\<close>

definition mother_cards :: "string \<Rightarrow> database \<Rightarrow> entanglement_row list" where
  "mother_cards aid d = filter (active_entanglement aid) (db_entanglements d)"

definition mother_cards_kept :: "database \<Rightarrow> database \<Rightarrow> bool" where
  "mother_cards_kept d d' \<longleftrightarrow>
     (\<forall>aid. (mother_cards aid d \<noteq> [] \<longrightarrow> mother_cards aid d' = mother_cards aid d) \<and>
            (length (mother_cards aid d) \<le> 1 \<longrightarrow> length (mother_cards aid d') \<le> 1))"

interpretation mother_cards: db_contract mother_cards_kept
proof unfold_locales
  fix a b c
  assume "mother_cards_kept a b" "mother_cards_kept b c"
  then show "mother_cards_kept a c" unfolding mother_cards_kept_def by metis
next
  fix en :: entanglement_row and d :: database
  assume "\<not> list_ex (active_entanglement (en_asset_id en)) (db_entanglements d)"
  then have "mother_cards (en_asset_id en) d = []"
    by (auto simp: mother_cards_def filter_empty_conv list_ex_iff)
  moreover have "active_entanglement aid en \<Longrightarrow> aid = en_asset_id en" for aid
    by (simp add: active_entanglement_def)
  ultimately show "mother_cards_kept d (d\<lparr>db_entanglements := db_entanglements d @ [en]\<rparr>)"
    by (auto simp: mother_cards_kept_def mother_cards_def)
qed (auto simp: mother_cards_kept_def mother_cards_def append_event_def insert_idempotency_def
  update_asset_def)

text \<open>The device an asset is bound to is the same row, its counter possibly advanced.\<close>

lemma bound_devices_split:
  "bound_devices aid d = concat (map (\<lambda>a. map (Pair a)
     (filter (\<lambda>e. en_authority_id e = ad_authority_id a) (mother_cards aid d))) (db_devices d))"
proof -
  have "concat (map (\<lambda>e. if en_authority_id e = i \<and> active_entanglement aid e then [(a, e)] else []) es) =
      map (Pair a) (filter (\<lambda>e. en_authority_id e = i) (filter (active_entanglement aid) es))"
    for a :: authority_device_row and i es
    by (induction es) auto
  then show ?thesis by (simp add: bound_devices_def mother_cards_def)
qed

lemma concat_map_Nil: "concat (map (\<lambda>a. []) xs) = []"
  by (induction xs) simp_all

lemma first_of_prefix: "first_of xs = Some x \<Longrightarrow> first_of (xs @ ys) = Some x"
  by (cases xs) (simp_all add: first_of_def)

lemma first_of_append: "first_of (xs @ ys) = (if xs = [] then first_of ys else first_of xs)"
  by (cases xs) (simp_all add: first_of_def)

lemma first_bound_advances:
  assumes "list_all2 device_advances ds old"
    and "first_of (concat (map (\<lambda>a. map (Pair a)
       (filter (\<lambda>e. en_authority_id e = ad_authority_id a) es)) ds)) = Some (dev, e)"
  shows "\<exists>dev'. device_advances dev dev' \<and> first_of (concat (map (\<lambda>a. map (Pair a)
       (filter (\<lambda>e. en_authority_id e = ad_authority_id a) es)) old)) = Some (dev', e)"
  using assms
proof (induction rule: list_all2_induct)
  case (Cons a as b bs)
  then have same: "ad_authority_id b = ad_authority_id a"
    unfolding device_advances_def by (metis authority_device_row.select_convs(1)
        authority_device_row.surjective authority_device_row.update_convs(10))
  show ?case
  proof (cases "filter (\<lambda>e. en_authority_id e = ad_authority_id a) es")
    case Nil
    with Cons same show ?thesis by (simp add: first_of_append)
  next
    case (Cons e' es')
    with Cons.prems Cons.hyps same show ?thesis by (simp add: first_of_def)
  qed
qed (simp add: first_of_def)

lemma bound_device_advances:
  assumes "devices_advance d d'" and "mother_cards_kept d d'"
    and "first_of (bound_devices aid d) = Some (dev, e)"
  shows "\<exists>dev'. device_advances dev dev' \<and> first_of (bound_devices aid d') = Some (dev', e)"
proof -
  obtain old new where new: "db_devices d' = old @ new"
    and old: "list_all2 device_advances (db_devices d) old"
    using assms(1) by (auto simp: devices_advance_def grows_def)
  have "mother_cards aid d \<noteq> []"
    using assms(3) by (auto simp: bound_devices_split concat_map_Nil first_of_def)
  with assms(2) have "mother_cards aid d' = mother_cards aid d" by (simp add: mother_cards_kept_def)
  moreover obtain dev' where "device_advances dev dev'"
    and "first_of (concat (map (\<lambda>a. map (Pair a) (filter (\<lambda>e. en_authority_id e = ad_authority_id a)
           (mother_cards aid d))) old)) = Some (dev', e)"
    using first_bound_advances [OF old assms(3) [unfolded bound_devices_split]] by blast
  ultimately show ?thesis
    by (auto simp: bound_devices_split new intro: first_of_prefix)
qed

end
