(* ===== verification/Demo.thy ===== *)
theory Demo
  imports Server
begin

text \<open>
  A small concrete system for the witnesses: libraries that compute (constant digests, a MAC of
  zeros), a database with one brand, its API key, one asset and its mother cards, and the
  headers and actors of a few requests.
\<close>

section \<open>Libraries\<close>

definition demo_hex :: "string \<Rightarrow> string + bytes" where
  "demo_hex s =
     (if length s = 14 then Inr (replicate 7 4) else if s = ''060000'' then Inr [6, 0, 0]
      else if length s = 6 then Inr [5, 0, 0]
      else if length s = 16 then Inr (replicate 8 0) else Inl ''odd'')"

definition demo_claims :: claims where
  "demo_claims = \<lparr>sub = ''mod_1'', role = ''Moderator'', org_id = None, claims_brand_id = None,
     scopes = [], exp = - 1, iat = 0\<rparr>"

definition demo_x :: auth_externs where
  "demo_x = \<lparr>x_hmac_sha256 = (\<lambda>k m. replicate 32 7), x_cmac_aes128 = (\<lambda>k m. replicate 16 0),
     x_sha256 = (\<lambda>m. replicate 32 9), x_ct_eq = (\<lambda>a b. a = b),
     x_ulid = (\<lambda>n. replicate 26 CHR ''0''), x_uuid = (\<lambda>n. of_nat (100 + n)),
     x_nanoid12 = (\<lambda>n. ''n''), x_rand16 = (\<lambda>n. replicate 16 0),
     x_parse_uuid = (\<lambda>s. Some 1), x_uuid_text = (\<lambda>u. ''u''), x_hex_encode = (\<lambda>b. ''h''),
     x_hex_decode = demo_hex, x_json_bytes = (\<lambda>j. Inr []), x_rfc3339 = (\<lambda>t. ''t''),
     x_ed_sign = (\<lambda>k m. []), x_ed_public = (\<lambda>k. []), x_ed_sig_from_slice = Inr,
     x_ed_verify = (\<lambda>k m s. True), x_unicode_upper = id, x_pg_message = id,
     x_jwt_decode = (\<lambda>k t token. if token = ''good'' then Inr demo_claims else Inl JwtOther)\<rparr>"

definition demo_auth :: auth_state where
  "demo_auth = \<lparr>au_jwt_secret = [], au_disabled = False, au_api_key_secret = []\<rparr>"

section \<open>Rows\<close>

definition demo_asset :: "asset_state \<Rightarrow> asset_row" where
  "demo_asset s = \<lparr>as_asset_id = ''a1'', as_brand_id = ''brand_1'', as_product_id = None,
     as_uid = Some ''04040404040404'', as_current_state = as_db_str s, as_previous_state = None,
     as_owner_id = Some ''user_1'', as_last_verified_ctr = None, as_epoch = 0, as_key_epoch = 0,
     as_batch_id = None, as_external_product_id = None, as_external_product_name = None,
     as_external_product_url = None, as_asset_commitment_id = None, as_activated_at = None,
     as_sold_at = None, as_created_at = 0, as_updated_at = 0\<rparr>"

definition demo_virtual :: authority_device_row where
  "demo_virtual = \<lparr>ad_authority_id = 1, ad_authority_uid = ''vauth-n'',
     ad_authority_type = ''VIRTUAL_APP'', ad_brand_id = ''brand_1'', ad_status = ''Active'',
     ad_key_epoch = 0, ad_virtual_credential_hash = Some ''h'', ad_bound_user_id = Some ''user_1'',
     ad_physical_chip_uid = None, ad_last_known_ctr = None, ad_created_by = None\<rparr>"

definition demo_physical :: authority_device_row where
  "demo_physical = demo_virtual\<lparr>ad_authority_type := ''PHYSICAL_NFC'',
     ad_physical_chip_uid := Some ''04040404040404'', ad_last_known_ctr := Some 3\<rparr>"

definition demo_entanglement :: entanglement_row where
  "demo_entanglement = \<lparr>en_entanglement_id = 2, en_asset_id = ''a1'',
     en_child_uid = ''04040404040404'', en_authority_id = 1, en_authority_uid = ''vauth-n'',
     en_entanglement_state = ''Active'', en_bound_by = ''user_1'', en_created_at = 0\<rparr>"

definition demo_brand :: brand_record where
  "demo_brand = \<lparr>br_brand_id = ''brand_1'', br_brand_name = ''B'', br_contact_email = ''b@b'',
     br_industry = ''Art'', br_status = ''Active'', br_created_at = 0, br_updated_at = 0,
     br_api_key_hash = None\<rparr>"

definition demo_key :: api_key_record where
  "demo_key = \<lparr>ak_key_id = ''key_1'', ak_brand_id = ''brand_1'', ak_key_hash = ''h'',
     ak_key_prefix = ''p'', ak_status = ''Active'', ak_created_at = 0, ak_revoked_at = None,
     ak_last_used_at = None\<rparr>"

definition demo_db :: "asset_state \<Rightarrow> authority_device_row \<Rightarrow> database" where
  "demo_db s dev = \<lparr>db_assets = [demo_asset s], db_events = [], db_idempotency = [],
     db_devices = [dev], db_entanglements = [demo_entanglement], db_commitments = [],
     db_brand_attestations = [], db_platform_attestations = [], db_brands = [demo_brand],
     db_api_keys = [demo_key], db_batches = [], db_products = [], db_transfers = [],
     db_verifications = [], db_sessions = [], db_webhooks = None\<rparr>"

definition demo_world :: "asset_state \<Rightarrow> authority_device_row \<Rightarrow> world" where
  "demo_world s dev = \<lparr>w_db = demo_db s dev, w_l1 = Map.empty, w_redis = None, w_kms = demo_kms,
     w_now = 50, w_draws = 0, w_faults = [], w_redis_faults = [], w_env = Map.empty,
     w_fallback = Auto\<rparr>"

section \<open>Requests\<close>

definition demo_headers :: headers where
  "demo_headers = [''X-Trace-Id'' \<mapsto> HeaderText ''t'', ''X-Idempotency-Key'' \<mapsto> HeaderText ''k1'',
     ''Authorization'' \<mapsto> HeaderText ''Bearer good'']"

definition demo_actor :: "string \<Rightarrow> actor_role \<Rightarrow> actor_context" where
  "demo_actor i r = \<lparr>actor_id = i, the_role = r, actor_org = None, brand_of = None\<rparr>"

definition plain_request :: asset_action_request where
  "plain_request = \<lparr>aq_previous_state = None, aq_buyer_id = None\<rparr>"

lemmas demo_system_defs =
  demo_hex_def demo_claims_def demo_x_def demo_auth_def demo_asset_def demo_virtual_def
  demo_physical_def demo_entanglement_def demo_brand_def demo_key_def demo_db_def demo_world_def
  demo_headers_def demo_actor_def plain_request_def

end
