(* ===== verification/Action_Properties.thy ===== *)
theory Action_Properties
  imports System_Invariants Demo
begin

text \<open>
  What one call of \<^verbatim>\<open>execute_asset_action\<close> does, on each of its outcomes, and what the
  idempotency key guarantees across calls.
\<close>

section \<open>Outcomes\<close>

text \<open>The stored answer for a key.\<close>

definition answer_for :: "string \<Rightarrow> database \<Rightarrow> idempotency_row option" where
  "answer_for key d = find (\<lambda>r. ir_idempotency_key r = key) (db_idempotency d)"

lemma with_idempotency_Inr:
  "with_idempotency key h fresh w = (Inr resp, w') \<longleftrightarrow>
    (\<forall>m fs. w_faults w \<noteq> Some m # fs) \<and>
    (let w1 = w\<lparr>w_faults := tl (w_faults w)\<rparr> in
     case answer_for key (w_db w) of
       Some row \<Rightarrow> ir_request_hash row = h \<and> resp = ok_json (ir_response_snapshot row) \<and> w' = w1
     | None \<Rightarrow> fresh w1 = (Inr resp, w'))"
  unfolding with_idempotency_def load_idempotency_record_def answer_for_def
  by (cases "find (\<lambda>r. ir_idempotency_key r = key) (db_idempotency (w_db w))")
    (auto simp: run_inv Let_def)

lemma persist_plan_Inr:
  assumes "persist_plan X cid plan w = (Inr resp, w')"
  shows "resp = ok_json (ap_response plan)
    \<and> w_db w' = persist_effect (ap_next plan) (ap_event plan) (ap_hash plan) (ap_response plan) cid
                  (w_now w) (w_db w)"
  using assms by (auto simp: persist_plan_def run_inv dest!: persist_action_Inr)

lemma execute_Inr_cases:
  assumes "execute_asset_action X aid a actor headers p w = (Inr resp, w')" "a \<noteq> ActivateEntangle"
  obtains (replay) h row where "parse_required_headers X headers = Inr h"
      "answer_for (rh_idempotency_key h) (w_db w) = Some row"
      "ir_request_hash row = build_request_hash X aid a p actor h"
      "resp = ok_json (ir_response_snapshot row)" "w_db w' = w_db w"
  | (fresh) h rec i n ev where "parse_required_headers X headers = Inr h"
      "answer_for (rh_idempotency_key h) (w_db w) = None"
      "asset_at aid rec (w_db w)"
      "apply_action i (with_client_previous p rec) a
         (audit_context_of actor h (aq_buyer_id p)) = Inr (n, ev)"
      "resp = ok_json (action_response X aid a (with_client_previous p rec) n ev)"
      "w_db w' = persist_effect n ev (build_request_hash X aid a p actor h)
         (action_response X aid a (with_client_previous p rec) n ev) None (w_now w) (w_db w)"
proof -
  from assms(1) obtain h where h: "parse_required_headers X headers = Inr h"
    and run: "with_idempotency (rh_idempotency_key h) (build_request_hash X aid a p actor h)
       (try_bind (prepare_action X aid a actor h p) (commit_action X aid a actor)) w = (Inr resp, w')"
    by (auto simp: execute_asset_action_def run_inv)
  show thesis
  proof (cases "answer_for (rh_idempotency_key h) (w_db w)")
    case (Some row)
    with run h show thesis by (intro replay) (auto simp: with_idempotency_Inr Let_def)
  next
    case None
    with run obtain plan w1 where
      prep: "prepare_action X aid a actor h p (w\<lparr>w_faults := tl (w_faults w)\<rparr>) = (Inr plan, w1)"
      and com: "persist_plan X None plan w1 = (Inr resp, w')"
      using assms(2) by (auto simp: with_idempotency_Inr Let_def run_inv commit_action_def)
    from prepare_action_Inr [OF prep] obtain rec i where
      at: "asset_at aid rec (w_db w)" and w1: "w_db w1 = w_db w" "w_now w1 = w_now w"
      and ap: "apply_action i (with_client_previous p rec) a
        (audit_context_of actor h (aq_buyer_id p)) = Inr (ap_next plan, ap_event plan)"
      and plan: "ap_hash plan = build_request_hash X aid a p actor h"
        "ap_response plan = action_response X aid a (with_client_previous p rec) (ap_next plan)
           (ap_event plan)"
      by auto
    from persist_plan_Inr [OF com] plan w1
    show thesis by (intro fresh [OF h None at ap]) simp_all
  qed
qed

text \<open>Operations that leave the database as it was when they fail.\<close>

definition clean :: "'a op \<Rightarrow> bool" where
  "clean m \<longleftrightarrow> (\<forall>w e w'. m w = (Inl e, w') \<longrightarrow> w_db w' = w_db w)"

lemma clean_keeps: "keeps (on_db (=)) m \<Longrightarrow> clean m"
  by (auto simp: clean_def dest: keepsD simp: on_db_def)

lemma clean_bind:
  assumes "keeps (on_db (=)) m" and "\<And>x. clean (k x)"
  shows "clean (try_bind m k)"
  unfolding clean_def
proof (intro allI impI)
  fix w e w'
  assume "try_bind m k w = (Inl e, w')"
  then consider "m w = (Inl e, w')" | x w1 where "m w = (Inr x, w1)" "k x w1 = (Inl e, w')"
    by (auto simp: try_bind_Inl)
  then show "w_db w' = w_db w"
  proof cases
    case 1
    from keepsD [OF assms(1) this] show ?thesis by (simp add: on_db_def)
  next
    case (2 x w1)
    from keepsD [OF assms(1) 2(1)] assms(2) [of x] 2(2) show ?thesis
      by (auto simp: on_db_def clean_def)
  qed
qed

lemma clean_persist: "clean (persist_plan X cid plan)"
  unfolding clean_def persist_plan_def
  by (auto simp: try_bind_Inl act_simps dest: persist_action_Inl)

lemma clean_throw [simp]: "clean (throw e)" "clean (ret x)"
  by (simp_all add: clean_def throw_def ret_def fail_def)

lemma clean_with_idempotency: "clean fresh \<Longrightarrow> clean (with_idempotency key h fresh)"
  unfolding with_idempotency_def load_idempotency_record_def
  by (intro clean_bind keeps_intro)
    (auto split: option.split intro!: clean_keeps keeps_intro)

lemma prepare_reads_only [keeps_intro]:
  "keeps (on_db (=)) (prepare_action X aid a actor h p)"
  unfolding prepare_action_def fetch_asset_def Let_def by (intro keeps_intro)

section \<open>Properties\<close>

text \<open>
  C7. An action that succeeds (other than ActivateEntangle, whose endpoint is its own) has one
  of two effects. Either its idempotency key was already answered for the same request, and then
  the stored answer is returned and nothing is written; or the key is new, \<open>apply_action\<close>
  accepts the stored asset, and the database changes by exactly its result: the state and the
  owner of the asset, one audit event and one idempotency record holding the answer.
\<close>

theorem action_effect:
  assumes "execute_asset_action X aid a actor headers p w = (Inr resp, w')"
    and "a \<noteq> ActivateEntangle"
  shows "\<exists>h. parse_required_headers X headers = Inr h \<and>
    (case answer_for (rh_idempotency_key h) (w_db w) of
       Some row \<Rightarrow> ir_request_hash row = build_request_hash X aid a p actor h
         \<and> resp = ok_json (ir_response_snapshot row) \<and> w_db w' = w_db w
     | None \<Rightarrow> \<exists>rec event_id next_record ev.
         asset_at aid rec (w_db w)
         \<and> apply_action event_id (with_client_previous p rec) a
             (audit_context_of actor h (aq_buyer_id p)) = Inr (next_record, ev)
         \<and> (let answer = action_response X aid a (with_client_previous p rec) next_record ev in
              resp = ok_json answer
              \<and> w_db w' = persist_effect next_record ev (build_request_hash X aid a p actor h)
                            answer None (w_now w) (w_db w)))"
  using assms
proof (cases rule: execute_Inr_cases)
  case (replay h row)
  then show ?thesis by simp
next
  case (fresh h rec i n ev)
  then show ?thesis
    by (simp add: Let_def) (rule exI [of _ rec], rule conjI, assumption, blast)
qed

lemma clean_execute:
  assumes "a \<noteq> ActivateEntangle"
  shows "clean (execute_asset_action X aid a actor headers p)"
proof -
  have "clean (commit_action X aid a actor plan)" for plan
    using assms clean_persist [of X None plan]
    by (auto simp: commit_action_def clean_def try_bind_Inl act_simps)
  then show ?thesis
    unfolding execute_asset_action_def
    by (intro clean_bind clean_with_idempotency keeps_intro prepare_reads_only)
qed


section \<open>Idempotency keys\<close>

lemma find_prefix: "prefix xs ys \<Longrightarrow> find P xs = Some x \<Longrightarrow> find P ys = Some x"
proof -
  have "find P xs = Some x \<Longrightarrow> find P (xs @ zs) = Some x" for zs
    by (induction xs) (auto split: if_splits)
  then show "prefix xs ys \<Longrightarrow> find P xs = Some x \<Longrightarrow> find P ys = Some x" by (auto simp: prefix_def)
qed

lemma answer_kept:
  "reaches X auth w w' \<Longrightarrow> answer_for key (w_db w) = Some row \<Longrightarrow> answer_for key (w_db w') = Some row"
  unfolding answer_for_def
  by (drule history.reaches_keeps) (auto simp: history_grows_def intro: find_prefix)

lemma answer_recorded:
  assumes "answer_for (ac_idempotency_key (ae_context ev)) d = None"
  shows "\<exists>row. answer_for (ac_idempotency_key (ae_context ev)) (persist_effect n ev rh snap cid now d) = Some row
    \<and> ir_request_hash row = rh \<and> ir_response_snapshot row = snap"
proof -
  have none: "find P xs = None \<Longrightarrow> find P (xs @ [x]) = (if P x then Some x else None)" for P xs and x :: idempotency_row
    by (induction xs) (auto split: if_splits)
  show ?thesis
    using assms
    by (auto simp: answer_for_def persist_effect_def insert_idempotency_def append_event_def
        update_asset_def none list_ex_iff find_None_iff)
qed

lemma succeeded_is_answered:
  assumes "execute_asset_action X aid a actor headers p w = (Inr resp, w')" "a \<noteq> ActivateEntangle"
    and h: "parse_required_headers X headers = Inr h"
  shows "\<exists>row. answer_for (rh_idempotency_key h) (w_db w') = Some row
    \<and> ir_request_hash row = build_request_hash X aid a p actor h
    \<and> resp = ok_json (ir_response_snapshot row)"
  using assms(1,2)
proof (cases rule: execute_Inr_cases)
  case (replay h' row)
  with h show ?thesis by auto
next
  case (fresh h' rec i n ev)
  then have "ac_idempotency_key (ae_context ev) = rh_idempotency_key h"
    using h by (auto simp: apply_action_Inr audit_context_of_def)
  with fresh(2) h fresh(1) answer_recorded [of ev "w_db w" n
      "build_request_hash X aid a p actor h'"
      "action_response X aid a (with_client_previous p rec) n ev" None "w_now w"]
  show ?thesis unfolding fresh(5,6) by auto
qed

text \<open>
  C9. An idempotency key is bound for ever to the first request that succeeded with it. Whatever
  the server has done since, a later action with that key, on any asset and by any actor, writes
  nothing: it is answered as the first one was when its request hash is the same, and refused
  with \<open>IdempotencyConflict\<close> otherwise. The hash does not cover the buyer, so a second sale to
  another buyer under the same key is answered as if it had been done.
\<close>

theorem idempotency_key_is_binding:
  assumes "execute_asset_action X aid a actor headers p w = (Inr resp, w1)" "a \<noteq> ActivateEntangle"
    and "parse_required_headers X headers = Inr h"
    and "reaches X auth w1 w2" and "w_faults w2 = []"
    and "parse_required_headers X headers' = Inr h'"
    and "rh_idempotency_key h' = rh_idempotency_key h"
    and "a' = LegalSell \<longrightarrow> aq_buyer_id p' \<notin> {None, Some []}"
  shows "execute_asset_action X aid' a' actor' headers' p' w2 =
    (if build_request_hash X aid' a' p' actor' h' = build_request_hash X aid a p actor h
     then Inr resp else Inl (Err IdempotencyConflict), w2)"
proof -
  obtain row where row: "answer_for (rh_idempotency_key h) (w_db w1) = Some row"
    "ir_request_hash row = build_request_hash X aid a p actor h"
    "resp = ok_json (ir_response_snapshot row)"
    using succeeded_is_answered [OF assms(1-3)] by blast
  have "find (\<lambda>r. ir_idempotency_key r = rh_idempotency_key h') (db_idempotency (w_db w2)) = Some row"
    using answer_kept [OF assms(4) row(1)] assms(7) by (simp add: answer_for_def)
  moreover have "calm w2" using assms(5) by (simp add: calm_def)
  ultimately show ?thesis
    using assms(6,8) row
    by (auto simp: execute_asset_action_def with_idempotency_def load_idempotency_record_def
        try_bind_def run_simps)
qed

section \<open>Enabled actions succeed\<close>

lemma persist_action_calm:
  assumes "calm w" and "asset_exists (ae_asset_id ev) (w_db w)"
    and "ae_event_id ev \<notin> se_event_id ` set (db_events (w_db w))"
    and "ae_action ev = LegalSell \<longrightarrow> ac_buyer_id (ae_context ev) \<noteq> None"
  shows "persist_action X n ev rh snap cid w =
    (Inr (), w\<lparr>w_db := persist_effect n ev rh snap cid (w_now w) (w_db w)\<rparr>)"
proof -
  have new: "\<not> list_ex (\<lambda>x. se_event_id x = ae_event_id ev) (db_events (w_db w))"
    using assms(3) by (auto simp: list_ex_iff image_iff)
  have db: "db_events (update_asset i f d) = db_events d" for i f d by (simp add: update_asset_def)
  show ?thesis
    using assms new
    by (cases "ae_action ev")
      (auto simp: persist_action_def try_bind_def run_simps utc_now_def Let_def insert_event_def
        constrained_def db update_asset_twice persist_effect_def owner_after_def append_event_def
        state_after_def)
qed
lemma asset_at_exists: "asset_at aid rec d \<Longrightarrow> asset_exists aid d"
  by (auto simp: asset_at_def asset_exists_def list_ex_iff find_Some_iff)

text \<open>An accepted action runs through to its stored effect.\<close>

lemma action_runs_exact:
  assumes "w_faults w = []" and "parse_required_headers X headers = Inr h"
    and "answer_for (rh_idempotency_key h) (w_db w) = None"
    and "asset_at aid rec (w_db w)"
    and "apply_action (x_uuid X (w_draws w)) (with_client_previous p rec) a
           (audit_context_of actor h (aq_buyer_id p)) = Inr (n, ev)"
    and "x_uuid X (w_draws w) \<notin> se_event_id ` set (db_events (w_db w))"
    and "a \<noteq> ActivateEntangle" and "a = LegalSell \<longrightarrow> aq_buyer_id p \<noteq> Some []"
  shows "execute_asset_action X aid a actor headers p w =
      (Inr (ok_json (action_response X aid a (with_client_previous p rec) n ev)),
       w\<lparr>w_draws := Suc (w_draws w),
         w_db := persist_effect n ev (build_request_hash X aid a p actor h)
           (action_response X aid a (with_client_previous p rec) n ev) None (w_now w) (w_db w)\<rparr>)"
proof -
  let ?w1 = "w\<lparr>w_draws := Suc (w_draws w)\<rparr>"
  let ?resp = "action_response X aid a (with_client_previous p rec) n ev"
  let ?rh = "build_request_hash X aid a p actor h"
  have calm: "calm w" using assms(1) by (simp add: calm_def)
  have ev: "ae_event_id ev = x_uuid X (w_draws w)" "ae_asset_id ev = aid" "ae_action ev = a"
    "a = LegalSell \<longrightarrow> ac_buyer_id (ae_context ev) \<noteq> None" "a = LegalSell \<longrightarrow> aq_buyer_id p \<noteq> None"
    using assms(5) asset_at_id [OF assms(4)]
    by (auto simp: apply_action_Inr step_allowed_def audit_context_of_def)
  obtain row where row: "find (asset_with_id aid) (db_assets (w_db w)) = Some row"
    "decode_asset row = Inr rec"
    using assms(4) by (auto simp: asset_at_def)
  have prep: "prepare_action X aid a actor h p w = (Inr \<lparr>ap_fetched = with_client_previous p rec,
      ap_next = n, ap_event = ev, ap_hash = ?rh, ap_response = ?resp\<rparr>, ?w1)"
    using assms(5) row calm
    by (simp add: prepare_action_def fetch_asset_def try_bind_def run_simps Let_def draw_def)
  have persist: "persist_action X n ev ?rh ?resp None ?w1 =
      (Inr (), ?w1\<lparr>w_db := persist_effect n ev ?rh ?resp None (w_now w) (w_db w)\<rparr>)"
    using persist_action_calm [of ?w1 ev X n ?rh ?resp None] calm ev assms(6)
      asset_at_exists [OF assms(4)] by simp
  show ?thesis
    using assms(2,3,7,8) calm ev(5) prep persist
    by (auto simp: execute_asset_action_def with_idempotency_def load_idempotency_record_def
        answer_for_def try_bind_def run_simps commit_action_def persist_plan_def)
qed

lemma action_runs:
  assumes "w_faults w = []" and "parse_required_headers X headers = Inr h"
    and "answer_for (rh_idempotency_key h) (w_db w) = None"
    and "asset_at aid rec (w_db w)"
    and "apply_action (x_uuid X (w_draws w)) (with_client_previous p rec) a
           (audit_context_of actor h (aq_buyer_id p)) = Inr (n, ev)"
    and "x_uuid X (w_draws w) \<notin> se_event_id ` set (db_events (w_db w))"
    and "a \<noteq> ActivateEntangle" and "a = LegalSell \<longrightarrow> aq_buyer_id p \<noteq> Some []"
  shows "\<exists>w'. execute_asset_action X aid a actor headers p w =
        (Inr (ok_json (action_response X aid a (with_client_previous p rec) n ev)), w')
    \<and> w_db w' = persist_effect n ev (build_request_hash X aid a p actor h)
        (action_response X aid a (with_client_previous p rec) n ev) None (w_now w) (w_db w)"
  using action_runs_exact [OF assms] by simp


lemma find_update_rows:
  "(\<And>x. p (f x) = p x) \<Longrightarrow> find p (update_rows p f xs) = map_option f (find p xs)"
  by (induction xs) (simp_all add: update_rows_def)

text \<open>The next read of the asset sees the new record.\<close>

lemma asset_after_persist:
  assumes "asset_at aid rec d" and "ar_asset_id n = aid" and "ar_brand_id n = ar_brand_id rec"
  shows "asset_at aid n (persist_effect n ev rh snap cid now d)"
proof -
  obtain row where row: "find (asset_with_id aid) (db_assets d) = Some row" "decode_asset row = Inr rec"
    using assms(1) by (auto simp: asset_at_def)
  then have "as_brand_id row = ar_brand_id n" "as_asset_id row = ar_asset_id n"
    using assms(2,3) by (auto simp: decode_asset_def and_then_Inr find_Some_iff asset_with_id_def)
  then have "decode_asset (owner_after ev (state_after n now row)) = Inr n"
    by (cases "ar_previous_state n")
      (simp_all add: decode_asset_def owner_after_def state_after_def split: asset_action.split)
  moreover have "asset_with_id aid (owner_after ev (state_after n now x)) = asset_with_id aid x" for x
    by (simp add: asset_with_id_def)
  ultimately show ?thesis
    using row(1) by (simp add: asset_at_def assms(2) find_update_rows)
qed

text \<open>
  C30. Recover believes the client: a moderator brings a disputed asset into any state that is
  neither terminal nor disputed, whatever state it was frozen in and whatever the database has
  stored as its previous state.
\<close>

theorem recover_to_any_state:
  assumes "w_faults w = []" and "parse_required_headers X headers = Inr h"
    and "answer_for (rh_idempotency_key h) (w_db w) = None"
    and "asset_at aid rec (w_db w)" and "ar_current_state rec = Disputed"
    and "the_role actor = Moderator" and "\<not> is_terminal s" and "s \<noteq> Disputed"
    and "x_uuid X (w_draws w) \<notin> se_event_id ` set (db_events (w_db w))"
  shows "\<exists>resp w'. execute_asset_action X aid Recover actor headers
      \<lparr>aq_previous_state = Some s, aq_buyer_id = None\<rparr> w = (Inr resp, w')
    \<and> holds_state aid s (w_db w')"
proof -
  let ?p = "\<lparr>aq_previous_state = Some s, aq_buyer_id = None\<rparr>"
  let ?ctx = "audit_context_of actor h None"
  define n where "n = \<lparr>ar_asset_id = aid, ar_brand_id = ar_brand_id rec, ar_current_state = s,
      ar_previous_state = None\<rparr>"
  obtain ev where ap: "apply_action (x_uuid X (w_draws w)) (with_client_previous ?p rec) Recover ?ctx
      = Inr (n, ev)"
    using assms(5-8) asset_at_id [OF assms(4)]
    by (auto simp: apply_action_Inr step_allowed_def next_state_Recover audit_context_of_def
        can_role_initiate_def is_business_action_def with_client_previous_def n_def)
  then have "ae_action ev = Recover" by (auto simp: apply_action_Inr)
  from action_runs [OF assms(1-4), of ?p Recover actor n ev] ap assms(9)
  obtain resp w' rh snap where run: "execute_asset_action X aid Recover actor headers ?p w = (Inr resp, w')"
    and w': "w_db w' = persist_effect n ev rh snap None (w_now w) (w_db w)" by auto
  have "asset_at aid n (w_db w')"
    unfolding w' by (rule asset_after_persist [OF assms(4)]) (simp_all add: n_def)
  then have "holds_state aid s (w_db w')" by (auto simp: holds_state_def n_def)
  with run show ?thesis by blast
qed
section \<open>Witnesses\<close>

definition demo_moderate ::
  "asset_action \<Rightarrow> asset_action_request \<Rightarrow> world \<Rightarrow> (abort + response) \<times> world" where
  "demo_moderate a p =
     execute_asset_action demo_x ''a1'' a (demo_actor ''m'' Moderator) demo_headers p"

definition succeeds :: "(abort + response) \<times> world \<Rightarrow> bool" where
  "succeeds run = (case fst run of Inl _ \<Rightarrow> False | Inr _ \<Rightarrow> True)"

lemma succeedsE: "succeeds run \<Longrightarrow> (\<And>resp w'. run = (Inr resp, w') \<Longrightarrow> P) \<Longrightarrow> P"
  by (cases run) (auto simp: succeeds_def split: sum.splits)

definition demo_parsed :: required_headers where
  "demo_parsed = \<lparr>rh_trace_id = 1, rh_idempotency_key = ''k1'', rh_approval_id = None,
     rh_policy_version = None\<rparr>"

lemma demo_parsed: "parse_required_headers demo_x demo_headers = Inr demo_parsed"
  by (simp add: parse_required_headers_def demo_headers_def demo_x_def demo_parsed_def
      required_header_def optional_header_def to_str_def)

lemma demo_no_answer: "answer_for ''k1'' (w_db (demo_world s dev)) = None"
  by (simp add: answer_for_def demo_world_def demo_db_def)

lemma demo_asset_at: "asset_at ''a1'' \<lparr>ar_asset_id = ''a1'', ar_brand_id = ''brand_1'',
    ar_current_state = s, ar_previous_state = None\<rparr> (w_db (demo_world s dev))"
  by (simp add: asset_at_def demo_world_def demo_db_def demo_asset_def asset_with_id_def
      decode_asset_def)

lemma demo_fresh_id: "x_uuid demo_x n \<notin> se_event_id ` set (db_events (w_db (demo_world s dev)))"
  by (simp add: demo_world_def demo_db_def)

lemma demo_freeze_succeeds:
  "succeeds (demo_moderate Freeze plain_request (demo_world Activated demo_virtual))"
  by code_simp

theorem action_effect_witness:
  "\<exists>rec n ev. asset_at ''a1'' rec (w_db (demo_world Activated demo_virtual))
     \<and> w_db (snd (demo_moderate Freeze plain_request (demo_world Activated demo_virtual))) =
       persist_effect n ev
         (build_request_hash demo_x ''a1'' Freeze plain_request (demo_actor ''m'' Moderator) demo_parsed)
         (action_response demo_x ''a1'' Freeze (with_client_previous plain_request rec) n ev) None 50
         (w_db (demo_world Activated demo_virtual))"
proof -
  obtain resp w' where run: "demo_moderate Freeze plain_request (demo_world Activated demo_virtual) = (Inr resp, w')"
    by (rule succeedsE [OF demo_freeze_succeeds])
  have now: "w_now (demo_world Activated demo_virtual) = 50" by (simp add: demo_world_def)
  from action_effect [OF run [unfolded demo_moderate_def]]
  show ?thesis
    unfolding run by (auto simp: demo_parsed demo_no_answer demo_parsed_def now Let_def)
qed


theorem idempotency_key_is_binding_witness:
  "\<exists>resp w1. demo_moderate Freeze plain_request (demo_world Activated demo_virtual) = (Inr resp, w1)
     \<and> demo_moderate Freeze plain_request w1 = (Inr resp, w1)
     \<and> demo_moderate MarkTampered plain_request w1 = (Inl (Err IdempotencyConflict), w1)"
proof -
  obtain resp w1 where run: "demo_moderate Freeze plain_request (demo_world Activated demo_virtual) = (Inr resp, w1)"
    by (rule succeedsE [OF demo_freeze_succeeds])
  have "w_faults (snd (demo_moderate Freeze plain_request (demo_world Activated demo_virtual))) = []"
    by code_simp
  then have calm: "w_faults w1 = []" by (simp add: run)
  have still: "reaches demo_x demo_auth w1 w1" by (simp add: reaches_def)
  have "build_request_hash demo_x ''a1'' MarkTampered plain_request (demo_actor ''m'' Moderator) demo_parsed
      \<noteq> build_request_hash demo_x ''a1'' Freeze plain_request (demo_actor ''m'' Moderator) demo_parsed"
    by code_simp
  with idempotency_key_is_binding [OF run [unfolded demo_moderate_def] _ demo_parsed still calm demo_parsed]
  show ?thesis
    using run unfolding demo_moderate_def by auto
qed


theorem recover_to_any_state_witness:
  "\<exists>resp w'. demo_moderate Recover \<lparr>aq_previous_state = Some PreMinted, aq_buyer_id = None\<rparr>
       (demo_world Disputed demo_virtual) = (Inr resp, w')
     \<and> holds_state ''a1'' PreMinted (w_db w')"
proof -
  have calm: "w_faults (demo_world Disputed demo_virtual) = []" by (simp add: demo_world_def)
  have none: "answer_for (rh_idempotency_key demo_parsed) (w_db (demo_world Disputed demo_virtual)) = None"
    using demo_no_answer by (simp add: demo_parsed_def)
  show ?thesis
    unfolding demo_moderate_def
    by (rule recover_to_any_state [OF calm demo_parsed none demo_asset_at _ _ _ _ demo_fresh_id])
      (simp_all add: demo_actor_def is_terminal_def)
qed

end
