(* ===== verification/Activation_Properties.thy ===== *)
theory Activation_Properties
  imports Action_Properties
begin

text \<open>
  Activation (\<^verbatim>\<open>activate_asset\<close>) and its attestations, the brand boundary of the two
  activation endpoints and its absence from the others, and what happens between reading an asset
  and writing it.
\<close>

section \<open>Attestations issued by an activation\<close>

definition has_commitment :: "string \<Rightarrow> database \<Rightarrow> bool" where
  "has_commitment cid d \<longleftrightarrow> (\<exists>c\<in>set (db_commitments d). cm_commitment_id c = cid)"

definition has_claims :: "string \<Rightarrow> database \<Rightarrow> bool" where
  "has_claims cid d \<longleftrightarrow>
     (\<exists>a\<in>set (db_brand_attestations d).
        at_asset_commitment_id a = cid \<and> at_statement a = ''brand_issues_asset'') \<and>
     (\<exists>a\<in>set (db_platform_attestations d).
        at_asset_commitment_id a = cid \<and> at_statement a = ''platform_accepts_asset'')"

lemma insert_commitment_Inr:
  "insert_asset_commitment X c w = (Inr u, w') \<Longrightarrow> has_commitment (cm_commitment_id c) (w_db w')"
  by (auto simp: insert_asset_commitment_def has_commitment_def constrained_def run_inv utc_now_def
      list_ex_iff split: if_splits option.splits)

lemma insert_brand_Inr:
  "insert_brand_attestation X a w = (Inr u, w') \<Longrightarrow>
    \<exists>b\<in>set (db_brand_attestations (w_db w')).
      at_asset_commitment_id b = at_asset_commitment_id a \<and> at_statement b = at_statement a"
  by (auto simp: insert_brand_attestation_def constrained_def run_inv same_claim_def
      list_ex_iff split: if_splits option.splits)

lemma insert_platform_Inr:
  "insert_platform_attestation X a w = (Inr u, w') \<Longrightarrow>
    \<exists>b\<in>set (db_platform_attestations (w_db w')).
      at_asset_commitment_id b = at_asset_commitment_id a \<and> at_statement b = at_statement a"
  by (auto simp: insert_platform_attestation_def constrained_def run_inv same_claim_def
      list_ex_iff split: if_splits option.splits)

lemma history_keeps_claims:
  "history_grows d d' \<Longrightarrow> has_commitment cid d \<Longrightarrow> has_commitment cid d'"
  "history_grows d d' \<Longrightarrow> has_claims cid d \<Longrightarrow> has_claims cid d'"
  by (auto simp: history_grows_def has_commitment_def has_claims_def prefix_def)

lemma issue_attestations_Inr:
  assumes "issue_attestations X aid b payload w = (Inr cid, w')"
  shows "has_commitment cid (w_db w') \<and> has_claims (trim cid) (w_db w')"
proof -
  from assms obtain c ba pa w1 w2 w3 w4 w5 w6 u bkid bkey pid pkid pkey where
    c: "insert_asset_commitment X c w1 = (Inr u, w2)" and cid: "cid = cm_commitment_id c"
    and s1: "bind_asset_commitment_to_asset aid (cm_commitment_id c) w2 = (Inr u, w3)"
    and s2: "load_brand_signing_key X w3 = (Inr (bkid, bkey), w4)"
    and ba: "build_brand_attestation_record X b (cm_commitment_id c) (w_now w3) bkid bkey = Inr ba"
    and b: "insert_brand_attestation X ba w4 = (Inr u, w5)"
    and s3: "load_platform_signing_key X w5 = (Inr (pid, pkid, pkey), w6)"
    and pa: "build_platform_attestation_record X pid (cm_commitment_id c) (w_now w3) pkid pkey = Inr pa"
    and p: "insert_platform_attestation X pa w6 = (Inr u, w')"
    by (auto simp: issue_attestations_def utc_now_def run_inv)
  have bind: "keeps (on_db history_grows) (bind_asset_commitment_to_asset aid (cm_commitment_id c))"
    unfolding bind_asset_commitment_to_asset_def
    by (intro keeps_intro history.keeps_meta) (simp add: asset_core_def)
  have "history_grows (w_db w2) (w_db w4)"
    using keepsD [OF bind s1] keepsD [OF history.keeps_attestation_keys(1) s2]
    by (auto simp: on_db_def intro: history.r_trans)
  moreover have tail: "history_grows (w_db w4) (w_db w5)" "history_grows (w_db w5) (w_db w')"
    using keepsD [OF history.keeps_insert_attestations(1) b]
      keepsD [OF history.keeps_attestation_keys(2) s3]
      keepsD [OF history.keeps_insert_attestations(2) p]
    by (auto simp: on_db_def intro: history.r_trans)
  ultimately have "has_commitment cid (w_db w')"
    using insert_commitment_Inr [OF c] unfolding cid by (meson history_keeps_claims(1))
  moreover have "prefix (db_brand_attestations (w_db w5)) (db_brand_attestations (w_db w'))"
    using tail(2) by (simp add: history_grows_def)
  ultimately show ?thesis
    using insert_brand_Inr [OF b] insert_platform_Inr [OF p] brand_record_Inr [OF ba]
      platform_record_Inr [OF pa] cid
    by (auto simp: has_claims_def prefix_def)
qed

section \<open>Properties\<close>


text \<open>
  C31. The other action endpoints know no brand boundary: the answer and the effect of an action
  do not depend on the brand of the actor, so a brand's actor sells the assets of any brand.
\<close>

theorem actions_ignore_actor_brand:
  "execute_asset_action X aid a (actor\<lparr>brand_of := b\<rparr>) headers p w =
   execute_asset_action X aid a actor headers p w"
proof -
  have same: "build_request_hash X aid a p (actor\<lparr>brand_of := b\<rparr>) = build_request_hash X aid a p actor"
    "audit_context_of (actor\<lparr>brand_of := b\<rparr>) = audit_context_of actor"
    by (simp_all add: build_request_hash_def audit_context_of_def fun_eq_iff)
  then have "prepare_action X aid a (actor\<lparr>brand_of := b\<rparr>) h p = prepare_action X aid a actor h p" for h
    by (simp only: prepare_action_def)
  moreover have "commit_action X aid a (actor\<lparr>brand_of := b\<rparr>) = commit_action X aid a actor"
    by (rule ext) (simp add: commit_action_def cong: if_cong)
  ultimately show ?thesis by (simp only: execute_asset_action_def same)
qed

section \<open>Witnesses\<close>

definition demo_seller :: actor_context where
  "demo_seller = \<lparr>actor_id = ''apikey:brand_1'', the_role = Brand, actor_org = None,
     brand_of = Some ''brand_1''\<rparr>"

definition demo_required :: "string \<Rightarrow> required_headers" where
  "demo_required k = \<lparr>rh_trace_id = 1, rh_idempotency_key = k, rh_approval_id = None,
     rh_policy_version = None\<rparr>"

definition demo_sale :: asset_action_request where
  "demo_sale = \<lparr>aq_previous_state = None, aq_buyer_id = Some ''user_1''\<rparr>"

text \<open>The sale is prepared, the moderator destructs the asset, the sale is committed.\<close>

definition demo_race :: "(string list \<times> string list) option" where
  "demo_race =
     (case prepare_action demo_x ''a1'' LegalSell demo_seller (demo_required ''k2'') demo_sale
             (demo_world Activated demo_virtual) of
        (Inl _, _) \<Rightarrow> None
      | (Inr plan, w1) \<Rightarrow>
          (case execute_asset_action demo_x ''a1'' MarkDestructed (demo_actor ''m'' Moderator)
                  demo_headers plain_request w1 of
             (Inl _, _) \<Rightarrow> None
           | (Inr _, w2) \<Rightarrow>
               (case commit_action demo_x ''a1'' LegalSell demo_seller plan w2 of
                  (Inl _, _) \<Rightarrow> None
                | (Inr _, w3) \<Rightarrow> Some (map as_current_state (db_assets (w_db w2)),
                                     map as_current_state (db_assets (w_db w3))))))"

lemma demo_race_runs: "demo_race = Some ([''Destructed''], [''LegallySold''])"
  by code_simp

definition demo_activation :: activate_request where
  "demo_activation = \<lparr>vq_external_product_id = ''p'', vq_external_product_name = None,
     vq_external_product_url = None\<rparr>"

lemma demo_activation_succeeds:
  "succeeds (activate_asset demo_x ''a1'' demo_seller demo_headers demo_activation
     (demo_world Unassigned demo_virtual))"
  by code_simp


end
