(* ===== verification/Registry_Invariants.thy ===== *)
theory Registry_Invariants
  imports System_Invariants
begin

text \<open>
  The contract of \<^verbatim>\<open>Frames\<close> on the registry's tables: what may still happen to a
  transfer, an API key, a batch and a brand once its row exists.
\<close>

section \<open>Rows\<close>

text \<open>A transfer is decided once; the parties and the asset never change.\<close>

definition transfer_status :: "transfer_row \<Rightarrow> string" where
  "transfer_status t = unwrap_or ''pending'' (tr_status t)"

definition transfer_follows :: "transfer_row \<Rightarrow> transfer_row \<Rightarrow> bool" where
  "transfer_follows a b \<longleftrightarrow>
     b = a\<lparr>tr_status := tr_status b\<rparr> \<and> (transfer_status a \<noteq> ''pending'' \<longrightarrow> b = a)"

text \<open>A batch is closed once.\<close>

definition batch_follows :: "batch_row \<Rightarrow> batch_row \<Rightarrow> bool" where
  "batch_follows a b \<longleftrightarrow>
     b = a\<lparr>ba_status := ba_status b, ba_closed_at := ba_closed_at b\<rparr> \<and>
     (ba_status a \<noteq> ''Open'' \<longrightarrow> b = a)"

text \<open>A key stays the key of its brand; its status stays or becomes \<^verbatim>\<open>Revoked\<close>.\<close>

definition key_follows :: "api_key_record \<Rightarrow> api_key_record \<Rightarrow> bool" where
  "key_follows a b \<longleftrightarrow>
     ak_key_id b = ak_key_id a \<and> ak_brand_id b = ak_brand_id a \<and>
     ak_key_hash b = ak_key_hash a \<and> ak_key_prefix b = ak_key_prefix a \<and>
     ak_created_at b = ak_created_at a \<and> ak_status b \<in> {ak_status a, ''Revoked''}"

text \<open>Of a brand, only the time of its last update changes.\<close>

definition brand_follows :: "brand_record \<Rightarrow> brand_record \<Rightarrow> bool" where
  "brand_follows a b \<longleftrightarrow> b = a\<lparr>br_updated_at := br_updated_at b\<rparr>"

lemma transfer_follows_trans:
  "transfer_follows a b \<Longrightarrow> transfer_follows b c \<Longrightarrow> transfer_follows a c"
  unfolding transfer_follows_def by (cases a; cases b; cases c) auto

lemma batch_follows_trans: "batch_follows a b \<Longrightarrow> batch_follows b c \<Longrightarrow> batch_follows a c"
  unfolding batch_follows_def by (cases a; cases b; cases c) auto

lemma brand_follows_trans: "brand_follows a b \<Longrightarrow> brand_follows b c \<Longrightarrow> brand_follows a c"
  unfolding brand_follows_def by (cases a; cases b; cases c) auto

interpretation transfer_row: row_order transfer_follows
  by unfold_locales (simp add: transfer_follows_def, rule transfer_follows_trans)

interpretation batch_row: row_order batch_follows
  by unfold_locales (simp add: batch_follows_def, rule batch_follows_trans)

interpretation key_row: row_order key_follows
  by unfold_locales (auto simp: key_follows_def)

interpretation brand_row: row_order brand_follows
  by unfold_locales (simp add: brand_follows_def, rule brand_follows_trans)

section \<open>Dead keys\<close>

text \<open>A hash that the table holds, but not for an active key.\<close>

definition key_dead :: "string \<Rightarrow> database \<Rightarrow> bool" where
  "key_dead h d \<longleftrightarrow>
     (\<exists>k\<in>set (db_api_keys d). ak_key_hash k = h) \<and>
     (\<forall>k\<in>set (db_api_keys d). ak_key_hash k = h \<longrightarrow> ak_status k \<noteq> ''Active'')"

definition keys_stay_dead :: "database \<Rightarrow> database \<Rightarrow> bool" where
  "keys_stay_dead d d' \<longleftrightarrow> (\<forall>h. key_dead h d \<longrightarrow> key_dead h d')"

lemma key_dead_update:
  assumes "\<And>k. p k \<Longrightarrow> ak_key_hash (f k) = ak_key_hash k \<and> ak_status (f k) \<in> {ak_status k, ''Revoked''}"
  shows "keys_stay_dead d (d\<lparr>db_api_keys := update_rows p f (db_api_keys d)\<rparr>)"
  unfolding keys_stay_dead_def
proof (intro allI impI)
  fix h
  assume dead: "key_dead h d"
  define g where "g k = (if p k then f k else k)" for k
  have rows: "update_rows p f ks = map g ks" for ks by (simp add: update_rows_def g_def [abs_def])
  have "ak_key_hash (g k) = ak_key_hash k" for k using assms by (simp add: g_def)
  moreover have "ak_status (g k) \<noteq> ''Active''" if "ak_status k \<noteq> ''Active''" for k
    using assms [of k] that by (auto simp: g_def)
  ultimately show "key_dead h (d\<lparr>db_api_keys := update_rows p f (db_api_keys d)\<rparr>)"
    using dead by (simp add: key_dead_def rows)
qed

lemma keys_unchanged: "db_api_keys d' = db_api_keys d \<Longrightarrow> keys_stay_dead d d'"
  by (simp add: keys_stay_dead_def key_dead_def)

interpretation dead_keys: db_contract keys_stay_dead
proof unfold_locales
  fix ak :: api_key_record and d :: database
  assume "\<not> list_ex (\<lambda>k. ak_key_hash k = ak_key_hash ak) (db_api_keys d)"
  then show "keys_stay_dead d (d\<lparr>db_api_keys := db_api_keys d @ [ak]\<rparr>)"
    by (auto simp: keys_stay_dead_def key_dead_def list_ex_iff)
next
  fix a b c :: database
  assume "keys_stay_dead a b" "keys_stay_dead b c"
  then show "keys_stay_dead a c" by (simp add: keys_stay_dead_def)
qed (rule keys_unchanged key_dead_update, simp add: append_event_def insert_idempotency_def
  update_asset_def)+

section \<open>The registry\<close>

definition registry_follows :: "database \<Rightarrow> database \<Rightarrow> bool" where
  "registry_follows d d' \<longleftrightarrow>
     grows transfer_follows (db_transfers d) (db_transfers d') \<and>
     grows batch_follows (db_batches d) (db_batches d') \<and>
     grows key_follows (db_api_keys d) (db_api_keys d') \<and>
     grows brand_follows (db_brands d) (db_brands d')"

lemmas grows_intros =
  transfer_row.grows_refl batch_row.grows_refl key_row.grows_refl brand_row.grows_refl
  transfer_row.grows_snoc batch_row.grows_snoc key_row.grows_snoc brand_row.grows_snoc

interpretation registry: db_contract registry_follows
proof unfold_locales
  fix a b c :: database
  assume "registry_follows a b" "registry_follows b c"
  then show "registry_follows a c"
    unfolding registry_follows_def
    by (blast intro: transfer_row.grows_trans batch_row.grows_trans key_row.grows_trans
        brand_row.grows_trans)
next
  fix d :: database and tid :: uuid and st
  show "registry_follows d (d\<lparr>db_transfers := update_rows (pending_transfer tid)
      (\<lambda>t. t\<lparr>tr_status := Some st\<rparr>) (db_transfers d)\<rparr>)"
    by (auto simp: registry_follows_def grows_intros transfer_follows_def transfer_status_def
        pending_transfer_def intro!: transfer_row.grows_update)
next
  fix d :: database and bid now
  show "registry_follows d (d\<lparr>db_batches := update_rows (\<lambda>b. ba_batch_id b = bid \<and> ba_status b = ''Open'')
      (\<lambda>b. b\<lparr>ba_status := ''Closed'', ba_closed_at := Some now\<rparr>) (db_batches d)\<rparr>)"
    by (auto simp: registry_follows_def grows_intros batch_follows_def intro!: batch_row.grows_update)
next
  fix d :: database and kid now
  show "registry_follows d (d\<lparr>db_api_keys := update_rows (\<lambda>k. ak_key_id k = kid)
      (\<lambda>k. k\<lparr>ak_status := ''Revoked'', ak_revoked_at := Some now\<rparr>) (db_api_keys d)\<rparr>)"
    and "registry_follows d (d\<lparr>db_api_keys := update_rows (\<lambda>k. ak_key_id k = kid)
      (\<lambda>k. k\<lparr>ak_last_used_at := Some now\<rparr>) (db_api_keys d)\<rparr>)"
    by (auto simp: registry_follows_def grows_intros key_follows_def intro!: key_row.grows_update)
next
  fix d :: database and bid now
  show "registry_follows d (d\<lparr>db_brands := update_rows (\<lambda>b. br_brand_id b = bid)
      (\<lambda>b. b\<lparr>br_updated_at := now\<rparr>) (db_brands d)\<rparr>)"
    by (auto simp: registry_follows_def grows_intros brand_follows_def intro!: brand_row.grows_update)
qed (simp_all add: registry_follows_def grows_intros append_event_def insert_idempotency_def
  update_asset_def)

end
