(* ===== verification/Registry_Properties.thy ===== *)
theory Registry_Properties
  imports Registry_Invariants Demo
begin

text \<open>
  Properties of the registry: what a run of the server may do to transfers, batches, API
  keys and brands, the rotation of API keys, the paging of listings, and the registration of
  physical mother cards.
\<close>

section \<open>Whole runs\<close>


section \<open>API keys\<close>

text \<open>The hash under which a request presents an API key.\<close>

definition presented_key :: "('z externs_scheme) \<Rightarrow> headers \<Rightarrow> string option" where
  "presented_key X hs =
     (case extract_api_key_hash hs of
        Some h \<Rightarrow> Some h
      | None \<Rightarrow> map_option (hash_api_key X) (extract_api_key hs))"

lemma authenticate_by_key:
  "\<not> au_disabled auth \<Longrightarrow> presented_key X hs = Some h \<Longrightarrow>
    authenticate X auth hs w = authenticate_api_key_hash h w"
  by (auto simp: authenticate_def presented_key_def split: option.splits)

lemma dead_key_refused:
  assumes "key_dead h (w_db w)"
  shows "fst (authenticate_api_key_hash h w) = Inl (unauthorized_response ''invalid_api_key'')"
proof -
  have none: "first_of (brands_of_key h (w_db w)) = None"
  proof (cases "brands_of_key h (w_db w)")
    case (Cons b bs)
    then have "b \<in> set (brands_of_key h (w_db w))" by simp
    with assms show ?thesis by (auto simp: brands_of_key_mem key_dead_def)
  qed (simp add: first_of_def)
  obtain r v where run: "fetch_brand_by_api_key_hash h w = (r, v)" by fastforce
  show ?thesis
  proof (cases r)
    case (Inl e)
    with run show ?thesis by (simp add: authenticate_api_key_hash_def try_bind_def map_err_def)
  next
    case (Inr b)
    with run none have "b = None" by (auto simp: fetch_brand_by_api_key_hash_def run_inv)
    with run Inr show ?thesis
      by (simp add: authenticate_api_key_hash_def try_bind_def map_err_def run_simps)
  qed
qed

text \<open>What a successful rotation does to the table of keys.\<close>

lemma create_api_key_Inr:
  "create_api_key X kid b h pre w = (Inr row, w') \<longleftrightarrow>
    \<not> list_ex (\<lambda>k. ak_key_id k = kid) (db_api_keys (w_db w))
    \<and> h \<notin> ak_key_hash ` set (db_api_keys (w_db w)) \<and> brand_exists b (w_db w)
    \<and> (\<forall>m fs. w_faults w \<noteq> Some m # fs)
    \<and> row = \<lparr>ak_key_id = kid, ak_brand_id = b, ak_key_hash = h, ak_key_prefix = pre,
        ak_status = ''Active'', ak_created_at = w_now w, ak_revoked_at = None, ak_last_used_at = None\<rparr>
    \<and> w' = w\<lparr>w_faults := tl (w_faults w),
        w_db := (w_db w)\<lparr>db_api_keys := db_api_keys (w_db w) @ [row]\<rparr>\<rparr>"
  by (auto simp: create_api_key_def utc_now_def run_inv constrained_def Let_def list_ex_iff
      split: if_splits option.splits)

definition rotated :: "string \<Rightarrow> database \<Rightarrow> database \<Rightarrow> bool" where
  "rotated b d d' \<longleftrightarrow>
     (\<exists>k n now. first_of (order_desc ak_created_at (active_keys b d)) = Some k
        \<and> ak_brand_id n = b \<and> ak_status n = ''Active'' \<and> ak_key_hash n \<notin> ak_key_hash ` set (db_api_keys d)
        \<and> d' = d\<lparr>db_api_keys := update_rows (\<lambda>x. ak_key_id x = ak_key_id k)
            (\<lambda>x. x\<lparr>ak_status := ''Revoked'', ak_revoked_at := Some now\<rparr>) (db_api_keys d) @ [n]\<rparr>)"

lemma rotate_transaction:
  assumes "transaction (try_bind (fetch_active_api_key b) (\<lambda>old_key.
      try_bind (revoke_api_key (ak_key_id old_key) reason) (\<lambda>_.
      try_bind (create_api_key X kid b h pre) (\<lambda>new_key_record. ret (old_key, new_key_record))))) w
    = (Inr (old, new), w')"
  shows "rotated b (w_db w) (w_db w')"
proof -
  have hashes: "ak_key_hash ` set (update_rows p (\<lambda>x. x\<lparr>ak_status := s, ak_revoked_at := t\<rparr>) ks)
      = ak_key_hash ` set ks" for p s t ks
    by (simp add: update_rows_def image_image if_distrib [of ak_key_hash] del: if_image_distrib
        cong: if_cong)
  from transaction_Inr [OF assms] have "first_of (order_desc ak_created_at (active_keys b (w_db w))) = Some old"
    and "ak_brand_id new = b" "ak_status new = ''Active''"
    and "ak_key_hash new \<notin> ak_key_hash ` set (db_api_keys (w_db w))"
    and "w_db w' = (w_db w)\<lparr>db_api_keys := update_rows (\<lambda>x. ak_key_id x = ak_key_id old)
      (\<lambda>x. x\<lparr>ak_status := ''Revoked'', ak_revoked_at := Some (w_now w)\<rparr>) (db_api_keys (w_db w)) @ [new]\<rparr>"
    by (auto simp: fetch_active_api_key_def fetch_active_api_key_by_brand_def revoke_api_key_def
        utc_now_def create_api_key_Inr run_inv hashes)
  then show ?thesis unfolding rotated_def by blast
qed

lemma rotate_effect:
  assumes "rotate_api_key X actor b reason w = (Inr resp, w')"
  shows "rotated b (w_db w) (w_db w')"
  using assms
  by (auto simp: rotate_api_key_def generate_api_key_def generate_key_id_def draw_def run_inv
      dest!: rotate_transaction)

lemma rotated_kills:
  assumes "rotated b d d'" and "distinct (map ak_key_hash (db_api_keys d))"
  shows "\<exists>k\<in>set (db_api_keys d). ak_brand_id k = b \<and> ak_status k = ''Active''
    \<and> key_dead (ak_key_hash k) d'"
proof -
  obtain k n now where k: "first_of (order_desc ak_created_at (active_keys b d)) = Some k"
    and n: "ak_key_hash n \<notin> ak_key_hash ` set (db_api_keys d)"
    and d': "db_api_keys d' = update_rows (\<lambda>x. ak_key_id x = ak_key_id k)
        (\<lambda>x. x\<lparr>ak_status := ''Revoked'', ak_revoked_at := Some now\<rparr>) (db_api_keys d) @ [n]"
    using assms(1) by (auto simp: rotated_def)
  have mem: "k \<in> set (db_api_keys d)" "ak_brand_id k = b" "ak_status k = ''Active''"
    using first_of_Some [OF k] by (auto simp: order_desc_def active_keys_def)
  have same: "x = k" if "x \<in> set (db_api_keys d)" "ak_key_hash x = ak_key_hash k" for x
    using that mem(1) assms(2) by (auto simp: distinct_map inj_on_def)
  have "k\<lparr>ak_status := ''Revoked'', ak_revoked_at := Some now\<rparr> \<in> set (db_api_keys d')"
    using mem(1) by (force simp: d' update_rows_def)
  moreover have "ak_status y \<noteq> ''Active''"
    if "y \<in> set (db_api_keys d')" "ak_key_hash y = ak_key_hash k" for y
    using that same mem(1) n by (auto simp: d' update_rows_def)
  ultimately have "key_dead (ak_key_hash k) d'"
    unfolding key_dead_def by (intro conjI bexI ballI impI) auto
  with mem show ?thesis by blast
qed

text \<open>
  C14. A rotated key is dead for good: when the rotation of a brand's key has succeeded, the key
  that was the brand's active one is refused with 401 ever after, in either header, whatever the
  server has done since, and the brand has an active key with a hash that no key had before.
\<close>

theorem rotated_key_is_dead:
  assumes "rotate_api_key X actor b reason w = (Inr resp, w1)"
    and "distinct (map ak_key_hash (db_api_keys (w_db w)))"
    and "reaches X auth w1 w2" and "\<not> au_disabled auth"
  shows "(\<exists>k\<in>set (db_api_keys (w_db w)). ak_brand_id k = b \<and> ak_status k = ''Active''
      \<and> (\<forall>hs. presented_key X hs = Some (ak_key_hash k) \<longrightarrow>
           fst (authenticate X auth hs w2) = Inl (unauthorized_response ''invalid_api_key'')))
    \<and> (\<exists>n\<in>set (db_api_keys (w_db w1)). ak_brand_id n = b \<and> ak_status n = ''Active''
      \<and> ak_key_hash n \<notin> ak_key_hash ` set (db_api_keys (w_db w)))"
proof -
  note rot = rotate_effect [OF assms(1)]
  from rotated_kills [OF rot assms(2)] obtain k where
    k: "k \<in> set (db_api_keys (w_db w))" "ak_brand_id k = b" "ak_status k = ''Active''"
    and "key_dead (ak_key_hash k) (w_db w1)" by blast
  then have "key_dead (ak_key_hash k) (w_db w2)"
    using dead_keys.reaches_keeps [OF assms(3)] by (simp add: keys_stay_dead_def)
  then have "\<forall>hs. presented_key X hs = Some (ak_key_hash k) \<longrightarrow>
      fst (authenticate X auth hs w2) = Inl (unauthorized_response ''invalid_api_key'')"
    using assms(4) by (simp add: authenticate_by_key dead_key_refused)
  with k rot show ?thesis by (auto simp: rotated_def)
qed

section \<open>Listings\<close>

lemma page_size_range: "1 \<le> sint (params_page_size p)" "sint (params_page_size p) \<le> 100"
  by (auto simp: params_page_size_def i64_clamp_def)

lemma page_number: "1 \<le> k \<Longrightarrow> k \<le> 2 ^ 56 \<Longrightarrow> pg_page p = Some (word_of_int k) \<Longrightarrow> sint (params_page p) = k"
  by (simp add: params_page_def i64_max_def unwrap_or_def sint_i64)

lemma page_offset:
  assumes "1 \<le> k" "k \<le> 2 ^ 56" "pg_page p = Some (word_of_int k)"
  shows "sint (params_offset p) = (k - 1) * sint (params_page_size p)"
proof -
  let ?s = "sint (params_page_size p)"
  have page: "params_page p = word_of_int k"
    using assms by (cases "k = 1") (simp_all add: params_page_def i64_max_def unwrap_or_def sint_i64)
  define z where "z = (k - 1) * ?s"
  have "params_offset p = word_of_int z"
    by (simp add: params_offset_def page z_def wi_hom_sub [symmetric] wi_hom_mult [symmetric])
  moreover have "z \<le> 2 ^ 56 * 100"
    unfolding z_def by (rule mult_mono) (use assms page_size_range [of p] in auto)
  moreover have "0 \<le> z" using assms page_size_range [of p] by (simp add: z_def)
  ultimately show ?thesis by (simp add: sint_i64 flip: z_def)
qed

text \<open>The query of the page with number \<open>k\<close>, with the size the client asks for, if any.\<close>

definition numbered_page :: "nat \<Rightarrow> i64 option \<Rightarrow> pagination_params" where
  "numbered_page k wanted = \<lparr>pg_page = Some (word_of_int (int k)), pg_page_size = wanted\<rparr>"

definition page_rows :: "i64 option \<Rightarrow> nat" where
  "page_rows wanted = nat (sint (params_page_size \<lparr>pg_page = None, pg_page_size = wanted\<rparr>))"

lemma numbered_page_limit:
  assumes "k < 2 ^ 56"
  shows "limit_offset X (params_page_size (numbered_page (Suc k) wanted))
      (params_offset (numbered_page (Suc k) wanted)) rs =
    Inr (take (page_rows wanted) (drop (k * page_rows wanted) rs))"
proof -
  let ?p = "numbered_page (Suc k) wanted"
  have size: "sint (params_page_size ?p) = int (page_rows wanted)"
    using page_size_range(1) [of ?p]
    by (simp add: page_rows_def params_page_size_def numbered_page_def)
  have "sint (params_offset ?p) = (int (Suc k) - 1) * sint (params_page_size ?p)"
    by (rule page_offset) (use assms in \<open>simp_all add: numbered_page_def\<close>)
  with size have "sint (params_offset ?p) = int (k * page_rows wanted)" by simp
  with size show ?thesis by (simp add: limit_offset_def del: of_nat_mult)
qed


section \<open>Physical mother cards\<close>

lemma refused_column:
  "\<exists>m w'. over_columns X device_columns (''device_id'' # used) q w = (Inl (Err (Database m)), w')
     \<and> w_db w' = w_db w"
proof -
  obtain r w' where run: "over_columns X device_columns (''device_id'' # used) q w = (r, w')"
    by fastforce
  have none: "''device_id'' \<notin> set device_columns" by (simp add: device_columns_def)
  obtain e where r: "r = Inl e"
    using run none by (cases r) (auto simp: over_columns_def run_inv)
  with run have "\<exists>m. e = Err (Database m)"
    by (auto simp: over_columns_def sql_def map_err_def split: prod.splits sum.splits)
  with run r sql_Inl_db show ?thesis by (auto simp: over_columns_def)
qed

lemma physical_registration_fails:
  "\<exists>e w'. register_physical_mother_card X actor req w = (Inl (Err e), w') \<and> w_db w' = w_db w
     \<and> error_status e =
         (if the_role actor \<notin> {Brand, Platform} then 403
          else if length (rp_chip_uid req) = 14 \<and> list_all is_ascii_hexdigit (rp_chip_uid req)
          then 500 else 400)"
proof -
  obtain m w' where "over_columns X device_columns [''device_id'', ''physical_chip_uid'']
      (\<lambda>d. Inr (find (\<lambda>a. ad_physical_chip_uid a = Some (to_uppercase X (rp_chip_uid req)))
         (db_devices d), d)) w = (Inl (Err (Database m)), w')" "w_db w' = w_db w"
    using refused_column by blast
  then show ?thesis
    by (auto simp: register_physical_mother_card_def Let_def try_bind_def run_simps)
qed

text \<open>
  C33. Physical mother cards cannot be registered: the handler's first statement names a column
  that the table does not have, so whoever asks, whatever the request and the state, the answer
  is an error (403 for a wrong role, 400 for a malformed chip uid, 500 for every valid request)
  and the database does not change.
\<close>

theorem physical_registration_never_succeeds:
  "\<exists>e w'. register_physical_mother_card X actor req w = (Inl (Err e), w') \<and> w_db w' = w_db w
     \<and> error_status e =
         (if the_role actor \<notin> {Brand, Platform} then 403
          else if length (rp_chip_uid req) = 14 \<and> list_all is_ascii_hexdigit (rp_chip_uid req)
          then 500 else 400)"
  by (rule physical_registration_fails)

section \<open>Witnesses\<close>

text \<open>The recipient confirms a pending transfer.\<close>

definition demo_transfer :: transfer_row where
  "demo_transfer = \<lparr>tr_transfer_id = 7, tr_asset_id = ''a1'', tr_from_user_id = ''user_1'',
     tr_to_user_id = ''mod_1'', tr_from_owner_id = ''user_1'', tr_to_owner_id = ''mod_1'',
     tr_transfer_type = ''t'', tr_idempotency_key = ''k'', tr_trace_id = ''t'',
     tr_status = Some ''pending'', tr_transferred_at = 0\<rparr>"

definition demo_pending :: world where
  "demo_pending = (demo_world Transferred demo_virtual)
     \<lparr>w_db := (demo_db Transferred demo_virtual)\<lparr>db_transfers := [demo_transfer]\<rparr>\<rparr>"

definition demo_confirm :: request where
  "demo_confirm = Protected demo_headers (RegistryRoute (PostConfirmTransfer 7))"

definition demo_confirmed :: world where
  "demo_confirmed = snd (serve demo_x demo_auth demo_confirm demo_pending)"


text \<open>The platform rotates the key of a brand, and the old hash is presented.\<close>

definition demo_keyed :: world where
  "demo_keyed = (demo_world Activated demo_virtual)
     \<lparr>w_db := (demo_db Activated demo_virtual)\<lparr>db_api_keys := [demo_key\<lparr>ak_key_hash := ''x''\<rparr>]\<rparr>\<rparr>"

definition demo_rotation :: "(abort + response) \<times> world" where
  "demo_rotation = rotate_api_key demo_x (demo_actor ''p'' Platform) ''brand_1'' None demo_keyed"

theorem rotated_key_is_dead_witness:
  "fst (authenticate demo_x demo_auth [''X-Api-Key-Hash'' \<mapsto> HeaderText ''x''] (snd demo_rotation))
    = Inl (unauthorized_response ''invalid_api_key'')"
proof -
  have "\<not> isl (fst demo_rotation)" by code_simp
  then obtain resp w1 where run: "demo_rotation = (Inr resp, w1)"
    by (cases "fst demo_rotation") (auto simp: prod_eq_iff)
  have keys: "db_api_keys (w_db demo_keyed) = [demo_key\<lparr>ak_key_hash := ''x''\<rparr>]"
    by (simp add: demo_keyed_def)
  have "presented_key demo_x [''X-Api-Key-Hash'' \<mapsto> HeaderText ''x''] = Some ''x''"
    by (simp add: presented_key_def extract_api_key_hash_def to_str_def)
  moreover have "distinct (map ak_key_hash (db_api_keys (w_db demo_keyed)))" by (simp add: keys)
  moreover have "reaches demo_x demo_auth w1 w1" by (simp add: reaches_def)
  moreover have "\<not> au_disabled demo_auth" by (simp add: demo_auth_def)
  ultimately show ?thesis
    using rotated_key_is_dead [OF run [unfolded demo_rotation_def]] by (simp add: keys run)
qed


end
