(* ===== verification/System_Properties.thy ===== *)
theory System_Properties
  imports System_Invariants Demo
begin

text \<open>
  Properties of whole runs of the server, and of the mother cards across runs.
\<close>

section \<open>A tap of a physical mother card\<close>

text \<open>The device that answers for an asset: the first row of the join.\<close>

definition bound_device :: "string \<Rightarrow> database \<Rightarrow> authority_device_row option" where
  "bound_device aid d = map_option fst (first_of (bound_devices aid d))"

lemma fetch_device_Inr:
  "fetch_authority_device_by_asset aid w = (Inr dev, w') \<Longrightarrow>
    bound_device aid (w_db w) = Some dev \<and> w_db w' = w_db w \<and> w_kms w' = w_kms w"
  by (auto simp: fetch_authority_device_by_asset_def bound_device_def run_inv)

lemma kms_or_error_db: "kms_or_error what g w = (r, w') \<Longrightarrow> w_db w' = w_db w"
  by (auto simp: kms_or_error_def kms_call_def map_err_def split: prod.splits sum.splits)

text \<open>A key that the service hands out in a good state is the specified one.\<close>

lemma chip_key_Inr:
  assumes "kms_or_error what (\<lambda>k. derive_chip_key X k b u e) w = (Inr key, w')" and "kms_inv X (w_kms w)"
  shows "key = kms_spec X (kms_ident (w_kms w)) (ChipReq b u e) \<and> kms_inv X (w_kms w')
    \<and> kms_ident (w_kms w') = kms_ident (w_kms w) \<and> w' = w\<lparr>w_kms := w_kms w'\<rparr>"
  using assms(1)
  by (auto simp: kms_or_error_def kms_call_def map_err_def split: prod.splits sum.splits
      dest!: software.chip_law [OF assms(2)])

lemma mother_key_Inr:
  assumes "kms_or_error what (\<lambda>k. derive_mother_key X k b u e) w = (Inr key, w')" and "kms_inv X (w_kms w)"
  shows "key = kms_spec X (kms_ident (w_kms w)) (MotherReq b u e) \<and> w' = w\<lparr>w_kms := w_kms w'\<rparr>"
  using assms(1)
  by (auto simp: kms_or_error_def kms_call_def map_err_def split: prod.splits sum.splits
      dest!: software.mother_law [OF assms(2)])

lemma chip_key_run:
  assumes "kms_inv X (w_kms w)"
  shows "\<exists>k'. kms_or_error what (\<lambda>k. derive_chip_key X k b u e) w =
    (Inr (kms_spec X (kms_ident (w_kms w)) (ChipReq b u e)), w\<lparr>w_kms := k'\<rparr>)"
proof -
  obtain r k' where run: "derive_chip_key X (w_kms w) b u e = (r, k')" by fastforce
  with software.chip_law [OF assms this] show ?thesis
    by (auto simp: kms_or_error_def kms_call_def map_err_def)
qed

lemma find_mem: "find P xs = Some x \<Longrightarrow> x \<in> set xs \<and> P x"
  by (induction xs) (auto split: if_splits)

lemma first_of_map: "first_of (map f xs) = map_option f (first_of xs)"
  by (cases xs) (simp_all add: first_of_def)

lemma bound_devices_map:
  assumes "\<And>a. ad_authority_id (g a) = ad_authority_id a"
  shows "bound_devices aid (d\<lparr>db_devices := map g (db_devices d)\<rparr>) =
    map (\<lambda>(a, e). (g a, e)) (bound_devices aid d)"
  unfolding bound_devices_split mother_cards_def
  by (simp add: map_concat comp_def assms)

lemma bound_device_update:
  "bound_device aid d = Some dev \<Longrightarrow> ctr_advances n (ad_last_known_ctr dev) \<Longrightarrow>
    bound_device aid (d\<lparr>db_devices := update_rows
      (\<lambda>a. ad_authority_id a = ad_authority_id dev \<and> ctr_advances n (ad_last_known_ctr a))
      (\<lambda>a. a\<lparr>ad_last_known_ctr := Some n\<rparr>) (db_devices d)\<rparr>) =
    Some (dev\<lparr>ad_last_known_ctr := Some n\<rparr>)"
  unfolding bound_device_def update_rows_def
  by (subst bound_devices_map) (auto simp: first_of_map split: prod.split)

text \<open>What an accepted tap proves, and what it leaves in the device's row.\<close>

lemma physical_accepted:
  assumes run: "verify_physical_authority X aid u c m w = (Inr res, w')" and ok: "az_authorized res"
  shows "\<exists>dev n. bound_device aid (w_db w) = Some dev \<and> ad_authority_type dev = ''PHYSICAL_NFC''
    \<and> ad_status dev = ''Active'' \<and> parse_ctr X c = Inr n
    \<and> ctr_advances n (ad_last_known_ctr dev)
    \<and> bound_device aid (w_db w') = Some (dev\<lparr>ad_last_known_ctr := Some n\<rparr>)"
proof -
  from run ok obtain dev w1 n where
    f: "fetch_authority_device_by_asset aid w = (Inr dev, w1)"
    and dev: "ad_authority_type dev = ''PHYSICAL_NFC''" "ad_status dev = ''Active''"
    and n: "parse_ctr X c = Inr n"
    and fresh: "ctr_advances n (ad_last_known_ctr dev)"
    and tap: "check_physical_tap X dev u c m n w1 = (Inr res, w')"
    by (auto simp: verify_physical_authority_def refuse_def ctr_advances_def run_inv
        split: if_splits option.splits sum.splits)
  from tap ok obtain b u' key w2 where
    k: "kms_or_error ''KMS derive_chip_key failed: ''
          (\<lambda>k. derive_chip_key X k b u' (ad_key_epoch dev)) w1 = (Inr key, w2)"
    and a: "atomic_update_ctr (ad_authority_id dev) n w2 = (Inr True, w')"
    by (auto simp: check_physical_tap_def refuse_def grant_def run_inv split: if_splits)
  have "w_db w2 = w_db w"
    using kms_or_error_db [OF k] fetch_device_Inr [OF f] by simp
  with a have "w_db w' = (w_db w)\<lparr>db_devices := update_rows
      (\<lambda>a. ad_authority_id a = ad_authority_id dev \<and> ctr_advances n (ad_last_known_ctr a))
      (\<lambda>a. a\<lparr>ad_last_known_ctr := Some n\<rparr>) (db_devices (w_db w))\<rparr>"
    by (auto simp: atomic_update_ctr_def run_inv Let_def)
  with bound_device_update fresh fetch_device_Inr [OF f] dev n show ?thesis by auto
qed
section \<open>Properties\<close>

text \<open>
  C2. A tap of a physical mother card is good once: when a tap has been accepted for an asset
  and the server has since run through any requests, calibrations and failures, a tap accepted
  for that asset has a larger counter. In particular the same tap is never accepted again.
\<close>

theorem mother_card_taps_advance:
  assumes "verify_physical_authority X aid u c m w = (Inr res, w1)" and "az_authorized res"
    and "reaches X auth w1 w2"
    and "verify_physical_authority X aid u' c' m' w2 = (Inr res', w3)" and "az_authorized res'"
  shows "\<exists>n n'. parse_ctr X c = Inr n \<and> parse_ctr X c' = Inr n' \<and> sint n < sint n'"
proof -
  obtain dev n where n: "parse_ctr X c = Inr n"
    and dev: "bound_device aid (w_db w1) = Some (dev\<lparr>ad_last_known_ctr := Some n\<rparr>)"
    using physical_accepted [OF assms(1,2)] by blast
  obtain dev2 n' where n': "parse_ctr X c' = Inr n'"
    and dev2: "bound_device aid (w_db w2) = Some dev2" "ctr_advances n' (ad_last_known_ctr dev2)"
    using physical_accepted [OF assms(4,5)] by blast
  have kept: "devices_advance (w_db w1) (w_db w2)" "mother_cards_kept (w_db w1) (w_db w2)"
    using assms(3) by (rule devices.reaches_keeps, rule mother_cards.reaches_keeps)
  from dev obtain e where "first_of (bound_devices aid (w_db w1)) =
      Some (dev\<lparr>ad_last_known_ctr := Some n\<rparr>, e)"
    by (auto simp: bound_device_def)
  from bound_device_advances [OF kept this] dev2(1)
  have "ctr_le (Some n) (ad_last_known_ctr dev2)"
    by (auto simp: bound_device_def device_advances_def)
  with dev2(2) n n' show ?thesis by (auto simp: ctr_le_def ctr_advances_def split: option.splits)
qed

text \<open>
  C15. The histories only grow: whatever the server does, every audit event, idempotency record,
  commitment, attestation, scan event and entanglement it has stored stays as it is, in its place.
\<close>

theorem histories_append_only:
  assumes "reaches X auth w w'"
  shows "prefix (db_events (w_db w)) (db_events (w_db w'))
    \<and> prefix (db_idempotency (w_db w)) (db_idempotency (w_db w'))
    \<and> prefix (db_commitments (w_db w)) (db_commitments (w_db w'))
    \<and> prefix (db_brand_attestations (w_db w)) (db_brand_attestations (w_db w'))
    \<and> prefix (db_platform_attestations (w_db w)) (db_platform_attestations (w_db w'))
    \<and> prefix (db_verifications (w_db w)) (db_verifications (w_db w'))
    \<and> prefix (db_entanglements (w_db w)) (db_entanglements (w_db w'))"
  using history.reaches_keeps [OF assms] by (simp add: history_grows_def)


text \<open>
  C12. Mother cards are exclusive and permanent: an asset with at most one active entanglement
  never gets a second one, and the one it has stays the same row for ever.
\<close>

theorem one_mother_card_per_asset:
  assumes "reaches X auth w w'"
    and "length (filter (active_entanglement aid) (db_entanglements (w_db w))) \<le> 1"
  shows "length (filter (active_entanglement aid) (db_entanglements (w_db w'))) \<le> 1
    \<and> (\<forall>e. filter (active_entanglement aid) (db_entanglements (w_db w)) = [e]
          \<longrightarrow> filter (active_entanglement aid) (db_entanglements (w_db w')) = [e])"
  using mother_cards.reaches_keeps [OF assms(1)] assms(2)
  by (auto simp: mother_cards_kept_def mother_cards_def)

section \<open>Witnesses\<close>

text \<open>A run of one request: a moderator freezes the asset.\<close>

definition demo_freeze_request :: request where
  "demo_freeze_request = Protected demo_headers (WriteRoute (PostFreeze ''a1'' plain_request))"

definition demo_frozen_world :: world where
  "demo_frozen_world =
     snd (serve demo_x demo_auth demo_freeze_request (demo_world Activated demo_virtual))"

lemma demo_freeze_reaches:
  "reaches demo_x demo_auth (demo_world Activated demo_virtual) demo_frozen_world"
  unfolding reaches_def demo_frozen_world_def
  by (rule r_into_rtranclp, rule server_step.request [of _ _ demo_freeze_request])
    (rule prod.collapse [symmetric])

definition demo_tap :: "string \<Rightarrow> world \<Rightarrow> (abort + authorization_result) \<times> world" where
  "demo_tap c = verify_physical_authority demo_x ''a1'' ''04040404040404'' c ''0000000000000000''"

lemma demo_taps:
  "(case demo_tap ''050000'' (demo_world LegallySold demo_physical) of
      (Inr res, w1) \<Rightarrow> az_authorized res \<and>
        (case demo_tap ''060000'' w1 of (Inr res', _) \<Rightarrow> az_authorized res' | _ \<Rightarrow> False)
    | _ \<Rightarrow> False)"
  by code_simp

theorem mother_card_taps_advance_witness:
  "\<exists>n n'. parse_ctr demo_x ''050000'' = Inr n \<and> parse_ctr demo_x ''060000'' = Inr n'
     \<and> sint n < sint n'"
proof -
  obtain res w1 where 1: "demo_tap ''050000'' (demo_world LegallySold demo_physical) = (Inr res, w1)"
      "az_authorized res"
    and "case demo_tap ''060000'' w1 of (Inr res', _) \<Rightarrow> az_authorized res' | _ \<Rightarrow> False"
    using demo_taps by (auto split: prod.splits sum.splits)
  then obtain res' w3 where "demo_tap ''060000'' w1 = (Inr res', w3)" "az_authorized res'"
    by (auto split: prod.splits sum.splits)
  moreover have "reaches demo_x demo_auth w1 w1" by (simp add: reaches_def)
  ultimately show ?thesis
    using mother_card_taps_advance [OF 1(1) [unfolded demo_tap_def] 1(2)] unfolding demo_tap_def by blast
qed

theorem histories_append_only_witness:
  "prefix (db_events (w_db (demo_world Activated demo_virtual))) (db_events (w_db demo_frozen_world))
   \<and> length (db_events (w_db demo_frozen_world)) = 1"
proof -
  have "length (db_events (w_db demo_frozen_world)) = 1" by code_simp
  then show ?thesis using histories_append_only [OF demo_freeze_reaches] by simp
qed


theorem one_mother_card_per_asset_witness:
  "length (filter (active_entanglement ''a1'') (db_entanglements (w_db demo_frozen_world))) \<le> 1"
proof -
  have "length (filter (active_entanglement ''a1'')
      (db_entanglements (w_db (demo_world Activated demo_virtual)))) \<le> 1" by code_simp
  from one_mother_card_per_asset [OF demo_freeze_reaches this] show ?thesis by simp
qed
text \<open>The bearer token of the demo headers, and the API key of the brand.\<close>

theorem authenticated_actor_is_credentialed_witness:
  "\<exists>actor. actor_from_request (Some demo_claims) = Inr actor \<and> the_role actor = Moderator
     \<and> (\<exists>token. extract_bearer_token demo_headers = Some token
           \<and> x_jwt_decode demo_x (au_jwt_secret demo_auth) 50 token = Inr demo_claims)"
proof -
  let ?w = "demo_world Activated demo_virtual"
  have on: "\<not> au_disabled demo_auth" by (simp add: demo_auth_def)
  have run: "authenticate demo_x demo_auth demo_headers ?w = (Inr demo_claims, ?w)"
    by (simp add: authenticate_def on extract_api_key_hash_def extract_api_key_def
        extract_bearer_token_def demo_headers_def to_str_def try_bind_def run_simps utc_now_def
        jwt_decode_def strip_prefix_def demo_x_def demo_claims_def claims_validate_def
        claims_actor_role_def)
  obtain actor where actor: "actor_from_request (Some demo_claims) = Inr actor" "the_role actor = Moderator"
    by (simp add: actor_from_request_def demo_claims_def claims_actor_role_def)
  from authenticated_actor_is_credentialed [OF on run actor(1)] actor
  show ?thesis by (auto simp: demo_world_def)
qed

end
