(* ===== verification/Verify_Properties.thy ===== *)
theory Verify_Properties
  imports System_Properties
begin

text \<open>
  Public verification (\<^verbatim>\<open>routes/verify.rs\<close>): what an \<^verbatim>\<open>authentic\<close> answer proves about
  the tap and the attestations, and what happens to a tap that is presented again.
\<close>

section \<open>The environment does not change\<close>

definition same_env :: "world \<Rightarrow> world \<Rightarrow> bool" where
  "same_env w w' \<longleftrightarrow> w_env w' = w_env w \<and> w_kms w' = w_kms w \<and> w_now w' = w_now w
     \<and> (w_faults w = [] \<longrightarrow> w_faults w' = [])"

interpretation env: run_preorder same_env
  by unfold_locales (auto simp: same_env_def)

lemma env_sql [keeps_intro]: "keeps same_env (sql q)"
  by (auto simp: keeps_def same_env_def sql_def map_err_def db_call_def Let_def
      split: list.split option.split sum.split prod.split)

lemma env_primitives [keeps_intro]:
  "keeps same_env (select_rows f)" "keeps same_env (fetch_first p t)"
  "keeps same_env (execute_sql g)" "keeps same_env utc_now" "keeps same_env panic"
  "keeps same_env (redis_call h)" "keeps same_env (l1_insert u c)" "keeps same_env (l1_remove u)"
  unfolding select_rows_def fetch_first_def execute_sql_def
  by (rule env_sql | simp add: keeps_def same_env_def utc_now_def redis_call_def l1_insert_def
      l1_remove_def panic_def act_simps Let_def split: option.split prod.split)+

lemma env_counter [keeps_intro]:
  "keeps same_env (get_ctr u)" "keeps same_env (judge_ctr asset u n c)"
proof -
  have fill: "keeps same_env (backfill_l2 u c)" for u c
    unfolding backfill_l2_def redis_set_ex_def by (intro keeps_intro env.keeps_pure)
  show "keeps same_env (get_ctr u)"
    unfolding get_ctr_def Let_def redis_get_ctr_def
    by (intro keeps_intro fill)
  show "keeps same_env (judge_ctr asset u n c)"
    unfolding judge_ctr_def match_result_def update_asset_ctr_def update_ctr_def
    by (intro keeps_intro fill) (auto intro: keeps_intro split: abort.split)
qed

section \<open>Attestations that verification accepts\<close>

definition brand_attested ::
  "('z externs_scheme) \<Rightarrow> bytes \<Rightarrow> string \<Rightarrow> string \<Rightarrow> database \<Rightarrow> bool" where
  "brand_attested X public_key brand_id cid d \<longleftrightarrow>
     (\<exists>a\<in>set (db_brand_attestations d). at_asset_commitment_id a = cid
        \<and> (\<exists>p. payload_from_value ''brand_id'' (at_canonical_payload a) = Some p
             \<and> pl_asset_commitment_id p = cid \<and> pl_issuer_id p = brand_id
             \<and> verify_brand_attestation X p (at_signature a) public_key = Inr True))"

definition platform_attested ::
  "('z externs_scheme) \<Rightarrow> bytes \<Rightarrow> string \<Rightarrow> string \<Rightarrow> database \<Rightarrow> bool" where
  "platform_attested X public_key platform_id cid d \<longleftrightarrow>
     (\<exists>a\<in>set (db_platform_attestations d). at_asset_commitment_id a = cid
        \<and> (\<exists>p. payload_from_value ''platform_id'' (at_canonical_payload a) = Some p
             \<and> pl_asset_commitment_id p = cid \<and> pl_issuer_id p = platform_id
             \<and> verify_platform_attestation X p (at_signature a) public_key = Inr True))"

lemma signing_keys_env:
  "w_env w' = w_env w \<Longrightarrow> fst (load_brand_signing_key X w') = fst (load_brand_signing_key X w)"
  "w_env w' = w_env w \<Longrightarrow> fst (load_platform_signing_key X w') = fst (load_platform_signing_key X w)"
  by (simp_all add: load_brand_signing_key_def load_platform_signing_key_def try_bind_def env_var_def
      act_simps lift_def split: sum.split)

lemma brand_valid:
  assumes "validate_brand_attestation X asset cid w = (Inr ''valid'', w')"
  shows "\<exists>kid sk. fst (load_brand_signing_key X w) = Inr (kid, sk)
    \<and> brand_attested X (x_ed_public X sk) (av_brand_id asset) cid (w_db w)"
proof -
  from assms obtain a p kid sk w1 w2 where
    a: "first_of (rev (filter (\<lambda>a. at_asset_commitment_id a = cid) (db_brand_attestations (w_db w)))) = Some a"
    and p: "payload_from_value ''brand_id'' (at_canonical_payload a) = Some p"
      "pl_asset_commitment_id p = cid" "pl_issuer_id p = (av_brand_id asset)"
      "verify_brand_attestation X p (at_signature a) (x_ed_public X sk) = Inr True"
    and l: "load_brand_signing_key X w1 = (Inr (kid, sk), w2)" "w_env w1 = w_env w"
    by (auto simp: validate_brand_attestation_def fetch_brand_attestation_by_commitment_def run_inv Let_def
        split: option.splits if_splits)
  from a have "a \<in> set (db_brand_attestations (w_db w))" "at_asset_commitment_id a = cid"
    using first_of_Some [OF a] by auto
  with p have "brand_attested X (x_ed_public X sk) (av_brand_id asset) cid (w_db w)"
    unfolding brand_attested_def by blast
  moreover have "fst (load_brand_signing_key X w) = Inr (kid, sk)"
    using signing_keys_env(1) [OF l(2), of X] l(1) by simp
  ultimately show ?thesis by blast
qed

lemma platform_valid:
  assumes "validate_platform_attestation X cid w = (Inr ''valid'', w')"
  shows "\<exists>platform_id kid sk. fst (load_platform_signing_key X w) = Inr (platform_id, kid, sk)
    \<and> platform_attested X (x_ed_public X sk) platform_id cid (w_db w)"
proof -
  from assms obtain a p platform_id kid sk w1 w2 where
    a: "first_of (rev (filter (\<lambda>a. at_asset_commitment_id a = cid) (db_platform_attestations (w_db w)))) = Some a"
    and p: "payload_from_value ''platform_id'' (at_canonical_payload a) = Some p"
      "pl_asset_commitment_id p = cid" "pl_issuer_id p = platform_id"
      "verify_platform_attestation X p (at_signature a) (x_ed_public X sk) = Inr True"
    and l: "load_platform_signing_key X w1 = (Inr (platform_id, kid, sk), w2)" "w_env w1 = w_env w"
    by (auto simp: validate_platform_attestation_def fetch_platform_attestation_by_commitment_def run_inv Let_def
        split: option.splits if_splits)
  from a have "a \<in> set (db_platform_attestations (w_db w))" "at_asset_commitment_id a = cid"
    using first_of_Some [OF a] by auto
  with p have "platform_attested X (x_ed_public X sk) platform_id cid (w_db w)"
    unfolding platform_attested_def by blast
  moreover have "fst (load_platform_signing_key X w) = Inr (platform_id, kid, sk)"
    using signing_keys_env(2) [OF l(2), of X] l(1) by simp
  ultimately show ?thesis by blast
qed

lemma validation_reads:
  "validate_brand_attestation X asset cid w = (Inr x, w') \<Longrightarrow> w_db w' = w_db w \<and> w_env w' = w_env w"
  by (auto simp: validate_brand_attestation_def fetch_brand_attestation_by_commitment_def
      load_brand_signing_key_def env_var_def Let_def run_inv split: option.splits)

lemma summary_valid:
  assumes "build_summary X asset w = (Inr s, w')" and "su_brand s = ''valid''" "su_platform s = ''valid''"
  shows "\<exists>cid kid sk pid kid' sk'. su_asset_commitment_id s = Some cid
    \<and> fst (load_brand_signing_key X w) = Inr (kid, sk)
    \<and> brand_attested X (x_ed_public X sk) (av_brand_id asset) cid (w_db w)
    \<and> fst (load_platform_signing_key X w) = Inr (pid, kid', sk')
    \<and> platform_attested X (x_ed_public X sk') pid cid (w_db w)"
proof -
  from assms obtain cid w1 w2 where r: "resolve_asset_commitment_id asset w = (Inr (Some cid), w1)"
    and cid: "su_asset_commitment_id s = Some cid"
    and b: "validate_brand_attestation X asset cid w1 = (Inr ''valid'', w2)"
    and p: "validate_platform_attestation X cid w2 = (Inr ''valid'', w')"
    by (auto simp: build_summary_def run_inv split: option.splits)
  have "w_db w1 = w_db w" "w_env w1 = w_env w"
    using r by (auto simp: resolve_asset_commitment_id_def fetch_asset_commitment_by_uid_epoch_def
        run_inv split: option.splits)
  with brand_valid [OF b] platform_valid [OF p] validation_reads [OF b] cid
    signing_keys_env(1) [of w1 w X] signing_keys_env(2) [of w2 w X]
  show ?thesis by metis
qed

section \<open>Authentic\<close>

lemma match_result_Inr:
  "match_result m h k w = (Inr y, w') \<longleftrightarrow>
    (\<exists>e w1. m w = (Inl (Err e), w1) \<and> h e w1 = (Inr y, w'))
    \<or> (\<exists>x w1. m w = (Inr x, w1) \<and> k x w1 = (Inr y, w'))"
  by (auto simp: match_result_def try_bind_def attempt_def panic_def act_simps
      split: prod.splits sum.splits abort.splits)

text \<open>What the reply leaves as it is.\<close>

definition rows_and_keys_same :: "database \<Rightarrow> database \<Rightarrow> bool" where
  "rows_and_keys_same d d' \<longleftrightarrow> db_assets d' = db_assets d
     \<and> db_brand_attestations d' = db_brand_attestations d
     \<and> db_platform_attestations d' = db_platform_attestations d"

interpretation verdict: db_preorder rows_and_keys_same
  by unfold_locales (auto simp: rows_and_keys_same_def)

lemma reply_keeps_rows: "keeps (on_db rows_and_keys_same) (reply_v2 X u asset n p fl st)"
  unfolding reply_v2_def Let_def insert_verification_event_v2_def insert_scan_def
  by (intro keeps_intro verdict.keeps_constrained) (simp add: rows_and_keys_same_def)

lemma reply_v2_authentic:
  assumes "reply_v2 X uid asset n prev flags st w = (Inr (ReplyV2 200 r), w')"
    and "v2_verification_status r = ''authentic''"
  shows "\<exists>s w1. build_summary X asset w = (Inr s, w1) \<and> su_brand s = ''valid'' \<and> su_platform s = ''valid''
    \<and> v2_asset_commitment_id r = su_asset_commitment_id s
    \<and> st \<noteq> ''restricted'' \<and> ''replay_suspected'' \<notin> set flags"
  using assms
  by (auto simp: reply_v2_def match_result_Inr utc_now_def Let_def run_inv server_error_def
      split: if_splits)

lemma full_verify_authentic:
  assumes "handle_full_verify X uid parsed True w = (Inr (ReplyV2 200 r), w')"
    and "v2_verification_status r = ''authentic''"
  shows "\<exists>asset w1 key w2 cached src w3 w4 s w5. fetch_asset_by_uid uid w = (Inr asset, w1)
    \<and> kms_or_error [] (\<lambda>k. derive_chip_key X k (av_brand_id asset) (ps_uid parsed) (av_epoch asset)) w1
        = (Inr key, w2)
    \<and> verify_sun_message X key (ps_uid parsed) (ps_ctr parsed) (ps_cmac parsed)
    \<and> get_ctr uid w2 = (Inr (cached, src), w3)
    \<and> judge_ctr asset uid (ps_ctr_value parsed) cached w3 = (Inr (Some []), w4)
    \<and> build_summary X asset w4 = (Inr s, w5) \<and> su_brand s = ''valid'' \<and> su_platform s = ''valid''
    \<and> v2_asset_commitment_id r = su_asset_commitment_id s
    \<and> fst (evaluate_status (av_current_state asset)) \<noteq> ''restricted''
    \<and> rows_and_keys_same (w_db w4) (w_db w')"
proof -
  from assms obtain asset w1 key w2 cs w3 flags w4 prev where
    run: "fetch_asset_by_uid uid w = (Inr asset, w1)"
      "kms_or_error [] (\<lambda>k. derive_chip_key X k (av_brand_id asset) (ps_uid parsed) (av_epoch asset)) w1
        = (Inr key, w2)"
      "verify_sun_message X key (ps_uid parsed) (ps_ctr parsed) (ps_cmac parsed)"
      "get_ctr uid w2 = (Inr cs, w3)"
    and j: "judge_ctr asset uid (ps_ctr_value parsed) (fst cs) w3 = (Inr (Some flags), w4)"
    and r: "reply_v2 X uid asset (ps_ctr_value parsed) prev
        (flags @ snd (evaluate_status (av_current_state asset)))
        (fst (evaluate_status (av_current_state asset))) w4 = (Inr (ReplyV2 200 r), w')"
    by (auto simp: handle_full_verify_def match_result_Inr run_inv unknown_tag_def server_error_def
        v2_reply_def Let_def case_prod_beta split: if_splits option.splits)
  from reply_v2_authentic [OF r assms(2)] obtain s w5 where
    s: "build_summary X asset w4 = (Inr s, w5)" "su_brand s = ''valid''" "su_platform s = ''valid''"
      "v2_asset_commitment_id r = su_asset_commitment_id s"
      "fst (evaluate_status (av_current_state asset)) \<noteq> ''restricted''"
    and "''replay_suspected'' \<notin> set flags" by auto
  moreover from this(6) j have "flags = []"
    by (auto simp: judge_ctr_def match_result_Inr run_inv split: if_splits)
  moreover have "rows_and_keys_same (w_db w4) (w_db w')"
    using keepsD [OF reply_keeps_rows r] by (simp add: on_db_def)
  ultimately show ?thesis using run j by (cases cs) fastforce
qed

lemma judged_fresh:
  assumes "judge_ctr asset uid n cached w = (Inr (Some []), w')"
  shows "w_l1 w' uid = Some \<lparr>ce_ctr = n, ce_cached_at = w_now w\<rparr>
    \<and> (\<exists>now. db_assets (w_db w') = update_rows (asset_with_id (av_asset_id asset))
         (\<lambda>a. a\<lparr>as_last_verified_ctr := Some n, as_updated_at := now\<rparr>) (db_assets (w_db w)))"
proof -
  from assms obtain w1 where u: "update_asset_ctr (av_asset_id asset) n w = (Inr (), w1)"
    and l: "update_ctr uid n w1 = (Inr (), w')"
    by (auto simp: judge_ctr_def match_result_Inr run_inv split: if_splits)
  have "w_db w' = w_db w1"
    using keepsD [OF db_unchanged.keeps_update_ctr l] by (simp add: on_db_def)
  moreover have "w_l1 w' uid = Some \<lparr>ce_ctr = n, ce_cached_at = w_now w1\<rparr>"
    using l by (auto simp: update_ctr_def l1_insert_def backfill_l2_def redis_set_ex_def redis_call_def
        try_bind_def attempt_def act_simps Let_def split: if_splits option.splits)
  ultimately show ?thesis
    using u by (auto simp: update_asset_ctr_def update_asset_def utc_now_def run_inv)
qed

lemma judge_stores:
  "judge_ctr asset uid n cached w = (Inr (Some []), w') \<Longrightarrow>
    \<forall>a\<in>set (db_assets (w_db w')). as_asset_id a = av_asset_id asset \<longrightarrow> as_last_verified_ctr a = Some n"
  by (auto simp: update_rows_def asset_with_id_def dest!: judged_fresh)

lemma fetch_by_uid_Inr:
  "fetch_asset_by_uid uid w = (Inr asset, w') \<Longrightarrow>
    \<exists>row. row \<in> set (db_assets (w_db w)) \<and> as_uid row = Some uid
      \<and> av_asset_id asset = as_asset_id row \<and> av_brand_id asset = as_brand_id row
      \<and> av_uid asset = uid \<and> av_epoch asset = as_epoch row
      \<and> av_current_state asset = as_current_state row \<and> w_db w' = w_db w \<and> w_kms w' = w_kms w
      \<and> w_env w' = w_env w"
  by (auto simp: fetch_asset_by_uid_def run_inv dest!: find_mem)


section \<open>Replays\<close>

lemma full_verify_verified:
  assumes "handle_full_verify X uid parsed False w = (Inr (ReplyV1 200 r), w')"
    and "vr_verification_status r = ''verified''"
  shows "\<exists>asset w1 key w2 cached src w3 w4. fetch_asset_by_uid uid w = (Inr asset, w1)
    \<and> kms_or_error [] (\<lambda>k. derive_chip_key X k (av_brand_id asset) (ps_uid parsed) (av_epoch asset)) w1
        = (Inr key, w2)
    \<and> verify_sun_message X key (ps_uid parsed) (ps_ctr parsed) (ps_cmac parsed)
    \<and> get_ctr uid w2 = (Inr (cached, src), w3)
    \<and> judge_ctr asset uid (ps_ctr_value parsed) cached w3 = (Inr (Some []), w4)
    \<and> (\<exists>fs. w' = w4\<lparr>w_faults := fs, w_db := w_db w'\<rparr> \<and> (w_faults w4 = [] \<longrightarrow> fs = []))
    \<and> db_assets (w_db w') = db_assets (w_db w4)"
proof -
  from assms obtain asset w1 key w2 cs w3 flags w4 prev where
    run: "fetch_asset_by_uid uid w = (Inr asset, w1)"
      "kms_or_error [] (\<lambda>k. derive_chip_key X k (av_brand_id asset) (ps_uid parsed) (av_epoch asset)) w1
        = (Inr key, w2)"
      "verify_sun_message X key (ps_uid parsed) (ps_ctr parsed) (ps_cmac parsed)"
      "get_ctr uid w2 = (Inr cs, w3)"
    and j: "judge_ctr asset uid (ps_ctr_value parsed) (fst cs) w3 = (Inr (Some flags), w4)"
    and r: "reply_v1 X uid asset (ps_ctr_value parsed) prev
        (flags @ snd (evaluate_status (av_current_state asset)))
        (fst (evaluate_status (av_current_state asset))) w4 = (Inr (ReplyV1 200 r), w')"
    by (auto simp: handle_full_verify_def match_result_Inr run_inv unknown_tag_def server_error_def
        v1_reply_def Let_def case_prod_beta split: if_splits option.splits)
  from r assms(2) have "''replay_suspected'' \<notin> set flags"
    by (auto simp: reply_v1_def utc_now_def Let_def run_inv split: if_splits)
  with j have "flags = []" by (auto simp: judge_ctr_def match_result_Inr run_inv split: if_splits)
  moreover from r obtain x where
    "insert_verification_event X uid (Some (av_asset_id asset)) (ps_ctr_value parsed)
       (vr_verification_status r) (flags @ snd (evaluate_status (av_current_state asset))) True None w4
     = (x, w')"
    by (auto simp: reply_v1_def utc_now_def Let_def run_inv)
  then have "(\<exists>fs. w' = w4\<lparr>w_faults := fs, w_db := w_db w'\<rparr> \<and> (w_faults w4 = [] \<longrightarrow> fs = []))
    \<and> db_assets (w_db w') = db_assets (w_db w4)"
    by (auto simp: insert_verification_event_def insert_scan_def sql_def map_err_def db_call_def
        constrained_def Let_def split: list.splits option.splits sum.splits prod.splits if_splits)
  ultimately show ?thesis using run j by (cases cs) fastforce
qed

text \<open>A tap is flagged when a fresh entry of the process's own cache is not below its counter.\<close>

lemma cached_tap_flagged:
  assumes "w_faults w = []" and "find (\<lambda>a. as_uid a = Some uid) (db_assets (w_db w)) = Some row"
    and "kms_inv X (w_kms w)"
    and "verify_sun_message X
        (kms_spec X (kms_ident (w_kms w)) (ChipReq (as_brand_id row) (ps_uid parsed) (as_epoch row)))
        (ps_uid parsed) (ps_ctr parsed) (ps_cmac parsed)"
    and "w_l1 w uid = Some e" "w_now w - ce_cached_at e < l1_ttl"
    and "ps_ctr_value parsed \<le> ce_ctr e" "0 < ce_ctr e"
  shows "\<exists>r w'. handle_full_verify X uid parsed False w = (Inr (ReplyV1 200 r), w')
    \<and> vr_verification_status r = ''replay_suspected''"
proof -
  have uid: "as_uid row = Some uid" using find_mem [OF assms(2)] by simp
  obtain k' where k: "kms_or_error [] (\<lambda>k. derive_chip_key X k (as_brand_id row) (ps_uid parsed) (as_epoch row)) w
      = (Inr (kms_spec X (kms_ident (w_kms w)) (ChipReq (as_brand_id row) (ps_uid parsed) (as_epoch row))),
         w\<lparr>w_kms := k'\<rparr>)"
    using chip_key_run [OF assms(3)] by blast
  have g: "get_ctr uid (w\<lparr>w_kms := k'\<rparr>) = (Inr (ce_ctr e, L1), w\<lparr>w_kms := k'\<rparr>)"
    using assms(5,6) by (simp add: get_ctr_def try_bind_def act_simps)
  show ?thesis
    using assms k g uid
    by (auto simp: handle_full_verify_def match_result_def try_bind_def attempt_def run_simps calm_def
        fetch_asset_by_uid_def judge_ctr_def reply_v1_def utc_now_def Let_def act_simps
        split: prod.splits)
qed

lemma find_in_updated:
  "(\<And>a. q (f a) = q a) \<Longrightarrow>
    find q (update_rows p f xs) = map_option (\<lambda>a. if p a then f a else a) (find q xs)"
  by (induction xs) (simp_all add: update_rows_def)

text \<open>What a verified tap leaves behind: its counter in the process's own cache, under the same key.\<close>

lemma verified_tap_remembered:
  assumes full: "handle_full_verify X uid parsed False w = (Inr (ReplyV1 200 r), w')"
    and "vr_verification_status r = ''verified''" and "kms_inv X (w_kms w)" and "w_faults w = []"
  obtains row where "find (\<lambda>a. as_uid a = Some uid) (db_assets (w_db w')) = Some row"
    and "w_faults w' = []" "kms_inv X (w_kms w')"
    and "verify_sun_message X
        (kms_spec X (kms_ident (w_kms w')) (ChipReq (as_brand_id row) (ps_uid parsed) (as_epoch row)))
        (ps_uid parsed) (ps_ctr parsed) (ps_cmac parsed)"
    and "w_l1 w' uid = Some \<lparr>ce_ctr = ps_ctr_value parsed, ce_cached_at = w_now w'\<rparr>"
proof -
  from full_verify_verified [OF full assms(2)] obtain asset w1 key w2 cached src w3 w4 fs where
    f: "fetch_asset_by_uid uid w = (Inr asset, w1)"
    and k: "kms_or_error [] (\<lambda>k. derive_chip_key X k (av_brand_id asset) (ps_uid parsed)
        (av_epoch asset)) w1 = (Inr key, w2)"
    and sun: "verify_sun_message X key (ps_uid parsed) (ps_ctr parsed) (ps_cmac parsed)"
    and g: "get_ctr uid w2 = (Inr (cached, src), w3)"
    and j: "judge_ctr asset uid (ps_ctr_value parsed) cached w3 = (Inr (Some []), w4)"
    and w': "w' = w4\<lparr>w_faults := fs, w_db := w_db w'\<rparr>" "w_faults w4 = [] \<longrightarrow> fs = []"
      "db_assets (w_db w') = db_assets (w_db w4)" by blast
  from f obtain row where row: "find (\<lambda>a. as_uid a = Some uid) (db_assets (w_db w)) = Some row"
    and eqs: "av_brand_id asset = as_brand_id row" "av_epoch asset = as_epoch row"
    and w1: "w_db w1 = w_db w" "w_kms w1 = w_kms w" "w_faults w1 = []"
    using assms(4) by (auto simp: fetch_asset_by_uid_def run_inv)
  note key = chip_key_Inr [OF k assms(3) [folded w1(2)]]
  then obtain kk where "w2 = w1\<lparr>w_kms := kk\<rparr>" by blast
  then have w2: "w_db w2 = w_db w" "w_faults w2 = []" by (simp_all add: w1)
  have env: "same_env w2 w3" "same_env w3 w4"
    using keepsD [OF env_counter(1) g] keepsD [OF env_counter(2) j] by blast+
  have "w_db w3 = w_db w2" using keepsD [OF db_unchanged.keeps_get_ctr g] by (simp add: on_db_def)
  with judged_fresh [OF j] w2 obtain now where
    l1: "w_l1 w4 uid = Some \<lparr>ce_ctr = ps_ctr_value parsed, ce_cached_at = w_now w3\<rparr>"
    and rows: "db_assets (w_db w4) = update_rows (asset_with_id (av_asset_id asset))
         (\<lambda>a. a\<lparr>as_last_verified_ctr := Some (ps_ctr_value parsed), as_updated_at := now\<rparr>)
         (db_assets (w_db w))" by auto
  obtain d where w'_eq: "w' = w4\<lparr>w_faults := fs, w_db := d\<rparr>" using w'(1) by blast
  show thesis
  proof (rule that)
    show "find (\<lambda>a. as_uid a = Some uid) (db_assets (w_db w')) = Some (if asset_with_id (av_asset_id asset) row
        then row\<lparr>as_last_verified_ctr := Some (ps_ctr_value parsed), as_updated_at := now\<rparr> else row)"
      using w'(3) rows row by (simp add: find_in_updated)
  qed (use w'(2) env w2 l1 key sun eqs in \<open>simp_all add: same_env_def w'_eq\<close>)
qed

text \<open>
  C13. A replayed tap is flagged: when version 1 has verified a tap with a counter other than zero,
  the same request within the five minutes of the process's cache (and without a database failure)
  is answered \<^verbatim>\<open>replay_suspected\<close>, whatever Redis does.
\<close>

theorem replayed_tap_is_flagged:
  assumes "verify_impl X params False w = (Inr (ReplyV1 200 r), w')"
    and "vr_verification_status r = ''verified''"
    and "kms_inv X (w_kms w)" and "w_faults w = []"
    and "parse_sun_params X params = Inr parsed" and "ps_ctr_value parsed \<noteq> 0"
    and "elapsed < 300"
  shows "\<exists>r2 w2. verify_impl X params False (w'\<lparr>w_now := w_now w' + elapsed\<rparr>)
      = (Inr (ReplyV1 200 r2), w2) \<and> vr_verification_status r2 = ''replay_suspected''"
proof -
  from assms(1,2,5) obtain uid where p: "vp_uid params = Some uid" "\<not> is_degraded_mode params"
    and full: "handle_full_verify X uid parsed False w = (Inr (ReplyV1 200 r), w')"
    by (auto simp: verify_impl_def bad_request_def handle_degraded_def match_result_Inr run_inv
        unknown_tag_def server_error_def v1_reply_def split: option.splits sum.splits if_splits)
  obtain row where after: "find (\<lambda>a. as_uid a = Some uid) (db_assets (w_db w')) = Some row"
    "w_faults w' = []" "kms_inv X (w_kms w')"
    "verify_sun_message X
        (kms_spec X (kms_ident (w_kms w')) (ChipReq (as_brand_id row) (ps_uid parsed) (as_epoch row)))
        (ps_uid parsed) (ps_ctr parsed) (ps_cmac parsed)"
    "w_l1 w' uid = Some \<lparr>ce_ctr = ps_ctr_value parsed, ce_cached_at = w_now w'\<rparr>"
    by (rule verified_tap_remembered [OF full assms(2-4)])
  have "0 < ps_ctr_value parsed" using assms(6) by (simp add: word_neq_0_conv)
  then obtain r2 w5 where
    "handle_full_verify X uid parsed False (w'\<lparr>w_now := w_now w' + elapsed\<rparr>) = (Inr (ReplyV1 200 r2), w5)"
    "vr_verification_status r2 = ''replay_suspected''"
    using cached_tap_flagged [of "w'\<lparr>w_now := w_now w' + elapsed\<rparr>" uid row X parsed
        "\<lparr>ce_ctr = ps_ctr_value parsed, ce_cached_at = w_now w'\<rparr>"] after assms(7)
    by (auto simp: l1_ttl_def)
  then show ?thesis using p assms(5) by (simp add: verify_impl_def)
qed

section \<open>Witnesses\<close>

definition demo_attestation :: "string \<Rightarrow> string \<Rightarrow> attestation_record" where
  "demo_attestation issuer_name issuer = \<lparr>at_attestation_id = ''at_1'', at_version = ''v'', at_issuer_id = issuer,
     at_asset_commitment_id = ''c1'', at_statement = ''s'', at_key_id = ''k'',
     at_canonical_payload = JObj [(''version'', JStr ''v''), (issuer_name, JStr issuer),
       (''asset_commitment_id'', JStr ''c1''), (''statement'', JStr ''s''), (''issued_at'', JStr ''t''),
       (''key_id'', JStr ''k'')],
     at_signature = ''0000000000000000'', at_issued_at = 0\<rparr>"

definition demo_attested :: world where
  "demo_attested = (demo_world Activated demo_virtual)
     \<lparr>w_env := [''RC_BRAND_ATTESTATION_SECRET'' \<mapsto> [], ''RC_PLATFORM_ATTESTATION_SECRET'' \<mapsto> []],
      w_db := (demo_db Activated demo_virtual)
        \<lparr>db_assets := [(demo_asset Activated)\<lparr>as_asset_commitment_id := Some ''c1''\<rparr>],
         db_brand_attestations := [demo_attestation ''brand_id'' ''brand_1''],
         db_platform_attestations := [demo_attestation ''platform_id'' ''rcprotocol-main'']\<rparr>\<rparr>"

definition demo_scan :: verify_params where
  "demo_scan = \<lparr>vp_uid = Some ''04040404040404'', vp_ctr = Some ''050000'', vp_cmac = Some ''0000000000000000''\<rparr>"

lemma demo_signing_keys:
  "brand_signing_key demo_x [] = Inr (replicate 32 9)"
  "platform_signing_key demo_x [] = Inr (replicate 32 9)"
  by code_simp+

lemma demo_keys:
  assumes "w_env w = w_env demo_attested" and "w_faults w = []"
  shows "load_brand_signing_key demo_x w = (Inr (''brand-key-2026-01'', replicate 32 9), w)"
    and "load_platform_signing_key demo_x w
      = (Inr (''rcprotocol-main'', ''platform-key-2026-01'', replicate 32 9), w)"
  using assms
  by (simp_all add: load_brand_signing_key_def load_platform_signing_key_def env_var_def try_bind_def
      act_simps lift_def unwrap_or_def or_else_def demo_attested_def demo_signing_keys)

lemma demo_signature:
  "verify_brand_attestation demo_x p ''0000000000000000'' k = Inr True"
  "verify_platform_attestation demo_x p ''0000000000000000'' k = Inr True"
  by (simp_all add: verify_brand_attestation_def verify_platform_attestation_def
      brand_payload_bytes_def platform_payload_bytes_def demo_x_def demo_hex_def)

lemma demo_payloads:
  "payload_from_value ''brand_id'' (at_canonical_payload (demo_attestation ''brand_id'' i))
    = Some \<lparr>pl_version = ''v'', pl_issuer_id = i, pl_asset_commitment_id = ''c1'',
        pl_statement = ''s'', pl_issued_at = ''t'', pl_key_id = ''k''\<rparr>"
  "payload_from_value ''platform_id'' (at_canonical_payload (demo_attestation ''platform_id'' i))
    = Some \<lparr>pl_version = ''v'', pl_issuer_id = i, pl_asset_commitment_id = ''c1'',
        pl_statement = ''s'', pl_issued_at = ''t'', pl_key_id = ''k''\<rparr>"
  by (simp_all add: payload_from_value_def payload_of_fields_def demo_attestation_def)

lemma demo_attested_kms: "kms_inv demo_x (w_kms demo_attested)" "w_faults demo_attested = []"
  by (simp_all add: demo_attested_def demo_world_def demo_kms_def kms_inv_empty)

lemma demo_summary:
  assumes "w_env w = w_env demo_attested" and "w_faults w = []"
    and "db_brand_attestations (w_db w) = [demo_attestation ''brand_id'' ''brand_1'']"
    and "db_platform_attestations (w_db w) = [demo_attestation ''platform_id'' ''rcprotocol-main'']"
    and "av_asset_commitment_id asset = Some ''c1''" and "av_brand_id asset = ''brand_1''"
  shows "build_summary demo_x asset w = (Inr \<lparr>su_asset_commitment_id = Some ''c1'',
    su_brand = ''valid'', su_platform = ''valid'', su_error_codes = []\<rparr>, w)"
proof -
  have fields: "at_asset_commitment_id (demo_attestation n i) = ''c1''" "at_statement (demo_attestation n i) = ''s''"
    "at_version (demo_attestation n i) = ''v''" "at_key_id (demo_attestation n i) = ''k''"
    "at_signature (demo_attestation n i) = ''0000000000000000''" for n i
    by (simp_all add: demo_attestation_def)
  have "validate_brand_attestation demo_x asset ''c1'' w = (Inr ''valid'', w)"
    "validate_platform_attestation demo_x ''c1'' w = (Inr ''valid'', w)"
    using assms by (simp_all add: validate_brand_attestation_def validate_platform_attestation_def
        fetch_brand_attestation_by_commitment_def fetch_platform_attestation_by_commitment_def
        run_simps calm_def first_of_def try_bind_def act_simps lift_def demo_keys [OF assms(1,2)] demo_signature demo_payloads fields)
  then show ?thesis
    using assms(5) by (simp add: build_summary_def resolve_asset_commitment_id_def try_bind_def act_simps
        attestation_errors_def)
qed

lemma demo_authentic: "(case verify_impl demo_x demo_scan True demo_attested of
    (Inr (ReplyV2 code r), w') \<Rightarrow> (code, v2_verification_status r) | _ \<Rightarrow> (0, [])) = (200, ''authentic'')"
proof -
  have p: "parse_sun_params demo_x demo_scan = Inr \<lparr>ps_uid = replicate 7 4, ps_ctr = [5, 0, 0],
      ps_cmac = replicate 8 0, ps_ctr_value = 5\<rparr>" (is "_ = Inr ?p") by code_simp
  obtain k' where k: "kms_or_error [] (\<lambda>k. derive_chip_key demo_x k ''brand_1'' (replicate 7 4) 0) demo_attested
      = (Inr (kms_spec demo_x (kms_ident (w_kms demo_attested)) (ChipReq ''brand_1'' (replicate 7 4) 0)),
         demo_attested\<lparr>w_kms := k'\<rparr>)"
    using chip_key_run [OF demo_attested_kms(1)] by blast
  have sun: "verify_sun_message demo_x key (replicate 7 4) [5, 0, 0] (replicate 8 0)" for key
    by (simp add: verify_sun_message_def constant_time_eq_def cmac_compute_truncated_def
        cmac_compute_full_def demo_x_def Let_def numeral_eq_Suc)
  have world: "db_assets (w_db demo_attested) = [(demo_asset Activated)\<lparr>as_asset_commitment_id := Some ''c1''\<rparr>]"
    "db_brand_attestations (w_db demo_attested) = [demo_attestation ''brand_id'' ''brand_1'']"
    "db_platform_attestations (w_db demo_attested) = [demo_attestation ''platform_id'' ''rcprotocol-main'']"
    "w_l1 demo_attested = Map.empty" "w_redis demo_attested = None"
    by (simp_all add: demo_attested_def demo_world_def)
  show ?thesis
    using p k sun world
    by (simp add: verify_impl_def is_degraded_mode_def demo_scan_def handle_full_verify_def match_result_def
        try_bind_def attempt_def run_simps calm_def fetch_asset_by_uid_def demo_attested_kms demo_asset_def
        get_ctr_def judge_ctr_def update_ctr_def update_asset_ctr_def update_asset_def l1_insert_def backfill_l2_def
        redis_available_def act_simps evaluate_status_def utc_now_def reply_v2_def demo_summary Let_def unwrap_or_def
        split: prod.splits)
qed

lemma demo_verified: "(case verify_impl demo_x demo_scan False demo_attested of
    (Inr (ReplyV1 code r), w') \<Rightarrow> (code, vr_verification_status r) | _ \<Rightarrow> (0, [])) = (200, ''verified'')"
  by code_simp


theorem replayed_tap_is_flagged_witness:
  "\<exists>w' r2 w2. fst (verify_impl demo_x demo_scan False demo_attested) \<noteq> Inl Panic
     \<and> w' = snd (verify_impl demo_x demo_scan False demo_attested)
     \<and> verify_impl demo_x demo_scan False (w'\<lparr>w_now := w_now w' + 299\<rparr>) = (Inr (ReplyV1 200 r2), w2)
     \<and> vr_verification_status r2 = ''replay_suspected''"
proof -
  obtain r w' where run: "verify_impl demo_x demo_scan False demo_attested = (Inr (ReplyV1 200 r), w')"
    "vr_verification_status r = ''verified''"
    using demo_verified by (auto split: prod.splits sum.splits verify_reply.splits)
  have "case parse_sun_params demo_x demo_scan of Inr parsed \<Rightarrow> ps_ctr_value parsed \<noteq> 0 | _ \<Rightarrow> False"
    by code_simp
  then obtain parsed where "parse_sun_params demo_x demo_scan = Inr parsed" "ps_ctr_value parsed \<noteq> 0"
    by (auto split: sum.splits)
  from replayed_tap_is_flagged [OF run demo_attested_kms this, of 299] run(1) show ?thesis by simp
qed

end
