(* ===== verification/Transfer_Properties.thy ===== *)
theory Transfer_Properties
  imports Verify_Properties
begin

text \<open>
  Transfers between consumers (\<^verbatim>\<open>routes/transfer.rs\<close>): what a request must prove, what
  it changes, and what the tap of the tag it carries does not establish.
\<close>

section \<open>The proofs a request carries\<close>

text \<open>A tap in hexadecimal that is authentic for a brand and an epoch under a service's keys.\<close>

definition tap_valid ::
  "('z externs_scheme) \<Rightarrow> bytes \<times> string \<Rightarrow> string \<Rightarrow> u32 \<Rightarrow> string \<Rightarrow> string \<Rightarrow> string \<Rightarrow> bool" where
  "tap_valid X i brand_id e u c m \<longleftrightarrow>
     (\<exists>uid ctr cmac. x_hex_decode X u = Inr uid \<and> x_hex_decode X c = Inr ctr
        \<and> x_hex_decode X m = Inr cmac \<and> length uid = 7 \<and> length ctr = 3 \<and> length cmac = 8
        \<and> verify_sun_message X (kms_spec X i (ChipReq brand_id uid e)) uid ctr cmac)"

text \<open>The mother card that answers for an asset, and its holder's proof.\<close>

definition authority_proved ::
  "('z externs_scheme) \<Rightarrow> bytes \<times> string \<Rightarrow> database \<Rightarrow> string \<Rightarrow> authority_proof \<Rightarrow> bool" where
  "authority_proved X i d aid proof \<longleftrightarrow>
     (\<exists>dev. bound_device aid d = Some dev \<and> ad_status dev = ''Active'' \<and>
       (case proof of
          VirtualToken user_id token \<Rightarrow>
            ad_authority_type dev = ''VIRTUAL_APP'' \<and> ad_bound_user_id dev = Some user_id
            \<and> ad_virtual_credential_hash dev = Some token
            \<and> token = credential_hash X (kms_spec X i (MotherReq (ad_brand_id dev)
                (as_bytes (ad_authority_uid dev)) (ad_key_epoch dev))) (ad_authority_uid dev)
        | PhysicalNfc u c m \<Rightarrow>
            ad_authority_type dev = ''PHYSICAL_NFC''
            \<and> (\<exists>chip n. ad_physical_chip_uid dev = Some chip \<and> to_uppercase X u = to_uppercase X chip
                 \<and> parse_ctr X c = Inr n \<and> ctr_advances n (ad_last_known_ctr dev))
            \<and> tap_valid X i (ad_brand_id dev) (ad_key_epoch dev) u c m))"

lemma child_tag_Inr:
  assumes "verify_child_tag X b u c m w = (Inr x, w')" and "kms_inv X (w_kms w)"
  shows "\<exists>child. find (\<lambda>a. as_uid a = Some u) (db_assets (w_db w)) = Some child
    \<and> tap_valid X (kms_ident (w_kms w)) b (as_epoch child) u c m
    \<and> w_db w' = w_db w \<and> kms_inv X (w_kms w') \<and> kms_ident (w_kms w') = kms_ident (w_kms w)"
proof -
  let ?w1 = "w\<lparr>w_faults := tl (w_faults w)\<rparr>"
  from assms(1) obtain uid ctr cmac child key where
    hex: "x_hex_decode X u = Inr uid" "x_hex_decode X c = Inr ctr" "x_hex_decode X m = Inr cmac"
      "length uid = 7" "length ctr = 3" "length cmac = 8"
    and child: "find (\<lambda>a. as_uid a = Some u) (db_assets (w_db w)) = Some child"
    and k: "kms_or_error ''KMS derive_chip_key failed: ''
        (\<lambda>k. derive_chip_key X k b uid (as_epoch child)) ?w1 = (Inr key, w')"
    and sun: "verify_sun_message X key uid ctr cmac"
    by (auto simp: verify_child_tag_def decode_hex_def run_inv map_sum_Inr)
  have "kms_inv X (w_kms ?w1)" using assms(2) by simp
  note key = chip_key_Inr [OF k this]
  with hex sun have "tap_valid X (kms_ident (w_kms w)) b (as_epoch child) u c m"
    unfolding tap_valid_def by auto
  with child key kms_or_error_db [OF k] show ?thesis by auto
qed

text \<open>An operation that may move mother-card counters and nothing else of the database.\<close>

definition devices_only :: "database \<Rightarrow> database \<Rightarrow> bool" where
  "devices_only d d' \<longleftrightarrow> (\<exists>devices. d' = d\<lparr>db_devices := devices\<rparr>)"

interpretation devices_only: db_preorder devices_only
proof
  show "devices_only d d" for d
    unfolding devices_only_def by (rule exI [of _ "db_devices d"]) simp
qed (auto simp: devices_only_def)

lemma devices_only_authority: "keeps (on_db devices_only) (verify_authority X aid p)"
proof -
  have ctr: "keeps (on_db devices_only) (atomic_update_ctr i n)" for i n
    unfolding atomic_update_ctr_def Let_def
    by (rule devices_only.keeps_sql) (auto simp: devices_only_def)
  show ?thesis
    unfolding verify_authority_def verify_virtual_authority_def verify_physical_authority_def
      check_physical_tap_def fetch_authority_device_by_asset_def Let_def
    by (cases p) (auto intro!: keeps_intro devices_only.keeps_kms_or_error ctr)
qed


lemma authority_Inr:
  assumes "verify_authority X aid p w = (Inr res, w')" and "az_authorized res" and "kms_inv X (w_kms w)"
  shows "authority_proved X (kms_ident (w_kms w)) (w_db w) aid p"
proof (cases p)
  case (VirtualToken user token)
  with assms(1,2) obtain dev w1 key where
    f: "fetch_authority_device_by_asset aid w = (Inr dev, w1)"
    and dev: "ad_authority_type dev = ''VIRTUAL_APP''" "ad_status dev = ''Active''"
      "ad_bound_user_id dev = Some user" "ad_virtual_credential_hash dev = Some token"
    and k: "kms_or_error ''KMS derive_mother_key failed: '' (\<lambda>k. derive_mother_key X k (ad_brand_id dev)
        (as_bytes (ad_authority_uid dev)) (ad_key_epoch dev)) w1 = (Inr key, w')"
    and h: "credential_hash X key (ad_authority_uid dev) = token"
    by (auto simp: verify_authority_def verify_virtual_authority_def refuse_def grant_def run_inv Let_def
        split: if_splits option.splits)
  have "kms_inv X (w_kms w1)" using assms(3) fetch_device_Inr [OF f] by simp
  from mother_key_Inr [OF k this] h dev fetch_device_Inr [OF f] VirtualToken show ?thesis
    by (auto simp: authority_proved_def)
next
  case (PhysicalNfc u c m)
  with assms(1,2) obtain dev w1 chip n where
    f: "fetch_authority_device_by_asset aid w = (Inr dev, w1)"
    and dev: "ad_authority_type dev = ''PHYSICAL_NFC''" "ad_status dev = ''Active''"
      "ad_physical_chip_uid dev = Some chip" "to_uppercase X u = to_uppercase X chip"
      "parse_ctr X c = Inr n" "ctr_advances n (ad_last_known_ctr dev)"
    and tap: "check_physical_tap X dev u c m n w1 = (Inr res, w')"
    by (auto simp: verify_authority_def verify_physical_authority_def refuse_def ctr_advances_def run_inv
        split: if_splits option.splits sum.splits)
  from tap assms(2) obtain uid ctr cmac key w2 where
    hex: "x_hex_decode X u = Inr uid" "x_hex_decode X c = Inr ctr" "x_hex_decode X m = Inr cmac"
      "length uid = 7" "length ctr = 3" "length cmac = 8"
    and k: "kms_or_error ''KMS derive_chip_key failed: ''
          (\<lambda>k. derive_chip_key X k (ad_brand_id dev) uid (ad_key_epoch dev)) w1 = (Inr key, w2)"
    and sun: "verify_sun_message X key uid ctr cmac"
    by (fastforce simp: check_physical_tap_def decode_hex_def refuse_def grant_def run_inv map_sum_Inr
        split: if_splits)
  have "kms_inv X (w_kms w1)" using assms(3) fetch_device_Inr [OF f] by simp
  with chip_key_Inr [OF k] hex sun fetch_device_Inr [OF f]
  have "tap_valid X (kms_ident (w_kms w)) (ad_brand_id dev) (ad_key_epoch dev) u c m"
    unfolding tap_valid_def by auto
  with dev fetch_device_Inr [OF f] PhysicalNfc show ?thesis by (auto simp: authority_proved_def)
qed

section \<open>What a transfer needs and does\<close>

lemma authorized:
  assumes "authorize_transfer X aid actor payload w = (Inr (rec, owner), w')" and "kms_inv X (w_kms w)"
  shows "\<exists>row child. find (asset_with_id aid) (db_assets (w_db w)) = Some row
    \<and> decode_asset row = Inr rec \<and> ar_current_state rec \<in> {LegallySold, Transferred}
    \<and> as_owner_id row = Some owner \<and> actor_id actor = owner
    \<and> find (\<lambda>a. as_uid a = Some (tq_child_uid payload)) (db_assets (w_db w)) = Some child
    \<and> tap_valid X (kms_ident (w_kms w)) (as_brand_id row) (as_epoch child)
        (tq_child_uid payload) (tq_child_ctr payload) (tq_child_cmac payload)
    \<and> authority_proved X (kms_ident (w_kms w)) (w_db w) aid (tq_authority_proof payload)
    \<and> devices_only (w_db w) (w_db w')"
proof -
  from assms(1) obtain w1 w2 row w3 res where f: "fetch_asset aid w = (Inr rec, w1)"
    and st: "ar_current_state rec \<in> {LegallySold, Transferred}"
    and row: "fetch_first (asset_with_id aid) db_assets w1 = (Inr (Some row), w2)"
    and own: "as_owner_id row = Some owner" "actor_id actor = owner"
    and c: "verify_child_tag X (ar_brand_id rec) (tq_child_uid payload)
        (tq_child_ctr payload) (tq_child_cmac payload) w2 = (Inr (), w3)"
    and a: "verify_authority X aid (tq_authority_proof payload) w3 = (Inr res, w')" "az_authorized res"
    by (auto simp: authorize_transfer_def try_bind_Inr required_Inr check_Inr pure_Inr bind_eq_Some_conv)
  have w1: "w_db w1 = w_db w" "w_kms w1 = w_kms w" and "asset_at aid rec (w_db w)"
    using f by (auto simp: fetch_asset_def run_inv asset_at_def)
  have w2: "w_db w2 = w_db w1" "w_kms w2 = w_kms w1" "find (asset_with_id aid) (db_assets (w_db w1)) = Some row"
    using row by (auto simp: fetch_Inr)
  with w1 \<open>asset_at aid rec (w_db w)\<close> have rec: "decode_asset row = Inr rec" by (auto simp: asset_at_def)
  then have "ar_brand_id rec = as_brand_id row" by (auto simp: decode_asset_def and_then_Inr)
  moreover from child_tag_Inr [OF c] w1 w2 assms(2) obtain child where
    "find (\<lambda>a. as_uid a = Some (tq_child_uid payload)) (db_assets (w_db w)) = Some child"
    "tap_valid X (kms_ident (w_kms w)) (ar_brand_id rec) (as_epoch child)
        (tq_child_uid payload) (tq_child_ctr payload) (tq_child_cmac payload)"
    and w3: "w_db w3 = w_db w" "kms_inv X (w_kms w3)" "kms_ident (w_kms w3) = kms_ident (w_kms w)"
    by auto
  moreover have "authority_proved X (kms_ident (w_kms w)) (w_db w) aid (tq_authority_proof payload)"
    using authority_Inr [OF a w3(2)] w3 by simp
  moreover have "devices_only (w_db w) (w_db w')"
    using keepsD [OF devices_only_authority a(1)] w3 by (simp add: on_db_def)
  ultimately show ?thesis using w1 w2 rec st own by auto
qed

lemma insert_transfer_Inr:
  "insert_transfer X aid from to ty key tr w = (Inr i, w') \<Longrightarrow>
    w_db w' = (w_db w)\<lparr>db_transfers := db_transfers (w_db w) @
      [\<lparr>tr_transfer_id = i, tr_asset_id = aid, tr_from_user_id = from, tr_to_user_id = to,
        tr_from_owner_id = from, tr_to_owner_id = to, tr_transfer_type = ty, tr_idempotency_key = key,
        tr_trace_id = tr, tr_status = Some ''pending'', tr_transferred_at = w_now w\<rparr>]\<rparr>
    \<and> w_now w' = w_now w"
  by (auto simp: insert_transfer_def draw_def utc_now_def run_inv constrained_def split: option.splits)

lemma transfer_trace_db: "transfer_trace X hs w = (r, w') \<Longrightarrow> w_db w' = w_db w \<and> w_now w' = w_now w"
  by (auto simp: transfer_trace_def draw_def act_simps split: option.splits)

lemma attempted_event:
  "insert_event X e w = (r, w') \<Longrightarrow> w_db w' \<in> {w_db w, append_event e (w_db w)}"
  by (cases r) (auto simp: insert_event_def dest: sql_Inl_db,
      auto simp: insert_event_def [symmetric] dest: insert_event_Inr)

lemma transfer_steps:
  assumes "transfer_handler X aid actor hs payload w = (Inr resp, w')" and "kms_inv X (w_kms w)"
  obtains key rec w1 now w2 tr w3 tid w4 eid w5 r where
    "required_header hs ''X-Idempotency-Key'' = Inr key"
    and "authorize_transfer X aid actor payload w = (Inr (rec, actor_id actor), w1)"
    and "execute_sql (update_asset aid (\<lambda>a. a\<lparr>as_current_state := as_db_str Transferred,
        as_previous_state := Some (as_db_str (ar_current_state rec)),
        as_owner_id := Some (tq_new_owner_id payload), as_updated_at := now\<rparr>)) w1 = (Inr (), w2)"
    and "transfer_trace X hs w2 = (Inr tr, w3)"
    and "insert_transfer X aid (actor_id actor) (tq_new_owner_id payload) ''CONSUMER_TO_CONSUMER'' key
        (x_uuid_text X tr) w3 = (Inr tid, w4)"
    and "insert_event X (transfer_event actor hs aid (ar_current_state rec) key tr eid now) w5 = (r, w')"
    and "w_db w5 = w_db w4" and "resp_status resp = 200"
  using assms(1)
  by (auto simp: transfer_handler_def try_bind_Inr attempt_Inr lift_Inr pure_Inr utc_now_def
      draw_def ok_json_def intro!: that dest: authorized [OF _ assms(2)])

text \<open>
  C5. A transfer needs four proofs: the asset is sold, the caller is its owner, the tap is
  authentic under the keys of the asset's brand, and the mother card bound to the asset is proved,
  by the stored credential of its user (which is the one the key service derives) or by a tap whose
  counter advances. It hands the asset over, opens one pending transfer from owner to recipient,
  appends at most its audit event, and changes nothing else but mother-card rows.
\<close>

theorem transfer_effect:
  assumes "transfer_handler X aid actor hs payload w = (Inr resp, w')" and "kms_inv X (w_kms w)"
  shows "\<exists>row rec child key now t tr eid d. resp_status resp = 200
    \<and> required_header hs ''X-Idempotency-Key'' = Inr key
    \<and> find (asset_with_id aid) (db_assets (w_db w)) = Some row \<and> decode_asset row = Inr rec
    \<and> ar_current_state rec \<in> {LegallySold, Transferred} \<and> as_owner_id row = Some (actor_id actor)
    \<and> find (\<lambda>a. as_uid a = Some (tq_child_uid payload)) (db_assets (w_db w)) = Some child
    \<and> tap_valid X (kms_ident (w_kms w)) (as_brand_id row) (as_epoch child)
        (tq_child_uid payload) (tq_child_ctr payload) (tq_child_cmac payload)
    \<and> authority_proved X (kms_ident (w_kms w)) (w_db w) aid (tq_authority_proof payload)
    \<and> tr_asset_id t = aid \<and> tr_from_user_id t = actor_id actor
    \<and> tr_to_user_id t = tq_new_owner_id payload \<and> tr_status t = Some ''pending''
    \<and> d = (w_db w)\<lparr>db_devices := db_devices d,
        db_assets := update_rows (asset_with_id aid) (\<lambda>a. a\<lparr>as_current_state := ''Transferred'',
          as_previous_state := Some (as_db_str (ar_current_state rec)),
          as_owner_id := Some (tq_new_owner_id payload), as_updated_at := now\<rparr>) (db_assets (w_db w)),
        db_transfers := db_transfers (w_db w) @ [t]\<rparr>
    \<and> w_db w' \<in> {d, append_event (transfer_event actor hs aid (ar_current_state rec) key tr eid now) d}"
proof -
  let ?new = "tq_new_owner_id payload"
  obtain key rec w1 now w2 tr w3 tid w4 eid w5 r where
    key: "required_header hs ''X-Idempotency-Key'' = Inr key"
    and a: "authorize_transfer X aid actor payload w = (Inr (rec, actor_id actor), w1)"
    and u: "execute_sql (update_asset aid (\<lambda>a. a\<lparr>as_current_state := as_db_str Transferred,
        as_previous_state := Some (as_db_str (ar_current_state rec)), as_owner_id := Some ?new,
        as_updated_at := now\<rparr>)) w1 = (Inr (), w2)"
    and tr: "transfer_trace X hs w2 = (Inr tr, w3)"
    and t: "insert_transfer X aid (actor_id actor) ?new ''CONSUMER_TO_CONSUMER'' key (x_uuid_text X tr) w3
        = (Inr tid, w4)"
    and e: "insert_event X (transfer_event actor hs aid (ar_current_state rec) key tr eid now) w5 = (r, w')"
    and w5: "w_db w5 = w_db w4" and resp: "resp_status resp = 200"
    by (rule transfer_steps [OF assms])
  from authorized [OF a assms(2)] obtain row child devices where
    facts: "find (asset_with_id aid) (db_assets (w_db w)) = Some row" "decode_asset row = Inr rec"
      "ar_current_state rec \<in> {LegallySold, Transferred}" "as_owner_id row = Some (actor_id actor)"
      "find (\<lambda>a. as_uid a = Some (tq_child_uid payload)) (db_assets (w_db w)) = Some child"
      "tap_valid X (kms_ident (w_kms w)) (as_brand_id row) (as_epoch child)
        (tq_child_uid payload) (tq_child_ctr payload) (tq_child_cmac payload)"
      "authority_proved X (kms_ident (w_kms w)) (w_db w) aid (tq_authority_proof payload)"
    and w1: "w_db w1 = (w_db w)\<lparr>db_devices := devices\<rparr>"
    unfolding devices_only_def by blast
  define t where "t = \<lparr>tr_transfer_id = tid, tr_asset_id = aid, tr_from_user_id = actor_id actor,
    tr_to_user_id = ?new, tr_from_owner_id = actor_id actor, tr_to_owner_id = ?new,
    tr_transfer_type = ''CONSUMER_TO_CONSUMER'', tr_idempotency_key = key,
    tr_trace_id = x_uuid_text X tr, tr_status = Some ''pending'', tr_transferred_at = w_now w3\<rparr>"
  have "w_db w2 = update_asset aid (\<lambda>a. a\<lparr>as_current_state := as_db_str Transferred,
        as_previous_state := Some (as_db_str (ar_current_state rec)), as_owner_id := Some ?new,
        as_updated_at := now\<rparr>) (w_db w1)" using u by (simp add: execute_Inr)
  moreover have "w_db w3 = w_db w2" using transfer_trace_db [OF tr] by simp
  moreover have "w_db w4 = (w_db w3)\<lparr>db_transfers := db_transfers (w_db w3) @ [t]\<rparr>"
    using insert_transfer_Inr [OF t] unfolding t_def by simp
  ultimately have d: "w_db w4 = (w_db w)\<lparr>db_devices := db_devices (w_db w4),
        db_assets := update_rows (asset_with_id aid) (\<lambda>a. a\<lparr>as_current_state := ''Transferred'',
          as_previous_state := Some (as_db_str (ar_current_state rec)),
          as_owner_id := Some ?new, as_updated_at := now\<rparr>) (db_assets (w_db w)),
        db_transfers := db_transfers (w_db w) @ [t]\<rparr>"
    using w1 by (simp add: update_asset_def)
  have t_fields: "tr_asset_id t = aid" "tr_from_user_id t = actor_id actor" "tr_to_user_id t = ?new"
    "tr_status t = Some ''pending''" by (simp_all add: t_def)
  show ?thesis
    by (rule exI [of _ row], rule exI [of _ rec], rule exI [of _ child], rule exI [of _ key],
        rule exI [of _ now], rule exI [of _ t], rule exI [of _ tr], rule exI [of _ eid],
        rule exI [of _ "w_db w4"])
      (use resp key facts t_fields d attempted_event [OF e] w5 in simp)
qed

section \<open>The tap names no asset\<close>

text \<open>The key service after a derivation for a brand: it does not depend on what was derived.\<close>

definition after_brand :: "('z externs_scheme) \<Rightarrow> string \<Rightarrow> software_kms \<Rightarrow> software_kms" where
  "after_brand X b k = snd (with_brand_key X k b (\<lambda>_. ()))"

lemma chip_key_after: "snd (derive_chip_key X k b u e) = after_brand X b k"
  by (simp add: derive_chip_key_def after_brand_def with_brand_key_def brand_key_fast_def
      brand_key_slow_def Let_def split: option.split prod.split)

lemma chip_key_run_after:
  assumes "kms_inv X (w_kms w)"
  shows "kms_or_error what (\<lambda>k. derive_chip_key X k b u e) w =
    (Inr (kms_spec X (kms_ident (w_kms w)) (ChipReq b u e)), w\<lparr>w_kms := after_brand X b (w_kms w)\<rparr>)"
proof -
  obtain r k' where run: "derive_chip_key X (w_kms w) b u e = (r, k')" by fastforce
  with software.chip_law [OF assms this] chip_key_after [of X "w_kms w" b u e] show ?thesis
    by (auto simp: kms_or_error_def kms_call_def map_err_def)
qed

lemma child_tag_iff:
  assumes "kms_inv X (w_kms w)" and "find (\<lambda>a. as_uid a = Some u) (db_assets (w_db w)) = Some child"
  shows "verify_child_tag X b u c m w = (Inr x, w') \<longleftrightarrow>
    tap_valid X (kms_ident (w_kms w)) b (as_epoch child) u c m
    \<and> (\<forall>m fs. w_faults w \<noteq> Some m # fs)
    \<and> w' = w\<lparr>w_faults := tl (w_faults w), w_kms := after_brand X b (w_kms w)\<rparr>"
  using assms
  by (auto simp: verify_child_tag_def decode_hex_def tap_valid_def run_inv map_sum_Inr chip_key_run_after)

text \<open>
  C17. The tap authorises any asset of the brand: in a transfer that succeeds, the presented tap may
  be replaced by any authentic tap of any stored tag under the brand's keys, recorded at any time,
  and the transfer gives the very same answer and the very same world. Neither the tag bound to
  the asset nor a counter is looked at.
\<close>

theorem any_tag_of_brand_transfers:
  assumes "transfer_handler X aid actor hs payload w = (Inr resp, w')" and "kms_inv X (w_kms w)"
    and "find (asset_with_id aid) (db_assets (w_db w)) = Some row"
    and "find (\<lambda>a. as_uid a = Some u) (db_assets (w_db w)) = Some other"
    and "tap_valid X (kms_ident (w_kms w)) (as_brand_id row) (as_epoch other) u c m"
  shows "transfer_handler X aid actor hs
    (payload\<lparr>tq_child_uid := u, tq_child_ctr := c, tq_child_cmac := m\<rparr>) w = (Inr resp, w')"
proof -
  let ?p = "payload\<lparr>tq_child_uid := u, tq_child_ctr := c, tq_child_cmac := m\<rparr>"
  have "authorize_transfer X aid actor ?p w = (Inr z, w1)"
    if run: "authorize_transfer X aid actor payload w = (Inr z, w1)" for z w1
  proof -
    obtain rec owner where z: "z = (rec, owner)" by fastforce
    from run[unfolded z] obtain v1 v2 r v3 res where f: "fetch_asset aid w = (Inr rec, v1)"
      and st: "ar_current_state rec \<in> {LegallySold, Transferred}"
      and own: "fetch_first (asset_with_id aid) db_assets v1 = (Inr (Some r), v2)"
        "as_owner_id r = Some owner" "actor_id actor = owner"
      and t: "verify_child_tag X (ar_brand_id rec) (tq_child_uid payload)
          (tq_child_ctr payload) (tq_child_cmac payload) v2 = (Inr (), v3)"
      and a: "verify_authority X aid (tq_authority_proof payload) v3 = (Inr res, w1)" "az_authorized res"
      by (auto simp: authorize_transfer_def try_bind_Inr required_Inr check_Inr pure_Inr bind_eq_Some_conv)
    have v2: "w_db v2 = w_db w" "w_kms v2 = w_kms w" using f own(1) by (auto simp: fetch_asset_def run_inv)
    have "ar_brand_id rec = as_brand_id row"
      using f assms(3) by (auto simp: fetch_asset_def run_inv decode_asset_def and_then_Inr)
    with child_tag_Inr [OF t] child_tag_iff [of X v2] v2 t assms(2,4,5)
    have "verify_child_tag X (ar_brand_id rec) u c m v2 = (Inr (), v3)" by auto
    with f st own a show ?thesis
      unfolding z by (auto simp: authorize_transfer_def try_bind_Inr required_Inr check_Inr pure_Inr bind_eq_Some_conv)
  qed
  note same = this
  from assms(1) obtain key z w1 where h: "required_header hs ''X-Idempotency-Key'' = Inr key"
    and a: "authorize_transfer X aid actor payload w = (Inr z, w1)"
    by (simp only: transfer_handler_def try_bind_Inr lift_Inr) blast
  have "try_bind (lift (Inr key)) k w = k key w" for k :: "string \<Rightarrow> response op"
    by (rule try_bind_run) (simp add: lift_simps)
  moreover have "try_bind (authorize_transfer X aid actor payload) k w = k z w1"
    "try_bind (authorize_transfer X aid actor ?p) k w = k z w1" for k :: "_ \<Rightarrow> response op"
    using a same [OF a] by (simp_all add: try_bind_def)
  ultimately show ?thesis
    using assms(1) by (simp add: transfer_handler_def h)
qed

section \<open>Witnesses\<close>

definition demo_two_tags :: world where
  "demo_two_tags = (demo_world LegallySold demo_virtual)\<lparr>w_db := (demo_db LegallySold demo_virtual)
     \<lparr>db_assets := [demo_asset LegallySold,
        (demo_asset Activated)\<lparr>as_asset_id := ''a2'', as_uid := Some ''05050505050505''\<rparr>]\<rparr>\<rparr>"

definition demo_transfer :: transfer_request where
  "demo_transfer = \<lparr>tq_new_owner_id = ''user_2'', tq_child_uid = ''04040404040404'',
     tq_child_ctr = ''050000'', tq_child_cmac = ''0000000000000000'',
     tq_authority_proof = VirtualToken ''user_1'' ''h''\<rparr>"

abbreviation demo_owner :: actor_context where
  "demo_owner \<equiv> demo_actor ''user_1'' Consumer"

lemma demo_transfers: "(case transfer_handler demo_x ''a1'' demo_owner demo_headers demo_transfer demo_two_tags of
    (Inr resp, w') \<Rightarrow> resp_status resp | _ \<Rightarrow> 0) = 200"
  by code_simp

lemma demo_two_tags_kms: "kms_inv demo_x (w_kms demo_two_tags)"
  by (simp add: demo_two_tags_def demo_world_def demo_kms_def kms_inv_empty)

lemma demo_transfer_runs:
  obtains resp w' where "transfer_handler demo_x ''a1'' demo_owner demo_headers demo_transfer demo_two_tags
    = (Inr resp, w')"
  using demo_transfers by (auto split: prod.splits sum.splits)

lemma transfers_of_update:
  "d = d0\<lparr>db_devices := a, db_assets := b, db_transfers := c\<rparr> \<Longrightarrow> db_transfers d = c"
  by (drule arg_cong [where f = db_transfers]) simp

theorem transfer_effect_witness:
  "\<exists>resp w' t. transfer_handler demo_x ''a1'' demo_owner demo_headers demo_transfer demo_two_tags = (Inr resp, w')
     \<and> db_transfers (w_db w') = [t] \<and> tr_to_user_id t = ''user_2'' \<and> tr_status t = Some ''pending''"
proof -
  obtain resp w' where run: "transfer_handler demo_x ''a1'' demo_owner demo_headers demo_transfer demo_two_tags
    = (Inr resp, w')" by (rule demo_transfer_runs)
  have none: "db_transfers (w_db demo_two_tags) = []" by (simp add: demo_two_tags_def demo_db_def)
  from transfer_effect [OF run demo_two_tags_kms] obtain t d e where
    t: "tr_to_user_id t = tq_new_owner_id demo_transfer" "tr_status t = Some ''pending''"
    and d: "w_db w' \<in> {d, append_event e d}" "db_transfers d = db_transfers (w_db demo_two_tags) @ [t]"
    by (elim exE conjE) (drule transfers_of_update, blast)
  from d(2) have "db_transfers d = [t]" by (simp add: none)
  with run t d(1) show ?thesis by (auto simp: demo_transfer_def append_event_def)
qed

theorem any_tag_of_brand_transfers_witness:
  "\<exists>resp w'. transfer_handler demo_x ''a1'' demo_owner demo_headers
      (demo_transfer\<lparr>tq_child_uid := ''05050505050505'', tq_child_ctr := ''060000'',
         tq_child_cmac := ''0000000000000000''\<rparr>) demo_two_tags = (Inr resp, w')
     \<and> find (\<lambda>a. as_uid a = Some ''05050505050505'') (db_assets (w_db demo_two_tags)) \<noteq>
       find (asset_with_id ''a1'') (db_assets (w_db demo_two_tags))"
proof -
  obtain resp w' where run: "transfer_handler demo_x ''a1'' demo_owner demo_headers demo_transfer demo_two_tags
    = (Inr resp, w')" by (rule demo_transfer_runs)
  have rows: "find (asset_with_id ''a1'') (db_assets (w_db demo_two_tags)) = Some (demo_asset LegallySold)"
    "find (\<lambda>a. as_uid a = Some ''05050505050505'') (db_assets (w_db demo_two_tags))
      = Some ((demo_asset Activated)\<lparr>as_asset_id := ''a2'', as_uid := Some ''05050505050505''\<rparr>)"
    by (simp_all add: demo_two_tags_def demo_asset_def asset_with_id_def)
  have "tap_valid demo_x i b e ''05050505050505'' ''060000'' ''0000000000000000''" for i b e
    by (simp add: tap_valid_def demo_x_def demo_hex_def verify_sun_message_def constant_time_eq_def
        cmac_compute_truncated_def cmac_compute_full_def Let_def numeral_eq_Suc)
  from any_tag_of_brand_transfers [OF run demo_two_tags_kms rows this] rows show ?thesis
    by (simp add: demo_asset_def)
qed

end
