(* ===== verification/Wallet_Snapshot.thy ===== *)
theory Wallet_Snapshot
  imports Ctr_Calibrate "HOL-Library.Char_ord" "HOL-Library.List_Lexorder"
    "HOL-Library.Product_Lexorder"
begin

text \<open>
  \<^verbatim>\<open>cache/wallet_snapshot.rs\<close> and \<^verbatim>\<open>cli/wallet_snapshot_cli.rs\<close>: the Redis view of
  the assets a user holds, a sorted set per user and a hash with its size, how it is read through
  to PostgreSQL, and the operator's commands on it. Scores are the creation times in seconds,
  which a double represents exactly. No handler of the server reaches this module.
\<close>

section \<open>Redis commands on sorted sets and hashes\<close>

text \<open>
  A command on a key of another type is refused. A sorted set is listed by score, then by member
  (bytewise), and an empty one does not exist. Counters have keys of their own (\<open>ctr_key\<close>).
\<close>

definition redis_cmd ::
  "(redis_store \<Rightarrow> ('a \<times> redis_store) option) \<Rightarrow> (world, unit, 'a) act" where
  "redis_cmd f =
     try_bind (redis_call (\<lambda>r. case f r of None \<Rightarrow> (None, r) | Some (x, r') \<Rightarrow> (Some x, r')))
       (\<lambda>reply. of_result (ok_or () reply))"

definition zset_of :: "redis_store \<Rightarrow> string \<Rightarrow> (string \<times> int) list" where
  "zset_of r key = unwrap_or [] (rd_zsets r key)"

definition put_zset :: "string \<Rightarrow> (string \<times> int) list \<Rightarrow> redis_store \<Rightarrow> redis_store" where
  "put_zset key z r = r\<lparr>rd_zsets := (rd_zsets r)(key := if z = [] then None else Some z)\<rparr>"

definition zset_cmd ::
  "string \<Rightarrow> ((string \<times> int) list \<Rightarrow> 'a \<times> (string \<times> int) list) \<Rightarrow> (world, unit, 'a) act" where
  "zset_cmd key f =
     redis_cmd (\<lambda>r. if rd_hashes r key \<noteq> None then None
       else (case f (zset_of r key) of (x, z) \<Rightarrow> Some (x, put_zset key z r)))"

definition by_score :: "string \<times> int \<Rightarrow> int \<times> string" where
  "by_score e = (snd e, fst e)"

definition zadd_entry :: "string \<Rightarrow> int \<Rightarrow> (string \<times> int) list \<Rightarrow> (string \<times> int) list" where
  "zadd_entry m score z = insort_key by_score (m, score) (filter (\<lambda>e. fst e \<noteq> m) z)"

definition zadd :: "string \<Rightarrow> string \<Rightarrow> int \<Rightarrow> (world, unit, unit) act" where
  "zadd key m score = zset_cmd key (\<lambda>z. ((), zadd_entry m score z))"

definition zrem :: "string \<Rightarrow> string \<Rightarrow> (world, unit, unit) act" where
  "zrem key m = zset_cmd key (\<lambda>z. ((), filter (\<lambda>e. fst e \<noteq> m) z))"

definition zcard :: "string \<Rightarrow> (world, unit, nat) act" where
  "zcard key = zset_cmd key (\<lambda>z. (length z, z))"

text \<open>Positions from \<open>start\<close> to \<open>stop\<close>; a negative one counts from the end.\<close>

definition redis_range :: "int \<Rightarrow> int \<Rightarrow> 'r list \<Rightarrow> 'r list" where
  "redis_range start stop xs =
     (let n = int (length xs);
          s = (if start < 0 then max 0 (n + start) else start);
          e = (if stop < 0 then n + stop else stop)
      in if e < s \<or> n \<le> s then [] else take (nat (min e (n - 1) - s + 1)) (drop (nat s) xs))"

definition zrevrange :: "string \<Rightarrow> int \<Rightarrow> int \<Rightarrow> (world, unit, string list) act" where
  "zrevrange key start stop =
     zset_cmd key (\<lambda>z. (map fst (redis_range start stop (rev z)), z))"

definition hash_cmd ::
  "string \<Rightarrow> ((string \<rightharpoonup> string) option \<Rightarrow> ('a \<times> (string \<rightharpoonup> string) option) option)
    \<Rightarrow> (world, unit, 'a) act" where
  "hash_cmd key f =
     redis_cmd (\<lambda>r. if rd_zsets r key \<noteq> None then None
       else map_option (\<lambda>(x, h). (x, r\<lparr>rd_hashes := (rd_hashes r)(key := h)\<rparr>)) (f (rd_hashes r key)))"

text \<open>A stored field is an integer when it is the decimal text of one in 64 bits.\<close>

definition int_text :: "int \<Rightarrow> string" where
  "int_text i = (if i < 0 then CHR ''-'' # dec (nat (- i)) else dec (nat i))"

definition digits_text :: "string \<Rightarrow> nat" where
  "digits_text = foldl (\<lambda>n c. 10 * n + (of_char c - 48)) 0"

definition redis_integer :: "string \<Rightarrow> int option" where
  "redis_integer s =
     (let v = (case s of CHR ''-'' # ds \<Rightarrow> - int (digits_text ds) | _ \<Rightarrow> int (digits_text s))
      in if int_text v = s \<and> - (2 ^ 63) \<le> v \<and> v < 2 ^ 63 then Some v else None)"

definition hset :: "string \<Rightarrow> (string \<times> string) list \<Rightarrow> (world, unit, unit) act" where
  "hset key kvs =
     hash_cmd key (\<lambda>h. Some ((), Some (unwrap_or Map.empty h ++ map_of (rev kvs))))"

definition hincr :: "string \<Rightarrow> string \<Rightarrow> int \<Rightarrow> (world, unit, unit) act" where
  "hincr key field delta =
     hash_cmd key (\<lambda>h. Option.bind
       (case unwrap_or Map.empty h field of None \<Rightarrow> Some 0 | Some s \<Rightarrow> redis_integer s) (\<lambda>v.
       if - (2 ^ 63) \<le> v + delta \<and> v + delta < 2 ^ 63
       then Some ((), Some ((unwrap_or Map.empty h)(field \<mapsto> int_text (v + delta)))) else None))"

definition hgetall :: "string \<Rightarrow> (world, unit, (string \<rightharpoonup> string) option) act" where
  "hgetall key = hash_cmd key (\<lambda>h. Some (h, h))"

definition redis_del :: "string \<Rightarrow> (world, unit, unit) act" where
  "redis_del key =
     redis_call (\<lambda>r. ((), r\<lparr>rd_counters := (rd_counters r)(key := None),
       rd_zsets := (rd_zsets r)(key := None), rd_hashes := (rd_hashes r)(key := None)\<rparr>))"

section \<open>\<^verbatim>\<open>cache/wallet_snapshot.rs\<close>\<close>

text \<open>The key of the hash and the key of the sorted set.\<close>

definition wallet_keys :: "string \<Rightarrow> string \<times> string" where
  "wallet_keys user_id = (''wallet:'' @ user_id, ''wallet:'' @ user_id @ '':assets'')"

abbreviation wallet_hash_key :: "string \<Rightarrow> string" where
  "wallet_hash_key u \<equiv> fst (wallet_keys u)"

abbreviation wallet_set_key :: "string \<Rightarrow> string" where
  "wallet_set_key u \<equiv> snd (wallet_keys u)"

definition no_redis :: "world \<Rightarrow> bool" where
  "no_redis w \<longleftrightarrow> w_redis w = None"

definition add_asset ::
  "('z externs_scheme) \<Rightarrow> string \<Rightarrow> string \<Rightarrow> int \<Rightarrow> (world, 'e, unit) act" where
  "add_asset X user_id asset_id score =
     try_bind (gets no_redis) (\<lambda>none.
     if none then ret ()
     else try_bind (attempt (zadd (wallet_set_key user_id) asset_id score)) (\<lambda>r.
       case r of
         Inl _ \<Rightarrow> ret ()
       | Inr _ \<Rightarrow>
           try_bind (attempt (hincr (wallet_hash_key user_id) ''asset_count'' 1)) (\<lambda>_.
           try_bind utc_now (\<lambda>now.
           try_bind (attempt (hset (wallet_hash_key user_id) [(''updated_at'', x_rfc3339 X now)]))
             (\<lambda>_. ret ())))))"

definition remove_asset :: "string \<Rightarrow> string \<Rightarrow> (world, 'e, unit) act" where
  "remove_asset user_id asset_id =
     try_bind (gets no_redis) (\<lambda>none.
     if none then ret ()
     else try_bind (attempt (zrem (wallet_set_key user_id) asset_id)) (\<lambda>r.
       case r of
         Inl _ \<Rightarrow> ret ()
       | Inr _ \<Rightarrow>
           try_bind (attempt (hincr (wallet_hash_key user_id) ''asset_count'' (- 1))) (\<lambda>_. ret ())))"

definition on_asset_state_change ::
  "('z externs_scheme) \<Rightarrow> string \<Rightarrow> string option \<Rightarrow> string option \<Rightarrow> int \<Rightarrow> (world, 'e, unit) act" where
  "on_asset_state_change X asset_id old_owner new_owner created_at =
     try_bind (case old_owner of None \<Rightarrow> ret () | Some old \<Rightarrow> remove_asset old asset_id) (\<lambda>_.
     case new_owner of None \<Rightarrow> ret () | Some new \<Rightarrow> add_asset X new asset_id created_at)"

text \<open>The rows of a user, the latest first.\<close>

definition owned_assets :: "string \<Rightarrow> database \<Rightarrow> asset_row list" where
  "owned_assets user_id d =
     order_desc as_created_at (filter (\<lambda>a. as_owner_id a = Some user_id) (db_assets d))"

datatype snapshot_error = PgQueryFailed | DelSetFailed | DelHashFailed | ZaddFailed string | HsetFailed

definition rebuild_for_user ::
  "('z externs_scheme) \<Rightarrow> string \<Rightarrow> (string \<times> int) list \<Rightarrow> (world, snapshot_error, unit) act" where
  "rebuild_for_user X user_id asset_pairs =
     try_bind (gets no_redis) (\<lambda>none.
     if none then ret ()
     else
       try_bind (map_err (\<lambda>_. DelSetFailed) (redis_del (wallet_set_key user_id))) (\<lambda>_.
       try_bind (map_err (\<lambda>_. DelHashFailed) (redis_del (wallet_hash_key user_id))) (\<lambda>_.
       try_bind (for_each asset_pairs (\<lambda>(asset_id, score).
         map_err (\<lambda>_. ZaddFailed asset_id) (zadd (wallet_set_key user_id) asset_id score))) (\<lambda>_.
       try_bind utc_now (\<lambda>now.
       map_err (\<lambda>_. HsetFailed) (hset (wallet_hash_key user_id)
         [(''asset_count'', int_text (int (length asset_pairs))), (''updated_at'', x_rfc3339 X now)]))))))"

definition rebuild_from_pg ::
  "('z externs_scheme) \<Rightarrow> string \<Rightarrow> (world, snapshot_error, unit) act" where
  "rebuild_from_pg X user_id =
     try_bind (map_err (\<lambda>_. PgQueryFailed) (select_rows (owned_assets user_id))) (\<lambda>rows.
     rebuild_for_user X user_id (map (\<lambda>a. (as_asset_id a, as_created_at a)) rows))"

text \<open>
  The page and whether a task was spawned that runs \<open>rebuild_from_pg\<close>; a failed query is an
  empty page. Products and sums wrap, as in a release build.
\<close>

definition fetch_assets_from_pg ::
  "('z externs_scheme) \<Rightarrow> string \<Rightarrow> i64 \<Rightarrow> i64 \<Rightarrow> (world, unit, string list \<times> bool) act" where
  "fetch_assets_from_pg X user_id page sz =
     try_bind (attempt (select_page X sz (page * sz) (owned_assets user_id))) (\<lambda>r.
     case r of
       Inl _ \<Rightarrow> ret ([], False)
     | Inr rows \<Rightarrow>
         try_bind (gets no_redis) (\<lambda>none.
         ret (map as_asset_id rows, rows \<noteq> [] \<and> \<not> none)))"

definition get_assets ::
  "('z externs_scheme) \<Rightarrow> string \<Rightarrow> i64 \<Rightarrow> i64 \<Rightarrow> (world, unit, string list \<times> bool) act" where
  "get_assets X user_id page sz =
     try_bind (gets no_redis) (\<lambda>none.
     if none then fetch_assets_from_pg X user_id page sz
     else
       try_bind (attempt (zcard (wallet_set_key user_id))) (\<lambda>r.
       if (case r of Inl _ \<Rightarrow> 0 | Inr n \<Rightarrow> n) = 0 then fetch_assets_from_pg X user_id page sz
       else
         let start = page * sz; stop = start + sz - 1
         in try_bind (attempt (zrevrange (wallet_set_key user_id) (sint start) (sint stop))) (\<lambda>r.
            case r of
              Inr rows \<Rightarrow> ret (rows, False)
            | Inl _ \<Rightarrow> fetch_assets_from_pg X user_id page sz)))"

section \<open>\<^verbatim>\<open>cli/wallet_snapshot_cli.rs\<close>\<close>

datatype snapshot_action = Rebuild "string option" | Purge string | Stats string

definition fetch_all_owner_ids :: "(world, 'e, string list) act" where
  "fetch_all_owner_ids =
     or_default [] (select_rows (\<lambda>d. remdups (List.map_filter as_owner_id (db_assets d))))"

text \<open>What \<^verbatim>\<open>run_rebuild\<close> reports: one user, or how many succeeded and failed.\<close>

datatype rebuild_report = RebuiltUser string "snapshot_error option" | RebuiltAll nat nat

definition run_rebuild ::
  "('z externs_scheme) \<Rightarrow> string option \<Rightarrow> (world, 'e, rebuild_report) act" where
  "run_rebuild X user_id =
     (case user_id of
        Some uid \<Rightarrow>
          try_bind (attempt (rebuild_from_pg X uid)) (\<lambda>r.
          ret (RebuiltUser uid (case r of Inl e \<Rightarrow> Some e | Inr _ \<Rightarrow> None)))
      | None \<Rightarrow>
          try_bind fetch_all_owner_ids (\<lambda>owner_ids.
          try_bind (map_each (\<lambda>uid. attempt (rebuild_from_pg X uid)) owner_ids) (\<lambda>rs.
          ret (RebuiltAll (length (filter (\<lambda>r. \<not> isl r) rs)) (length (filter isl rs))))))"

definition run_purge :: "string \<Rightarrow> (world, 'e, unit) act" where
  "run_purge user_id =
     try_bind (attempt (redis_del (wallet_hash_key user_id))) (\<lambda>_.
     try_bind (attempt (redis_del (wallet_set_key user_id))) (\<lambda>_. ret ()))"

definition line :: "string \<Rightarrow> string" where
  "line s = s @ [CHR 0x0A]"

definition hash_lines :: "string \<Rightarrow> (string \<rightharpoonup> string) option \<Rightarrow> string" where
  "hash_lines user_id hash_fields =
     (case hash_fields of
        None \<Rightarrow> line (''  Hash wallet:'' @ user_id @ '': (not found)'')
      | Some kvs \<Rightarrow>
          line (''  asset_count: '' @ unwrap_or ''N/A'' (kvs ''asset_count'')) @
          line (''  updated_at:  '' @ unwrap_or ''N/A'' (kvs ''updated_at'')))"

definition format_stats_output ::
  "string \<Rightarrow> (string \<rightharpoonup> string) option \<Rightarrow> int \<Rightarrow> string" where
  "format_stats_output user_id hash_fields sorted_set_size =
     line (''Wallet snapshot stats for user: '' @ user_id) @ hash_lines user_id hash_fields @
     line (''  sorted_set_size: '' @ int_text sorted_set_size)"

definition run_stats :: "string \<Rightarrow> (world, 'e, string) act" where
  "run_stats user_id =
     try_bind (attempt (hgetall (wallet_hash_key user_id))) (\<lambda>h.
     try_bind (attempt (zcard (wallet_set_key user_id))) (\<lambda>c.
     ret (line (''Wallet snapshot stats for user: '' @ user_id) @
          (case h of
             Inl _ \<Rightarrow> line (''  ERROR HGETALL '' @ wallet_hash_key user_id)
           | Inr kvs \<Rightarrow> hash_lines user_id kvs) @
          (case c of
             Inl _ \<Rightarrow> line (''  ERROR ZCARD '' @ wallet_set_key user_id)
           | Inr sz \<Rightarrow> line (''  sorted_set_size: '' @ int_text (int sz))))))"

end
