(* ===== verification/Wallet_Properties.thy ===== *)
theory Wallet_Properties
  imports Wallet_Snapshot Demo
begin

text \<open>
  The wallet snapshot: after a rebuild Redis answers a page as PostgreSQL does, and the two keys
  of one user may be those of another.
\<close>

section \<open>Redis that answers\<close>

definition redis_ready :: "redis_store \<Rightarrow> world \<Rightarrow> bool" where
  "redis_ready r w \<longleftrightarrow> w_redis w = Some r \<and> w_redis_faults w = []"

lemma ready_call:
  "redis_ready r w \<Longrightarrow> redis_call f w = (Inr (fst (f r)), w\<lparr>w_redis := Some (snd (f r))\<rparr>)"
  by (cases w) (simp add: redis_ready_def redis_call_def split: prod.split)

lemma ready_update [simp]: "redis_ready r (w\<lparr>w_redis := Some r'\<rparr>) \<longleftrightarrow> r = r' \<and> w_redis_faults w = []"
  by (auto simp: redis_ready_def)

lemma ready_cmd:
  "redis_ready r w \<Longrightarrow> f r = Some (x, r') \<Longrightarrow> redis_cmd f w = (Inr x, w\<lparr>w_redis := Some r'\<rparr>)"
  by (simp add: redis_cmd_def try_bind_def ready_call act_simps)

lemma ready_zset:
  "redis_ready r w \<Longrightarrow> rd_hashes r key = None \<Longrightarrow>
    zset_cmd key f w = (Inr (fst (f (zset_of r key))),
      w\<lparr>w_redis := Some (put_zset key (snd (f (zset_of r key))) r)\<rparr>)"
  by (simp add: zset_cmd_def ready_cmd split: prod.split)

lemma put_zset_simps [simp]:
  "zset_of (put_zset k z r) k = z" "rd_hashes (put_zset k z r) = rd_hashes r"
  "put_zset k z (put_zset k z' r) = put_zset k z r"
  by (simp_all add: zset_of_def put_zset_def unwrap_or_def)

lemma put_zset_same: "rd_zsets r k \<noteq> Some [] \<Longrightarrow> put_zset k (zset_of r k) r = r"
  by (cases r) (auto simp: put_zset_def zset_of_def unwrap_or_def split: option.split)

section \<open>The sorted set that a rebuild writes\<close>

definition zset_from :: "(string \<times> int) list \<Rightarrow> (string \<times> int) list" where
  "zset_from pairs = foldl (\<lambda>z (m, s). zadd_entry m s z) [] pairs"

lemma run_zadds:
  assumes "redis_ready r w" and "rd_hashes r key = None"
  shows "for_each pairs (\<lambda>(a, s). map_err (g a) (zadd key a s)) w
    = (Inr (), w\<lparr>w_redis := Some (if pairs = [] then r
        else put_zset key (foldl (\<lambda>z (m, s). zadd_entry m s z) (zset_of r key) pairs) r)\<rparr>)"
  using assms
proof (induction pairs arbitrary: r w)
  case Nil
  then show ?case by (cases w) (simp add: act_simps redis_ready_def)
next
  case (Cons p pairs)
  obtain m s where p: "p = (m, s)" by fastforce
  have "zadd key m s w = (Inr (), w\<lparr>w_redis := Some (put_zset key (zadd_entry m s (zset_of r key)) r)\<rparr>)"
    using Cons.prems by (simp add: zadd_def ready_zset)
  with Cons.prems Cons.IH [of "put_zset key (zadd_entry m s (zset_of r key)) r"] show ?case
    by (simp add: p try_bind_def map_err_def redis_ready_def)
qed

lemma zadd_entry_sorted:
  "sorted (map by_score z) \<Longrightarrow> sorted (map by_score (zadd_entry m s z))"
  by (simp add: zadd_entry_def sorted_insort_key sorted_filter)

lemma fold_zadd:
  assumes "sorted (map by_score z)" and "distinct z" and "distinct (map fst pairs)"
    and "fst ` set z \<inter> fst ` set pairs = {}"
  shows "sorted (map by_score (foldl (\<lambda>z (m, s). zadd_entry m s z) z pairs))
    \<and> distinct (foldl (\<lambda>z (m, s). zadd_entry m s z) z pairs)
    \<and> set (foldl (\<lambda>z (m, s). zadd_entry m s z) z pairs) = set pairs \<union> set z"
  using assms
proof (induction pairs arbitrary: z)
  case (Cons p pairs)
  obtain m s where p: "p = (m, s)" by fastforce
  have "filter (\<lambda>e. fst e \<noteq> m) z = z"
    using Cons.prems(4) by (auto simp: p filter_id_conv)
  then have z: "zadd_entry m s z = insort_key by_score (m, s) z" by (simp add: zadd_entry_def)
  have "sorted (map by_score (zadd_entry m s z))" using Cons.prems(1) by (rule zadd_entry_sorted)
  moreover have "distinct (zadd_entry m s z)"
    using Cons.prems by (auto simp: z p distinct_insort image_iff)
  moreover have "distinct (map fst pairs)" using Cons.prems(3) by simp
  moreover have "fst ` set (zadd_entry m s z) \<inter> fst ` set pairs = {}"
    using Cons.prems(3,4) by (auto simp: z p set_insort_key)
  ultimately show ?case
    using Cons.IH [of "zadd_entry m s z"] by (auto simp: p z set_insort_key)
qed simp

text \<open>Rows with distinct times, the latest first, are the sorted set read backwards.\<close>

lemma zset_from_desc:
  assumes "sorted (map (\<lambda>p. - snd p) pairs)" and "distinct (map snd pairs)" and "distinct (map fst pairs)"
  shows "rev (zset_from pairs) = pairs"
proof -
  have z: "sorted (map by_score (zset_from pairs))" "distinct (zset_from pairs)"
    "set (zset_from pairs) = set (rev pairs)"
    using fold_zadd [of "[]" pairs] assms(3) by (simp_all add: zset_from_def)
  have inj: "inj by_score" by (auto intro!: injI simp: by_score_def prod_eq_iff)
  have "sorted_wrt (\<lambda>p q. snd q < snd p) pairs"
  proof -
    have "sorted_wrt (\<lambda>p q. snd q \<le> snd p) pairs" using assms(1) by (simp add: sorted_map)
    moreover have "sorted_wrt (\<lambda>p q. snd p \<noteq> snd q) pairs"
      using assms(2) by (induction pairs) auto
    ultimately show ?thesis by (induction pairs) fastforce+
  qed
  then have "sorted (map by_score (rev pairs))"
    by (simp add: sorted_map sorted_wrt_rev) (rule sorted_wrt_mono_rel, auto simp: by_score_def less_eq_prod_def)
  moreover have "distinct (rev pairs)" using assms(2) by (simp add: distinct_map)
  moreover have "inj_on by_score A" for A using inj by (rule inj_on_subset) simp
  ultimately have "zset_from pairs = rev pairs"
    using z by (intro map_sorted_distinct_set_unique [of by_score]) (simp_all add: distinct_map)
  then show ?thesis by simp
qed

section \<open>A rebuilt wallet\<close>

abbreviation wallet_pairs :: "asset_row list \<Rightarrow> (string \<times> int) list" where
  "wallet_pairs rows \<equiv> map (\<lambda>a. (as_asset_id a, as_created_at a)) rows"

lemma keys_differ: "wallet_hash_key u \<noteq> wallet_set_key u"
  by (simp add: wallet_keys_def)

definition cleared :: "string \<Rightarrow> redis_store \<Rightarrow> redis_store" where
  "cleared key r = r\<lparr>rd_counters := (rd_counters r)(key := None),
     rd_zsets := (rd_zsets r)(key := None), rd_hashes := (rd_hashes r)(key := None)\<rparr>"

lemma ready_del: "redis_ready r w \<Longrightarrow> redis_del key w = (Inr (), w\<lparr>w_redis := Some (cleared key r)\<rparr>)"
  by (simp add: redis_del_def ready_call cleared_def)

lemma ready_hset:
  "redis_ready r w \<Longrightarrow> rd_zsets r key = None \<Longrightarrow>
    hset key kvs w = (Inr (), w\<lparr>w_redis := Some (r\<lparr>rd_hashes := (rd_hashes r)
      (key \<mapsto> unwrap_or Map.empty (rd_hashes r key) ++ map_of (rev kvs))\<rparr>)\<rparr>)"
  by (simp add: hset_def hash_cmd_def ready_cmd)

lemma run_rebuild:
  assumes "redis_ready r w"
  shows "\<exists>r'. rebuild_for_user X u pairs w = (Inr (), w\<lparr>w_redis := Some r'\<rparr>)
    \<and> zset_of r' (wallet_set_key u) = zset_from pairs
    \<and> rd_hashes r' (wallet_set_key u) = None \<and> rd_zsets r' (wallet_set_key u) \<noteq> Some []"
proof -
  let ?k = "wallet_set_key u" and ?h = "wallet_hash_key u"
  define r2 where "r2 = cleared ?h (cleared ?k r)"
  define r3 where "r3 = (if pairs = [] then r2 else put_zset ?k (zset_from pairs) r2)"
  have r2: "rd_hashes r2 ?k = None" "zset_of r2 ?k = []" "rd_zsets r2 ?h = None"
    using keys_differ [of u] by (simp_all add: r2_def cleared_def zset_of_def unwrap_or_def)
  have "rd_zsets r2 ?k = None" by (simp add: r2_def cleared_def)
  with r2 have r3: "zset_of r3 ?k = zset_from pairs" "rd_hashes r3 ?k = None" "rd_zsets r3 ?h = None"
    "rd_zsets r3 ?k \<noteq> Some []"
    using keys_differ [of u] by (simp_all add: r3_def zset_from_def) (simp_all add: put_zset_def)
  have ready: "redis_ready s (w\<lparr>w_redis := Some s\<rparr>)" for s using assms by (simp add: redis_ready_def)
  have adds: "for_each pairs (\<lambda>(a, s). map_err (\<lambda>_. ZaddFailed a) (zadd ?k a s)) (w\<lparr>w_redis := Some r2\<rparr>)
      = (Inr (), w\<lparr>w_redis := Some r3\<rparr>)"
    using run_zadds [where g = "\<lambda>a _. ZaddFailed a" and pairs = pairs, OF ready r2(1)]
    by (cases "pairs = []") (simp_all add: r3_def zset_from_def r2(2) act_simps)
  show ?thesis
    using assms r3 keys_differ [of u]
    by (auto simp: rebuild_for_user_def try_bind_def map_err_def act_simps no_redis_def redis_ready_def
        ready_del [OF assms] ready_del [OF ready] r2_def [symmetric] adds utc_now_def ready_hset [OF ready r3(3)]
        zset_of_def)
qed

lemma redis_range_page:
  "0 \<le> s \<Longrightarrow> 0 < k \<Longrightarrow> redis_range s (s + k - 1) xs = take (nat k) (drop (nat s) xs)"
  by (auto simp: redis_range_def Let_def min_def)

lemma no_overflow:
  fixes p s :: i64
  assumes "0 \<le> sint p" "0 < sint s" "sint p * sint s + sint s < 2 ^ 63"
  shows "sint (p * s) = sint p * sint s" "sint (p * s + s - 1) = sint p * sint s + sint s - 1"
proof -
  have words: "p * s = word_of_int (sint p * sint s)" "p * s + s - 1 = word_of_int (sint p * sint s + sint s - 1)"
    by simp_all
  have "0 \<le> sint p * sint s" using assms by simp
  then have b: "- (2 ^ 63) \<le> sint p * sint s" "sint p * sint s < 2 ^ 63"
    "- (2 ^ 63) \<le> sint p * sint s + sint s - 1" "sint p * sint s + sint s - 1 < 2 ^ 63"
    using assms(2,3) by simp_all
  show "sint (p * s) = sint p * sint s"
    using b(1,2) unfolding words(1) by (rule sint_i64)
  show "sint (p * s + s - 1) = sint p * sint s + sint s - 1"
    using b(3,4) unfolding words(2) by (rule sint_i64)
qed

text \<open>
  C34. The snapshot is the table: when Redis answers and the user's assets were created at
  different seconds, a rebuild succeeds, and then each page that Redis serves is the page that
  PostgreSQL serves.
\<close>

theorem rebuilt_wallet_matches_table:
  assumes "redis_ready r w" and "calm w"
    and "distinct (map as_created_at (owned_assets u (w_db w)))"
    and "distinct (map as_asset_id (owned_assets u (w_db w)))"
    and "0 \<le> sint page" "0 < sint sz" "sint page * sint sz + sint sz < 2 ^ 63"
  shows "\<exists>w' rows spawned. rebuild_from_pg X u w = (Inr (), w')
    \<and> fetch_assets_from_pg X u page sz w = (Inr (rows, spawned), w)
    \<and> get_assets X u page sz w' = (Inr (rows, False), w')"
proof -
  let ?rows = "owned_assets u (w_db w)" and ?k = "wallet_set_key u"
  let ?page = "take (nat (sint sz)) (drop (nat (sint page * sint sz)) ?rows)"
  have "0 \<le> sint page * sint sz" using assms(5,6) by simp
  then have limit: "limit_offset X sz (page * sz) rs
      = Inr (take (nat (sint sz)) (drop (nat (sint page * sint sz)) rs))" for rs :: "asset_row list"
    using no_overflow [OF assms(5-7)] assms(6) by (simp add: limit_offset_def)
  have pg: "fetch_assets_from_pg X u page sz v = (Inr (map as_asset_id ?page, ?page \<noteq> [] \<and> w_redis v \<noteq> None), v)"
    if "calm v" "w_db v = w_db w" for v
    using that by (simp add: fetch_assets_from_pg_def try_bind_def attempt_def select_page_def calm_sql limit
        act_simps no_redis_def)
  obtain r' where run: "rebuild_for_user X u (wallet_pairs ?rows) w = (Inr (), w\<lparr>w_redis := Some r'\<rparr>)"
    and z: "zset_of r' ?k = zset_from (wallet_pairs ?rows)" and h: "rd_hashes r' ?k = None" "rd_zsets r' ?k \<noteq> Some []"
    using run_rebuild [OF assms(1)] by blast
  let ?w = "w\<lparr>w_redis := Some r'\<rparr>"
  have rebuilt: "rebuild_from_pg X u w = (Inr (), ?w)"
    using run assms(2) by (simp add: rebuild_from_pg_def try_bind_def map_err_def calm_select)
  have rev: "rev (zset_of r' ?k) = wallet_pairs ?rows"
    unfolding z
    by (rule zset_from_desc) (use assms(3,4) in \<open>simp_all add: comp_def owned_assets_def order_desc_def\<close>)
  have ready: "redis_ready r' ?w" using assms(1) by (simp add: redis_ready_def)
  have zs: "zset_cmd ?k f ?w = (Inr (fst (f (zset_of r' ?k))), ?w)"
    if "snd (f (zset_of r' ?k)) = zset_of r' ?k" for f :: "(string \<times> int) list \<Rightarrow> 'x \<times> (string \<times> int) list"
    using ready_zset [OF ready h(1), of f] that put_zset_same [OF h(2)] by simp
  have card: "zcard ?k ?w = (Inr (length ?rows), ?w)"
    using zs [of "\<lambda>z. (length z, z)"] arg_cong [OF rev, of length] by (simp add: zcard_def)
  have range: "zrevrange ?k (sint (page * sz)) (sint (page * sz + sz - 1)) ?w = (Inr (map as_asset_id ?page), ?w)"
    using zs [of "\<lambda>z. (map fst (redis_range (sint (page * sz)) (sint (page * sz + sz - 1)) (rev z)), z)"]
      no_overflow [OF assms(5-7)] assms(5,6)
    by (simp add: zrevrange_def rev redis_range_page take_map drop_map comp_def)
  have "get_assets X u page sz ?w = (Inr (map as_asset_id ?page, False), ?w)"
  proof (cases "?rows = []")
    case True
    then show ?thesis using pg [of ?w] assms(2)
      by (simp add: get_assets_def try_bind_def attempt_def act_simps no_redis_def card)
  next
    case False
    then show ?thesis
      by (simp add: get_assets_def try_bind_def attempt_def act_simps no_redis_def card range Let_def)
  qed
  with pg [OF assms(2) refl] rebuilt show ?thesis by blast
qed

section \<open>Keys of two users\<close>

text \<open>
  The hash of the user \<^verbatim>\<open>u:assets\<close> has the key of the sorted set of the user
  \<^verbatim>\<open>u\<close>, so purging the one wallet empties the other.
\<close>

lemma wallet_keys_shared: "wallet_hash_key (u @ '':assets'') = wallet_set_key u"
  by (simp add: wallet_keys_def)

lemma purge_empties_other:
  assumes "redis_ready r w"
  shows "\<exists>r'. (run_purge (u @ '':assets'') :: (world, unit, unit) act) w = (Inr (), w\<lparr>w_redis := Some r'\<rparr>)
    \<and> zset_of r' (wallet_set_key u) = []"
proof -
  have "redis_ready s (w\<lparr>w_redis := Some s\<rparr>)" for s using assms by (simp add: redis_ready_def)
  note ready = ready_del [OF this]
  show ?thesis
    unfolding run_purge_def wallet_keys_shared
    by (simp add: try_bind_def attempt_def ready_del [OF assms] ready act_simps)
      (auto simp: cleared_def zset_of_def unwrap_or_def)
qed

text \<open>The statistics a healthy Redis gives are the text of \<^verbatim>\<open>format_stats_output\<close>.\<close>

lemma stats_text:
  assumes "redis_ready r w" and "rd_zsets r (wallet_hash_key u) = None"
    and "rd_hashes r (wallet_set_key u) = None"
  shows "\<exists>w'. (run_stats u :: (world, unit, string) act) w = (Inr (format_stats_output u
    (rd_hashes r (wallet_hash_key u)) (int (length (zset_of r (wallet_set_key u))))), w')"
proof -
  have h: "hgetall (wallet_hash_key u) w = (Inr (rd_hashes r (wallet_hash_key u)), w)"
    using assms(1,2) by (cases w) (simp add: hgetall_def hash_cmd_def ready_cmd redis_ready_def)
  have "zcard (wallet_set_key u) w = (Inr (length (zset_of r (wallet_set_key u))),
      w\<lparr>w_redis := Some (put_zset (wallet_set_key u) (zset_of r (wallet_set_key u)) r)\<rparr>)"
    using ready_zset [OF assms(1,3), of "\<lambda>z. (length z, z)"] by (simp add: zcard_def)
  with h show ?thesis
    by (simp add: run_stats_def try_bind_def attempt_def act_simps format_stats_output_def)
qed

section \<open>Witness\<close>

definition demo_store :: redis_store where
  "demo_store = \<lparr>rd_counters = Map.empty, rd_zsets = Map.empty, rd_hashes = Map.empty\<rparr>"

theorem rebuilt_wallet_matches_table_witness:
  "\<exists>w' rows spawned. rows = [''a1'']
     \<and> fetch_assets_from_pg demo_x ''user_1'' 0 10 ((demo_world Activated demo_virtual)\<lparr>w_redis := Some demo_store\<rparr>)
       = (Inr (rows, spawned), (demo_world Activated demo_virtual)\<lparr>w_redis := Some demo_store\<rparr>)
     \<and> get_assets demo_x ''user_1'' 0 10 w' = (Inr (rows, False), w')"
proof -
  define w where "w = (demo_world Activated demo_virtual)\<lparr>w_redis := Some demo_store\<rparr>"
  have ready: "redis_ready demo_store w" "calm w"
    by (simp_all add: w_def redis_ready_def calm_def demo_world_def)
  have rows: "owned_assets ''user_1'' (w_db w) = [demo_asset Activated]"
    by (simp add: w_def owned_assets_def order_desc_def demo_world_def demo_db_def demo_asset_def)
  have distinct: "distinct (map as_created_at (owned_assets ''user_1'' (w_db w)))"
    "distinct (map as_asset_id (owned_assets ''user_1'' (w_db w)))" by (simp_all add: rows)
  obtain w' rows' spawned where
    r: "fetch_assets_from_pg demo_x ''user_1'' 0 10 w = (Inr (rows', spawned), w)"
      "get_assets demo_x ''user_1'' 0 10 w' = (Inr (rows', False), w')"
    using rebuilt_wallet_matches_table [OF ready distinct, of 0 10 demo_x] by auto
  have "limit_offset demo_x 10 (0 * 10 :: i64) [demo_asset Activated] = Inr [demo_asset Activated]"
    by (simp add: limit_offset_def)
  then have "rows' = map as_asset_id [demo_asset Activated]"
    using r(1) by (simp only: fetch_assets_from_pg_def try_bind_def attempt_def select_page_def
        calm_sql [OF ready(2)] rows) (simp add: act_simps try_bind_def)
  then have "rows' = [''a1'']" by (simp add: demo_asset_def)
  with r show ?thesis
    unfolding w_def [symmetric]
    by blast
qed

end
