(* ===== verification/Seed.thy ===== *)
theory Seed
  imports Db_Registry
begin

text \<open>
  \<^verbatim>\<open>rc-api/src/seed.rs\<close>, the rows a server inserts when \<^verbatim>\<open>RC_SEED_DATA\<close> is set, and
  \<^verbatim>\<open>rc-test-helpers/src/fixtures.rs\<close>, the rows the integration tests start from.
\<close>

section \<open>\<^verbatim>\<open>INSERT ... ON CONFLICT DO NOTHING\<close>\<close>

text \<open>
  Columns and their checks come first, then the conflict that makes the statement do nothing,
  then the remaining unique indexes and the foreign keys of the row. The value says whether a row
  was inserted.
\<close>

definition insert_ignore ::
  "((database \<Rightarrow> bool) \<times> sqlx_error) list \<Rightarrow> (database \<Rightarrow> bool) \<Rightarrow>
    ((database \<Rightarrow> bool) \<times> sqlx_error) list \<Rightarrow> (database \<Rightarrow> database) \<Rightarrow> bool op" where
  "insert_ignore checks conflict refs add_row =
     sql (\<lambda>d. case find (\<lambda>c. fst c d) checks of
       Some c \<Rightarrow> Inl (snd c)
     | None \<Rightarrow>
         if conflict d then Inr (False, d)
         else map_sum id (\<lambda>(_, d'). (True, d')) (constrained refs add_row d))"

text \<open>\<open>.expect(...)\<close> on the result of a statement.\<close>

definition expect_ok :: "'a op \<Rightarrow> 'a op" where
  "expect_ok m = map_err (\<lambda>_. Panic) m"

definition executed :: "bool op \<Rightarrow> unit op" where
  "executed m = try_bind (expect_ok m) (\<lambda>_. ret ())"

text \<open>The first column that is \<^verbatim>\<open>NOT NULL\<close> without a default and not given a value.\<close>

definition missing_column :: "string list \<Rightarrow> (string \<times> string option) list \<Rightarrow> string option" where
  "missing_column needed vals =
     find (\<lambda>c. case map_of vals c of Some (Some v) \<Rightarrow> False | _ \<Rightarrow> True) needed"

definition column :: "(string \<times> string option) list \<Rightarrow> string \<Rightarrow> string option" where
  "column vals c = (case map_of vals c of Some v \<Rightarrow> v | None \<Rightarrow> None)"

definition brand_required :: "string list" where
  "brand_required = [''brand_id'', ''brand_name'', ''contact_email'', ''industry'']"

definition insert_brand_values ::
  "('z externs_scheme) \<Rightarrow> (string \<times> string option) list \<Rightarrow> bool op" where
  "insert_brand_values X vals =
     (let text = (\<lambda>c. unwrap_or [] (column vals c)); brand_id = text ''brand_id'';
          status = unwrap_or ''Active'' (column vals ''status'') in
      try_bind utc_now (\<lambda>now.
      insert_ignore
        [(\<lambda>d. missing_column brand_required vals \<noteq> None,
          SqlError (x_pg_message X (''not_null brands.'' @ the (missing_column brand_required vals)))),
         (\<lambda>d. \<not> brand_id_like brand_id, SqlError (x_pg_message X ''chk_brands_brand_id_prefix'')),
         (\<lambda>d. status \<notin> {''Active'', ''Suspended''}, SqlError (x_pg_message X ''chk_brands_status''))]
        (\<lambda>d. list_ex (\<lambda>b. br_brand_id b = brand_id \<or> br_brand_name b = text ''brand_name''
           \<or> br_contact_email b = text ''contact_email''
           \<or> column vals ''api_key_hash'' \<noteq> None
             \<and> br_api_key_hash b = column vals ''api_key_hash'') (db_brands d)) []
        (\<lambda>d. d\<lparr>db_brands := db_brands d @
           [\<lparr>br_brand_id = brand_id, br_brand_name = text ''brand_name'',
             br_contact_email = text ''contact_email'', br_industry = text ''industry'',
             br_status = status, br_created_at = now, br_updated_at = now,
             br_api_key_hash = column vals ''api_key_hash''\<rparr>]\<rparr>)))"

text \<open>\<open>LIKE 'product_%'\<close> and its like: the underscore stands for any one character.\<close>

definition id_like :: "string \<Rightarrow> string \<Rightarrow> bool" where
  "id_like pre s \<longleftrightarrow> prefix pre s \<and> length pre < length s"

definition seed_product ::
  "('z externs_scheme) \<Rightarrow> string \<Rightarrow> string \<Rightarrow> string \<Rightarrow> unit op" where
  "seed_product X product_id brand_id product_name =
     try_bind utc_now (\<lambda>now.
     executed (insert_ignore
       [(\<lambda>d. \<not> id_like ''product'' product_id,
         SqlError (x_pg_message X ''chk_products_product_id_prefix''))]
       (\<lambda>d. list_ex (\<lambda>p. pr_product_id p = product_id) (db_products d))
       [(\<lambda>d. \<not> brand_exists brand_id d, SqlError (x_pg_message X ''products_brand_id_fkey''))]
       (\<lambda>d. d\<lparr>db_products := db_products d @
          [\<lparr>pr_product_id = product_id, pr_brand_id = brand_id, pr_product_name = product_name,
            pr_created_at = now, pr_updated_at = now\<rparr>]\<rparr>)))"

definition seed_batch ::
  "('z externs_scheme) \<Rightarrow> string \<Rightarrow> string \<Rightarrow> unit op" where
  "seed_batch X batch_id brand_id =
     try_bind utc_now (\<lambda>now.
     executed (insert_ignore
       [(\<lambda>d. \<not> id_like ''batch'' batch_id, SqlError (x_pg_message X ''chk_batches_batch_id_prefix''))]
       (\<lambda>d. list_ex (\<lambda>b. ba_batch_id b = batch_id) (db_batches d))
       [(\<lambda>d. \<not> brand_exists brand_id d, SqlError (x_pg_message X ''batches_brand_id_fkey''))]
       (\<lambda>d. d\<lparr>db_batches := db_batches d @
          [\<lparr>ba_batch_id = batch_id, ba_brand_id = brand_id, ba_batch_name = None,
            ba_factory_id = None, ba_status = ''Open'', ba_expected_count = None,
            ba_actual_count = 0, ba_created_at = now, ba_closed_at = None\<rparr>]\<rparr>)))"

definition seed_session ::
  "('z externs_scheme) \<Rightarrow> string \<Rightarrow> string \<Rightarrow> unit op" where
  "seed_session X session_id batch_id =
     try_bind utc_now (\<lambda>now.
     executed (insert_ignore
       [(\<lambda>d. \<not> id_like ''session'' session_id,
         SqlError (x_pg_message X ''chk_factory_sessions_session_id_prefix''))]
       (\<lambda>d. list_ex (\<lambda>s. fs_session_id s = session_id) (db_sessions d))
       [(\<lambda>d. \<not> list_ex (\<lambda>b. ba_batch_id b = batch_id) (db_batches d),
         SqlError (x_pg_message X ''factory_sessions_batch_id_fkey''))]
       (\<lambda>d. d\<lparr>db_sessions := db_sessions d @
          [\<lparr>fs_session_id = session_id, fs_batch_id = batch_id, fs_created_at = now\<rparr>]\<rparr>)))"

record seed_asset_params =
  sa_asset_id :: string
  sa_brand_id :: string
  sa_product_id :: "string option"
  sa_uid :: "string option"
  sa_current_state :: string
  sa_previous_state :: "string option"
  sa_external_product_id :: "string option"
  sa_external_product_name :: "string option"
  sa_owner_id :: "string option"

definition seed_asset ::
  "('z externs_scheme) \<Rightarrow> seed_asset_params \<Rightarrow> unit op" where
  "seed_asset X p =
     try_bind utc_now (\<lambda>now.
     executed (insert_ignore
       [(\<lambda>d. \<not> id_like ''asset'' (sa_asset_id p),
         SqlError (x_pg_message X ''chk_assets_asset_id_prefix'')),
        (\<lambda>d. from_db_str (sa_current_state p) = None,
         SqlError (x_pg_message X ''chk_assets_current_state'')),
        (\<lambda>d. case sa_previous_state p of None \<Rightarrow> False | Some s \<Rightarrow> from_db_str s = None,
         SqlError (x_pg_message X ''chk_assets_previous_state''))]
       (\<lambda>d. list_ex (\<lambda>a. as_asset_id a = sa_asset_id p \<or> sa_uid p \<noteq> None \<and> as_uid a = sa_uid p)
          (db_assets d))
       [(\<lambda>d. \<not> brand_exists (sa_brand_id p) d, SqlError (x_pg_message X ''assets_brand_id_fkey''))]
       (\<lambda>d. d\<lparr>db_assets := db_assets d @
          [\<lparr>as_asset_id = sa_asset_id p, as_brand_id = sa_brand_id p,
            as_product_id = sa_product_id p, as_uid = sa_uid p,
            as_current_state = sa_current_state p, as_previous_state = sa_previous_state p,
            as_owner_id = sa_owner_id p, as_last_verified_ctr = None, as_epoch = 0,
            as_key_epoch = 0, as_batch_id = None,
            as_external_product_id = sa_external_product_id p,
            as_external_product_name = sa_external_product_name p,
            as_external_product_url = None, as_asset_commitment_id = None,
            as_activated_at = None, as_sold_at = None, as_created_at = now,
            as_updated_at = now\<rparr>]\<rparr>)))"

record seed_authority_device_params =
  sd_authority_uid :: string
  sd_authority_type :: string
  sd_brand_id :: string
  sd_key_epoch :: i32
  sd_virtual_credential_hash :: "string option"
  sd_bound_user_id :: "string option"
  sd_physical_chip_uid :: "string option"
  sd_created_by :: "string option"

text \<open>The conflict target is the column \<^verbatim>\<open>authority_uid\<close>; without a returned row it is read back.\<close>

definition seed_authority_device ::
  "('z externs_scheme) \<Rightarrow> seed_authority_device_params \<Rightarrow> uuid op" where
  "seed_authority_device X p =
     try_bind (draw (x_uuid X)) (\<lambda>authority_id.
     try_bind (expect_ok (insert_ignore
       [(\<lambda>d. sd_authority_type p \<notin> set authority_types,
         SqlError (x_pg_message X ''chk_authority_type''))]
       (\<lambda>d. list_ex (\<lambda>a. ad_authority_uid a = sd_authority_uid p) (db_devices d))
       [(\<lambda>d. list_ex (\<lambda>a. ad_authority_id a = authority_id) (db_devices d),
         UniqueViolation (x_pg_message X ''authority_devices_pkey'')),
        (\<lambda>d. \<not> brand_exists (sd_brand_id p) d,
         SqlError (x_pg_message X ''authority_devices_brand_id_fkey''))]
       (\<lambda>d. d\<lparr>db_devices := db_devices d @
          [\<lparr>ad_authority_id = authority_id, ad_authority_uid = sd_authority_uid p,
            ad_authority_type = sd_authority_type p, ad_brand_id = sd_brand_id p,
            ad_status = ''Active'', ad_key_epoch = sd_key_epoch p,
            ad_virtual_credential_hash = sd_virtual_credential_hash p,
            ad_bound_user_id = sd_bound_user_id p,
            ad_physical_chip_uid = sd_physical_chip_uid p, ad_last_known_ctr = None,
            ad_created_by = sd_created_by p\<rparr>]\<rparr>))) (\<lambda>inserted.
     if inserted then ret authority_id
     else
       try_bind (expect_ok (fetch_first (\<lambda>a. ad_authority_uid a = sd_authority_uid p) db_devices)) (\<lambda>row.
       try_bind (expect row) (\<lambda>a. ret (ad_authority_id a)))))"

record seed_entanglement_params =
  sn_asset_id :: string
  sn_child_uid :: string
  sn_authority_id :: uuid
  sn_authority_uid :: string
  sn_entanglement_state :: string
  sn_bound_by :: string

definition seed_entanglement ::
  "('z externs_scheme) \<Rightarrow> seed_entanglement_params \<Rightarrow> unit op" where
  "seed_entanglement X p =
     try_bind (draw (x_uuid X)) (\<lambda>entanglement_id.
     try_bind utc_now (\<lambda>now.
     executed (insert_ignore
       [(\<lambda>d. sn_entanglement_state p \<notin> {''Pending'', ''Active'', ''Suspended'', ''Broken''},
         SqlError (x_pg_message X ''chk_entanglement_state''))]
       (\<lambda>d. list_ex (\<lambda>e. en_entanglement_id e = entanglement_id
          \<or> sn_entanglement_state p = ''Active'' \<and> active_entanglement (sn_asset_id p) e)
          (db_entanglements d))
       [(\<lambda>d. \<not> asset_exists (sn_asset_id p) d,
         SqlError (x_pg_message X ''asset_entanglements_asset_id_fkey'')),
        (\<lambda>d. \<not> list_ex (\<lambda>a. ad_authority_id a = sn_authority_id p) (db_devices d),
         SqlError (x_pg_message X ''asset_entanglements_authority_id_fkey''))]
       (\<lambda>d. d\<lparr>db_entanglements := db_entanglements d @
          [\<lparr>en_entanglement_id = entanglement_id, en_asset_id = sn_asset_id p,
            en_child_uid = sn_child_uid p, en_authority_id = sn_authority_id p,
            en_authority_uid = sn_authority_uid p,
            en_entanglement_state = sn_entanglement_state p, en_bound_by = sn_bound_by p,
            en_created_at = now\<rparr>]\<rparr>))))"

section \<open>\<^verbatim>\<open>fixtures.rs\<close>: the demonstration data\<close>

definition seed_brand_with_api_key ::
  "('z externs_scheme) \<Rightarrow> string \<Rightarrow> string \<Rightarrow> string option \<Rightarrow> unit op" where
  "seed_brand_with_api_key X brand_id brand_name api_key_hash =
     (let contact_email = map (\<lambda>c. if c = CHR ''_'' then CHR ''-'' else c) brand_id @ ''@test.local''
      in executed (insert_brand_values X
        [(''brand_id'', Some brand_id), (''brand_name'', Some brand_name),
         (''contact_email'', Some contact_email), (''industry'', Some ''Other''),
         (''api_key_hash'', api_key_hash), (''status'', Some ''Active'')]))"

definition seed_brand :: "('z externs_scheme) \<Rightarrow> string \<Rightarrow> string \<Rightarrow> unit op" where
  "seed_brand X brand_id brand_name = seed_brand_with_api_key X brand_id brand_name None"

text \<open>Both seeds insert the same four assets.\<close>

definition demo_assets :: "(string \<times> string \<times> string) list" where
  "demo_assets =
     [(''asset-main-001'', ''UID-DEMO-0001'', ''PreMinted''),
      (''asset-freeze-001'', ''UID-DEMO-0002'', ''Activated''),
      (''asset-transfer-001'', ''UID-DEMO-0003'', ''LegallySold''),
      (''asset-terminal-001'', ''UID-DEMO-0004'', ''Transferred'')]"

definition demo_asset_params :: "string \<times> string \<times> string \<Rightarrow> seed_asset_params" where
  "demo_asset_params = (\<lambda>(asset_id, uid, state).
     \<lparr>sa_asset_id = asset_id, sa_brand_id = ''brand-demo'',
      sa_product_id = Some ''product-demo-001'', sa_uid = Some uid, sa_current_state = state,
      sa_previous_state = None, sa_external_product_id = None,
      sa_external_product_name = None, sa_owner_id = None\<rparr>)"

definition demo_device_params :: seed_authority_device_params where
  "demo_device_params =
     \<lparr>sd_authority_uid = ''vau-demo-001'', sd_authority_type = ''VIRTUAL_APP'',
      sd_brand_id = ''brand-demo'', sd_key_epoch = 0,
      sd_virtual_credential_hash = Some ''demo_hash_placeholder'',
      sd_bound_user_id = Some ''user-demo-001'', sd_physical_chip_uid = None,
      sd_created_by = Some ''system''\<rparr>"

definition demo_entanglement_params :: "uuid \<Rightarrow> seed_entanglement_params" where
  "demo_entanglement_params authority_id =
     \<lparr>sn_asset_id = ''asset-freeze-001'', sn_child_uid = ''UID-DEMO-0002'',
      sn_authority_id = authority_id, sn_authority_uid = ''vau-demo-001'',
      sn_entanglement_state = ''Active'', sn_bound_by = ''system''\<rparr>"

definition seed_demo_data :: "('z externs_scheme) \<Rightarrow> unit op" where
  "seed_demo_data X =
     try_bind (seed_brand X ''brand-demo'' ''RC Demo Brand'') (\<lambda>_.
     try_bind (seed_product X ''product-demo-001'' ''brand-demo'' ''RC Demo Product'') (\<lambda>_.
     try_bind (seed_batch X ''batch-demo-001'' ''brand-demo'') (\<lambda>_.
     try_bind (seed_session X ''session-demo-001'' ''batch-demo-001'') (\<lambda>_.
     try_bind (for_each demo_assets (\<lambda>a. seed_asset X (demo_asset_params a))) (\<lambda>_.
     try_bind (seed_authority_device X demo_device_params) (\<lambda>authority_id.
     seed_entanglement X (demo_entanglement_params authority_id)))))))"

section \<open>\<^verbatim>\<open>seed.rs\<close>: the data a server seeds\<close>

definition run_seed :: "('z externs_scheme) \<Rightarrow> unit op" where
  "run_seed X =
     try_bind (executed (insert_brand_values X
       [(''brand_id'', Some ''brand-demo''), (''brand_name'', Some ''RC Demo Brand'')])) (\<lambda>_.
     try_bind (seed_product X ''product-demo-001'' ''brand-demo'' ''RC Demo Product'') (\<lambda>_.
     try_bind (seed_batch X ''batch-demo-001'' ''brand-demo'') (\<lambda>_.
     try_bind (seed_session X ''session-demo-001'' ''batch-demo-001'') (\<lambda>_.
     for_each demo_assets (\<lambda>a. seed_asset X (demo_asset_params a))))))"

section \<open>The server's own seed cannot run\<close>

lemma insert_ignore_checked:
  assumes "find (\<lambda>c. fst c (w_db w)) checks = Some (c :: (database \<Rightarrow> bool) \<times> sqlx_error)"
  shows "\<exists>e w'. insert_ignore checks conflict refs f w = (Inl e, w') \<and> w_db w' = w_db w"
  using assms
  by (auto simp: insert_ignore_def sql_def map_err_def db_call_def Let_def
      split: list.splits option.splits)

lemma run_seed_panics:
  "\<exists>w'. run_seed X w = (Inl Panic, w') \<and> w_db w' = w_db w"
proof -
  let ?vals = "[(''brand_id'', Some ''brand-demo''), (''brand_name'', Some ''RC Demo Brand'')]"
  have "missing_column brand_required ?vals = Some ''contact_email''"
    by (simp add: missing_column_def brand_required_def)
  then have "\<exists>e w'. insert_brand_values X ?vals w = (Inl e, w') \<and> w_db w' = w_db w"
    unfolding insert_brand_values_def Let_def utc_now_def try_bind_def gets_def prod.case sum.case
    by (intro insert_ignore_checked) simp
  then obtain e w' where "insert_brand_values X ?vals w = (Inl e, w')" "w_db w' = w_db w"
    by blast
  then show ?thesis
    by (simp add: run_seed_def executed_def expect_ok_def map_err_def try_bind_def)
qed

section \<open>Seeding twice is seeding once\<close>

definition appended :: "'a list \<Rightarrow> 'a list \<Rightarrow> bool" where
  "appended xs ys \<longleftrightarrow> (\<exists>zs. ys = xs @ zs)"

lemma appended_simps [simp]: "appended xs xs" "appended xs (xs @ ys)"
  by (auto simp: appended_def)

lemma appended_trans [trans]: "appended xs ys \<Longrightarrow> appended ys zs \<Longrightarrow> appended xs zs"
  by (auto simp: appended_def)

lemma list_ex_appended: "list_ex p xs \<Longrightarrow> appended xs ys \<Longrightarrow> list_ex p ys"
  by (auto simp: appended_def)

text \<open>Rows are only added, to the tables a seed writes.\<close>

definition rows_added :: "database \<Rightarrow> database \<Rightarrow> bool" where
  "rows_added d d' \<longleftrightarrow>
     appended (db_brands d) (db_brands d') \<and> appended (db_products d) (db_products d')
     \<and> appended (db_batches d) (db_batches d') \<and> appended (db_sessions d) (db_sessions d')
     \<and> appended (db_assets d) (db_assets d') \<and> appended (db_devices d) (db_devices d')
     \<and> appended (db_entanglements d) (db_entanglements d')"

lemma rows_added_refl [simp]: "rows_added d d"
  by (simp add: rows_added_def)

lemma rows_added_trans: "rows_added d d' \<Longrightarrow> rows_added d' d'' \<Longrightarrow> rows_added d d''"
  unfolding rows_added_def by (blast intro: appended_trans)

text \<open>
  A statement settles a condition: when it succeeds the condition holds and rows were only
  added; when it already holds, the statement does nothing.
\<close>

definition settles :: "(database \<Rightarrow> bool) \<Rightarrow> 'a op \<Rightarrow> bool" where
  "settles c m \<longleftrightarrow>
     (\<forall>w x w'. m w = (Inr x, w') \<longrightarrow> c (w_db w') \<and> rows_added (w_db w) (w_db w'))
     \<and> (\<forall>w. calm w \<and> c (w_db w) \<longrightarrow> (\<exists>x w'. m w = (Inr x, w') \<and> calm w' \<and> w_db w' = w_db w))
     \<and> (\<forall>d d'. c d \<longrightarrow> rows_added d d' \<longrightarrow> c d')"

lemma settlesD:
  assumes "settles c m"
  shows "m w = (Inr x, w') \<Longrightarrow> c (w_db w')"
    and "m w = (Inr x, w') \<Longrightarrow> rows_added (w_db w) (w_db w')"
    and "calm w \<Longrightarrow> c (w_db w) \<Longrightarrow> \<exists>x w'. m w = (Inr x, w') \<and> calm w' \<and> w_db w' = w_db w"
    and "c d \<Longrightarrow> rows_added d d' \<Longrightarrow> c d'"
  using assms unfolding settles_def by blast+

lemma settlesI:
  assumes "\<And>w x w'. m w = (Inr x, w') \<Longrightarrow> c (w_db w') \<and> rows_added (w_db w) (w_db w')"
    and "\<And>w. calm w \<Longrightarrow> c (w_db w) \<Longrightarrow> \<exists>x w'. m w = (Inr x, w') \<and> calm w' \<and> w_db w' = w_db w"
    and "\<And>d d'. c d \<Longrightarrow> rows_added d d' \<Longrightarrow> c d'"
  shows "settles c m"
  using assms unfolding settles_def by blast

lemma settles_bind:
  assumes m: "settles c m" and k: "\<And>x. settles c' (k x)"
  shows "settles (\<lambda>d. c d \<and> c' d) (try_bind m k)"
proof (rule settlesI)
  fix w x w' assume "try_bind m k w = (Inr x, w')"
  then obtain y w1 where "m w = (Inr y, w1)" "k y w1 = (Inr x, w')" by (auto simp: run_inv)
  note settlesD(1,2) [OF m this(1)] settlesD(1,2) [OF k this(2)]
  then show "(c (w_db w') \<and> c' (w_db w')) \<and> rows_added (w_db w) (w_db w')"
    using settlesD(4) [OF m] rows_added_trans by blast
next
  fix w assume w: "calm w" "c (w_db w) \<and> c' (w_db w)"
  with settlesD(3) [OF m] obtain y w1 where one: "m w = (Inr y, w1)" "calm w1" "w_db w1 = w_db w"
    by blast
  with settlesD(3) [OF k, of w1] w(2) one show "\<exists>x w'. try_bind m k w = (Inr x, w') \<and> calm w' \<and> w_db w' = w_db w"
    by (simp add: try_bind_def)
next
  fix d d' assume "c d \<and> c' d" "rows_added d d'"
  then show "c d' \<and> c' d'" using settlesD(4) [OF m] settlesD(4) [OF k] by blast
qed

lemma settles_ret: "settles (\<lambda>d. True) (ret x)"
  by (rule settlesI) (auto simp: ret_def)

lemma settles_for_each:
  "(\<And>x. x \<in> set xs \<Longrightarrow> settles (c x) (f x)) \<Longrightarrow> settles (\<lambda>d. \<forall>x\<in>set xs. c x d) (for_each xs f)"
proof (induction xs)
  case (Cons x xs)
  then have "settles (\<lambda>d. c x d \<and> (\<forall>x\<in>set xs. c x d)) (for_each (x # xs) f)"
    unfolding for_each.simps by (intro settles_bind) auto
  then show ?case by simp
qed (simp add: settles_ret)

lemma settles_insert:
  assumes f: "\<And>d. rows_added d (f d)" "\<And>d. c (f d)"
    and c: "\<And>d d'. c d \<Longrightarrow> rows_added d d' \<Longrightarrow> c d'"
    and ok: "\<And>d. find (\<lambda>k. fst k d) checks = None"
  shows "settles c (insert_ignore checks c refs f)"
proof (rule settlesI)
  fix w x w' assume run: "insert_ignore checks c refs f w = (Inr x, w')"
  then have "w_db w' = w_db w \<and> c (w_db w) \<or> w_db w' = f (w_db w)"
    by (auto simp: insert_ignore_def sql_Inr ok constrained_def split: if_splits option.splits)
  with f show "c (w_db w') \<and> rows_added (w_db w) (w_db w')" by auto
next
  fix w assume "calm w" "c (w_db w)"
  then have "insert_ignore checks c refs f w = (Inr False, w)"
    by (simp add: insert_ignore_def calm_sql ok)
  with \<open>calm w\<close> show "\<exists>x w'. insert_ignore checks c refs f w = (Inr x, w') \<and> calm w' \<and> w_db w' = w_db w"
    by blast
qed (rule c)

lemma expect_ok_Inr: "expect_ok m w = (Inr x, w') \<longleftrightarrow> m w = (Inr x, w')"
  by (auto simp: expect_ok_def map_err_def split: prod.splits sum.splits)

lemma settles_expect: "settles c m \<Longrightarrow> settles c (expect_ok m)"
  unfolding settles_def expect_ok_Inr .

lemma settles_executed: "settles c m \<Longrightarrow> settles c (executed m)"
  unfolding executed_def
  using settles_bind [OF settles_expect settles_ret, of c m "\<lambda>_. ()"] by simp

lemma settles_now: "(\<And>now. settles c (k now)) \<Longrightarrow> settles c (try_bind utc_now k)"
  unfolding settles_def utc_now_def gets_def try_bind_def by simp

lemma settles_seed_product:
  "id_like ''product'' i \<Longrightarrow>
    settles (\<lambda>d. list_ex (\<lambda>p. pr_product_id p = i) (db_products d)) (seed_product X i b n)"
  unfolding seed_product_def
  by (intro settles_now settles_executed settles_insert)
    (auto simp: rows_added_def intro: list_ex_appended)

lemma settles_seed_batch:
  "id_like ''batch'' i \<Longrightarrow>
    settles (\<lambda>d. list_ex (\<lambda>p. ba_batch_id p = i) (db_batches d)) (seed_batch X i b)"
  unfolding seed_batch_def
  by (intro settles_now settles_executed settles_insert)
    (auto simp: rows_added_def intro: list_ex_appended)

lemma settles_seed_session:
  "id_like ''session'' i \<Longrightarrow>
    settles (\<lambda>d. list_ex (\<lambda>p. fs_session_id p = i) (db_sessions d)) (seed_session X i b)"
  unfolding seed_session_def
  by (intro settles_now settles_executed settles_insert)
    (auto simp: rows_added_def intro: list_ex_appended)

lemma settles_seed_asset:
  assumes "id_like ''asset'' (sa_asset_id p)" "from_db_str (sa_current_state p) \<noteq> None"
    and "sa_previous_state p = None"
  shows "settles (\<lambda>d. list_ex (\<lambda>a. as_asset_id a = sa_asset_id p
      \<or> sa_uid p \<noteq> None \<and> as_uid a = sa_uid p) (db_assets d)) (seed_asset X p)"
  unfolding seed_asset_def using assms
  by (intro settles_now settles_executed settles_insert)
    (auto simp: rows_added_def intro: list_ex_appended)

definition demo_brand_seeded :: "database \<Rightarrow> bool" where
  "demo_brand_seeded d \<longleftrightarrow>
     list_ex (\<lambda>b. br_brand_id b = ''brand-demo'' \<or> br_brand_name b = ''RC Demo Brand''
       \<or> br_contact_email b = ''brand-demo@test.local'') (db_brands d)"

lemma settles_seed_brand: "settles demo_brand_seeded (seed_brand X ''brand-demo'' ''RC Demo Brand'')"
proof -
  have "prefix ''brand'' ''brand-demo''" by (simp add: prefix_def)
  then show ?thesis
    unfolding seed_brand_def seed_brand_with_api_key_def insert_brand_values_def Let_def
      demo_brand_seeded_def
    apply (intro settles_executed settles_now)
    apply (simp add: column_def missing_column_def brand_required_def unwrap_or_def)
    by (rule settles_insert)
      (auto simp: rows_added_def brand_id_like_def intro: list_ex_appended)
qed

lemma seed_device_effect:
  assumes "seed_authority_device X p w = (Inr i, w')"
  shows "list_ex (\<lambda>a. ad_authority_uid a = sd_authority_uid p) (db_devices (w_db w'))
    \<and> rows_added (w_db w) (w_db w')"
  using assms
  by (auto simp: seed_authority_device_def draw_def run_inv expect_ok_Inr insert_ignore_def
      constrained_def rows_added_def split: if_splits option.splits)

lemma settles_seed_device:
  assumes "sd_authority_type p \<in> set authority_types"
  shows "settles (\<lambda>d. list_ex (\<lambda>a. ad_authority_uid a = sd_authority_uid p) (db_devices d))
    (seed_authority_device X p)"
proof (rule settlesI)
  fix w assume w: "calm w" "list_ex (\<lambda>a. ad_authority_uid a = sd_authority_uid p) (db_devices (w_db w))"
  then obtain a where "find (\<lambda>a. ad_authority_uid a = sd_authority_uid p) (db_devices (w_db w)) = Some a"
    by (cases "find (\<lambda>a. ad_authority_uid a = sd_authority_uid p) (db_devices (w_db w))")
      (auto simp: find_None_iff list_ex_iff)
  with w assms show "\<exists>x w'. seed_authority_device X p w = (Inr x, w') \<and> calm w' \<and> w_db w' = w_db w"
    by (simp add: seed_authority_device_def draw_def try_bind_def expect_ok_def map_err_def
        insert_ignore_def calm_def sql_def db_call_def Let_def fetch_first_def select_rows_def
        expect_def ok_or_def of_result_def ret_def)
next
  fix w x w' assume "seed_authority_device X p w = (Inr x, w')"
  then show "list_ex (\<lambda>a. ad_authority_uid a = sd_authority_uid p) (db_devices (w_db w'))
      \<and> rows_added (w_db w) (w_db w')" by (rule seed_device_effect)
qed (auto simp: rows_added_def intro: list_ex_appended)

text \<open>The rows before the entanglement.\<close>

definition seed_demo_rows :: "('z externs_scheme) \<Rightarrow> uuid op" where
  "seed_demo_rows X =
     try_bind (seed_brand X ''brand-demo'' ''RC Demo Brand'') (\<lambda>_.
     try_bind (seed_product X ''product-demo-001'' ''brand-demo'' ''RC Demo Product'') (\<lambda>_.
     try_bind (seed_batch X ''batch-demo-001'' ''brand-demo'') (\<lambda>_.
     try_bind (seed_session X ''session-demo-001'' ''batch-demo-001'') (\<lambda>_.
     try_bind (for_each demo_assets (\<lambda>a. seed_asset X (demo_asset_params a))) (\<lambda>_.
     seed_authority_device X demo_device_params)))))"

lemma try_bind_assoc: "try_bind (try_bind m k) h = try_bind m (\<lambda>x. try_bind (k x) h)"
  by (auto simp: try_bind_def fun_eq_iff split: prod.splits sum.splits)

lemma seed_demo_data_rows:
  "seed_demo_data X =
     try_bind (seed_demo_rows X) (\<lambda>i. seed_entanglement X (demo_entanglement_params i))"
  by (simp add: seed_demo_data_def seed_demo_rows_def try_bind_assoc)

lemma settles_demo_rows: "\<exists>c. settles c (seed_demo_rows X)"
proof -
  have ids: "id_like ''product'' ''product-demo-001''" "id_like ''batch'' ''batch-demo-001''"
    "id_like ''session'' ''session-demo-001''"
    by (simp_all add: id_like_def prefix_def)
  have assets: "settles (\<lambda>d. \<forall>a\<in>set demo_assets. list_ex (\<lambda>r. as_asset_id r = fst a
      \<or> as_uid r = Some (fst (snd a))) (db_assets d))
    (for_each demo_assets (\<lambda>a. seed_asset X (demo_asset_params a)))"
  proof (rule settles_for_each)
    fix a assume a: "a \<in> set demo_assets"
    then have "id_like ''asset'' (sa_asset_id (demo_asset_params a))"
      "from_db_str (sa_current_state (demo_asset_params a)) \<noteq> None"
      by (auto simp: demo_assets_def demo_asset_params_def id_like_def from_db_str_def)
    from settles_seed_asset [OF this, of X]
    show "settles (\<lambda>d. list_ex (\<lambda>r. as_asset_id r = fst a \<or> as_uid r = Some (fst (snd a))) (db_assets d))
        (seed_asset X (demo_asset_params a))"
      by (simp add: demo_asset_params_def case_prod_beta)
  qed
  have device: "sd_authority_type demo_device_params \<in> set authority_types"
    by (simp add: demo_device_params_def authority_types_def)
  note settled = settles_bind [OF assets settles_seed_device [OF device]]
  note settled = settles_bind [OF settles_seed_session [OF ids(3)] settled]
  note settled = settles_bind [OF settles_seed_batch [OF ids(2)] settled]
  note settled = settles_bind [OF settles_seed_product [OF ids(1)] settled]
  note settled = settles_bind [OF settles_seed_brand settled]
  show ?thesis
    unfolding seed_demo_rows_def by (rule exI) (rule settled)
qed

text \<open>
  Seeding the demonstration data again changes nothing: when it has succeeded and the frozen
  asset has its active entanglement, a second run on the database it left succeeds and leaves that
  database as it is.
\<close>

theorem demo_data_idempotent:
  assumes "seed_demo_data X w = (Inr (), w1)"
    and "list_ex (active_entanglement ''asset-freeze-001'') (db_entanglements (w_db w1))"
    and "calm w2" "w_db w2 = w_db w1"
  shows "\<exists>w3. seed_demo_data X w2 = (Inr (), w3) \<and> w_db w3 = w_db w1"
proof -
  obtain c where c: "settles c (seed_demo_rows X)" using settles_demo_rows by blast
  from assms(1) obtain i v where run: "seed_demo_rows X w = (Inr i, v)"
    "seed_entanglement X (demo_entanglement_params i) v = (Inr (), w1)"
    by (auto simp: seed_demo_data_rows run_inv)
  have "rows_added (w_db v) (w_db w1)"
    using run(2) by (auto simp: seed_entanglement_def draw_def utc_now_def gets_def executed_def
      run_inv expect_ok_Inr insert_ignore_def constrained_def rows_added_def split: if_splits option.splits)
  with settlesD(1,4) [OF c] run(1) have "c (w_db w1)" by blast
  with settlesD(3) [OF c, of w2] assms(3,4) obtain j v2 where
    two: "seed_demo_rows X w2 = (Inr j, v2)" "calm v2" "w_db v2 = w_db w1" by auto
  have "find (\<lambda>k. fst k d) [(\<lambda>d. sn_entanglement_state (demo_entanglement_params j)
      \<notin> {''Pending'', ''Active'', ''Suspended'', ''Broken''}, e)] = None" for d :: database and e :: sqlx_error
    by (simp add: demo_entanglement_params_def)
  with two assms(2) have "\<exists>w3. seed_entanglement X (demo_entanglement_params j) v2 = (Inr (), w3) \<and> w_db w3 = w_db w1"
    by (auto simp: seed_entanglement_def draw_def utc_now_def gets_def ret_def try_bind_def executed_def
        expect_ok_def map_err_def insert_ignore_def calm_def sql_def db_call_def Let_def
        demo_entanglement_params_def list_ex_iff)
  with two(1) show ?thesis by (auto simp: seed_demo_data_rows try_bind_def)
qed

end
