(* ===== verification/Key_Frame.thy ===== *)
theory Key_Frame
  imports Server
begin

text \<open>
  What every handler keeps that is kept by derivations and by every step that leaves the key
  service alone.
\<close>

locale key_frame = run_preorder R
  for R :: "world \<Rightarrow> world \<Rightarrow> bool" +
  fixes X :: "'z auth_externs_scheme"
  assumes other: "w_kms w' = w_kms w \<Longrightarrow> R w w'"
    and chip: "R w (w\<lparr>w_kms := snd (derive_chip_key X (w_kms w) b u e)\<rparr>)"
    and mother: "R w (w\<lparr>w_kms := snd (derive_mother_key X (w_kms w) b u e)\<rparr>)"
begin

lemma keeps_same: "(\<And>w. w_kms (snd (m w)) = w_kms w) \<Longrightarrow> keeps R m"
  by (simp add: keeps_def other)

lemma keeps_sql [keeps_intro]: "keeps R (sql q)"
  by (rule keeps_same) (simp add: sql_def map_err_def db_call_def Let_def
      split: list.split option.split sum.split prod.split)

lemma keeps_statements [keeps_intro]:
  "keeps R (select_rows f)" "keeps R (fetch_first p tbl)" "keeps R (execute_sql g)"
  "keeps R (select_page X limit offset h)"
  unfolding select_rows_def fetch_first_def execute_sql_def select_page_def by (intro keeps_sql)+

lemma keeps_transaction [keeps_intro]:
  assumes "keeps R m"
  shows "keeps R (transaction m)"
  unfolding keeps_def
proof
  fix w
  have sql: "w_kms w' = w_kms v" if "execute_sql id v = (x, w')" for x v w'
    using that by (auto simp: execute_sql_def sql_def map_err_def db_call_def Let_def
        split: list.splits option.splits sum.splits prod.splits)
  obtain x w0 where b: "execute_sql id w = (x, w0)" by fastforce
  obtain y w1 where m: "m w0 = (y, w1)" by fastforce
  obtain z w2 where c: "execute_sql id w1 = (z, w2)" by fastforce
  have "R w w0" "R w0 w1" "R w1 (w1\<lparr>w_db := w_db w0\<rparr>)" "R w1 (w2\<lparr>w_db := w_db w0\<rparr>)" "R w1 w2"
    using sql [OF b] sql [OF c] keepsD [OF assms m] by (simp_all add: other)
  then show "R w (snd (transaction m w))"
    using b m c by (auto simp: transaction_def split: sum.splits intro: R_trans)
qed

lemma keeps_rest [keeps_intro]:
  "keeps R (draw src)" "keeps R utc_now" "keeps R (env_var s)" "keeps R (throw e)" "keeps R panic"
  "keeps R (lift u)" "keeps R (check c e)" "keeps R (expect y)" "keeps R (required e v)"
  "keeps R (redis_call f)" "keeps R (l1_insert k n)" "keeps R (l1_remove k)" "keeps R (db_call q)"
  by (rule keeps_same, simp add: draw_def utc_now_def env_var_def throw_def panic_def lift_def check_def
      expect_def required_def redis_call_def l1_insert_def l1_remove_def db_call_def act_simps require_simps Let_def
      split: option.split prod.split list.split sum.split)+

lemma keeps_chip [keeps_intro]: "keeps R (kms_or_error what (\<lambda>k. derive_chip_key X k b u e))"
  "keeps R (kms_or_error what (\<lambda>k. derive_mother_key X k b u e))"
  unfolding kms_or_error_def
  by (rule keeps_map_err, simp add: keeps_def kms_call_def split: prod.split,
      metis chip mother snd_conv)+

lemma keeps_match [keeps_intro]:
  "keeps R m \<Longrightarrow> (\<And>e. keeps R (h e)) \<Longrightarrow> (\<And>x. keeps R (k x)) \<Longrightarrow> keeps R (match_result m h k)"
  unfolding match_result_def by (intro keeps_intro) (auto intro: keeps_intro split: abort.split)

lemma keeps_with_idempotency [keeps_intro]:
  "keeps R fresh \<Longrightarrow> keeps R (with_idempotency key h fresh)"
  unfolding with_idempotency_def load_idempotency_record_def by (intro keeps_intro)

text \<open>\<^verbatim>\<open>Attestation\<close>\<close>

lemma key_attestation [keeps_intro]:
  "keeps R (load_brand_signing_key X)" "keeps R (load_platform_signing_key X)"
  "keeps R (build_asset_commitment_record X b u e p n l c)"
  unfolding load_brand_signing_key_def load_platform_signing_key_def
    build_asset_commitment_record_def Let_def
  by (intro keeps_intro)+

text \<open>\<^verbatim>\<open>Db_Assets\<close>\<close>

lemma key_db_assets [keeps_intro]:
  "keeps R (fetch_asset asset_id)" "keeps R (fetch_verify_view asset_id2)"
  "keeps R (insert_event X e)" "keeps R (insert_asset_commitment X record)"
  "keeps R (fetch_asset_commitment_by_id commitment_id)"
  "keeps R (fetch_asset_commitment_by_uid_epoch asset_uid epoch)"
  "keeps R (bind_asset_commitment_to_asset asset_id3 commitment_id2)"
  "keeps R (insert_brand_attestation X record2)"
  "keeps R (fetch_brand_attestation_by_commitment asset_commitment_id)"
  "keeps R (fetch_brand_attestation_by_id attestation_id)"
  "keeps R (insert_platform_attestation X record3)"
  "keeps R (fetch_platform_attestation_by_commitment asset_commitment_id2)"
  "keeps R (fetch_platform_attestation_by_id attestation_id2)"
  "keeps R (fetch_authority_device_by_asset asset_id4)"
  "keeps R (atomic_update_ctr authority_id new_ctr)"
  "keeps R (insert_entanglement X asset_id5 child_uid authority_id2 authority_uid bound_by)"
  "keeps R (fetch_active_entanglement asset_id6)"
  "keeps R (insert_authority_device X u t b e2 h v c)"
  unfolding fetch_asset_def fetch_verify_view_def insert_event_def insert_asset_commitment_def
    fetch_asset_commitment_by_id_def fetch_asset_commitment_by_uid_epoch_def
    bind_asset_commitment_to_asset_def insert_brand_attestation_def
    fetch_brand_attestation_by_commitment_def fetch_brand_attestation_by_id_def
    insert_platform_attestation_def fetch_platform_attestation_by_commitment_def
    fetch_platform_attestation_by_id_def fetch_authority_device_by_asset_def atomic_update_ctr_def
    insert_entanglement_def fetch_active_entanglement_def insert_authority_device_def Let_def
  by (intro keeps_intro)+

lemma key_persist_action [keeps_intro]:
  "keeps R (persist_action X next_record audit_event request_hash response_snapshot commitment_id)"
  unfolding persist_action_def Let_def
  by (intro keeps_intro) (auto intro: keeps_intro split: asset_action.split)

text \<open>\<^verbatim>\<open>Asset_Queries\<close>\<close>

lemma key_asset_queries [keeps_intro]:
  "keeps R (fetch_asset_commitment_payload commitment_id)" "keeps R (fetch_asset_by_uid uid)"
  "keeps R (update_asset_ctr asset_id ctr)" "keeps R (fetch_virtual_mother_card_detail asset_id2)"
  "keeps R (count_attestations tbl commitment_id2)" "keeps R (asset_detail_of row)"
  "keeps R (fetch_asset_detail asset_id3)" "keeps R (fetch_asset_history X asset_id4)"
  "keeps R (list_assets X brand_id batch_id current_state limit offset)"
  unfolding fetch_asset_commitment_payload_def fetch_asset_by_uid_def update_asset_ctr_def
    fetch_virtual_mother_card_detail_def count_attestations_def asset_detail_of_def
    fetch_asset_detail_def fetch_asset_history_def list_assets_def Let_def
  by (intro keeps_intro)+

text \<open>\<^verbatim>\<open>Db_Registry\<close>\<close>

lemma key_db_registry [keeps_intro]:
  "keeps R (create_brand X brand_id brand_name contact_email industry)"
  "keeps R (fetch_brand_by_id brand_id2)" "keeps R (fetch_brand_by_email email)"
  "keeps R (fetch_brand_detail brand_id3)"
  "keeps R (create_api_key X key_id brand_id4 key_hash key_prefix)"
  "keeps R (revoke_api_key key_id2 reason)" "keeps R (fetch_api_keys_by_brand brand_id5)"
  "keeps R (fetch_active_api_key_by_brand brand_id6)" "keeps R (update_api_key_last_used key_id3)"
  "keeps R (fetch_active_api_key brand_id7)" "keeps R (list_api_keys brand_id8)"
  "keeps R (fetch_brand_by_api_key_hash key_hash2)" "keeps R (list_brands X brand_filter params)"
  "keeps R (update_brand brand_id9 payload)" "keeps R (fetch_brands_batch brand_ids)"
  "keeps R (create_batch X req)" "keeps R (fetch_batch batch_id)"
  "keeps R (close_batch batch_id2)" "keeps R (list_batches X brand_id10 limit offset)"
  "keeps R (fetch_product brand_id11 product_id)" "keeps R (list_products X brand_id12 params2)"
  "keeps R (fetch_products_batch product_ids)"
  "keeps R (insert_transfer X asset_id from_owner_id to_owner_id transfer_type idempotency_key trace_id)"
  "keeps R (fetch_transfer transfer_id)"
  "keeps R (update_transfer_status transfer_id2 target_status)"
  "keeps R (confirm_transfer transfer_id3)" "keeps R (reject_transfer transfer_id4)"
  unfolding create_brand_def fetch_brand_by_id_def fetch_brand_by_email_def fetch_brand_detail_def
    create_api_key_def revoke_api_key_def fetch_api_keys_by_brand_def
    fetch_active_api_key_by_brand_def update_api_key_last_used_def fetch_active_api_key_def
    list_api_keys_def fetch_brand_by_api_key_hash_def list_brands_def update_brand_def
    fetch_brands_batch_def create_batch_def fetch_batch_def close_batch_def list_batches_def
    fetch_product_def list_products_def fetch_products_batch_def insert_transfer_def
    fetch_transfer_def update_transfer_status_def confirm_transfer_def reject_transfer_def Let_def
  by (intro keeps_intro)+

lemma key_scans [keeps_intro]:
  "keeps R (insert_verification_event X u a c st fs v ip)"
  "keeps R (insert_verification_event_v2 X u a c st fs v ip cid b p)"
  unfolding insert_verification_event_def insert_verification_event_v2_def insert_scan_def Let_def
  by (intro keeps_intro)+

text \<open>\<^verbatim>\<open>Auth\<close>\<close>

lemma key_generate [keeps_intro]: "keeps R (generate_api_key X)"
  unfolding generate_api_key_def by (intro keeps_intro)

lemma key_auth [keeps_intro]:
  "keeps R (generate_key_id X)" "keeps R (generate_brand_id X)"
  "keeps R (authenticate_api_key_hash api_key_hash)"
  unfolding generate_key_id_def generate_brand_id_def authenticate_api_key_hash_def Let_def
  by (intro keeps_intro)+

lemma key_auth_2 [keeps_intro]:
  "keeps R (authenticate X auth hs)"
  unfolding authenticate_def Let_def
  by (intro keeps_intro)+

text \<open>\<^verbatim>\<open>Routes_Protocol\<close>\<close>

lemma key_routes_protocol [keeps_intro]:
  "keeps R (update_asset_product_mapping a p n l)"
  "keeps R (generate_virtual_mother_card_with_result X asset_id brand_id the_actor_id)"
  "keeps R (verify_asset asset_id2)"
  "keeps R (prepare_action X asset_id3 action actor hs payload)"
  "keeps R (persist_plan X cid plan)" "keeps R (commit_action X asset_id4 action2 actor2 plan2)"
  unfolding update_asset_product_mapping_def generate_virtual_mother_card_with_result_def
    verify_asset_def prepare_action_def persist_plan_def commit_action_def Let_def
  by (intro keeps_intro)+

lemma key_routes_protocol_2 [keeps_intro]:
  "keeps R (issue_attestations X asset_id brand_id payload)"
  "keeps R (prepare_activation X asset_id2 actor hs payload2 request_hash)"
  "keeps R (prepare_entangle X asset_id3 actor2 hs2 payload3 request_hash2)"
  unfolding issue_attestations_def prepare_activation_def prepare_entangle_def Let_def
  by (intro keeps_intro)+

lemma key_routes_protocol_3 [keeps_intro]:
  "keeps R (activate_asset X asset_id actor headers payload)"
  "keeps R (activate_entangle_asset X asset_id2 actor2 headers2 payload2)"
  unfolding activate_asset_def activate_entangle_asset_def Let_def
  by (intro keeps_intro)+

lemma key_execute [keeps_intro]: "keeps R (execute_asset_action X asset_id action actor hs payload)"
  unfolding execute_asset_action_def by (intro keeps_intro)

text \<open>\<^verbatim>\<open>Authorization\<close>\<close>

lemma key_authorization [keeps_intro]:
  "keeps R (check_physical_tap X dev uid_hex ctr_hex cmac_hex new_ctr)"
  unfolding check_physical_tap_def Let_def
  by (intro keeps_intro)+

lemma key_authorization_2 [keeps_intro]:
  "keeps R (verify_virtual_authority X asset_id user_id credential_token)"
  "keeps R (verify_physical_authority X asset_id2 uid_hex ctr_hex cmac_hex)"
  unfolding verify_virtual_authority_def verify_physical_authority_def Let_def
  by (intro keeps_intro)+

lemma key_verify_authority [keeps_intro]: "keeps R (verify_authority X asset_id proof)"
  unfolding verify_authority_def by (auto intro: keeps_intro split: authority_proof.split)

text \<open>\<^verbatim>\<open>Routes_Transfer\<close>\<close>

lemma key_routes_transfer [keeps_intro]:
  "keeps R (verify_child_tag X brand_id uid_hex ctr_hex cmac_hex)" "keeps R (transfer_trace X hs)"
  unfolding verify_child_tag_def transfer_trace_def Let_def
  by (intro keeps_intro)+

lemma key_routes_transfer_2 [keeps_intro]:
  "keeps R (authorize_transfer X asset_id actor payload)"
  unfolding authorize_transfer_def Let_def
  by (intro keeps_intro)+

lemma key_routes_transfer_3 [keeps_intro]:
  "keeps R (transfer_handler X asset_id actor hs payload)"
  "keeps R (get_transfer_handler X transfer_id actor2)"
  "keeps R (confirm_transfer_handler X actor3 transfer_id2)"
  "keeps R (reject_transfer_handler X actor4 transfer_id3)"
  unfolding transfer_handler_def get_transfer_handler_def confirm_transfer_handler_def
    reject_transfer_handler_def Let_def
  by (intro keeps_intro)+

text \<open>\<^verbatim>\<open>Ctr_Cache\<close>\<close>

lemma key_ctr_cache [keeps_intro]:
  "keeps R (redis_get_ctr key)" "keeps R (redis_set_ex key2 v ttl)"
  unfolding redis_get_ctr_def redis_set_ex_def Let_def
  by (intro keeps_intro)+

lemma key_ctr_cache_2 [keeps_intro]:
  "keeps R (backfill_l2 uid ctr)"
  unfolding backfill_l2_def Let_def
  by (intro keeps_intro)+

lemma key_ctr_cache_3 [keeps_intro]:
  "keeps R (get_ctr uid)" "keeps R (update_ctr uid2 new_ctr)"
  unfolding get_ctr_def update_ctr_def Let_def
  by (intro keeps_intro)+

text \<open>\<^verbatim>\<open>Routes_Verify\<close>\<close>

lemma key_routes_verify [keeps_intro]:
  "keeps R (resolve_asset_commitment_id asset)"
  "keeps R (validate_brand_attestation X asset2 commitment_id)"
  "keeps R (validate_platform_attestation X commitment_id2)"
  unfolding resolve_asset_commitment_id_def validate_brand_attestation_def
    validate_platform_attestation_def Let_def
  by (intro keeps_intro)+

lemma key_routes_verify_2 [keeps_intro]:
  "keeps R (build_summary X asset)" "keeps R (judge_ctr asset2 uid_hex new_ctr cached_ctr)"
  unfolding build_summary_def judge_ctr_def Let_def
  by (intro keeps_intro)+

lemma key_routes_verify_3 [keeps_intro]:
  "keeps R (handle_degraded X uid_hex v2)"
  "keeps R (reply_v1 X uid_hex2 asset new_ctr previous_ctr risk_flags state_status)"
  "keeps R (reply_v2 X uid_hex3 asset2 new_ctr2 previous_ctr2 risk_flags2 state_status2)"
  unfolding handle_degraded_def reply_v1_def reply_v2_def Let_def
  by (intro keeps_intro)+

lemma key_full_verify [keeps_intro]: "keeps R (handle_full_verify X uid_hex parsed v2)"
  unfolding handle_full_verify_def Let_def by (intro keeps_intro) (cases v2; simp add: keeps_intro)

lemma key_verify [keeps_intro]:
  "keeps R (verify_impl X params v2)" "keeps R (verify_handler X params)" "keeps R (verify_v2_handler X params)"
  unfolding verify_impl_def verify_handler_def verify_v2_handler_def by (intro keeps_intro)+

text \<open>\<^verbatim>\<open>Routes_Registry\<close>\<close>

lemma key_over_columns [keeps_intro]: "keeps R (over_columns X columns used q)"
  unfolding over_columns_def by (intro keeps_intro)

lemma key_routes_registry [keeps_intro]:
  "keeps R (register_brand X actor payload)" "keeps R (list_brands_handler X actor2 params)"
  "keeps R (get_brand X actor3 brand_id)"
  "keeps R (update_brand_handler X actor4 brand_id2 payload2)"
  "keeps R (rotate_api_key X actor5 brand_id3 reason)"
  "keeps R (list_api_keys_handler X actor6 brand_id4)" "keeps R (batch_brands X actor7 ids_param)"
  "keeps R (create_batch_handler X actor8 payload3)" "keeps R (get_batch X actor9 batch_id)"
  "keeps R (close_batch_handler X actor10 batch_id2)"
  "keeps R (list_batches_handler X actor11 params2)" "keeps R (get_asset X actor12 asset_id)"
  "keeps R (get_asset_history X actor13 asset_id2)"
  "keeps R (get_asset_attestations X actor14 asset_id3)"
  "keeps R (list_assets_handler X actor15 query)"
  "keeps R (register_physical_mother_card X actor16 req)" "keeps R healthz"
  unfolding register_brand_def list_brands_handler_def get_brand_def update_brand_handler_def
    rotate_api_key_def list_api_keys_handler_def batch_brands_def create_batch_handler_def
    get_batch_def close_batch_handler_def list_batches_handler_def get_asset_def
    get_asset_history_def get_asset_attestations_def list_assets_handler_def
    register_physical_mother_card_def healthz_def Let_def
  by (intro keeps_intro)+

text \<open>\<^verbatim>\<open>Server\<close>\<close>

lemma key_write_router: "keeps R (write_router X actor hs rq)"
  by (cases rq)
    (simp_all add: write_router_def blind_log_asset_def stock_in_asset_def activate_confirm_asset_def
       legal_sell_asset_def consume_asset_def legacy_asset_def freeze_asset_def recover_asset_def
       mark_tampered_asset_def mark_compromised_asset_def mark_destructed_asset_def keeps_intro)

lemma key_registry_router: "keeps R (registry_router X actor hs rq)"
  by (cases rq) (simp_all add: registry_router_def keeps_intro)

lemma key_respond: "keeps R h \<Longrightarrow> respond er h w = (resp, w') \<Longrightarrow> R w w'"
  by (cases "h w") (auto simp: respond_def dest: keepsD split: sum.splits abort.splits)

theorem serve_step:
  assumes "serve X auth rq w = (resp, w')"
  shows "R w w'"
proof (cases rq)
  case (Public p)
  with assms show ?thesis
    by (cases p) (auto simp: serve_def serve_public_def intro: key_respond keeps_intro)
next
  case (Protected hs p)
  let ?m = "auth_middleware X auth hs (\<lambda>claims. of_result (actor_from_request (Some claims)))"
  have "keeps R ?m" unfolding auth_middleware_def by (intro keeps_intro)
  moreover obtain x v where m: "?m w = (x, v)" by fastforce
  ultimately have first: "R w v" by (rule keepsD)
  show ?thesis
  proof (cases x)
    case (Inl e)
    with assms m first Protected show ?thesis by (simp add: serve_def serve_protected_def)
  next
    case (Inr actor)
    with assms m Protected have "R v w'"
      by (auto simp: serve_def serve_protected_def split: protected_request.splits
          intro: key_respond key_write_router key_registry_router)
    with first show ?thesis by (rule R_trans)
  qed
qed

end

end
