(* ===== verification/Startup_Properties.thy ===== *)
theory Startup_Properties
  imports Startup Key_Frame Demo
begin

text \<open>
  What a server that has started is guaranteed about its secrets, and what its key service
  answers for as long as the process lives.
\<close>

section \<open>The keys of a started server\<close>

lemma hex_pieces_loaded:
  "decode_pairs hex is = Loaded bs \<Longrightarrow> list_all (\<lambda>k. 2 * k + 2 \<le> length hex) is \<Longrightarrow>
    List.map_filter (\<lambda>k. hex_piece hex (2 * k)) is = bs"
  by (induction "is" arbitrary: bs)
    (auto simp: hex_piece_def mult.commute List.map_filter_simps split: if_splits option.splits load_result.splits)

lemma guard_Inr [simp]: "guard b e = Inr u \<longleftrightarrow> b"
  by (simp add: guard_def)

lemma loaded_pieces:
  assumes "load_root_key_from_env (Some hex) = Loaded bs"
  shows "hex_pieces hex = bs \<and> length bs = 32"
proof -
  from assms have l: "length hex = 64" and d: "decode_pairs hex [0..<32] = Loaded bs"
    by (auto simp: load_root_key_from_env_def split: if_splits)
  then show ?thesis
    using hex_pieces_loaded [OF d] decode_pairs_length [OF d] by (simp add: hex_pieces_def list_all_iff)
qed

lemma from_env_Loaded:
  "from_env root system = Loaded kms \<Longrightarrow>
    load_root_key_from_env root = Loaded (kms_root_key kms) \<and> system = Some (kms_system_id kms)
    \<and> kms_brand_key_cache kms = Map.empty"
  by (auto simp: from_env_def split: load_result.splits option.splits)

lemma of_result_Inr: "of_result r w = (Inr x, w') \<longleftrightarrow> r = Inr x \<and> w' = w"
  by (auto simp: of_result_def)

lemma app_state_from_env_Inr:
  assumes "app_state_from_env X io e w = (Inr st, w')"
  shows "io_postgres io (st_database_url st)" "io_migrations io"
    "from_env (e ''RC_ROOT_KEY_HEX'') (e ''RC_SYSTEM_ID'') = Loaded (st_kms st)"
    "st_auth_disabled st = env_is_true e ''RC_AUTH_DISABLED''"
    "\<not> st_auth_disabled st \<Longrightarrow> map_option as_bytes (e ''RC_JWT_SECRET'') = Some (st_jwt_secret st)"
    "\<not> env_is_true e ''RC_SEED_DATA''" "w' = w"
  using assms run_seed_panics [of X w]
  by (auto simp: app_state_from_env_def Let_def run_inv of_result_Inr map_err_Inr ok_or_def ret_def
      split: load_result.splits if_splits option.splits)

lemma started:
  assumes "run_serve X io e w = (Inr (st, auth), w')"
  shows "validate_security_config e = Inr ()" "auth = auth_state_from st"
    "app_state_from_env X io e w = (Inr st, w')"
    "load_root_key_from_env (e ''RC_ROOT_KEY_HEX'') = Loaded (kms_root_key (st_kms st))"
    "e ''RC_SYSTEM_ID'' = Some (kms_system_id (st_kms st))" "kms_inv Y (st_kms st)"
proof -
  from assms show run: "validate_security_config e = Inr ()" "auth = auth_state_from st"
    "app_state_from_env X io e w = (Inr st, w')"
    by (auto simp: run_serve_def run_inv of_result_Inr ret_def)
  from from_env_Loaded [OF app_state_from_env_Inr(3) [OF run(3)]]
  show "load_root_key_from_env (e ''RC_ROOT_KEY_HEX'') = Loaded (kms_root_key (st_kms st))"
    "e ''RC_SYSTEM_ID'' = Some (kms_system_id (st_kms st))" "kms_inv Y (st_kms st)"
    by (simp_all add: kms_inv_empty)
qed

lemma started_world:
  assumes "run_serve X io e w = (Inr (st, auth), w')"
  shows "w' = w"
  using app_state_from_env_Inr(7) [OF started(3) [OF assms]] .

text \<open>
  C22. A server that has started has a 32-byte root key, the one of its environment, which is
  neither all zeros nor the bytes 0, 1, 2 and so on; its key service is in a good state; and unless
  authentication is switched off, tokens are checked with a secret of at least 32 bytes from the
  environment.
\<close>

theorem started_server_is_keyed:
  assumes "run_serve X io e w = (Inr (st, auth), w')"
  shows "load_root_key_from_env (e ''RC_ROOT_KEY_HEX'') = Loaded (kms_root_key (st_kms st))
    \<and> length (kms_root_key (st_kms st)) = 32
    \<and> kms_root_key (st_kms st) \<noteq> replicate 32 0
    \<and> kms_root_key (st_kms st) \<noteq> map word_of_nat [0..<32]
    \<and> e ''RC_SYSTEM_ID'' = Some (kms_system_id (st_kms st)) \<and> kms_inv X (st_kms st)
    \<and> (au_disabled auth \<longleftrightarrow> e ''RC_AUTH_DISABLED'' = Some ''true'')
    \<and> (au_disabled auth \<or> (\<exists>secret. e ''RC_JWT_SECRET'' = Some secret \<and> 32 \<le> length secret
         \<and> au_jwt_secret auth = as_bytes secret))"
proof -
  note run = started [OF assms]
  have dis: "st_auth_disabled st = env_is_true e ''RC_AUTH_DISABLED''"
    and jwt: "\<not> st_auth_disabled st \<Longrightarrow> e ''RC_JWT_SECRET'' \<noteq> None
        \<and> st_jwt_secret st = as_bytes (the (e ''RC_JWT_SECRET''))"
    using app_state_from_env_Inr(4,5) [OF run(3)] by auto
  from run(4) obtain hex where hex: "e ''RC_ROOT_KEY_HEX'' = Some hex"
    by (cases "e ''RC_ROOT_KEY_HEX''") (auto simp: load_root_key_from_env_def)
  have key: "hex_pieces hex = kms_root_key (st_kms st)" "length (kms_root_key (st_kms st)) = 32"
    using loaded_pieces run(4) hex by simp_all
  then have "kms_root_key (st_kms st) \<noteq> []" by auto
  with run(1) hex key(1) have "\<not> list_all (\<lambda>b. b = 0) (kms_root_key (st_kms st))"
    "\<not> is_sequential (kms_root_key (st_kms st))"
    by (auto simp: validate_security_config_def and_then_Inr Let_def)
  moreover have "list_all (\<lambda>b. b = 0) (replicate 32 (0 :: u8))" by (simp add: list_all_iff)
  moreover have "is_sequential (map word_of_nat [0..<32])"
    by (auto simp: is_sequential_def list_all_iff in_set_enumerate_eq)
  moreover have "e ''RC_JWT_SECRET'' = Some s \<Longrightarrow> 32 \<le> length s" for s
    using run(1) by (auto simp: validate_security_config_def and_then_Inr)
  ultimately show ?thesis
    using run(1-5) run(6) [of X] key(2) dis jwt by (auto simp: auth_state_from_def env_is_true_def)
qed

section \<open>Seeding\<close>

text \<open>
  C24. The server cannot be started with seeding on: when the secrets are acceptable, PostgreSQL is
  reachable and the migrations succeed, a server whose environment sets RC_SEED_DATA to true
  panics while it seeds, whatever the database holds, and leaves that database as it was.
\<close>

theorem seeding_server_never_starts:
  assumes "validate_security_config e = Inr ()" "io_migrations io"
    and "io_postgres io (unwrap_or default_database_url (e ''DATABASE_URL''))"
    and "e ''RC_SEED_DATA'' = Some ''true''"
  shows "\<exists>w'. run_serve X io e w = (Inl SeedFailed, w') \<and> w_db w' = w_db w"
  using assms run_seed_panics [of X w]
  by (auto simp: run_serve_def app_state_from_env_def Let_def try_bind_def of_result_def require_def
      map_err_def env_is_true_def)

section \<open>The life of the process\<close>

text \<open>Requests, and whatever else leaves this process's key service alone.\<close>

inductive process_step :: "('z auth_externs_scheme) \<Rightarrow> auth_state \<Rightarrow> world \<Rightarrow> world \<Rightarrow> bool"
  for X auth where
  serves: "serve X auth rq w = (resp, w') \<Longrightarrow> process_step X auth w w'"
| outside: "w_kms w' = w_kms w \<Longrightarrow> process_step X auth w w'"

definition keys_kept :: "('z auth_externs_scheme) \<Rightarrow> world \<Rightarrow> world \<Rightarrow> bool" where
  "keys_kept X w w' \<longleftrightarrow>
     (kms_inv X (w_kms w) \<longrightarrow> kms_inv X (w_kms w') \<and> kms_ident (w_kms w') = kms_ident (w_kms w))"

interpretation keys: key_frame "keys_kept X" X for X
proof (unfold_locales, goal_cases)
  case (4 w b u e)
  obtain r k where "derive_chip_key X (w_kms w) b u e = (r, k)" by fastforce
  then show ?case by (auto simp: keys_kept_def dest: software.chip_law)
next
  case (5 w b u e)
  obtain r k where "derive_mother_key X (w_kms w) b u e = (r, k)" by fastforce
  then show ?case by (auto simp: keys_kept_def dest: software.mother_law)
qed (auto simp: keys_kept_def)

text \<open>
  C23. The keys are those of the environment for as long as the process lives: after any
  requests, and whatever else happens to the databases, the caches and the clock, every chip key
  the server derives is the one that the specification derives from the root key and the system id
  it was started with.
\<close>

theorem process_keys_are_specified:
  assumes "run_serve X io e w0 = (Inr (st, auth), w1)"
    and "(process_step X auth)\<^sup>*\<^sup>* (boot_world st e (w_db w1) store now) w"
  shows "\<exists>w'. kms_or_error what (\<lambda>k. derive_chip_key X k b u ep) w =
      (Inr (kms_spec X (kms_root_key (st_kms st), the (e ''RC_SYSTEM_ID'')) (ChipReq b u ep)), w')
    \<and> load_root_key_from_env (e ''RC_ROOT_KEY_HEX'') = Loaded (kms_root_key (w_kms w))"
proof -
  note run = started [OF assms(1)]
  from assms(2) have "keys_kept X (boot_world st e (w_db w1) store now) w"
  proof (induction rule: rtranclp_induct)
    case (step v w)
    from step.hyps(2) have "keys_kept X v w"
      by cases (auto intro: keys.serve_step keys.other)
    with step.IH show ?case by (rule keys.R_trans)
  qed (rule keys.R_refl)
  then have w: "kms_inv X (w_kms w)" "kms_ident (w_kms w) = kms_ident (st_kms st)"
    using run(6) [of X] by (simp_all add: keys_kept_def boot_world_def)
  obtain r k where "derive_chip_key X (w_kms w) b u ep = (r, k)" by fastforce
  with software.chip_law [OF w(1) this] w(2) run(4,5) show ?thesis
    by (auto simp: kms_or_error_def kms_call_def map_err_def)
qed

section \<open>Witnesses\<close>

definition demo_io :: startup_io where
  "demo_io = \<lparr>io_postgres = (\<lambda>u. True), io_migrations = True, 
     io_redis = (\<lambda>u. False), io_bind = True\<rparr>"

definition demo_env :: env where
  "demo_env = [''RC_ROOT_KEY_HEX'' \<mapsto> concat (replicate 32 ''1f''), ''RC_SYSTEM_ID'' \<mapsto> ''rc'',
     ''RC_JWT_SECRET'' \<mapsto> replicate 32 CHR ''s'']"

definition demo_start :: world where
  "demo_start = demo_world Activated demo_virtual"

lemma demo_starts: "\<not> isl (fst (run_serve demo_x demo_io demo_env demo_start))"
  by code_simp

lemma demo_started:
  obtains st auth where "run_serve demo_x demo_io demo_env demo_start = (Inr (st, auth), demo_start)"
proof -
  obtain r w where run: "run_serve demo_x demo_io demo_env demo_start = (r, w)" by fastforce
  with demo_starts obtain st auth where "r = Inr (st, auth)" by (cases r) auto
  with run started_world [of demo_x demo_io demo_env demo_start st auth w] that show ?thesis by simp
qed

theorem started_server_is_keyed_witness:
  "\<exists>st auth. run_serve demo_x demo_io demo_env demo_start = (Inr (st, auth), demo_start) \<and> \<not> au_disabled auth
     \<and> kms_root_key (st_kms st) \<noteq> replicate 32 0 \<and> length (kms_root_key (st_kms st)) = 32"
proof -
  obtain st auth where run: "run_serve demo_x demo_io demo_env demo_start = (Inr (st, auth), demo_start)" by (rule demo_started)
  with started_server_is_keyed [OF run] show ?thesis by (auto simp: demo_env_def)
qed

theorem seeding_server_never_starts_witness:
  "\<exists>w'. run_serve demo_x demo_io (demo_env(''RC_SEED_DATA'' \<mapsto> ''true'')) demo_start = (Inl SeedFailed, w')
     \<and> w_db w' = w_db demo_start"
proof (rule seeding_server_never_starts)
  show "validate_security_config (demo_env(''RC_SEED_DATA'' \<mapsto> ''true'')) = Inr ()"
    by code_simp
qed (simp_all add: demo_io_def)

definition demo_boot :: "app_state \<Rightarrow> world" where
  "demo_boot st = boot_world st demo_env (w_db demo_start)
     \<lparr>rd_counters = Map.empty, rd_zsets = Map.empty, rd_hashes = Map.empty\<rparr> 0"

theorem process_keys_are_specified_witness:
  "\<exists>st auth w w'. run_serve demo_x demo_io demo_env demo_start = (Inr (st, auth), demo_start)
     \<and> w = snd (serve demo_x auth (Public Healthz) (demo_boot st))
     \<and> kms_or_error [] (\<lambda>k. derive_chip_key demo_x k ''brand_1'' [] 0) w =
       (Inr (kms_spec demo_x (kms_root_key (st_kms st), ''rc'') (ChipReq ''brand_1'' [] 0)), w')"
proof -
  obtain st auth where run: "run_serve demo_x demo_io demo_env demo_start = (Inr (st, auth), demo_start)" by (rule demo_started)
  let ?w = "snd (serve demo_x auth (Public Healthz) (demo_boot st))"
  have "process_step demo_x auth (demo_boot st) ?w"
    by (rule serves [OF prod.collapse [symmetric]])
  then have "(process_step demo_x auth)\<^sup>*\<^sup>* (demo_boot st) ?w" by simp
  moreover have "the (demo_env ''RC_SYSTEM_ID'') = ''rc''" by (simp add: demo_env_def)
  ultimately show ?thesis
    using process_keys_are_specified [OF run] run unfolding demo_boot_def by metis
qed

end
