(* ===== verification/Ownership.thy ===== *)
theory Ownership
  imports System_Invariants Action_Properties
begin

text \<open>
  Who can change the owner of an asset: an account, by a relation that the frame of every
  handler keeps, of the only asset whose owner a request may change and of the owner it gets,
  and what must have been proved first.
\<close>

section \<open>One asset, one new owner\<close>

definition owner_follows :: "string \<Rightarrow> string option \<Rightarrow> asset_row \<Rightarrow> asset_row \<Rightarrow> bool" where
  "owner_follows aid new a b \<longleftrightarrow>
     as_asset_id b = as_asset_id a
     \<and> (as_owner_id b = as_owner_id a \<or> as_asset_id a = aid \<and> as_owner_id b = new)"

definition owners_follow :: "string \<Rightarrow> string option \<Rightarrow> database \<Rightarrow> database \<Rightarrow> bool" where
  "owners_follow aid new d d' \<longleftrightarrow> list_all2 (owner_follows aid new) (db_assets d) (db_assets d')"

lemma owner_follows_refl [simp]: "owner_follows aid new a a"
  by (simp add: owner_follows_def)

lemma owner_follows_trans:
  "owner_follows aid new a b \<Longrightarrow> owner_follows aid new b c \<Longrightarrow> owner_follows aid new a c"
  by (auto simp: owner_follows_def)

lemma owners_update:
  "(\<And>a. a \<in> set rs \<Longrightarrow> p a \<Longrightarrow> owner_follows aid new a (f a)) \<Longrightarrow>
    list_all2 (owner_follows aid new) rs (update_rows p f rs)"
  by (auto simp: update_rows_def list_all2_map2 intro!: list.rel_refl_strong)

interpretation owners: db_steps "owners_follow aid new" "\<lambda>i own. own = id \<or> i = aid \<and> own = (\<lambda>_. new)"
  for aid new
proof unfold_locales
  show "owners_follow aid new d d" for d
    by (simp add: owners_follow_def list.rel_refl)
  show "owners_follow aid new a b \<Longrightarrow> owners_follow aid new b c \<Longrightarrow> owners_follow aid new a c" for a b c
    unfolding owners_follow_def using owner_follows_trans by (rule list_all2_trans)
next
  fix f :: "asset_row \<Rightarrow> asset_row" and d p
  assume core: "\<And>a. asset_core (f a) = asset_core a"
  have "owner_follows aid new a (f a)" for a
    using core [of a] by (simp add: asset_core_def owner_follows_def)
  then show "owners_follow aid new d (d\<lparr>db_assets := update_rows p f (db_assets d)\<rparr>)"
    by (simp add: owners_follow_def owners_update)
next
  fix i own s d a p t and f :: "asset_row \<Rightarrow> asset_row"
  assume "own = id \<or> i = aid \<and> own = (\<lambda>_. new)"
    and "\<And>x. as_asset_id (f x) = as_asset_id x \<and> as_brand_id (f x) = as_brand_id x
           \<and> as_current_state (f x) = as_db_str t \<and> as_owner_id (f x) = own (as_owner_id x)"
  then show "owners_follow aid new d (update_asset i f d)"
    by (auto simp: owners_follow_def update_asset_def owner_follows_def asset_with_id_def
        intro!: owners_update)
qed (auto simp: owners_follow_def append_event_def insert_idempotency_def list.rel_refl)

lemma owners_found:
  "list_all2 (owner_follows aid new) xs ys \<Longrightarrow> find (asset_with_id i) xs = Some a \<Longrightarrow>
    find (asset_with_id i) ys = Some b \<Longrightarrow> owner_follows aid new a b \<and> as_asset_id a = i"
  by (induction xs ys rule: list_all2_induct)
    (auto simp: owner_follows_def asset_with_id_def split: if_splits)

text \<open>Whether the owner of an asset differs between two databases.\<close>

definition owner_differs :: "string \<Rightarrow> database \<Rightarrow> database \<Rightarrow> bool" where
  "owner_differs i d d' \<longleftrightarrow>
     (\<exists>a b. find (asset_with_id i) (db_assets d) = Some a \<and> find (asset_with_id i) (db_assets d') = Some b
        \<and> as_owner_id b \<noteq> as_owner_id a)"

lemma owner_differs_follow:
  assumes "owner_differs i d d'" "owners_follow aid new d d'"
  shows "i = aid"
proof -
  from assms(1) obtain a b where "find (asset_with_id i) (db_assets d) = Some a"
    "find (asset_with_id i) (db_assets d') = Some b" "as_owner_id b \<noteq> as_owner_id a"
    unfolding owner_differs_def by blast
  with owners_found [OF assms(2) [unfolded owners_follow_def] this(1,2)] show ?thesis
    by (auto simp: owner_follows_def)
qed

lemma owner_differs_kept:
  assumes "owner_differs i (w_db w) (w_db w')" "\<And>aid new. on_db (owners_follow aid new) w w'"
  shows False
proof -
  from assms(2) [of "''x'' @ i" None] have "i = ''x'' @ i"
    by (intro owner_differs_follow [OF assms(1)]) (simp add: on_db_def)
  then show False by simp
qed

section \<open>What each request proves first\<close>

lemma owner_differs_transfer:
  assumes "transfer_handler X i actor hs q v = (x, w')" "owner_differs i (w_db v) (w_db w')"
  shows "\<exists>rec row v'. authorize_transfer X i actor q v = (Inr (rec, actor_id actor), v')
    \<and> find (asset_with_id i) (db_assets (w_db v)) = Some row \<and> decode_asset row = Inr rec
    \<and> as_owner_id row = Some (actor_id actor) \<and> ar_current_state rec \<in> {LegallySold, Transferred}"
proof -
  obtain r v' where auth: "authorize_transfer X i actor q v = (r, v')" by fastforce
  show ?thesis
  proof (cases r)
    case (Inl e)
    have "on_db (owners_follow aid new) v v'" for aid new
      by (rule keepsD [OF owners.keeps_authorize_transfer auth])
    moreover from assms(1) auth Inl have "w' = v \<or> w' = v'"
      by (auto simp: transfer_handler_def try_bind_def lift_def of_result_def split: sum.splits)
    ultimately show ?thesis
      using owner_differs_kept [OF assms(2)] by (auto simp: on_db_def owners.r_refl)
  next
    case (Inr y)
    with auth show ?thesis
      by (auto simp: authorize_transfer_def run_inv fetch_asset_def bind_eq_Some_conv)
  qed
qed

lemma owner_differs_action:
  assumes "execute_asset_action X i a actor hs q v = (x, w')" "owner_differs i (w_db v) (w_db w')"
    and "a \<noteq> ActivateEntangle"
  shows "\<exists>rec t prev. asset_at i rec (w_db v)
    \<and> can_role_initiate (the_role actor) (ar_current_state rec) a
    \<and> next_state_for_action_with_previous (ar_current_state rec) a prev = Some t"
proof -
  have same: "w_db w' \<noteq> w_db v"
    using assms(2) by (auto simp: owner_differs_def)
  show ?thesis
  proof (cases x)
    case (Inl e)
    with clean_execute [OF assms(3), of X i actor hs q] assms(1) same show ?thesis
      unfolding clean_def by blast
  next
    case (Inr resp)
    from assms(1) [unfolded Inr] assms(3) show ?thesis
    proof (cases rule: execute_Inr_cases)
      case (fresh h rec e n ev)
      then show ?thesis
        by (intro exI [of _ rec]) (auto simp: apply_action_Inr step_allowed_def audit_context_of_def)
    qed (use same in simp)
  qed
qed

section \<open>Every request\<close>

lemma respond_world: "respond er h v = (resp, w') \<Longrightarrow> \<exists>x. h v = (x, w')"
  by (auto simp: respond_def split: prod.splits sum.splits abort.splits)

lemma owner_effect_own: "snd (owner_effect actor p) = id \<or> (\<exists>new. snd (owner_effect actor p) = (\<lambda>_. new))"
  by (auto simp: owner_effect_def split: protected_request.split write_request.split registry_request.split)

text \<open>Only a signed-in request that may change the owner of this asset does.\<close>

lemma owner_differs_request:
  assumes run: "serve X auth rq w = (resp, w')" and diff: "owner_differs i (w_db w) (w_db w')"
  obtains hs p actor v new where "rq = Protected hs p" "signed_in X auth hs w = (Inr actor, v)"
    "owner_effect actor p = (i, \<lambda>_. new)" "owners_follow i new (w_db w) (w_db w')"
proof -
  have "\<exists>hs p actor v new. rq = Protected hs p \<and> signed_in X auth hs w = (Inr actor, v)
    \<and> owner_effect actor p = (i, \<lambda>_. new)"
  proof (rule ccontr)
    assume none: "\<not> ?thesis"
    have "\<exists>aid new. aid \<noteq> i \<and> (\<forall>hs p actor v. rq = Protected hs p \<longrightarrow> signed_in X auth hs w = (Inr actor, v) \<longrightarrow>
        (case owner_effect actor p of (j, own) \<Rightarrow> own = id \<or> j = aid \<and> own = (\<lambda>_. new)))"
    proof (cases "\<exists>hs p actor v. rq = Protected hs p \<and> signed_in X auth hs w = (Inr actor, v)
        \<and> snd (owner_effect actor p) \<noteq> id")
      case True
      then obtain hs p actor v where rq: "rq = Protected hs p" "signed_in X auth hs w = (Inr actor, v)"
        "snd (owner_effect actor p) \<noteq> id" by blast
      with owner_effect_own [of actor p] obtain j new where eff: "owner_effect actor p = (j, \<lambda>_. new)"
        by (cases "owner_effect actor p") auto
      with none rq have "j \<noteq> i" by blast
      with rq eff show ?thesis by (intro exI [of _ j] exI [of _ new]) auto
    next
      case False
      have "''x'' @ i \<noteq> i" by simp
      with False show ?thesis by (intro exI [of _ "''x'' @ i"] exI [of _ None]) (auto simp: case_prod_beta)
    qed
    then obtain aid new where "aid \<noteq> i" and ok: "\<And>hs p actor v. rq = Protected hs p \<Longrightarrow>
        signed_in X auth hs w = (Inr actor, v) \<Longrightarrow>
        (case owner_effect actor p of (j, own) \<Rightarrow> own = id \<or> j = aid \<and> own = (\<lambda>_. new))" by blast
    have "owners_follow aid new (w_db w) (w_db w')"
      by (rule owners.serve_allowed [OF run]) (use ok in \<open>fastforce split: prod.splits\<close>)
    with owner_differs_follow [OF diff] \<open>aid \<noteq> i\<close> show False by blast
  qed
  then obtain hs p actor v new where rq: "rq = Protected hs p" "signed_in X auth hs w = (Inr actor, v)"
    "owner_effect actor p = (i, \<lambda>_. new)" by blast
  have "owners_follow i new (w_db w) (w_db w')"
    by (rule owners.serve_allowed [OF run]) (use rq in auto)
  with rq that show thesis by blast
qed

lemma protected_run:
  assumes "serve X auth (Protected hs p) w = (resp, w')" "signed_in X auth hs w = (Inr actor, v)"
  shows "(\<exists>q x. p = WriteRoute q \<and> write_router X actor hs q v = (x, w'))
    \<or> (\<exists>q x. p = RegistryRoute q \<and> registry_router X actor hs q v = (x, w'))"
  using assms
  by (auto simp: serve_def serve_protected_def split: protected_request.splits dest!: respond_world)

lemma find_same_core:
  "map asset_core ys = map asset_core xs \<Longrightarrow> find (asset_with_id i) xs = Some a \<Longrightarrow>
    \<exists>b. find (asset_with_id i) ys = Some b \<and> asset_core b = asset_core a"
proof (induction xs arbitrary: ys)
  case (Cons x xs)
  then obtain y ys' where ys: "ys = y # ys'" "asset_core y = asset_core x"
    "map asset_core ys' = map asset_core xs" by auto
  then have "asset_with_id i y = asset_with_id i x"
    by (simp add: asset_core_def asset_with_id_def)
  with Cons ys show ?case by (auto split: if_splits)
qed simp

lemma signed_in_assets:
  assumes "signed_in X auth hs w = (Inr actor, v)" "find (asset_with_id i) (db_assets (w_db w)) = Some a"
  obtains a' where "find (asset_with_id i) (db_assets (w_db v)) = Some a'" "asset_core a' = asset_core a"
proof -
  have "cores_same (w_db w) (w_db v)"
    using keepsD [OF cores.keeps_middleware assms(1)] by (simp add: on_db_def)
  with find_same_core [OF _ assms(2)] that show thesis by (auto simp: cores_same_def)
qed

lemma owner_effect_cases:
  assumes "owner_effect actor p = (i, \<lambda>_. new)"
  obtains (sale) q where "p = WriteRoute (PostLegalSell i q)" "new = aq_buyer_id q"
  | (end_of_life) q where "p \<in> {WriteRoute (PostConsume i q), WriteRoute (PostLegacy i q)}" "new = None"
  | (handover) q where "p = RegistryRoute (PostTransfer i q)" "new = Some (tq_new_owner_id q)"
proof -
  have "id \<noteq> (\<lambda>_. new)" by (metis id_apply option.distinct(1))
  with assms that show thesis
    by (auto simp: owner_effect_def fun_eq_iff split: protected_request.splits write_request.splits
        registry_request.splits)
qed

lemma sale_allowed:
  assumes "execute_asset_action X i LegalSell actor hs q v = (x, w')" "owner_differs i (w_db v) (w_db w')"
  shows "the_role actor \<in> {Brand, Platform} \<and> (\<exists>rec. asset_at i rec (w_db v) \<and> ar_current_state rec = Activated)"
proof -
  from owner_differs_action [OF assms] obtain rec t prev where rec: "asset_at i rec (w_db v)"
    and "can_role_initiate (the_role actor) (ar_current_state rec) LegalSell"
      "next_state_for_action_with_previous (ar_current_state rec) LegalSell prev = Some t" by blast
  then have "the_role actor \<in> {Brand, Platform}" "ar_current_state rec = Activated"
    by (cases "the_role actor"; auto simp: can_role_initiate_def next_state_for_action_with_previous_def
        split: asset_state.splits)+
  with rec show ?thesis by blast
qed

lemma end_of_life_allowed:
  assumes "execute_asset_action X i act actor hs q v = (x, w')" "owner_differs i (w_db v) (w_db w')"
    and "act \<in> {Consume, LegacyAction}"
  shows "the_role actor \<in> {Consumer, Platform}
    \<and> (\<exists>rec. asset_at i rec (w_db v) \<and> ar_current_state rec \<in> {LegallySold, Transferred})"
proof -
  from assms(3) have "act \<noteq> ActivateEntangle" by auto
  from owner_differs_action [OF assms(1,2) this] obtain rec t prev where rec: "asset_at i rec (w_db v)"
    and "can_role_initiate (the_role actor) (ar_current_state rec) act"
      "next_state_for_action_with_previous (ar_current_state rec) act prev = Some t" by blast
  then have "the_role actor \<in> {Consumer, Platform}" "ar_current_state rec \<in> {LegallySold, Transferred}"
    using assms(3)
    by (cases "the_role actor"; auto simp: can_role_initiate_def next_state_for_action_with_previous_def
        split: asset_state.splits)+
  with rec show ?thesis by blast
qed

text \<open>
  C4. Ownership changes hands in four ways only. Whatever request makes the owner of an asset
  another one is a signed-in request for that very asset, and it is a transfer by the present owner,
  with the proofs of \<open>authorize_transfer\<close>, to the recipient it names, a sale of an activated asset
  by a brand or the platform to the buyer it names, or a consumer's or the platform's consumption or
  archiving of a sold asset, which leaves no owner. So confirming or rejecting a transfer moves no
  asset: a rejected one is not given back.
\<close>

theorem owner_changes_are_authorised:
  assumes "serve X auth rq w = (resp, w')"
    and "find (asset_with_id i) (db_assets (w_db w)) = Some a"
    and "find (asset_with_id i) (db_assets (w_db w')) = Some b"
    and "as_owner_id b \<noteq> as_owner_id a"
  shows "\<exists>hs p actor v q. rq = Protected hs p \<and> signed_in X auth hs w = (Inr actor, v)
    \<and> (p = RegistryRoute (PostTransfer i q) \<and> as_owner_id a = Some (actor_id actor)
         \<and> (\<exists>rec v'. authorize_transfer X i actor q v = (Inr (rec, actor_id actor), v'))
         \<and> as_current_state a \<in> {''LegallySold'', ''Transferred''}
         \<and> as_owner_id b = Some (tq_new_owner_id q)
       \<or> (\<exists>q. p = WriteRoute (PostLegalSell i q) \<and> the_role actor \<in> {Brand, Platform}
         \<and> as_current_state a = ''Activated'' \<and> as_owner_id b = aq_buyer_id q)
       \<or> (\<exists>q. p \<in> {WriteRoute (PostConsume i q), WriteRoute (PostLegacy i q)}
         \<and> the_role actor \<in> {Consumer, Platform}
         \<and> as_current_state a \<in> {''LegallySold'', ''Transferred''} \<and> as_owner_id b = None))"
proof -
  have diff: "owner_differs i (w_db w) (w_db w')"
    using assms(2-4) by (auto simp: owner_differs_def)
  obtain hs p actor v new where rq: "rq = Protected hs p" "signed_in X auth hs w = (Inr actor, v)"
    and eff: "owner_effect actor p = (i, \<lambda>_. new)" and follow: "owners_follow i new (w_db w) (w_db w')"
    by (rule owner_differs_request [OF assms(1) diff])
  have new: "as_owner_id b = new"
    using owners_found [OF follow [unfolded owners_follow_def] assms(2,3)] assms(4)
    by (auto simp: owner_follows_def)
  obtain a' where a': "find (asset_with_id i) (db_assets (w_db v)) = Some a'" "asset_core a' = asset_core a"
    by (rule signed_in_assets [OF rq(2) assms(2)])
  with assms(3,4) have diff': "owner_differs i (w_db v) (w_db w')"
    by (auto simp: owner_differs_def asset_core_def)
  have state: "as_current_state a = as_db_str (ar_current_state rec)" if "asset_at i rec (w_db v)" for rec
    using that a' by (auto simp: asset_at_def asset_core_def decode_asset_def and_then_Inr from_db_str_Some)
  from eff show ?thesis
  proof (cases rule: owner_effect_cases)
    case (sale q)
    from protected_run [OF assms(1) [unfolded rq(1)] rq(2)] sale(1) obtain x where
      "execute_asset_action X i LegalSell actor hs q v = (x, w')"
      by (auto simp: write_router_def legal_sell_asset_def)
    from sale_allowed [OF this diff'] state have
      "the_role actor \<in> {Brand, Platform}" "as_current_state a = ''Activated''" by auto
    with rq sale new show ?thesis by blast
  next
    case (end_of_life q)
    with protected_run [OF assms(1) [unfolded rq(1)] rq(2)] have
      "\<exists>act x. act \<in> {Consume, LegacyAction} \<and> execute_asset_action X i act actor hs q v = (x, w')"
      by (fastforce simp: write_router_def consume_asset_def legacy_asset_def)
    with end_of_life_allowed [OF _ diff'] state have "the_role actor \<in> {Consumer, Platform}"
      "as_current_state a \<in> {''LegallySold'', ''Transferred''}" by fastforce+
    with rq end_of_life new show ?thesis by blast
  next
    case (handover q)
    from protected_run [OF assms(1) [unfolded rq(1)] rq(2)] handover(1) obtain x where
      "transfer_handler X i actor hs q v = (x, w')"
      by (auto simp: registry_router_def)
    from owner_differs_transfer [OF this diff'] obtain rec row v' where
      proved: "authorize_transfer X i actor q v = (Inr (rec, actor_id actor), v')"
        "find (asset_with_id i) (db_assets (w_db v)) = Some row" "decode_asset row = Inr rec"
        "as_owner_id row = Some (actor_id actor)" "ar_current_state rec \<in> {LegallySold, Transferred}"
      by blast
    with a' have "as_owner_id a = Some (actor_id actor)" "as_current_state a = as_db_str (ar_current_state rec)"
      by (auto simp: asset_core_def decode_asset_def and_then_Inr from_db_str_Some)
    moreover from this(2) proved(5) have "as_current_state a \<in> {''LegallySold'', ''Transferred''}"
      by auto
    ultimately show ?thesis using rq handover new proved(1) by blast
  qed
qed

section \<open>No ownership is asked for\<close>

lemma assets_after_persist:
  assumes "row \<in> set (db_assets (persist_effect n ev rh snap cid now d))" "as_asset_id row = ar_asset_id n"
  shows "as_current_state row = as_db_str (ar_current_state n)"
    "\<exists>o'. as_owner_id row = owner_new (ae_action ev) (ac_actor_id (ae_context ev)) (ac_buyer_id (ae_context ev)) o'"
  using assms
  by (auto simp: update_rows_def asset_with_id_def owner_after_owner state_after_def)
    (auto simp: owner_after_def split: asset_action.splits)

text \<open>
  C20. Any consumer can end anybody's asset: with the database answering, complete headers and a
  new idempotency key, a consumer's request to consume a sold asset succeeds, whoever the consumer
  and the owner are, and leaves the asset consumed and without an owner.
\<close>

theorem stranger_consumes_asset:
  assumes "w_faults w = []" and "parse_required_headers X headers = Inr h"
    and "answer_for (rh_idempotency_key h) (w_db w) = None"
    and "asset_at aid rec (w_db w)" and "ar_current_state rec \<in> {LegallySold, Transferred}"
    and "the_role actor = Consumer" and "x_uuid X (w_draws w) \<notin> se_event_id ` set (db_events (w_db w))"
  shows "\<exists>resp w'. execute_asset_action X aid Consume actor headers p w = (Inr resp, w')
    \<and> (\<forall>row\<in>set (db_assets (w_db w')). as_asset_id row = aid \<longrightarrow>
         as_current_state row = ''Consumed'' \<and> as_owner_id row = None)"
proof -
  let ?ctx = "audit_context_of actor h (aq_buyer_id p)"
  obtain n ev where ap: "apply_action (x_uuid X (w_draws w)) (with_client_previous p rec) Consume ?ctx
      = Inr (n, ev)" and n: "ar_current_state n = Consumed"
    using assms(5,6)
    by (auto simp: apply_action_Inr step_allowed_def can_role_initiate_def audit_context_of_def
        next_state_for_action_with_previous_def)
  from ap have ev: "ae_action ev = Consume" and "ar_asset_id n = aid"
    using asset_at_id [OF assms(4)] by (auto simp: apply_action_Inr)
  from action_runs [OF assms(1-4) ap assms(7)] obtain resp w' rh snap where
    "execute_asset_action X aid Consume actor headers p w = (Inr resp, w')"
    "w_db w' = persist_effect n ev rh snap None (w_now w) (w_db w)" by auto
  then show ?thesis
    using assets_after_persist [of _ n ev] \<open>ar_asset_id n = aid\<close> n ev by fastforce
qed

section \<open>Witnesses\<close>

definition demo_sale :: request where
  "demo_sale = Protected [''X-Trace-Id'' \<mapsto> HeaderText ''t'', ''X-Idempotency-Key'' \<mapsto> HeaderText ''k1'',
       ''X-Api-Key-Hash'' \<mapsto> HeaderText ''h'']
     (WriteRoute (PostLegalSell ''a1'' \<lparr>aq_previous_state = None, aq_buyer_id = Some ''user_2''\<rparr>))"

lemma demo_sale_owner:
  "map_option as_owner_id (find (asset_with_id ''a1'')
     (db_assets (w_db (snd (serve demo_x demo_auth demo_sale (demo_world Activated demo_virtual)))))) =
   Some (Some ''user_2'')"
  by code_simp

theorem owner_changes_are_authorised_witness:
  "\<exists>hs actor v q. demo_sale = Protected hs (WriteRoute (PostLegalSell ''a1'' q))
     \<and> signed_in demo_x demo_auth hs (demo_world Activated demo_virtual) = (Inr actor, v)
     \<and> the_role actor \<in> {Brand, Platform} \<and> aq_buyer_id q = Some ''user_2''"
proof -
  let ?w = "demo_world Activated demo_virtual"
  obtain resp w' where run: "serve demo_x demo_auth demo_sale ?w = (resp, w')" by fastforce
  from demo_sale_owner run obtain b where b: "find (asset_with_id ''a1'') (db_assets (w_db w')) = Some b"
    "as_owner_id b = Some ''user_2''" by auto
  have "find (asset_with_id ''a1'') (db_assets (w_db ?w)) = Some (demo_asset Activated)"
    "as_owner_id (demo_asset Activated) = Some ''user_1''"
    by (simp_all add: demo_world_def demo_db_def demo_asset_def asset_with_id_def)
  from owner_changes_are_authorised [OF run this(1) b(1)] this(2) b(2)
  show ?thesis by (auto simp: demo_sale_def)
qed

theorem stranger_consumes_asset_witness:
  "\<exists>resp w'. execute_asset_action demo_x ''a1'' Consume (demo_actor ''stranger'' Consumer) demo_headers
       plain_request (demo_world LegallySold demo_virtual) = (Inr resp, w')
     \<and> as_owner_id (demo_asset LegallySold) = Some ''user_1''
     \<and> map as_owner_id (db_assets (w_db w')) = [None]"
proof -
  let ?w = "demo_world LegallySold demo_virtual"
  have calm: "w_faults ?w = []" and key: "rh_idempotency_key demo_parsed = ''k1''"
    by (simp_all add: demo_world_def demo_parsed_def)
  from stranger_consumes_asset [OF calm demo_parsed _ demo_asset_at _ _ demo_fresh_id,
      of "demo_actor ''stranger'' Consumer" plain_request]
  obtain resp w' where run: "execute_asset_action demo_x ''a1'' Consume (demo_actor ''stranger'' Consumer)
       demo_headers plain_request ?w = (Inr resp, w')"
    and "\<forall>row\<in>set (db_assets (w_db w')). as_asset_id row = ''a1'' \<longrightarrow> as_owner_id row = None"
    using demo_no_answer key by (auto simp: demo_actor_def)
  moreover have "map as_asset_id (db_assets (w_db (snd (execute_asset_action demo_x ''a1'' Consume
      (demo_actor ''stranger'' Consumer) demo_headers plain_request ?w)))) = [''a1'']" by code_simp
  then have "map as_asset_id (db_assets (w_db w')) = [''a1'']" by (simp add: run)
  then obtain row where "db_assets (w_db w') = [row]" "as_asset_id row = ''a1''" by auto
  ultimately show ?thesis by (auto simp: demo_asset_def)
qed

end
