(* ===== verification/Calibrate_Properties.thy ===== *)
theory Calibrate_Properties
  imports Ctr_Calibrate Demo
begin

text \<open>
  The automatic calibration followed by a check: what is left to report, and that no counter went
  back.
\<close>

section \<open>The two counters of a tag\<close>

definition redis_up :: "world \<Rightarrow> bool" where
  "redis_up w \<longleftrightarrow> w_redis w \<noteq> None \<and> w_redis_faults w = []"

definition live_value :: "time \<Rightarrow> (u32 \<times> time) option \<Rightarrow> u32 option" where
  "live_value now x =
     (case x of None \<Rightarrow> None | Some (v, expires) \<Rightarrow> if now < expires then Some v else None)"

definition redis_ctr :: "world \<Rightarrow> string \<Rightarrow> u32 option" where
  "redis_ctr w uid =
     live_value (w_now w) (rd_counters (the (w_redis w)) (ctr_key uid))"

definition tagged :: "asset_row list \<Rightarrow> (string \<times> i32) list" where
  "tagged rs = List.map_filter (\<lambda>a. map_option (\<lambda>u. (u, unwrap_or 0 (as_last_verified_ctr a))) (as_uid a)) rs"

abbreviation pg_ctrs :: "world \<Rightarrow> (string \<times> i32) list" where
  "pg_ctrs w \<equiv> tagged (db_assets (w_db w))"

lemma ctr_key_eq [simp]: "ctr_key u = ctr_key v \<longleftrightarrow> u = v"
  by (simp add: ctr_key_def)

lemma or_default_run: "m w = (Inr x, w') \<Longrightarrow> or_default d m w = (Inr x, w')"
  by (simp add: or_default_def try_bind_def attempt_def ret_def)

lemma fetch_all_run:
  "calm w \<Longrightarrow> fetch_all_uids_with_ctr w = (Inr (pg_ctrs w), w)"
  unfolding fetch_all_uids_with_ctr_def
  by (rule or_default_run, subst calm_select, assumption)
    (auto simp: tagged_def List.map_filter_def o_def intro!: arg_cong [of _ _ concat] list.map_cong
      split: option.splits)

lemma redis_call_up:
  "redis_up w \<Longrightarrow> redis_call f w =
    (case f (the (w_redis w)) of (x, s) \<Rightarrow> (Inr x, w\<lparr>w_redis := Some s\<rparr>))"
  by (cases w) (auto simp: redis_up_def redis_call_def Let_def split: prod.split)

lemma get_redis_run:
  assumes "redis_up w"
  shows "get_redis_ctr uid w = (Inr (redis_ctr w uid), w)"
proof -
  have "redis_get_ctr (ctr_key uid) w = (Inr (redis_ctr w uid), w)"
    using assms by (cases w)
      (auto simp: redis_get_ctr_def try_bind_def gets_def redis_call_up redis_ctr_def redis_up_def
        live_value_def [symmetric])
  then show ?thesis unfolding get_redis_ctr_def by (rule or_default_run)
qed

text \<open>What a correction leaves of the counters, of the failures to come and of the clock.\<close>

definition ctrs_after :: "world \<Rightarrow> (string \<Rightarrow> u32 option) \<Rightarrow> (string \<times> i32) list \<Rightarrow> world \<Rightarrow> bool" where
  "ctrs_after w reds pgs w' \<longleftrightarrow> calm w' \<and> redis_up w' \<and> redis_ctr w' = reds \<and> pg_ctrs w' = pgs"

lemma set_redis_run:
  assumes "redis_up w" "calm w"
  shows "\<exists>w'. (set_redis_ctr uid c :: (world, unit, unit) act) w = (Inr (), w')
    \<and> ctrs_after w ((redis_ctr w)(uid := Some c)) (pg_ctrs w) w'"
proof -
  let ?s = "the (w_redis w)"
  let ?w = "w\<lparr>w_redis := Some (?s\<lparr>rd_counters :=
    (rd_counters ?s)(ctr_key uid \<mapsto> (c, w_now w + l2_ttl_secs))\<rparr>)\<rparr>"
  have "redis_set_ex (ctr_key uid) c l2_ttl_secs w = (Inr (), ?w)"
    using assms by (simp add: redis_set_ex_def try_bind_def gets_def redis_call_up)
  then have "(set_redis_ctr uid c :: (world, unit, unit) act) w = (Inr (), ?w)"
    unfolding set_redis_ctr_def by (rule or_default_run)
  moreover have "ctrs_after w ((redis_ctr w)(uid := Some c)) (pg_ctrs w) ?w"
    using assms by (auto simp: ctrs_after_def redis_up_def calm_def redis_ctr_def l2_ttl_secs_def fun_eq_iff)
      (simp add: live_value_def)
  ultimately show ?thesis by blast
qed

lemma tagged_update:
  "tagged (update_rows (\<lambda>a. as_uid a = Some uid) (\<lambda>a. a\<lparr>as_last_verified_ctr := Some c\<rparr>) rs) =
    map (\<lambda>(u, x). (u, if u = uid then c else x)) (tagged rs)"
  by (induction rs) (auto simp: tagged_def update_rows_def unwrap_or_def List.map_filter_simps split: option.splits)

lemma update_pg_run:
  assumes "calm w" "redis_up w"
  shows "\<exists>w'. (update_pg_ctr uid c :: (world, unit, unit) act) w = (Inr (), w')
    \<and> ctrs_after w (redis_ctr w) (map (\<lambda>(u, x). (u, if u = uid then c else x)) (pg_ctrs w)) w'"
proof -
  let ?w = "w\<lparr>w_db := (w_db w)\<lparr>db_assets := update_rows (\<lambda>a. as_uid a = Some uid)
    (\<lambda>a. a\<lparr>as_last_verified_ctr := Some c\<rparr>) (db_assets (w_db w))\<rparr>\<rparr>"
  have "(update_pg_ctr uid c :: (world, unit, unit) act) w = (Inr (), ?w)"
    unfolding update_pg_ctr_def by (rule or_default_run) (simp add: calm_execute assms)
  moreover have "ctrs_after w (redis_ctr w) (map (\<lambda>(u, x). (u, if u = uid then c else x)) (pg_ctrs w)) ?w"
    using assms by (simp add: ctrs_after_def calm_def redis_up_def redis_ctr_def fun_eq_iff tagged_update)
  ultimately show ?thesis by blast
qed

section \<open>One tag\<close>

definition far_apart :: "u32 \<Rightarrow> i32 \<Rightarrow> bool" where
  "far_apart r p \<longleftrightarrow> 1000 < \<bar>uint r - uint p\<bar>"

text \<open>The counters and the outcome that the calibration of one tag gives.\<close>

definition settle :: "u32 option \<Rightarrow> i32 \<Rightarrow> u32 option \<times> i32 \<times> auto_outcome" where
  "settle red p =
     (case red of
        None \<Rightarrow> (None, p, Unchanged)
      | Some r \<Rightarrow>
          if r = p then (Some r, p, Unchanged)
          else if far_apart r p then (Some r, p, Skipped)
          else if r > p then (Some r, r, Corrected) else (Some p, p, Corrected))"

abbreviation "settled_redis red p \<equiv> fst (settle red p)"
abbreviation "settled_pg red p \<equiv> fst (snd (settle red p))"
abbreviation "settled_outcome red p \<equiv> snd (snd (settle red p))"

lemma map_same_pg:
  "\<forall>c. (uid, c) \<in> set xs \<longrightarrow> c = p \<Longrightarrow> map (\<lambda>(u, c). (u, if u = uid then p else c)) xs = xs"
  by (induction xs) auto

lemma auto_one_run:
  assumes w: "calm w" "redis_up w" and pg: "\<forall>c. (uid, c) \<in> set (pg_ctrs w) \<longrightarrow> c = p"
  shows "\<exists>w'. (auto_one uid p :: (world, unit, auto_outcome) act) w = (Inr (settled_outcome (redis_ctr w uid) p), w')
    \<and> ctrs_after w ((redis_ctr w)(uid := settled_redis (redis_ctr w uid) p))
        (map (\<lambda>(u, c). (u, if u = uid then settled_pg (redis_ctr w uid) p else c)) (pg_ctrs w)) w'"
proof -
  have far: "auto_skip_threshold < nat \<bar>uint r - uint p\<bar> \<longleftrightarrow> far_apart r p" for r
    by (auto simp: far_apart_def auto_skip_threshold_def)
  have stay: "ctrs_after w (redis_ctr w) (pg_ctrs w) w" using w by (simp add: ctrs_after_def)
  note run = auto_one_def try_bind_def get_redis_run [OF w(2)] ret_def settle_def far
  show ?thesis
  proof (cases "redis_ctr w uid")
    case None
    with stay show ?thesis by (simp add: run map_same_pg [OF pg] fun_upd_idem cong: if_cong)
  next
    case (Some r)
    consider "r = p \<or> far_apart r p" | "r \<noteq> p" "\<not> far_apart r p" "r > p"
      | "r \<noteq> p" "\<not> far_apart r p" "\<not> r > p" by blast
    then show ?thesis
    proof cases
      case 1
      with Some stay show ?thesis by (auto simp: run map_same_pg [OF pg] fun_upd_idem cong: if_cong)
    next
      case 2
      with Some update_pg_run [OF w, of uid r] show ?thesis by (auto simp: run fun_upd_idem cong: if_cong)
    next
      case 3
      with Some set_redis_run [OF w(2,1), of uid p] show ?thesis by (auto simp: run map_same_pg [OF pg] cong: if_cong)
    qed
  qed
qed

section \<open>All tags\<close>

lemma auto_all_run:
  assumes "calm w" "redis_up w" "distinct (map fst xs)"
    and "\<forall>(uid, p)\<in>set xs. \<forall>c. (uid, c) \<in> set (pg_ctrs w) \<longrightarrow> c = p"
  shows "\<exists>w'. (map_each (\<lambda>(uid, p). auto_one uid p) xs :: (world, unit, auto_outcome list) act) w =
      (Inr (map (\<lambda>(u, p). settled_outcome (redis_ctr w u) p) xs), w')
    \<and> ctrs_after w
        (\<lambda>u. case map_of xs u of None \<Rightarrow> redis_ctr w u | Some p \<Rightarrow> settled_redis (redis_ctr w u) p)
        (map (\<lambda>(u, c). (u, case map_of xs u of None \<Rightarrow> c | Some p \<Rightarrow> settled_pg (redis_ctr w u) p)) (pg_ctrs w)) w'"
  using assms
proof (induction xs arbitrary: w)
  case Nil
  have "map (\<lambda>(u, c). (u, c)) (pg_ctrs w) = pg_ctrs w" by (simp add: case_prod_beta)
  with Nil.prems(1,2) show ?case by (simp add: ret_def ctrs_after_def)
next
  case (Cons x xs)
  obtain uid p where x: "x = (uid, p)" by fastforce
  let ?r = "redis_ctr w uid"
  from Cons.prems(4) have "\<forall>c. (uid, c) \<in> set (pg_ctrs w) \<longrightarrow> c = p" by (auto simp: x)
  from auto_one_run [OF Cons.prems(1,2) this] obtain w1 where
    one: "(auto_one uid p :: (world, unit, auto_outcome) act) w = (Inr (settled_outcome ?r p), w1)"
    and w1: "calm w1" "redis_up w1" "redis_ctr w1 = (redis_ctr w)(uid := settled_redis ?r p)"
      "pg_ctrs w1 = map (\<lambda>(u, c). (u, if u = uid then settled_pg ?r p else c)) (pg_ctrs w)"
    unfolding ctrs_after_def by blast
  have new: "v \<noteq> uid" if "(v, q) \<in> set xs" for v q
    using Cons.prems(3) that by (force simp: x)
  then have "\<forall>(v, q)\<in>set xs. \<forall>c. (v, c) \<in> set (pg_ctrs w1) \<longrightarrow> c = q"
    using Cons.prems(4) by (auto simp: w1(4))
  with Cons.IH [OF w1(1,2)] Cons.prems(3) obtain w' where
    rest: "(map_each (\<lambda>(uid, p). auto_one uid p) xs :: (world, unit, auto_outcome list) act) w1 =
      (Inr (map (\<lambda>(u, p). settled_outcome (redis_ctr w1 u) p) xs), w')"
    and w': "calm w'" "redis_up w'"
      "redis_ctr w' = (\<lambda>u. case map_of xs u of None \<Rightarrow> redis_ctr w1 u | Some p \<Rightarrow> settled_redis (redis_ctr w1 u) p)"
      "pg_ctrs w' = map (\<lambda>(u, c). (u, case map_of xs u of None \<Rightarrow> c | Some p \<Rightarrow> settled_pg (redis_ctr w1 u) p)) (pg_ctrs w1)"
    unfolding ctrs_after_def by (auto simp: x)
  have none: "map_of xs uid = None" using new by (force simp: map_of_eq_None_iff)
  have outs: "map (\<lambda>(u, p). settled_outcome (redis_ctr w1 u) p) xs =
      map (\<lambda>(u, p). settled_outcome (redis_ctr w u) p) xs"
    by (rule map_cong [OF refl]) (auto simp: w1(3) dest: new)
  have "map_each (\<lambda>(uid, p). auto_one uid p) (x # xs) w =
      (Inr (map (\<lambda>(u, p). settled_outcome (redis_ctr w u) p) (x # xs)) :: unit + _, w')"
    using one rest outs by (simp add: x try_bind_def ret_def)
  moreover have "redis_ctr w' = (\<lambda>u. case map_of (x # xs) u of None \<Rightarrow> redis_ctr w u
      | Some p \<Rightarrow> settled_redis (redis_ctr w u) p)"
    by (auto simp: w'(3) w1(3) x none fun_eq_iff split: option.split)
  moreover have "pg_ctrs w' = map (\<lambda>(u, c). (u, case map_of (x # xs) u of None \<Rightarrow> c
      | Some p \<Rightarrow> settled_pg (redis_ctr w u) p)) (pg_ctrs w)"
    by (auto simp: w'(4) w1(3,4) x none split: option.split)
  ultimately show ?case using w'(1,2) unfolding ctrs_after_def by blast
qed

text \<open>What a check reports, as a function of the counters.\<close>

definition mismatch :: "world \<Rightarrow> string \<times> i32 \<Rightarrow> (string \<times> u32 \<times> i32) option" where
  "mismatch w = (\<lambda>(u, p). case redis_ctr w u of None \<Rightarrow> None
     | Some r \<Rightarrow> if r = p then None else Some (u, r, p))"

lemma redis_all_run:
  assumes "redis_up w"
  shows "map_each (\<lambda>(uid, p). try_bind (get_redis_ctr uid) (\<lambda>r. ret (uid, r, p))) xs w =
    (Inr (map (\<lambda>(u, p). (u, redis_ctr w u, p)) xs), w)"
  by (induction xs) (auto simp: ret_def try_bind_def get_redis_run [OF assms])

lemma run_check_run:
  assumes "calm w" "redis_up w"
  shows "run_check w = (Inr \<lparr>cr_total = length (pg_ctrs w),
      cr_consistent = length (pg_ctrs w) - length (List.map_filter (mismatch w) (pg_ctrs w)),
      cr_mismatches = List.map_filter (mismatch w) (pg_ctrs w)\<rparr>, w)"
proof -
  have "List.map_filter (\<lambda>(u, r, p). case r of None \<Rightarrow> None
        | Some c \<Rightarrow> if c = p then None else Some (u, c, p)) (map (\<lambda>(u, p). (u, redis_ctr w u, p)) xs) =
      List.map_filter (mismatch w) xs" for xs
    by (induction xs) (auto simp: mismatch_def List.map_filter_simps split: option.splits)
  then show ?thesis
    by (simp add: run_check_def try_bind_def fetch_all_run [OF assms(1)] redis_all_run [OF assms(2)] ret_def Let_def)
qed

abbreviation far_mismatch :: "string \<times> u32 \<times> i32 \<Rightarrow> bool" where
  "far_mismatch \<equiv> \<lambda>(u, r, p). far_apart r p"

lemma settled_mismatch:
  assumes "redis_ctr w' u = settled_redis (redis_ctr w u) p"
  shows "mismatch w' (u, settled_pg (redis_ctr w u) p) =
      (case mismatch w (u, p) of None \<Rightarrow> None | Some m \<Rightarrow> if far_mismatch m then Some m else None)"
  using assms by (auto simp: mismatch_def settle_def split: option.split)

lemma settled_mismatches:
  assumes "\<forall>(u, p)\<in>set xs. redis_ctr w' u = settled_redis (redis_ctr w u) p"
  shows "List.map_filter (mismatch w') (map (\<lambda>(u, p). (u, settled_pg (redis_ctr w u) p)) xs) =
      filter far_mismatch (List.map_filter (mismatch w) xs)"
  using assms
proof (induction xs)
  case (Cons x xs)
  then show ?case
    by (cases x) (simp add: settled_mismatch List.map_filter_simps split: option.split)
qed (simp add: List.map_filter_simps)

lemma settled_outcomes:
  "length (filter (\<lambda>x. x = Skipped) (map (\<lambda>(u, p). settled_outcome (redis_ctr w u) p) xs)) =
      length (filter far_mismatch (List.map_filter (mismatch w) xs))"
  "length (filter (\<lambda>x. x = Corrected) (map (\<lambda>(u, p). settled_outcome (redis_ctr w u) p) xs)) =
      length (filter (\<lambda>m. \<not> far_mismatch m) (List.map_filter (mismatch w) xs))"
proof (induction xs)
  case (Cons x xs)
  obtain u p where x: "x = (u, p)" by fastforce
  have out: "settled_outcome (redis_ctr w u) p =
      (case mismatch w (u, p) of None \<Rightarrow> Unchanged | Some m \<Rightarrow> if far_mismatch m then Skipped else Corrected)"
    by (auto simp: mismatch_def settle_def split: option.split)
  case 1
  with Cons.IH(1) show ?case by (simp add: x out List.map_filter_simps split: option.split)
  case 2
  with Cons.IH(2) show ?case by (simp add: x out List.map_filter_simps split: option.split)
qed (simp_all add: List.map_filter_simps)

lemma settle_increases:
  "redis_ctr w u = Some r \<Longrightarrow> settled_redis (redis_ctr w u) p = Some r' \<Longrightarrow> r \<le> r'"
  "p \<le> settled_pg (redis_ctr w u) p"
  by (auto simp: settle_def not_less less_imp_le split: if_splits option.split)

text \<open>
  C35. Calibration settles what a check reports. When the database and Redis answer and tags have
  distinct uids, the automatic calibration after a check corrects exactly the reported tags whose
  counters differ by at most 1000 and skips the others; a second check reports just the skipped
  ones, with the counters they had; and no counter, in Redis or in the table, has gone back.
\<close>

theorem calibration_settles_check:
  assumes "calm w" "redis_up w" "distinct (map fst (pg_ctrs w))"
  shows "\<exists>rep rep' w'. (run_check :: (world, unit, check_report) act) w = (Inr rep, w)
    \<and> (run_auto :: (world, unit, nat \<times> nat) act) w =
        (Inr (length (filter (\<lambda>m. \<not> far_mismatch m) (cr_mismatches rep)), length (cr_mismatches rep')), w')
    \<and> (run_check :: (world, unit, check_report) act) w' = (Inr rep', w')
    \<and> cr_total rep' = cr_total rep \<and> cr_mismatches rep' = filter far_mismatch (cr_mismatches rep)
    \<and> list_all2 (\<lambda>(u, c) (u', c'). u' = u \<and> c \<le> c') (pg_ctrs w) (pg_ctrs w')
    \<and> (\<forall>u r r'. redis_ctr w u = Some r \<longrightarrow> redis_ctr w' u = Some r' \<longrightarrow> r \<le> r')"
proof -
  let ?xs = "pg_ctrs w"
  have "\<forall>(uid, p)\<in>set ?xs. \<forall>c. (uid, c) \<in> set ?xs \<longrightarrow> c = p"
    using assms(3) by (auto dest: eq_key_imp_eq_value)
  from auto_all_run [OF assms this] obtain w' where
    auto: "(map_each (\<lambda>(uid, p). auto_one uid p) ?xs :: (world, unit, auto_outcome list) act) w =
      (Inr (map (\<lambda>(u, p). settled_outcome (redis_ctr w u) p) ?xs), w')"
    and w': "calm w'" "redis_up w'"
      "redis_ctr w' = (\<lambda>u. case map_of ?xs u of None \<Rightarrow> redis_ctr w u | Some p \<Rightarrow> settled_redis (redis_ctr w u) p)"
      "pg_ctrs w' = map (\<lambda>(u, c). (u, case map_of ?xs u of None \<Rightarrow> c | Some p \<Rightarrow> settled_pg (redis_ctr w u) p)) ?xs"
    unfolding ctrs_after_def by blast
  have own: "map_of ?xs u = Some p" if "(u, p) \<in> set ?xs" for u p
    using assms(3) that by (rule map_of_is_SomeI)
  have pg: "pg_ctrs w' = map (\<lambda>(u, p). (u, settled_pg (redis_ctr w u) p)) ?xs"
    unfolding w'(4) by (rule map_cong [OF refl]) (auto dest: own)
  have red: "\<forall>(u, p)\<in>set ?xs. redis_ctr w' u = settled_redis (redis_ctr w u) p"
    by (auto simp: w'(3) dest: own)
  note counts = settled_mismatches [OF red, folded pg] settled_outcomes [of w ?xs]
  have "list_all2 (\<lambda>(u, c) (u', c'). u' = u \<and> c \<le> c') ?xs (pg_ctrs w')"
    unfolding pg by (auto simp: list_all2_map2 settle_increases(2) intro: list.rel_refl_strong)
  moreover have "\<forall>u r r'. redis_ctr w u = Some r \<longrightarrow> redis_ctr w' u = Some r' \<longrightarrow> r \<le> r'"
    using settle_increases(1) by (auto simp: w'(3) split: option.splits)
  moreover have "(run_auto :: (world, unit, nat \<times> nat) act) w =
      (Inr (length (filter (\<lambda>m. \<not> far_mismatch m) (List.map_filter (mismatch w) ?xs)),
            length (filter far_mismatch (List.map_filter (mismatch w) ?xs))), w')"
    using auto counts(2,3)
    by (simp add: run_auto_def try_bind_def fetch_all_run [OF assms(1)] ret_def)
  moreover have "length (pg_ctrs w') = length ?xs" by (simp add: pg)
  ultimately show ?thesis
    by (simp add: run_check_run [OF assms(1,2)] run_check_run [OF w'(1,2)] counts(1))
qed

section \<open>Witness\<close>

definition demo_drifted :: world where
  "demo_drifted = (demo_world Activated demo_virtual)\<lparr>w_redis := Some \<lparr>rd_counters =
     [ctr_key (the (as_uid (demo_asset Activated))) \<mapsto> (7, 100)], rd_zsets = Map.empty,
      rd_hashes = Map.empty\<rparr>\<rparr>"

lemma demo_drifted_check:
  "(case fst ((run_check :: (world, unit, check_report) act) demo_drifted) of
      Inl _ \<Rightarrow> False | Inr rep \<Rightarrow> map (\<lambda>(u, r, p). (r, p)) (cr_mismatches rep) = [(7, 0)])"
  by code_simp

theorem calibration_settles_check_witness:
  "\<exists>rep' w'. (run_auto :: (world, unit, nat \<times> nat) act) demo_drifted = (Inr (1, 0), w')
     \<and> (run_check :: (world, unit, check_report) act) w' = (Inr rep', w') \<and> cr_mismatches rep' = []"
proof -
  have "calm demo_drifted" "redis_up demo_drifted" "distinct (map fst (pg_ctrs demo_drifted))"
    by (simp_all add: demo_drifted_def demo_world_def demo_db_def calm_def redis_up_def tagged_def
        List.map_filter_simps split: option.split)
  from calibration_settles_check [OF this] obtain rep rep' w' where
    check: "(run_check :: (world, unit, check_report) act) demo_drifted = (Inr rep, demo_drifted)"
    and auto: "(run_auto :: (world, unit, nat \<times> nat) act) demo_drifted =
        (Inr (length (filter (\<lambda>m. \<not> far_mismatch m) (cr_mismatches rep)), length (cr_mismatches rep')), w')"
      "(run_check :: (world, unit, check_report) act) w' = (Inr rep', w')"
      "cr_mismatches rep' = filter far_mismatch (cr_mismatches rep)" by blast
  from demo_drifted_check check have "map (\<lambda>(u, r, p). (r, p)) (cr_mismatches rep) = [(7, 0)]" by simp
  then obtain u where "cr_mismatches rep = [(u, 7, 0)]" by auto
  then have "length (filter (\<lambda>m. \<not> far_mismatch m) (cr_mismatches rep)) = 1"
    "filter far_mismatch (cr_mismatches rep) = []"
    by (simp_all add: far_apart_def)
  with auto show ?thesis by auto
qed

end
