(* ===== verification/Webhooks.thy ===== *)
theory Webhooks
  imports Db_Assets
begin

text \<open>
  \<^verbatim>\<open>webhooks/mod.rs\<close>: queueing the deliveries of an event to the subscribers of a brand. No
  handler calls it; the rows it writes are sent by another program.
\<close>

definition event_type_from_action :: "asset_action \<Rightarrow> string option" where
  "event_type_from_action action =
     (case action of
        ActivateConfirm \<Rightarrow> Some ''asset.activated''
      | LegalSell \<Rightarrow> Some ''asset.sold''
      | Transfer \<Rightarrow> Some ''asset.transferred''
      | Freeze \<Rightarrow> Some ''asset.disputed''
      | Recover \<Rightarrow> Some ''asset.recovered''
      | _ \<Rightarrow> None)"

definition subscribed :: "string \<Rightarrow> string \<Rightarrow> webhook_config_row \<Rightarrow> bool" where
  "subscribed brand_id event_type c \<longleftrightarrow>
     wc_brand_id c = brand_id \<and> wc_status c = ''Active'' \<and> event_type \<in> set (wc_events c)"

definition webhook_payload ::
  "('z externs_scheme) \<Rightarrow> string \<Rightarrow> json \<Rightarrow> uuid \<Rightarrow> time \<Rightarrow> json" where
  "webhook_payload X event_type event_data event_id now =
     JObj [(''data'', event_data), (''event_id'', JStr (x_uuid_text X event_id)),
           (''event_type'', JStr event_type), (''timestamp'', JStr (x_rfc3339 X now))]"

definition over_webhooks ::
  "('z externs_scheme) \<Rightarrow> string \<Rightarrow> (webhook_tables \<Rightarrow> sqlx_error + 'a \<times> webhook_tables) \<Rightarrow> 'a op" where
  "over_webhooks X table q =
     sql (\<lambda>d. case db_webhooks d of
       None \<Rightarrow> Inl (SqlError (x_pg_message X (''undefined_table '' @ table)))
     | Some t \<Rightarrow> map_sum id (\<lambda>(x, t'). (x, d\<lparr>db_webhooks := Some t'\<rparr>)) (q t))"

definition insert_delivery ::
  "('z externs_scheme) \<Rightarrow> uuid \<Rightarrow> string \<Rightarrow> json \<Rightarrow> unit op" where
  "insert_delivery X webhook_id event_type payload =
     try_bind (draw (x_uuid X)) (\<lambda>delivery_id.
     over_webhooks X ''webhook_deliveries'' (\<lambda>t.
       if list_ex (\<lambda>r. wd_delivery_id r = delivery_id) (wt_deliveries t)
       then Inl (UniqueViolation (x_pg_message X ''webhook_deliveries_pkey''))
       else if \<not> list_ex (\<lambda>c. wc_webhook_id c = webhook_id) (wt_configs t)
       then Inl (SqlError (x_pg_message X ''webhook_deliveries_webhook_id_fkey''))
       else Inr ((), t\<lparr>wt_deliveries := wt_deliveries t @
         [\<lparr>wd_delivery_id = delivery_id, wd_webhook_id = webhook_id, wd_event_type = event_type,
           wd_payload = payload, wd_status = ''Pending'', wd_attempts = 0\<rparr>]\<rparr>)))"

text \<open>A failed query stops it, a failed insertion only that delivery; both are only logged.\<close>

definition deliver ::
  "('z externs_scheme) \<Rightarrow> string \<Rightarrow> json \<Rightarrow> webhook_config_row \<Rightarrow> unit op" where
  "deliver X event_type event_data config =
     try_bind (draw (x_uuid X)) (\<lambda>event_id.
     try_bind utc_now (\<lambda>now.
     try_bind (attempt (insert_delivery X (wc_webhook_id config) event_type
       (webhook_payload X event_type event_data event_id now))) (\<lambda>_. ret ())))"

definition trigger_webhook ::
  "('z externs_scheme) \<Rightarrow> string \<Rightarrow> string \<Rightarrow> json \<Rightarrow> unit op" where
  "trigger_webhook X brand_id event_type event_data =
     try_bind (attempt (over_webhooks X ''webhook_configs''
         (\<lambda>t. Inr (filter (subscribed brand_id event_type) (wt_configs t), t))))
       (\<lambda>r. case r of
          Inl e \<Rightarrow> ret ()
        | Inr configs \<Rightarrow> for_each configs (deliver X event_type event_data))"

definition asset_event_json ::
  "('z externs_scheme) \<Rightarrow> string \<Rightarrow> uuid \<Rightarrow> asset_action \<Rightarrow> string \<Rightarrow> string \<Rightarrow> string \<Rightarrow> string option
    \<Rightarrow> time \<Rightarrow> json" where
  "asset_event_json X brand_id asset_id action from_state to_state actor_id owner_id now =
     JObj [(''action'', JStr (action_db_str action)), (''actor_id'', JStr actor_id),
           (''asset_id'', JStr (x_uuid_text X asset_id)), (''brand_id'', JStr brand_id),
           (''from_state'', JStr from_state), (''occurred_at'', JStr (x_rfc3339 X now)),
           (''owner_id'', opt_str owner_id), (''to_state'', JStr to_state)]"

text \<open>The value is the task that is spawned, if any.\<close>

definition trigger_asset_webhook ::
  "('z externs_scheme) \<Rightarrow> string \<Rightarrow> uuid \<Rightarrow> asset_action \<Rightarrow> string \<Rightarrow> string \<Rightarrow> string \<Rightarrow> string option
    \<Rightarrow> unit op option op" where
  "trigger_asset_webhook X brand_id asset_id action from_state to_state actor_id owner_id =
     (case event_type_from_action action of
        None \<Rightarrow> ret None
      | Some event_type \<Rightarrow>
          try_bind utc_now (\<lambda>now.
          ret (Some (trigger_webhook X brand_id event_type
            (asset_event_json X brand_id asset_id action from_state to_state actor_id owner_id now)))))"

end
