(* ===== verification/Webhook_Properties.thy ===== *)
theory Webhook_Properties
  imports Webhooks Demo
begin

text \<open>
  What triggering a webhook does: one delivery for each subscriber when the database answers, and
  in any case nothing but new deliveries to subscribers.
\<close>

section \<open>Deliveries\<close>

text \<open>
  Deliveries are appended, each for a configuration of the brand that is active and subscribes
  to the event, and nothing else changes; a failure of the database loses only deliveries.
\<close>

definition queued_for :: "string \<Rightarrow> string \<Rightarrow> webhook_tables \<Rightarrow> webhook_delivery_row \<Rightarrow> bool" where
  "queued_for brand_id event_type t r \<longleftrightarrow>
     wd_event_type r = event_type \<and> wd_status r = ''Pending'' \<and> wd_attempts r = 0
     \<and> (\<exists>c\<in>set (wt_configs t). wc_webhook_id c = wd_webhook_id r \<and> subscribed brand_id event_type c)"

definition queued :: "string \<Rightarrow> string \<Rightarrow> database \<Rightarrow> database \<Rightarrow> bool" where
  "queued brand_id event_type d d' \<longleftrightarrow>
     d' = d \<or> (\<exists>t new. db_webhooks d = Some t \<and> list_all (queued_for brand_id event_type t) new
        \<and> d' = d\<lparr>db_webhooks := Some (t\<lparr>wt_deliveries := wt_deliveries t @ new\<rparr>)\<rparr>)"

lemma queued_refl [simp]: "queued b e d d"
  by (simp add: queued_def)

lemma queued_trans:
  assumes q: "queued b e d d'" "queued b e d' d''"
  shows "queued b e d d''"
  proof (cases "d' = d \<or> d'' = d'")
    case False
    with q(1) obtain t new where t: "db_webhooks d = Some t" "list_all (queued_for b e t) new"
      "d' = d\<lparr>db_webhooks := Some (t\<lparr>wt_deliveries := wt_deliveries t @ new\<rparr>)\<rparr>"
      unfolding queued_def by blast
    let ?t = "t\<lparr>wt_deliveries := wt_deliveries t @ new\<rparr>"
    from False q(2) obtain t' new' where "db_webhooks d' = Some t'" "list_all (queued_for b e t') new'"
      "d'' = d'\<lparr>db_webhooks := Some (t'\<lparr>wt_deliveries := wt_deliveries t' @ new'\<rparr>)\<rparr>"
      unfolding queued_def by blast
    moreover from this(1) t(3) have "t' = ?t" by simp
    moreover have "queued_for b e ?t = queued_for b e t" by (simp add: queued_for_def fun_eq_iff)
    ultimately have "list_all (queued_for b e t) (new @ new')"
      "d'' = d\<lparr>db_webhooks := Some (t\<lparr>wt_deliveries := wt_deliveries t @ (new @ new')\<rparr>)\<rparr>"
      using t by simp_all
    with t(1) show ?thesis unfolding queued_def by blast
  qed (use q in auto)

lemma queued_configs:
  assumes "queued b e d d'" "db_webhooks d = Some t"
  shows "\<exists>t'. db_webhooks d' = Some t' \<and> wt_configs t' = wt_configs t"
  using assms by (auto simp: queued_def)

lemma over_webhooks_Inl_db: "over_webhooks X tb q w = (Inl e, w') \<Longrightarrow> w_db w' = w_db w"
  unfolding over_webhooks_def by (rule sql_Inl_db)

lemma map_sum_eq_Inr: "map_sum f g s = Inr y \<longleftrightarrow> (\<exists>x. s = Inr x \<and> y = g x)"
  by (cases s) auto

lemma over_webhooks_Inr:
  "over_webhooks X tb q w = (Inr x, w') \<Longrightarrow>
    \<exists>t t'. db_webhooks (w_db w) = Some t \<and> q t = Inr (x, t')
      \<and> w_db w' = w_db w\<lparr>db_webhooks := Some t'\<rparr>"
  unfolding over_webhooks_def sql_Inr
  by (auto split: option.splits simp: map_sum_eq_Inr)

lemma insert_delivery_queued:
  assumes "insert_delivery X (wc_webhook_id c) e p w = (r, w')" "db_webhooks (w_db w) = Some t"
    and "c \<in> set (wt_configs t)" "subscribed b e c"
  shows "queued b e (w_db w) (w_db w')"
proof (cases r)
  case (Inl err)
  with assms(1) show ?thesis
    by (auto simp: insert_delivery_def draw_def try_bind_def dest: over_webhooks_Inl_db
        split: prod.splits sum.splits)
next
  case (Inr u)
  let ?row = "\<lparr>wd_delivery_id = x_uuid X (w_draws w), wd_webhook_id = wc_webhook_id c,
    wd_event_type = e, wd_payload = p, wd_status = ''Pending'', wd_attempts = 0\<rparr>"
  from assms Inr have
    "w_db w' = w_db w\<lparr>db_webhooks := Some (t\<lparr>wt_deliveries := wt_deliveries t @ [?row]\<rparr>)\<rparr>"
    by (auto simp: insert_delivery_def draw_def try_bind_def dest!: over_webhooks_Inr split: if_splits)
  moreover have "queued_for b e t ?row"
    using assms(3,4) by (auto simp: queued_for_def)
  ultimately show ?thesis
    using assms(2) unfolding queued_def by (intro disjI2 exI [of _ t] exI [of _ "[?row]"]) simp
qed

lemma deliver_queued:
  assumes "deliver X e data c w = (r, w')" "db_webhooks (w_db w) = Some t"
    and "c \<in> set (wt_configs t)" "subscribed b e c"
  shows "r = Inr () \<and> queued b e (w_db w) (w_db w')"
  using assms
  by (auto simp: deliver_def draw_def utc_now_def gets_def attempt_def ret_def try_bind_def
      dest!: insert_delivery_queued split: prod.splits)

lemma deliveries_queued:
  "for_each cs (deliver X e data) w = (r, w') \<Longrightarrow> db_webhooks (w_db w) = Some t \<Longrightarrow>
    \<forall>c\<in>set cs. c \<in> set (wt_configs t) \<and> subscribed b e c \<Longrightarrow>
    r = Inr () \<and> queued b e (w_db w) (w_db w')"
proof (induction cs arbitrary: w t)
  case (Cons c cs)
  obtain r1 w1 where one: "deliver X e data c w = (r1, w1)" by fastforce
  with Cons.prems deliver_queued have q: "r1 = Inr ()" "queued b e (w_db w) (w_db w1)"
    by (metis list.set_intros(1))+
  from queued_configs [OF q(2) Cons.prems(2)] obtain t1 where
    t1: "db_webhooks (w_db w1) = Some t1" "wt_configs t1 = wt_configs t" by blast
  have "for_each cs (deliver X e data) w1 = (r, w')"
    using Cons.prems(1) one q(1) by (simp add: try_bind_def)
  then have "r = Inr () \<and> queued b e (w_db w1) (w_db w')"
    using Cons.IH [of w1 t1] Cons.prems(3) t1 by simp
  with q(2) show ?case by (blast intro: queued_trans)
qed (simp add: ret_def)

lemma webhooks_only_queue:
  "\<exists>w'. trigger_webhook X brand_id event_type event_data w = (Inr (), w')
     \<and> queued brand_id event_type (w_db w) (w_db w')"
proof -
  obtain r w1 where q: "over_webhooks X ''webhook_configs''
      (\<lambda>t. Inr (filter (subscribed brand_id event_type) (wt_configs t), t)) w = (r, w1)" by fastforce
  show ?thesis
  proof (cases r)
    case (Inl e)
    with q over_webhooks_Inl_db [OF q [unfolded Inl]] show ?thesis
      by (simp add: trigger_webhook_def attempt_def try_bind_def ret_def)
  next
    case (Inr cs)
    from over_webhooks_Inr [OF q [unfolded Inr]] obtain t where
      t: "db_webhooks (w_db w) = Some t" "cs = filter (subscribed brand_id event_type) (wt_configs t)"
        "w_db w1 = w_db w" by auto
    obtain r' w' where run: "for_each cs (deliver X event_type event_data) w1 = (r', w')" by fastforce
    from deliveries_queued [OF run, of t brand_id] t have
      "r' = Inr () \<and> queued brand_id event_type (w_db w) (w_db w')" by simp
    with q Inr run t(1) show ?thesis
      by (simp add: trigger_webhook_def attempt_def try_bind_def)
  qed
qed

section \<open>One delivery for each subscriber\<close>

text \<open>The rows to expect: a delivery draws the id of its event, and then its own.\<close>

fun planned ::
  "('z externs_scheme) \<Rightarrow> string \<Rightarrow> json \<Rightarrow> time \<Rightarrow> nat \<Rightarrow> webhook_config_row list
    \<Rightarrow> webhook_delivery_row list" where
  "planned X event_type event_data now n [] = []"
| "planned X event_type event_data now n (c # cs) =
     \<lparr>wd_delivery_id = x_uuid X (Suc n), wd_webhook_id = wc_webhook_id c, wd_event_type = event_type,
      wd_payload = webhook_payload X event_type event_data (x_uuid X n) now,
      wd_status = ''Pending'', wd_attempts = 0\<rparr>
     # planned X event_type event_data now (Suc (Suc n)) cs"

text \<open>The next \<open>k\<close> drawn uuids are distinct and not those of stored deliveries.\<close>

definition fresh_uuids :: "('z externs_scheme) \<Rightarrow> nat \<Rightarrow> nat \<Rightarrow> webhook_tables \<Rightarrow> bool" where
  "fresh_uuids X n k t \<longleftrightarrow>
     distinct (map (x_uuid X) [n..<n + k] @ map wd_delivery_id (wt_deliveries t))"

lemma fresh_uuids_step:
  assumes "fresh_uuids X n (Suc (Suc k)) t"
  shows "\<not> list_ex (\<lambda>r. wd_delivery_id r = x_uuid X (Suc n)) (wt_deliveries t)"
    and "wd_delivery_id row = x_uuid X (Suc n) \<Longrightarrow>
      fresh_uuids X (Suc (Suc n)) k (t\<lparr>wt_deliveries := wt_deliveries t @ [row]\<rparr>)"
proof -
  have "[n..<n + Suc (Suc k)] = n # Suc n # [Suc (Suc n)..<Suc (Suc n) + k]"
    by (simp add: upt_conv_Cons del: upt_Suc)
  from assms [unfolded fresh_uuids_def this list.map append_Cons] have d: "distinct (x_uuid X (Suc n) # map (x_uuid X) [Suc (Suc n)..<Suc (Suc n) + k]
      @ map wd_delivery_id (wt_deliveries t))"
    by (metis distinct.simps(2))
  then have "x_uuid X (Suc n) \<notin> wd_delivery_id ` set (wt_deliveries t)" by (simp del: upt_Suc)
  then show "\<not> list_ex (\<lambda>r. wd_delivery_id r = x_uuid X (Suc n)) (wt_deliveries t)"
    unfolding list_ex_iff by (metis image_eqI)
  assume "wd_delivery_id row = x_uuid X (Suc n)"
  with d show "fresh_uuids X (Suc (Suc n)) k (t\<lparr>wt_deliveries := wt_deliveries t @ [row]\<rparr>)"
    unfolding fresh_uuids_def by (simp del: upt_Suc)
qed

lemma same_webhooks [simp]: "db_webhooks d = x \<Longrightarrow> d\<lparr>db_webhooks := x\<rparr> = d"
  by (cases d) simp

lemma insert_delivery_run:
  assumes "calm w" "db_webhooks (w_db w) = Some t" "c \<in> set (wt_configs t)"
    and "\<not> list_ex (\<lambda>r. wd_delivery_id r = x_uuid X (w_draws w)) (wt_deliveries t)"
  shows "insert_delivery X (wc_webhook_id c) event_type p w =
    (Inr (), w\<lparr>w_draws := Suc (w_draws w),
       w_db := (w_db w)\<lparr>db_webhooks := Some (t\<lparr>wt_deliveries := wt_deliveries t @
         [\<lparr>wd_delivery_id = x_uuid X (w_draws w), wd_webhook_id = wc_webhook_id c,
           wd_event_type = event_type, wd_payload = p, wd_status = ''Pending'', wd_attempts = 0\<rparr>]\<rparr>)\<rparr>\<rparr>)"
proof -
  have "list_ex (\<lambda>x. wc_webhook_id x = wc_webhook_id c) (wt_configs t)"
    using assms(3) by (auto simp: list_ex_iff)
  with assms(1,2,4) show ?thesis
    by (simp add: insert_delivery_def over_webhooks_def draw_def try_bind_def calm_sql)
qed

lemma deliver_run:
  assumes "calm w" "db_webhooks (w_db w) = Some t" "fresh_uuids X (w_draws w) (Suc (Suc k)) t"
    and "c \<in> set (wt_configs t)"
  shows "deliver X event_type event_data c w = (Inr (), w\<lparr>w_draws := Suc (Suc (w_draws w)),
    w_db := (w_db w)\<lparr>db_webhooks := Some (t\<lparr>wt_deliveries := wt_deliveries t
      @ planned X event_type event_data (w_now w) (w_draws w) [c]\<rparr>)\<rparr>\<rparr>)"
  using insert_delivery_run [of "w\<lparr>w_draws := Suc (w_draws w)\<rparr>" t c X event_type
      "webhook_payload X event_type event_data (x_uuid X (w_draws w)) (w_now w)"]
    assms(1,2,4) fresh_uuids_step(1) [OF assms(3)]
  by (simp add: deliver_def draw_def utc_now_def gets_def attempt_def ret_def try_bind_def)

lemma deliveries_run:
  "calm w \<Longrightarrow> db_webhooks (w_db w) = Some t \<Longrightarrow>
    fresh_uuids X (w_draws w) (2 * length cs) t \<Longrightarrow> set cs \<subseteq> set (wt_configs t) \<Longrightarrow>
    for_each cs (deliver X event_type event_data) w =
      (Inr (), w\<lparr>w_draws := w_draws w + 2 * length cs,
        w_db := (w_db w)\<lparr>db_webhooks := Some (t\<lparr>wt_deliveries := wt_deliveries t
          @ planned X event_type event_data (w_now w) (w_draws w) cs\<rparr>)\<rparr>\<rparr>)"
proof (induction cs arbitrary: w t)
  case (Cons c cs)
  let ?t = "t\<lparr>wt_deliveries := wt_deliveries t @ planned X event_type event_data (w_now w) (w_draws w) [c]\<rparr>"
  let ?w = "w\<lparr>w_draws := Suc (Suc (w_draws w)), w_db := (w_db w)\<lparr>db_webhooks := Some ?t\<rparr>\<rparr>"
  have fresh: "fresh_uuids X (w_draws w) (Suc (Suc (2 * length cs))) t" using Cons.prems(3) by simp
  have "deliver X event_type event_data c w = (Inr (), ?w)"
    using deliver_run [OF Cons.prems(1,2) fresh] Cons.prems(4) by simp
  moreover have "fresh_uuids X (w_draws ?w) (2 * length cs) ?t"
    using fresh_uuids_step(2) [OF fresh] by simp
  ultimately show ?case
    using Cons.IH [of ?w ?t] Cons.prems(1,4) by (simp add: try_bind_def)
qed (simp add: ret_def)

text \<open>
  C36. Triggering a webhook queues one delivery for each subscriber: when the database answers and
  the drawn uuids are fresh, the deliveries of the active configurations of that brand that
  subscribe to the event are appended in their order, pending, with no attempt and with the event
  as their payload, and nothing else changes. And whatever fails, the trigger itself does not, and
  every row it adds is a pending one for a subscriber.
\<close>

theorem webhooks_reach_subscribers:
  assumes "calm w" "db_webhooks (w_db w) = Some t"
    and "subs = filter (\<lambda>c. wc_brand_id c = brand_id \<and> wc_status c = ''Active''
      \<and> event_type \<in> set (wc_events c)) (wt_configs t)"
    and "fresh_uuids X (w_draws w) (2 * length subs) t"
  shows "trigger_webhook X brand_id event_type event_data w =
      (Inr (), w\<lparr>w_draws := w_draws w + 2 * length subs,
         w_db := (w_db w)\<lparr>db_webhooks := Some (t\<lparr>wt_deliveries := wt_deliveries t
           @ planned X event_type event_data (w_now w) (w_draws w) subs\<rparr>)\<rparr>\<rparr>)
   \<and> (\<exists>v'. trigger_webhook X brand_id event_type event_data v = (Inr (), v')
        \<and> queued brand_id event_type (w_db v) (w_db v'))"
proof -
  have subs: "filter (subscribed brand_id event_type) (wt_configs t) = subs"
    unfolding assms(3) by (rule filter_cong) (simp_all add: subscribed_def)
  have "trigger_webhook X brand_id event_type event_data w =
      for_each subs (deliver X event_type event_data) w"
    using assms(1,2)
    by (simp add: trigger_webhook_def over_webhooks_def attempt_def try_bind_def calm_sql subs)
  moreover have "set subs \<subseteq> set (wt_configs t)" unfolding assms(3) by auto
  ultimately show ?thesis
    using deliveries_run [OF assms(1,2,4)] webhooks_only_queue by simp
qed

section \<open>Witness\<close>

definition demo_hooks :: webhook_tables where
  "demo_hooks =
     \<lparr>wt_configs =
        [\<lparr>wc_webhook_id = 1, wc_brand_id = ''brand_1'', wc_url = ''u'', wc_secret = None,
          wc_events = [''asset.sold''], wc_status = ''Active''\<rparr>,
         \<lparr>wc_webhook_id = 2, wc_brand_id = ''brand_1'', wc_url = ''u'', wc_secret = None,
          wc_events = [''asset.sold''], wc_status = ''Paused''\<rparr>],
      wt_deliveries = []\<rparr>"

definition demo_hooked :: world where
  "demo_hooked =
     (demo_world Activated demo_virtual)
       \<lparr>w_db := (demo_db Activated demo_virtual)\<lparr>db_webhooks := Some demo_hooks\<rparr>\<rparr>"

theorem webhooks_reach_subscribers_witness:
  "\<exists>w' d. trigger_webhook demo_x ''brand_1'' ''asset.sold'' (JStr ''sold'') demo_hooked = (Inr (), w')
    \<and> db_webhooks (w_db w') = Some (demo_hooks\<lparr>wt_deliveries := [d]\<rparr>)
    \<and> wd_webhook_id d = 1 \<and> wd_status d = ''Pending''"
proof -
  have "calm demo_hooked" by (simp add: demo_hooked_def demo_world_def calm_def)
  moreover have "db_webhooks (w_db demo_hooked) = Some demo_hooks" by (simp add: demo_hooked_def)
  moreover have "[wt_configs demo_hooks ! 0] = filter (\<lambda>c. wc_brand_id c = ''brand_1''
      \<and> wc_status c = ''Active'' \<and> ''asset.sold'' \<in> set (wc_events c)) (wt_configs demo_hooks)"
    by (simp add: demo_hooks_def)
  moreover have "fresh_uuids demo_x (w_draws demo_hooked) 2 demo_hooks"
    by (simp add: fresh_uuids_def demo_hooked_def demo_hooks_def demo_world_def demo_x_def upt_rec)
  ultimately show ?thesis
    using webhooks_reach_subscribers
      [of demo_hooked demo_hooks "[wt_configs demo_hooks ! 0]" "''brand_1''" "''asset.sold''" demo_x "JStr ''sold''" demo_hooked]
    by (simp add: demo_hooks_def demo_hooked_def)
qed

end
