(* ===== verification/Action_Refinement.thy ===== *)
theory Action_Refinement
  imports Action_Properties
begin

text \<open>
  Sequences of requests: the handlers of \<^verbatim>\<open>routes/protocol.rs\<close> with the database behind them do
  what \<open>apply_action\<close> of the crate \<^verbatim>\<open>rc-core\<close> does on the record of the asset alone.
\<close>

section \<open>The two runs\<close>

type_synonym action_call = "asset_action \<times> actor_context \<times> headers \<times> asset_action_request"

text \<open>Requests on one asset, one after the other, up to the first one that fails.\<close>

definition run_calls :: "('z externs_scheme) \<Rightarrow> string \<Rightarrow> action_call list \<Rightarrow> unit op" where
  "run_calls X aid calls =
     for_each calls (\<lambda>(a, actor, hs, p).
       try_bind (execute_asset_action X aid a actor hs p) (\<lambda>_. ret ()))"

text \<open>The same requests on the record alone; the \<open>n\<close>th drawn uuid names the first event.\<close>

fun machine_run ::
  "('z externs_scheme) \<Rightarrow> nat \<Rightarrow> asset_record \<Rightarrow> action_call list
    \<Rightarrow> (asset_record \<times> audit_event list) option" where
  "machine_run X n rec [] = Some (rec, [])"
| "machine_run X n rec ((a, actor, hs, p) # calls) =
     (case parse_required_headers X hs of
        Inl _ \<Rightarrow> None
      | Inr h \<Rightarrow>
          (case apply_action (x_uuid X n) (with_client_previous p rec) a
                  (audit_context_of actor h (aq_buyer_id p)) of
             Inl _ \<Rightarrow> None
           | Inr (next, ev) \<Rightarrow>
               map_option (\<lambda>(final, evs). (final, ev # evs)) (machine_run X (Suc n) next calls)))"

text \<open>The keys of requests with readable headers.\<close>

definition call_keys :: "('z externs_scheme) \<Rightarrow> action_call list \<Rightarrow> string list" where
  "call_keys X calls =
     List.map_filter (\<lambda>(_, _, hs, _).
       case parse_required_headers X hs of Inl _ \<Rightarrow> None | Inr h \<Rightarrow> Some (rh_idempotency_key h)) calls"

text \<open>
  First attempts: keys and event ids are new; activation with entanglement has an endpoint of its
  own, and a sale names its buyer.
\<close>

definition first_attempts :: "('z externs_scheme) \<Rightarrow> action_call list \<Rightarrow> world \<Rightarrow> bool" where
  "first_attempts X calls w \<longleftrightarrow>
     distinct (call_keys X calls)
   \<and> list_all (\<lambda>key. answer_for key (w_db w) = None) (call_keys X calls)
   \<and> distinct (map (x_uuid X) [w_draws w..<w_draws w + length calls]
       @ map se_event_id (db_events (w_db w)))
   \<and> list_all (\<lambda>(a, _, _, p). a \<noteq> ActivateEntangle \<and> (a = LegalSell \<longrightarrow> aq_buyer_id p \<noteq> Some [])) calls"

section \<open>One request\<close>

lemma isl_iff_no_pair: "isl r \<longleftrightarrow> (\<forall>x y. r \<noteq> Inr (x, y))"
  by (cases r) auto

lemma rejected_action_fails:
  assumes "w_faults w = []" and "asset_at aid rec (w_db w)"
    and "case parse_required_headers X hs of Inl _ \<Rightarrow> True
      | Inr h \<Rightarrow> answer_for (rh_idempotency_key h) (w_db w) = None
          \<and> isl (apply_action (x_uuid X (w_draws w)) (with_client_previous p rec) a
               (audit_context_of actor h (aq_buyer_id p)))"
  shows "isl (fst (execute_asset_action X aid a actor hs p w))"
proof (cases "parse_required_headers X hs")
  case (Inl e)
  then show ?thesis
    by (simp add: execute_asset_action_def try_bind_def check_def require_def lift_def of_result_def)
next
  case (Inr h)
  obtain row where "find (asset_with_id aid) (db_assets (w_db w)) = Some row" "decode_asset row = Inr rec"
    using assms(2) by (auto simp: asset_at_def)
  with assms(1,3) Inr show ?thesis
    by (auto simp: execute_asset_action_def with_idempotency_def load_idempotency_record_def
        answer_for_def prepare_action_def fetch_asset_def try_bind_def run_simps calm_def Let_def
        draw_def isl_def)
qed

lemma key_stays_new:
  "answer_for k (persist_effect n ev rh snap cid now d) = None \<longleftrightarrow>
    answer_for k d = None \<and> k \<noteq> ac_idempotency_key (ae_context ev)"
  by (auto simp: persist_effect_def insert_idempotency_def answer_for_def append_event_def
      update_asset_def find_None_iff list_ex_iff)

section \<open>All requests\<close>

lemma call_keys_Cons:
  "parse_required_headers X hs = Inr h \<Longrightarrow>
    call_keys X ((a, actor, hs, p) # calls) = rh_idempotency_key h # call_keys X calls"
  by (simp add: call_keys_def List.map_filter_simps)

lemma fresh_draws_Cons:
  "distinct (map f [n..<n + length (c # cs)] @ ids) \<longleftrightarrow>
    f n \<notin> set ids \<and> f n \<notin> set (map f [Suc n..<Suc n + length cs])
    \<and> distinct (map f [Suc n..<Suc n + length cs] @ ids)"
proof -
  have "[n..<n + length (c # cs)] = n # [Suc n..<Suc n + length cs]"
    by (simp add: upt_conv_Cons del: upt_Suc)
  then show ?thesis by (auto simp del: upt_Suc)
qed

lemma first_attempt:
  assumes "first_attempts X ((a, actor, hs, p) # calls) w"
  shows "x_uuid X (w_draws w) \<notin> se_event_id ` set (db_events (w_db w))"
    and "a \<noteq> ActivateEntangle" "a = LegalSell \<longrightarrow> aq_buyer_id p \<noteq> Some []"
    and "parse_required_headers X hs = Inr h \<Longrightarrow> answer_for (rh_idempotency_key h) (w_db w) = None"
proof -
  show "x_uuid X (w_draws w) \<notin> se_event_id ` set (db_events (w_db w))"
    using assms unfolding first_attempts_def fresh_draws_Cons by simp
qed (use assms in \<open>auto simp: first_attempts_def call_keys_Cons\<close>)

lemma others_untouched:
  "(\<And>a. as_asset_id (f a) = as_asset_id a) \<Longrightarrow>
    filter (\<lambda>a. as_asset_id a \<noteq> i) (update_rows (asset_with_id i) f xs) =
    filter (\<lambda>a. as_asset_id a \<noteq> i) xs"
  by (induction xs) (simp_all add: update_rows_def asset_with_id_def)

lemma later_attempts:
  assumes "first_attempts X ((a, actor, hs, p) # calls) w" "parse_required_headers X hs = Inr h"
    and "ae_event_id ev = x_uuid X (w_draws w)" "ac_idempotency_key (ae_context ev) = rh_idempotency_key h"
  shows "first_attempts X calls
    (w\<lparr>w_draws := Suc (w_draws w), w_db := persist_effect n ev rh snap cid now (w_db w)\<rparr>)"
proof -
  have "distinct (map (x_uuid X) [Suc (w_draws w)..<Suc (w_draws w) + length calls]
      @ map se_event_id (db_events (w_db w)) @ [x_uuid X (w_draws w)])"
    using assms(1) unfolding first_attempts_def fresh_draws_Cons by (simp del: upt_Suc)
  moreover have "list_all (\<lambda>key. answer_for key (w_db w) = None \<and> key \<noteq> rh_idempotency_key h) (call_keys X calls)"
    "distinct (call_keys X calls)"
    using assms(1) by (auto simp: first_attempts_def call_keys_Cons [OF assms(2)] list_all_iff)
  ultimately show ?thesis
    using assms(1,3,4)
    by (simp add: first_attempts_def key_stays_new del: upt_Suc)
qed

text \<open>
  C6. The server refines the state machine: first attempts at actions on an asset, sent one after the
  other by any actors while the database answers, all succeed exactly when \<open>apply_action\<close> of
  \<^verbatim>\<open>rc-core\<close> accepts them in that order on the asset's record; then the stored asset is the record
  the machine ends in, the audit log has grown by the machine's events and by nothing else, and
  no other asset has changed. When the machine refuses one, the sequence fails.
\<close>

theorem server_refines_machine:
  assumes "w_faults w = []" and "asset_at aid rec (w_db w)" and "first_attempts X calls w"
  shows "case machine_run X (w_draws w) rec calls of
      None \<Rightarrow> isl (fst (run_calls X aid calls w))
    | Some (final, evs) \<Rightarrow>
        (\<exists>w'. run_calls X aid calls w = (Inr (), w') \<and> asset_at aid final (w_db w')
          \<and> db_events (w_db w') = db_events (w_db w) @ map (\<lambda>ev. event_row ev None (w_now w)) evs
          \<and> filter (\<lambda>a. as_asset_id a \<noteq> aid) (db_assets (w_db w')) =
            filter (\<lambda>a. as_asset_id a \<noteq> aid) (db_assets (w_db w)))"
  using assms
proof (induction calls arbitrary: w rec)
  case (Cons c calls)
  obtain a actor hs p where c: "c = (a, actor, hs, p)" by (cases c)
  note new = first_attempt [OF Cons.prems(3) [unfolded c]]
  show ?case
  proof (cases "\<exists>h n ev. parse_required_headers X hs = Inr h
      \<and> apply_action (x_uuid X (w_draws w)) (with_client_previous p rec) a
          (audit_context_of actor h (aq_buyer_id p)) = Inr (n, ev)")
    case False
    then have "isl (fst (execute_asset_action X aid a actor hs p w))"
      by (intro rejected_action_fails [OF Cons.prems(1,2)])
        (auto simp: new(4) isl_iff_no_pair split: sum.split)
    moreover from False have "machine_run X (w_draws w) rec (c # calls) = None"
      by (auto simp: c split: sum.split)
    ultimately show ?thesis
      by (auto simp: run_calls_def c try_bind_def isl_def split: prod.splits)
  next
    case True
    then obtain h n ev where h: "parse_required_headers X hs = Inr h"
      and ap: "apply_action (x_uuid X (w_draws w)) (with_client_previous p rec) a
          (audit_context_of actor h (aq_buyer_id p)) = Inr (n, ev)" by blast
    let ?resp = "action_response X aid a (with_client_previous p rec) n ev"
    let ?w = "w\<lparr>w_draws := Suc (w_draws w), w_db := persist_effect n ev
      (build_request_hash X aid a p actor h) ?resp None (w_now w) (w_db w)\<rparr>"
    have run: "execute_asset_action X aid a actor hs p w = (Inr (ok_json ?resp), ?w)"
      by (rule action_runs_exact [OF Cons.prems(1) h new(4) [OF h] Cons.prems(2) ap new(1-3)])
    have ids: "ar_asset_id n = aid" "ar_brand_id n = ar_brand_id rec" "ae_event_id ev = x_uuid X (w_draws w)"
      "ac_idempotency_key (ae_context ev) = rh_idempotency_key h"
      using ap asset_at_id [OF Cons.prems(2)]
      by (auto simp: apply_action_Inr with_client_previous_def audit_context_of_def)
    have "asset_at aid n (w_db ?w)" using asset_after_persist [OF Cons.prems(2) ids(1,2)] by simp
    moreover have "first_attempts X calls ?w"
      using later_attempts [OF Cons.prems(3) [unfolded c] h ids(3,4)] by simp
    moreover have "filter (\<lambda>b. as_asset_id b \<noteq> aid) (db_assets (w_db ?w)) =
        filter (\<lambda>b. as_asset_id b \<noteq> aid) (db_assets (w_db w))"
      using ids(1) by (simp add: others_untouched)
    ultimately show ?thesis
      using Cons.IH [of ?w n] Cons.prems(1) run
      by (auto simp: c h ap run_calls_def try_bind_def ret_def split: option.splits)
  qed
qed (simp add: run_calls_def ret_def)

section \<open>Witness\<close>

text \<open>A brand sells its activated asset, and the buyer consumes it.\<close>

definition demo_key_headers :: "string \<Rightarrow> headers" where
  "demo_key_headers key = demo_headers(''X-Idempotency-Key'' \<mapsto> HeaderText key)"

definition demo_calls :: "action_call list" where
  "demo_calls =
     [(LegalSell, demo_actor ''b'' Brand, demo_key_headers ''k1'',
       \<lparr>aq_previous_state = None, aq_buyer_id = Some ''c''\<rparr>),
      (Consume, demo_actor ''c'' Consumer, demo_key_headers ''k2'', plain_request)]"

definition demo_record :: "asset_state \<Rightarrow> asset_record" where
  "demo_record s =
     \<lparr>ar_asset_id = ''a1'', ar_brand_id = ''brand_1'', ar_current_state = s, ar_previous_state = None\<rparr>"

lemma demo_key_parsed: "parse_required_headers demo_x (demo_key_headers k) = Inr (demo_parsed\<lparr>rh_idempotency_key := k\<rparr>)"
  by (simp add: parse_required_headers_def demo_key_headers_def demo_headers_def demo_x_def
      demo_parsed_def required_header_def optional_header_def to_str_def)

lemma demo_machine_run:
  "map_option (\<lambda>(final, evs). (final, map ae_action evs))
     (machine_run demo_x 0 (demo_record Activated) demo_calls) =
   Some (demo_record Consumed, [LegalSell, Consume])"
  by code_simp

theorem server_refines_machine_witness:
  "\<exists>w'. run_calls demo_x ''a1'' demo_calls (demo_world Activated demo_virtual) = (Inr (), w')
    \<and> asset_at ''a1'' (demo_record Consumed) (w_db w') \<and> length (db_events (w_db w')) = 2"
proof -
  let ?w = "demo_world Activated demo_virtual"
  have "answer_for k (w_db ?w) = None" for k by (simp add: answer_for_def demo_world_def demo_db_def)
  moreover have "call_keys demo_x demo_calls = [''k1'', ''k2'']"
    by (simp add: call_keys_def demo_calls_def demo_key_parsed List.map_filter_simps)
  moreover have "distinct (map (x_uuid demo_x) [w_draws ?w..<w_draws ?w + length demo_calls]
      @ map se_event_id (db_events (w_db ?w)))"
    by (simp add: demo_calls_def demo_x_def demo_world_def demo_db_def upt_rec)
  ultimately have new: "first_attempts demo_x demo_calls ?w"
    unfolding first_attempts_def by (simp add: demo_calls_def plain_request_def)
  have "w_faults ?w = []" "w_draws ?w = 0" "db_events (w_db ?w) = []"
    by (simp_all add: demo_world_def demo_db_def)
  with server_refines_machine [of ?w "''a1''" "demo_record Activated" demo_x demo_calls] new demo_machine_run
    demo_asset_at [of Activated demo_virtual]
  show ?thesis by (auto simp: demo_record_def split: option.splits)
qed

end
