(* ===== verification/Core_Tests.thy ===== *)
theory Core_Tests
  imports Asset_Core
begin

text \<open>
  The tests of the crate \<^verbatim>\<open>rc-core\<close>, \<^verbatim>\<open>bug_condition_test.rs\<close> and \<^verbatim>\<open>preservation_test.rs\<close>, as
  boolean definitions on the model under their own names, and that the model passes them. A random
  uuid is an argument. The table of transitions that the tests keep is shown to be complete.
\<close>

section \<open>Fixtures\<close>

definition make_context :: "uuid \<Rightarrow> string \<Rightarrow> actor_role \<Rightarrow> audit_context" where
  "make_context trace key role =
     \<lparr>ac_trace_id = trace, ac_actor_id = ''test-actor'', ac_actor_role = role,
      ac_actor_org = None, ac_idempotency_key = key, ac_approval_id = None,
      ac_policy_version = None, ac_buyer_id = None\<rparr>"

definition test_record :: "asset_state \<Rightarrow> asset_state option \<Rightarrow> asset_record" where
  "test_record current previous =
     \<lparr>ar_asset_id = ''asset-1'', ar_brand_id = ''brand-1'', ar_current_state = current,
      ar_previous_state = previous\<rparr>"

definition moves_to :: "rc_error + asset_record \<times> audit_event \<Rightarrow> asset_state \<Rightarrow> bool" where
  "moves_to result target =
     (case result of Inl _ \<Rightarrow> False | Inr (next, _) \<Rightarrow> ar_current_state next = target)"

definition non_terminal_states :: "asset_state list" where
  "non_terminal_states =
     [PreMinted, FactoryLogged, Unassigned, RotatingKeys, EntangledPending, Activated,
      LegallySold, Transferred, Disputed]"

definition freezeable_states :: "asset_state list" where
  "freezeable_states =
     [PreMinted, FactoryLogged, Unassigned, RotatingKeys, EntangledPending, Activated,
      LegallySold, Transferred]"

section \<open>\<^verbatim>\<open>bug_condition_test.rs\<close>\<close>

definition bug_1_1_recover_should_reject_terminal_previous_state ::
  "uuid \<Rightarrow> uuid \<Rightarrow> bool" where
  "bug_1_1_recover_should_reject_terminal_previous_state event_id trace \<longleftrightarrow>
     isl (apply_action event_id (test_record Disputed (Some Destructed)) Recover
       (make_context trace ''idem-1'' Moderator))"

definition bug_1_2_state_machine_should_have_recover_branch :: bool where
  "bug_1_2_state_machine_should_have_recover_branch \<longleftrightarrow>
     next_state_for_action_with_previous Disputed Recover (Some Activated) = Some Activated"

definition all_actions :: "asset_action list" where
  "all_actions =
     [BlindLog, StockIn, ActivateRotateKeys, ActivateEntangle, ActivateConfirm, LegalSell,
      Transfer, Consume, LegacyAction, Freeze, Recover, MarkTampered, MarkCompromised,
      MarkDestructed]"

definition bug_1_3_no_action_leads_to_destructed :: bool where
  "bug_1_3_no_action_leads_to_destructed \<longleftrightarrow>
     list_ex (\<lambda>state. list_ex (\<lambda>action.
       next_state_for_action state action = Some Destructed) all_actions) non_terminal_states"

definition bug_1_11_platform_business_action_should_require_approval ::
  "uuid \<Rightarrow> uuid \<Rightarrow> bool" where
  "bug_1_11_platform_business_action_should_require_approval event_id trace \<longleftrightarrow>
     isl (apply_action event_id (test_record PreMinted None) BlindLog
       (make_context trace ''idem-1'' Platform\<lparr>ac_actor_id := ''platform-admin''\<rparr>))"

section \<open>\<^verbatim>\<open>preservation_test.rs\<close>: the state machine\<close>

definition preservation_3_1_full_chain_preminted_to_legallysold :: bool where
  "preservation_3_1_full_chain_preminted_to_legallysold \<longleftrightarrow>
     next_state_for_action PreMinted BlindLog = Some FactoryLogged
   \<and> next_state_for_action FactoryLogged StockIn = Some Unassigned
   \<and> next_state_for_action Unassigned ActivateRotateKeys = Some RotatingKeys
   \<and> next_state_for_action RotatingKeys ActivateEntangle = Some EntangledPending
   \<and> next_state_for_action EntangledPending ActivateConfirm = Some Activated
   \<and> next_state_for_action Activated LegalSell = Some LegallySold"

definition expected_transitions :: "(asset_state \<times> asset_action \<times> asset_state) list" where
  "expected_transitions =
     [(PreMinted, BlindLog, FactoryLogged), (FactoryLogged, StockIn, Unassigned),
      (Unassigned, ActivateRotateKeys, RotatingKeys),
      (RotatingKeys, ActivateEntangle, EntangledPending),
      (EntangledPending, ActivateConfirm, Activated), (Activated, LegalSell, LegallySold),
      (LegallySold, Transfer, Transferred), (Transferred, Transfer, Transferred),
      (LegallySold, Consume, Consumed), (Transferred, Consume, Consumed),
      (LegallySold, LegacyAction, LegacyState), (Transferred, LegacyAction, LegacyState),
      (Activated, Freeze, Disputed)]"

definition preservation_3_2_all_13_legitimate_transitions :: bool where
  "preservation_3_2_all_13_legitimate_transitions \<longleftrightarrow>
     list_all (\<lambda>(source, action, expected_to).
       next_state_for_action source action = Some expected_to) expected_transitions"

definition preservation_3_2_freeze_works_on_all_non_terminal_non_frozen_states :: bool where
  "preservation_3_2_freeze_works_on_all_non_terminal_non_frozen_states \<longleftrightarrow>
     list_all (\<lambda>state. next_state_for_action state Freeze = Some Disputed) freezeable_states"

definition preservation_3_2_mark_tampered_works_on_non_terminal :: bool where
  "preservation_3_2_mark_tampered_works_on_non_terminal \<longleftrightarrow>
     list_all (\<lambda>state. next_state_for_action state MarkTampered = Some Tampered)
       non_terminal_states"

definition preservation_3_2_mark_compromised_works_on_non_terminal :: bool where
  "preservation_3_2_mark_compromised_works_on_non_terminal \<longleftrightarrow>
     list_all (\<lambda>state. next_state_for_action state MarkCompromised = Some Compromised)
       non_terminal_states"

definition preservation_3_2_terminal_states_block_transitions :: bool where
  "preservation_3_2_terminal_states_block_transitions \<longleftrightarrow>
     list_all (\<lambda>state. list_all (\<lambda>action. next_state_for_action state action = None)
         [BlindLog, StockIn, ActivateRotateKeys, ActivateEntangle, ActivateConfirm, LegalSell,
          Transfer, Consume, LegacyAction, Freeze])
       [Consumed, LegacyState, Destructed]"

definition preservation_3_2_can_transition_positive :: bool where
  "preservation_3_2_can_transition_positive \<longleftrightarrow>
     can_transition PreMinted FactoryLogged \<and> can_transition FactoryLogged Unassigned
   \<and> can_transition Activated LegallySold \<and> can_transition LegallySold Transferred
   \<and> can_transition LegallySold Consumed"

section \<open>\<^verbatim>\<open>preservation_test.rs\<close>: the protocol step\<close>

definition preservation_3_1_blindlog_preminted :: "uuid \<Rightarrow> uuid \<Rightarrow> string \<Rightarrow> bool" where
  "preservation_3_1_blindlog_preminted event_id trace key =
     (case apply_action event_id (test_record PreMinted None) BlindLog
             (make_context trace key Factory) of
        Inl _ \<Rightarrow> False
      | Inr (next, ev) \<Rightarrow> ar_current_state next = FactoryLogged \<and> ae_to_state ev = FactoryLogged)"

definition preservation_3_1_legalsell_activated :: "uuid \<Rightarrow> uuid \<Rightarrow> string \<Rightarrow> bool" where
  "preservation_3_1_legalsell_activated event_id trace key \<longleftrightarrow>
     moves_to (apply_action event_id (test_record Activated None) LegalSell
       (make_context trace key Brand\<lparr>ac_buyer_id := Some ''consumer-1''\<rparr>)) LegallySold"

definition preservation_3_4_platform_freeze_allowed :: "uuid \<Rightarrow> uuid \<Rightarrow> string \<Rightarrow> bool" where
  "preservation_3_4_platform_freeze_allowed event_id trace key \<longleftrightarrow>
     moves_to (apply_action event_id (test_record Activated None) Freeze
       (make_context trace key Platform)) Disputed"

definition preservation_3_4_platform_mark_tampered_allowed ::
  "uuid \<Rightarrow> uuid \<Rightarrow> string \<Rightarrow> bool" where
  "preservation_3_4_platform_mark_tampered_allowed event_id trace key \<longleftrightarrow>
     moves_to (apply_action event_id (test_record Activated None) MarkTampered
       (make_context trace key Platform)) Tampered"

definition preservation_3_4_platform_mark_compromised_allowed ::
  "uuid \<Rightarrow> uuid \<Rightarrow> string \<Rightarrow> bool" where
  "preservation_3_4_platform_mark_compromised_allowed event_id trace key \<longleftrightarrow>
     moves_to (apply_action event_id (test_record Activated None) MarkCompromised
       (make_context trace key Platform)) Compromised"

definition preservation_3_4_moderator_freeze_allowed :: "uuid \<Rightarrow> uuid \<Rightarrow> string \<Rightarrow> bool" where
  "preservation_3_4_moderator_freeze_allowed event_id trace key \<longleftrightarrow>
     \<not> isl (apply_action event_id (test_record LegallySold None) Freeze
       (make_context trace key Moderator))"

definition preservation_3_6_non_legalsell_no_owner_change_in_event ::
  "uuid \<Rightarrow> uuid \<Rightarrow> string \<Rightarrow> bool" where
  "preservation_3_6_non_legalsell_no_owner_change_in_event event_id trace key =
     (case apply_action event_id (test_record PreMinted None) BlindLog
             (make_context trace key Factory) of
        Inl _ \<Rightarrow> False
      | Inr (_, ev) \<Rightarrow> ae_action ev = BlindLog \<and> ae_from_state ev = Some PreMinted
          \<and> ae_to_state ev = FactoryLogged)"

definition preservation_3_6_transfer_preserves_semantics ::
  "uuid \<Rightarrow> uuid \<Rightarrow> string \<Rightarrow> bool" where
  "preservation_3_6_transfer_preserves_semantics event_id trace key =
     (case apply_action event_id (test_record LegallySold None) Transfer
             (make_context trace key Consumer) of
        Inl _ \<Rightarrow> False
      | Inr (next, ev) \<Rightarrow> ar_current_state next = Transferred \<and> ae_action ev = Transfer)"

definition preservation_3_1_freeze_records_previous_state ::
  "uuid \<Rightarrow> uuid \<Rightarrow> string \<Rightarrow> bool" where
  "preservation_3_1_freeze_records_previous_state event_id trace key =
     (case apply_action event_id (test_record Activated None) Freeze
             (make_context trace key Platform) of
        Inl _ \<Rightarrow> False
      | Inr (next, _) \<Rightarrow> ar_current_state next = Disputed
          \<and> ar_previous_state next = Some Activated)"

section \<open>\<^verbatim>\<open>preservation_test.rs\<close>: the property tests\<close>

definition legal_transition_pairs :: "(asset_state \<times> asset_action \<times> asset_state) list" where
  "legal_transition_pairs =
     [(PreMinted, BlindLog, FactoryLogged), (FactoryLogged, StockIn, Unassigned),
      (Unassigned, ActivateRotateKeys, RotatingKeys),
      (RotatingKeys, ActivateEntangle, EntangledPending),
      (EntangledPending, ActivateConfirm, Activated), (Activated, LegalSell, LegallySold),
      (LegallySold, Transfer, Transferred), (Transferred, Transfer, Transferred),
      (LegallySold, Consume, Consumed), (Transferred, Consume, Consumed),
      (LegallySold, LegacyAction, LegacyState), (Transferred, LegacyAction, LegacyState)]"

definition pbt_legal_transitions_match_documentation :: "nat \<Rightarrow> bool" where
  "pbt_legal_transitions_match_documentation idx =
     (case legal_transition_pairs ! idx of (source, action, expected) \<Rightarrow>
        next_state_for_action source action = Some expected)"

definition pbt_freeze_any_non_terminal_non_frozen :: "nat \<Rightarrow> bool" where
  "pbt_freeze_any_non_terminal_non_frozen idx \<longleftrightarrow>
     next_state_for_action (freezeable_states ! idx) Freeze = Some Disputed"

definition pbt_terminal_states_reject_business_actions :: "nat \<Rightarrow> nat \<Rightarrow> bool" where
  "pbt_terminal_states_reject_business_actions state_idx action_idx \<longleftrightarrow>
     next_state_for_action ([Consumed, LegacyState, Destructed] ! state_idx)
       ([BlindLog, StockIn, LegalSell, Transfer, Consume, LegacyAction] ! action_idx) = None"

section \<open>The model passes them\<close>

lemmas core_test_defs =
  make_context_def test_record_def moves_to_def non_terminal_states_def freezeable_states_def
  all_actions_def expected_transitions_def next_state_for_action_def
  next_state_for_action_with_previous_def can_transition_def can_role_initiate_def
  apply_action_def is_business_action_def is_terminal_def is_frozen_def

lemma bug_condition_tests_pass:
  "bug_1_1_recover_should_reject_terminal_previous_state event_id trace"
  "bug_1_2_state_machine_should_have_recover_branch"
  "bug_1_3_no_action_leads_to_destructed"
  "bug_1_11_platform_business_action_should_require_approval event_id trace"
  by (simp_all add: core_test_defs bug_1_1_recover_should_reject_terminal_previous_state_def
      bug_1_2_state_machine_should_have_recover_branch_def bug_1_3_no_action_leads_to_destructed_def
      bug_1_11_platform_business_action_should_require_approval_def)

lemma preservation_state_machine_tests_pass:
  "preservation_3_1_full_chain_preminted_to_legallysold"
  "preservation_3_2_all_13_legitimate_transitions"
  "preservation_3_2_freeze_works_on_all_non_terminal_non_frozen_states"
  "preservation_3_2_mark_tampered_works_on_non_terminal"
  "preservation_3_2_mark_compromised_works_on_non_terminal"
  "preservation_3_2_terminal_states_block_transitions"
  "preservation_3_2_can_transition_positive"
  by code_simp+

lemma preservation_protocol_tests_pass:
  "preservation_3_1_blindlog_preminted event_id trace key"
  "preservation_3_1_legalsell_activated event_id trace key"
  "preservation_3_4_platform_freeze_allowed event_id trace key"
  "preservation_3_4_platform_mark_tampered_allowed event_id trace key"
  "preservation_3_4_platform_mark_compromised_allowed event_id trace key"
  "preservation_3_4_moderator_freeze_allowed event_id trace key"
  "preservation_3_6_non_legalsell_no_owner_change_in_event event_id trace key"
  "preservation_3_6_transfer_preserves_semantics event_id trace key"
  "preservation_3_1_freeze_records_previous_state event_id trace key"
  by (simp_all add: core_test_defs preservation_3_1_blindlog_preminted_def
      preservation_3_1_legalsell_activated_def preservation_3_4_platform_freeze_allowed_def
      preservation_3_4_platform_mark_tampered_allowed_def
      preservation_3_4_platform_mark_compromised_allowed_def
      preservation_3_4_moderator_freeze_allowed_def
      preservation_3_6_non_legalsell_no_owner_change_in_event_def
      preservation_3_6_transfer_preserves_semantics_def
      preservation_3_1_freeze_records_previous_state_def)

lemma preservation_property_tests_pass:
  "list_all pbt_legal_transitions_match_documentation [0..<12]"
  "list_all pbt_freeze_any_non_terminal_non_frozen [0..<8]"
  "list_all (\<lambda>i. list_all (pbt_terminal_states_reject_business_actions i) [0..<6]) [0..<3]"
  by code_simp+

text \<open>
  The table of the tests misses nothing: a business action moves an asset exactly along one of
  its twelve rows.
\<close>

lemma legal_transition_pairs_complete:
  "is_business_action action \<Longrightarrow>
    next_state_for_action_with_previous source action previous = Some target \<longleftrightarrow>
    (source, action, target) \<in> set legal_transition_pairs"
  by (cases source; cases action)
    (auto simp: next_state_for_action_with_previous_def is_business_action_def
      legal_transition_pairs_def)

end
