(* ===== verification/Kms_Threads.thy ===== *)
theory Kms_Threads
  imports Kms
begin

text \<open>
  Threads that share one \<^verbatim>\<open>SoftwareKms\<close>: between the read lock and the write lock of
  \<^verbatim>\<open>with_brand_key\<close> any other threads may run. A schedule is the list of the threads that take
  their next lock; whatever it is, every thread gets the specified key at its second turn.
\<close>

section \<open>One derivation, lock by lock\<close>

text \<open>The brand a request derives under, and what its callback computes from the brand key.\<close>

fun req_brand :: "key_request \<Rightarrow> string" where
  "req_brand (ChipReq b u e) = b"
| "req_brand (HoneyReq b s) = b"
| "req_brand (MotherReq b u e) = b"

fun req_use :: "('z crypto_scheme) \<Rightarrow> key_request \<Rightarrow> bytes \<Rightarrow> bytes" where
  "req_use X (ChipReq b u e) brand_key = kdf_chip_key X brand_key u (to_le_bytes e)"
| "req_use X (HoneyReq b s) brand_key = kdf_honey_key X brand_key s"
| "req_use X (MotherReq b u e) brand_key = kdf_chip_key X brand_key (mother_uid_7 u) (to_le_bytes e)"

lemma req_use_fun:
  "req_use X (ChipReq b u e) = (\<lambda>brand_key. kdf_chip_key X brand_key u (to_le_bytes e))"
  "req_use X (HoneyReq b s) = (\<lambda>brand_key. kdf_honey_key X brand_key s)"
  "req_use X (MotherReq b u e) = (\<lambda>brand_key. kdf_chip_key X brand_key (mother_uid_7 u) (to_le_bytes e))"
  by (rule ext, simp)+

lemma serve_request_split:
  "serve_request (derive_chip_key X) (derive_honey_key X) (derive_mother_key X) kms q =
    with_brand_key X kms (req_brand q) (req_use X q)"
  by (cases q)
    (simp_all add: derive_chip_key_def derive_honey_key_def derive_mother_key_def req_use_fun del: req_use.simps)

lemma kms_spec_split:
  "kms_spec X (kms_ident kms) q =
    req_use X q (brand_key_spec X (kms_root_key kms) (kms_system_id kms) (req_brand q))"
  by (cases q) simp_all

section \<open>Threads\<close>

datatype thread = Waiting | Missed | Answered bytes

text \<open>The next lock of thread \<open>i\<close>: the read lock, then after a miss the write lock.\<close>

definition advance ::
  "('z crypto_scheme) \<Rightarrow> (nat \<Rightarrow> key_request) \<Rightarrow> nat \<Rightarrow> software_kms \<times> (nat \<Rightarrow> thread)
    \<Rightarrow> software_kms \<times> (nat \<Rightarrow> thread)" where
  "advance X reqs i s =
     (case s of (kms, ts) \<Rightarrow>
       (case ts i of
          Waiting \<Rightarrow>
            (case brand_key_fast kms (req_brand (reqs i)) (req_use X (reqs i)) of
               Some k \<Rightarrow> (kms, ts(i := Answered k))
             | None \<Rightarrow> (kms, ts(i := Missed)))
        | Missed \<Rightarrow>
            (case brand_key_slow X kms (req_brand (reqs i)) (req_use X (reqs i)) of
               (k, kms') \<Rightarrow> (kms', ts(i := Answered k)))
        | Answered k \<Rightarrow> (kms, ts)))"

definition run_threads ::
  "('z crypto_scheme) \<Rightarrow> (nat \<Rightarrow> key_request) \<Rightarrow> nat list \<Rightarrow> software_kms
    \<Rightarrow> software_kms \<times> (nat \<Rightarrow> thread)" where
  "run_threads X reqs schedule kms = fold (advance X reqs) schedule (kms, \<lambda>_. Waiting)"

text \<open>A thread alone runs as the derivation does.\<close>

lemma alone:
  "serve_request (derive_chip_key X) (derive_honey_key X) (derive_mother_key X) kms (reqs i) = (r, kms') \<Longrightarrow>
    run_threads X reqs [i, i] kms = (kms', (\<lambda>_. Waiting)(i := Answered (projr r)))"
  by (auto simp: serve_request_split with_brand_key_def run_threads_def advance_def
      split: option.splits prod.splits)

section \<open>Every schedule\<close>

text \<open>How far a thread is after \<open>n\<close> turns, and the key it may hold.\<close>

fun progress_ok :: "bytes \<Rightarrow> nat \<Rightarrow> thread \<Rightarrow> bool" where
  "progress_ok key n Waiting \<longleftrightarrow> n = 0"
| "progress_ok key n Missed \<longleftrightarrow> n = 1"
| "progress_ok key n (Answered k) \<longleftrightarrow> 0 < n \<and> k = key"

lemma brand_key_slow_law:
  assumes "kms_inv X kms" "brand_key_slow X kms b f = (k, kms')"
  shows "k = f (brand_key_spec X (kms_root_key kms) (kms_system_id kms) b) \<and> kms_inv X kms'
    \<and> kms_ident kms' = kms_ident kms \<and> kms_brand_key_cache kms \<subseteq>\<^sub>m kms_brand_key_cache kms'"
  using assms
  by (auto simp: brand_key_slow_def kms_inv_def brand_key_spec_def Let_def map_le_insert
      split: option.splits if_splits)

lemma advance_keeps:
  assumes "kms_inv X kms" and "kms_ident kms = ident"
    and "\<forall>j. progress_ok (kms_spec X ident (reqs j)) (n j) (ts j)"
    and "advance X reqs i (kms, ts) = (kms', ts')"
  shows "kms_inv X kms' \<and> kms_ident kms' = ident
    \<and> kms_brand_key_cache kms \<subseteq>\<^sub>m kms_brand_key_cache kms'
    \<and> (\<forall>j. progress_ok (kms_spec X ident (reqs j)) ((n(i := Suc (n i))) j) (ts' j))"
proof (cases "ts i")
  case Waiting
  have "n i = 0" using assms(3) Waiting by (metis progress_ok.simps(1))
  moreover have "k = kms_spec X ident (reqs i)"
    if "brand_key_fast kms (req_brand (reqs i)) (req_use X (reqs i)) = Some k" for k
    using that assms(1,2) kms_spec_split [of X kms "reqs i"]
    by (auto simp: brand_key_fast_def kms_inv_def)
  ultimately show ?thesis
    using assms Waiting by (auto simp: advance_def split: option.splits)
next
  case Missed
  have "n i = 1" using assms(3) Missed by (metis progress_ok.simps(2))
  obtain k kms'' where s: "brand_key_slow X kms (req_brand (reqs i)) (req_use X (reqs i)) = (k, kms'')"
    by fastforce
  with brand_key_slow_law [OF assms(1) s] kms_spec_split [of X kms "reqs i"] assms Missed \<open>n i = 1\<close>
  show ?thesis by (auto simp: advance_def)
next
  case (Answered k)
  have "0 < n i \<and> k = kms_spec X ident (reqs i)" using assms(3) Answered by (metis progress_ok.simps(3))
  with assms Answered show ?thesis by (auto simp: advance_def)
qed

lemma fold_advance_keeps:
  "kms_inv X kms \<Longrightarrow> kms_ident kms = ident \<Longrightarrow>
    \<forall>j. progress_ok (kms_spec X ident (reqs j)) (n j) (ts j) \<Longrightarrow>
    fold (advance X reqs) schedule (kms, ts) = (kms', ts') \<Longrightarrow>
    kms_inv X kms' \<and> kms_ident kms' = ident \<and> kms_brand_key_cache kms \<subseteq>\<^sub>m kms_brand_key_cache kms'
    \<and> (\<forall>j. progress_ok (kms_spec X ident (reqs j)) (n j + count_list schedule j) (ts' j))"
proof (induction schedule arbitrary: kms ts n)
  case (Cons i schedule)
  obtain kms1 ts1 where one: "advance X reqs i (kms, ts) = (kms1, ts1)" by fastforce
  from advance_keeps [OF Cons.prems(1-3) one] have a: "kms_inv X kms1" "kms_ident kms1 = ident"
    "kms_brand_key_cache kms \<subseteq>\<^sub>m kms_brand_key_cache kms1"
    "\<forall>j. progress_ok (kms_spec X ident (reqs j)) ((n(i := Suc (n i))) j) (ts1 j)" by blast+
  have "(n(i := Suc (n i))) j + count_list schedule j = n j + count_list (i # schedule) j" for j by simp
  with Cons.IH [OF a(1,2,4)] Cons.prems(4) one map_le_trans [OF a(3)] show ?case by simp
qed simp

lemma run_threads_law:
  assumes "kms_inv X kms" and "run_threads X reqs schedule kms = (kms', ts)"
  shows "kms_inv X kms' \<and> kms_ident kms' = kms_ident kms
    \<and> (\<forall>j. progress_ok (kms_spec X (kms_ident kms) (reqs j)) (count_list schedule j) (ts j))"
  using fold_advance_keeps [OF assms(1) refl _ assms(2) [unfolded run_threads_def], of "\<lambda>_. 0"] by simp

text \<open>
  C25. Threads that share the key service agree: whatever the schedule, a thread that has taken two
  turns has its answer, every answer is the key the specification derives for that thread's
  request from the root key and the system id of the environment, no brand key in the cache is
  ever replaced, and the service stays good for whatever comes next.
\<close>

theorem threads_get_specified_keys:
  assumes "from_env root_var system_var = Loaded kms"
    and "run_threads X reqs schedule kms = (kms', ts)"
  shows "(case ts i of Answered k \<Rightarrow> k = kms_spec X (kms_ident kms) (reqs i)
      | _ \<Rightarrow> count_list schedule i < 2)
    \<and> kms_inv X kms' \<and> kms_ident kms' = kms_ident kms
    \<and> kms_brand_key_cache kms' \<subseteq>\<^sub>m
        kms_brand_key_cache (fst (run_threads X reqs (schedule @ later) kms))"
proof -
  have good: "kms_inv X kms"
    using assms(1) by (auto simp: from_env_def kms_inv_empty split: load_result.splits option.splits)
  from run_threads_law [OF good assms(2)] have now: "kms_inv X kms'" "kms_ident kms' = kms_ident kms"
      "\<forall>j. progress_ok (kms_spec X (kms_ident kms) (reqs j)) (count_list schedule j) (ts j)" by blast+
  obtain kms'' ts'' where later: "run_threads X reqs (schedule @ later) kms = (kms'', ts'')" by fastforce
  then have "kms_brand_key_cache kms' \<subseteq>\<^sub>m kms_brand_key_cache kms''"
    using fold_advance_keeps [OF now] assms(2) by (simp add: run_threads_def)
  moreover have "case ts i of Answered k \<Rightarrow> k = kms_spec X (kms_ident kms) (reqs i)
      | _ \<Rightarrow> count_list schedule i < 2"
    using spec [OF now(3), of i] by (cases "ts i") simp_all
  ultimately show ?thesis using now by (simp add: later)
qed

theorem threads_get_specified_keys_witness:
  "snd (run_threads demo_crypto (\<lambda>_. ChipReq ''b'' [1] 0) [0, 1, 1, 0] demo_kms) 0 =
      Answered (kms_spec demo_crypto (kms_ident demo_kms) (ChipReq ''b'' [1] 0))
   \<and> snd (run_threads demo_crypto (\<lambda>_. ChipReq ''b'' [1] 0) [0, 1, 1, 0] demo_kms) 1 =
      Answered (kms_spec demo_crypto (kms_ident demo_kms) (ChipReq ''b'' [1] 0))"
proof -
  obtain kms' ts where run:
    "run_threads demo_crypto (\<lambda>_. ChipReq ''b'' [1] 0) [0, 1, 1, 0] demo_kms = (kms', ts)" by fastforce
  note answer = threads_get_specified_keys [OF demo_from_env run, THEN conjunct1]
  from answer [of 0] have
    "ts 0 = Answered (kms_spec demo_crypto (kms_ident demo_kms) (ChipReq ''b'' [1] 0))"
    by (cases "ts 0") simp_all
  moreover from answer [of 1] have
    "ts 1 = Answered (kms_spec demo_crypto (kms_ident demo_kms) (ChipReq ''b'' [1] 0))"
    by (cases "ts 1") simp_all
  ultimately show ?thesis unfolding run snd_conv by blast
qed

end
