(* ===== verification/Key_Tests.thy ===== *)
theory Key_Tests
  imports Kms_Threads
begin

text \<open>
  The tests of the crates \<^verbatim>\<open>rc-crypto\<close> and \<^verbatim>\<open>rc-kms\<close> on the model, under their own names. The
  cryptographic primitives are arbitrary functions that meet \<open>crypto_ok\<close>; tests against published
  vectors, and those that two keys differ, concern the third-party crates and are left out.
\<close>

section \<open>\<^verbatim>\<open>secret_key.rs\<close>, \<^verbatim>\<open>constant_time.rs\<close>\<close>

definition hides_key :: "secret_key \<Rightarrow> string \<Rightarrow> bool" where
  "hides_key key digits \<longleftrightarrow>
     list_ex (prefix ''REDACTED'') (suffixes (debug_key key))
   \<and> \<not> list_ex (prefix digits) (suffixes (debug_key key))"

definition test_secret_key32_debug_redacted :: bool where
  "test_secret_key32_debug_redacted \<longleftrightarrow> hides_key (SecretKey32 (replicate 32 0x41)) ''41''"

definition test_secret_key16_debug_redacted :: bool where
  "test_secret_key16_debug_redacted \<longleftrightarrow> hides_key (SecretKey16 (replicate 16 0x42)) ''42''"

definition test_secret_key_as_bytes :: bool where
  "test_secret_key_as_bytes \<longleftrightarrow>
     as_key_bytes (SecretKey32 (replicate 32 0xAB)) = replicate 32 0xAB
   \<and> as_key_bytes (SecretKey16 (replicate 16 0xCD)) = replicate 16 0xCD"

definition test_equal_slices :: "('z crypto_scheme) \<Rightarrow> bool" where
  "test_equal_slices X \<longleftrightarrow> constant_time_eq X [1, 2, 3] [1, 2, 3]"

definition test_different_slices :: "('z crypto_scheme) \<Rightarrow> bool" where
  "test_different_slices X \<longleftrightarrow> \<not> constant_time_eq X [1, 2, 3] [1, 2, 4]"

definition test_different_length :: "('z crypto_scheme) \<Rightarrow> bool" where
  "test_different_length X \<longleftrightarrow> \<not> constant_time_eq X [1, 2] [1, 2, 3]"

definition test_empty_slices :: "('z crypto_scheme) \<Rightarrow> bool" where
  "test_empty_slices X \<longleftrightarrow> constant_time_eq X [] []"

definition test_single_byte_diff :: "('z crypto_scheme) \<Rightarrow> bool" where
  "test_single_byte_diff X \<longleftrightarrow> \<not> constant_time_eq X [0] [1]"

section \<open>\<^verbatim>\<open>cmac_aes128.rs\<close>, \<^verbatim>\<open>sun.rs\<close>, \<^verbatim>\<open>kdf.rs\<close>\<close>

definition test_truncated_matches_nxp_an12196_odd_indices :: "('z crypto_scheme) \<Rightarrow> bool" where
  "test_truncated_matches_nxp_an12196_odd_indices X \<longleftrightarrow>
     (let key = replicate 16 0x01; msg = as_bytes ''test message for truncation'';
          full = cmac_compute_full X key msg; truncated = cmac_compute_truncated X key msg
      in list_all (\<lambda>i. truncated ! i = full ! (i * 2 + 1)) [0..<8])"

definition bug_1_15_cmac_truncation_should_match_nxp_an12196 :: "('z crypto_scheme) \<Rightarrow> bool" where
  "bug_1_15_cmac_truncation_should_match_nxp_an12196 X \<longleftrightarrow>
     (let key = replicate 16 0x01; msg = as_bytes ''test message for truncation'';
          full = cmac_compute_full X key msg;
          nxp_truncated = map (\<lambda>i. full ! (i * 2 + 1)) [0..<8]
      in cmac_compute_truncated X key msg = nxp_truncated)"

definition preservation_3_3_cmac_full_output_length :: "('z crypto_scheme) \<Rightarrow> bool" where
  "preservation_3_3_cmac_full_output_length X \<longleftrightarrow>
     length (cmac_compute_full X (replicate 16 0x01) (as_bytes ''test'')) = 16"

definition preservation_3_3_cmac_truncated_output_length :: "('z crypto_scheme) \<Rightarrow> bool" where
  "preservation_3_3_cmac_truncated_output_length X \<longleftrightarrow>
     length (cmac_compute_truncated X (replicate 16 0x01) (as_bytes ''test'')) = 8"

text \<open>The message a test puts together byte by byte.\<close>

definition test_message :: "bytes \<Rightarrow> bytes \<Rightarrow> bytes" where
  "test_message uid ctr = [0x3C, 0xC3] @ uid @ ctr"

definition test_sun_valid_cmac :: "('z crypto_scheme) \<Rightarrow> bool" where
  "test_sun_valid_cmac X \<longleftrightarrow>
     (let key = map word_of_nat [1..<17]; uid = [0x04, 0x11, 0x22, 0x33, 0x44, 0x55, 0x66];
          ctr = [0x01, 0x00, 0x00]
      in verify_sun_message X key uid ctr (cmac_compute_truncated X key (test_message uid ctr)))"

definition test_sun_second_valid_vector :: "('z crypto_scheme) \<Rightarrow> bool" where
  "test_sun_second_valid_vector X \<longleftrightarrow>
     (let key = replicate 16 0xAA; uid = replicate 7 0xBB; ctr = [0x05, 0x00, 0x00]
      in verify_sun_message X key uid ctr (cmac_compute_truncated X key (test_message uid ctr)))"

text \<open>\<open>cmac[0] ^= 0xFF\<close>\<close>

definition flip_first :: "bytes \<Rightarrow> bytes" where
  "flip_first bs = bs[0 := xor (bs ! 0) 0xFF]"

definition test_sun_tampered_cmac :: "('z crypto_scheme) \<Rightarrow> bool" where
  "test_sun_tampered_cmac X \<longleftrightarrow>
     (let key = replicate 16 0x01; uid = [0x04, 0x11, 0x22, 0x33, 0x44, 0x55, 0x66];
          ctr = [0x01, 0x00, 0x00]
      in \<not> verify_sun_message X key uid ctr
             (flip_first (cmac_compute_truncated X key (test_message uid ctr))))"

definition test_kdf_chip_key_truncation :: "('z crypto_scheme) \<Rightarrow> bool" where
  "test_kdf_chip_key_truncation X \<longleftrightarrow>
     (let brand_key = kdf_brand_key X (replicate 32 0x33) (as_bytes ''brand-X'') (as_bytes ''sys-X'');
          uid = [0x04, 0x11, 0x22, 0x33, 0x44, 0x55, 0x66]; epoch_le = to_le_bytes 1;
          full = hmac_compute X brand_key (uid @ epoch_le)
      in kdf_chip_key X brand_key uid epoch_le = take 16 full \<and> length (take 16 full) = 16)"

definition test_kdf_e2e_sun_verify :: "('z crypto_scheme) \<Rightarrow> bool" where
  "test_kdf_e2e_sun_verify X \<longleftrightarrow>
     (let brand_key = kdf_brand_key X (replicate 32 0x44) (as_bytes ''brand-E2E'')
            (as_bytes ''sys-E2E'');
          uid = [0x04, 0xAA, 0xBB, 0xCC, 0xDD, 0xEE, 0xFF];
          chip_key = kdf_chip_key X brand_key uid (to_le_bytes 0); ctr = [0x03, 0x00, 0x00];
          valid_cmac = cmac_compute_truncated X chip_key (test_message uid ctr)
      in verify_sun_message X chip_key uid ctr valid_cmac)"

section \<open>\<^verbatim>\<open>root_key.rs\<close>\<close>

definition root_key_hex :: string where
  "root_key_hex = ''000102030405060708090a0b0c0d0e0f101112131415161718191a1b1c1d1e1f''"

definition test_load_root_key_valid :: bool where
  "test_load_root_key_valid \<longleftrightarrow>
     load_root_key_from_env (Some root_key_hex) = Loaded (map word_of_nat [0..<32])"

definition test_load_root_key_missing :: bool where
  "test_load_root_key_missing \<longleftrightarrow> load_root_key_from_env None = LoadErr RootKeyMissing"

definition test_load_root_key_invalid_length :: bool where
  "test_load_root_key_invalid_length \<longleftrightarrow>
     load_root_key_from_env (Some ''00112233445566778899aabbccddeeff'') =
     LoadErr RootKeyInvalidFormat"

definition test_load_root_key_invalid_chars :: bool where
  "test_load_root_key_invalid_chars \<longleftrightarrow>
     (let bad_hex = ''000102030405060708090a0b0c0d0e0f101112131415161718191a1b1c1d1egg''
      in length bad_hex = 64
         \<and> load_root_key_from_env (Some bad_hex) = LoadErr RootKeyInvalidFormat)"

definition test_load_root_key_uppercase :: bool where
  "test_load_root_key_uppercase \<longleftrightarrow>
     load_root_key_from_env
       (Some ''000102030405060708090A0B0C0D0E0F101112131415161718191A1B1C1D1E1F'') =
     Loaded (map word_of_nat [0..<32])"

section \<open>\<^verbatim>\<open>software_kms.rs\<close>\<close>

definition with_test_kms :: "(software_kms \<Rightarrow> bool) \<Rightarrow> bool" where
  "with_test_kms p =
     (case from_env (Some root_key_hex) (Some ''test-system'') of
        Loaded kms \<Rightarrow> p kms | _ \<Rightarrow> False)"

text \<open>The same derivation twice, the second time from the cache.\<close>

definition same_twice :: "(software_kms \<Rightarrow> (kms_error + bytes) \<times> software_kms) \<Rightarrow> bool" where
  "same_twice derive = with_test_kms (\<lambda>kms.
     case derive kms of (k1, kms1) \<Rightarrow> \<not> isl k1 \<and> fst (derive kms1) = k1)"

definition test_from_env_success :: bool where
  "test_from_env_success = with_test_kms (\<lambda>kms. kms_system_id kms = ''test-system'')"

definition test_from_env_missing_system_id :: bool where
  "test_from_env_missing_system_id =
     (case from_env (Some root_key_hex) None of LoadErr e \<Rightarrow> e = SystemIdMissing | _ \<Rightarrow> False)"

definition test_chip_key_deterministic :: "('z crypto_scheme) \<Rightarrow> bool" where
  "test_chip_key_deterministic X = same_twice (\<lambda>kms.
     derive_chip_key X kms ''brand-A'' [0x04, 0x11, 0x22, 0x33, 0x44, 0x55, 0x66] 1)"

definition test_honey_key_deterministic :: "('z crypto_scheme) \<Rightarrow> bool" where
  "test_honey_key_deterministic X = same_twice (\<lambda>kms.
     derive_honey_key X kms ''brand-A'' (as_bytes ''serial-001''))"

definition test_brand_cache_hit :: "('z crypto_scheme) \<Rightarrow> bool" where
  "test_brand_cache_hit X = same_twice (\<lambda>kms.
     derive_chip_key X kms ''brand-A'' [0x04, 0x11, 0x22, 0x33, 0x44, 0x55, 0x66] 1)"

definition test_kms_e2e_sun_verify :: "('z crypto_scheme) \<Rightarrow> bool" where
  "test_kms_e2e_sun_verify X = with_test_kms (\<lambda>kms.
     let uid = [0x04, 0xAA, 0xBB, 0xCC, 0xDD, 0xEE, 0xFF]; ctr = [0x03, 0x00, 0x00]
     in case fst (derive_chip_key X kms ''brand-E2E'' uid 0) of
          Inl _ \<Rightarrow> False
        | Inr chip_key \<Rightarrow>
            (let valid_cmac = cmac_compute_truncated X chip_key (test_message uid ctr)
             in verify_sun_message X chip_key uid ctr valid_cmac
                \<and> \<not> verify_sun_message X chip_key uid ctr (flip_first valid_cmac)))"

definition test_mother_key_deterministic :: "('z crypto_scheme) \<Rightarrow> bool" where
  "test_mother_key_deterministic X = same_twice (\<lambda>kms.
     derive_mother_key X kms ''brand-x'' (as_bytes ''mother01'') 1)"

definition test_mother_key_short_uid_zero_padded_contract :: "('z crypto_scheme) \<Rightarrow> bool" where
  "test_mother_key_short_uid_zero_padded_contract X = with_test_kms (\<lambda>kms.
     let short_uid = as_bytes ''abc''; padded = short_uid @ replicate 4 0
     in case derive_mother_key X kms ''brand-x'' short_uid 7 of (derived_from_short, kms1) \<Rightarrow>
          \<not> isl derived_from_short
          \<and> fst (derive_chip_key X kms1 ''brand-x'' padded 7) = derived_from_short)"

text \<open>Two derivations, one after the other, that give different keys.\<close>

definition isolated ::
  "('z crypto_scheme) \<Rightarrow> key_request \<Rightarrow> key_request \<Rightarrow> bool" where
  "isolated X q q' = with_test_kms (\<lambda>kms.
     let derive = serve_request (derive_chip_key X) (derive_honey_key X) (derive_mother_key X)
     in case derive kms q of (k1, kms1) \<Rightarrow>
          \<not> isl k1 \<and> \<not> isl (fst (derive kms1 q')) \<and> k1 \<noteq> fst (derive kms1 q'))"

definition test_uid :: bytes where
  "test_uid = [0x04, 0x11, 0x22, 0x33, 0x44, 0x55, 0x66]"

definition test_chip_key_uid_isolation :: "('z crypto_scheme) \<Rightarrow> bool" where
  "test_chip_key_uid_isolation X \<longleftrightarrow>
     isolated X (ChipReq ''brand-A'' test_uid 1)
       (ChipReq ''brand-A'' [0x04, 0xAA, 0xBB, 0xCC, 0xDD, 0xEE, 0xFF] 1)"

definition test_chip_key_epoch_isolation :: "('z crypto_scheme) \<Rightarrow> bool" where
  "test_chip_key_epoch_isolation X \<longleftrightarrow>
     isolated X (ChipReq ''brand-A'' test_uid 1) (ChipReq ''brand-A'' test_uid 2)"

definition test_honey_key_serial_isolation :: "('z crypto_scheme) \<Rightarrow> bool" where
  "test_honey_key_serial_isolation X \<longleftrightarrow>
     isolated X (HoneyReq ''brand-A'' (as_bytes ''serial-001'')) (HoneyReq ''brand-A'' (as_bytes ''serial-002''))"

definition test_brand_isolation :: "('z crypto_scheme) \<Rightarrow> bool" where
  "test_brand_isolation X \<longleftrightarrow>
     isolated X (ChipReq ''brand-A'' test_uid 1) (ChipReq ''brand-B'' test_uid 1)"

definition test_mother_key_uid_isolation :: "('z crypto_scheme) \<Rightarrow> bool" where
  "test_mother_key_uid_isolation X \<longleftrightarrow>
     isolated X (MotherReq ''brand-x'' (as_bytes ''mthr_01'') 1) (MotherReq ''brand-x'' (as_bytes ''mthr_02'') 1)"

definition test_mother_key_epoch_isolation :: "('z crypto_scheme) \<Rightarrow> bool" where
  "test_mother_key_epoch_isolation X \<longleftrightarrow>
     isolated X (MotherReq ''brand-x'' (as_bytes ''mother01'') 1) (MotherReq ''brand-x'' (as_bytes ''mother01'') 2)"

definition test_mother_key_chip_key_isolation :: "('z crypto_scheme) \<Rightarrow> bool" where
  "test_mother_key_chip_key_isolation X \<longleftrightarrow>
     isolated X (MotherReq ''brand-x'' (as_bytes ''mother01'') 1)
       (ChipReq ''brand-x'' [0x04, 0x01, 0x02, 0x03, 0x04, 0x05, 0x06] 1)"

text \<open>
  Eight threads on two brands. The schedule is an argument: the threads have been joined when each
  has had the two turns it needs.
\<close>

definition test_concurrent_derive_chip_key :: "('z crypto_scheme) \<Rightarrow> nat list \<Rightarrow> bool" where
  "test_concurrent_derive_chip_key X schedule = with_test_kms (\<lambda>kms.
     case run_threads X (\<lambda>i. ChipReq (if i mod 2 = 0 then ''brand-A'' else ''brand-B'') test_uid 1)
            schedule kms of (_, ts) \<Rightarrow>
       list_all (\<lambda>i. case ts i of Answered _ \<Rightarrow> True | _ \<Rightarrow> False) [0..<8]
       \<and> list_all (\<lambda>i. ts i = ts (i mod 2)) [0..<8] \<and> ts 0 \<noteq> ts 1)"

section \<open>The model passes them\<close>

lemma secret_key_tests_pass:
  "test_secret_key32_debug_redacted" "test_secret_key16_debug_redacted" "test_secret_key_as_bytes"
  by (simp_all add: test_secret_key32_debug_redacted_def test_secret_key16_debug_redacted_def
      test_secret_key_as_bytes_def hides_key_def)

lemma constant_time_tests_pass:
  assumes "crypto_ok X"
  shows "test_equal_slices X" "test_different_slices X" "test_different_length X"
    "test_empty_slices X" "test_single_byte_diff X"
  by (simp_all add: crypto_okD(4) [OF assms] test_equal_slices_def test_different_slices_def
      test_different_length_def test_empty_slices_def test_single_byte_diff_def)

lemma flip_first_differs: "bs \<noteq> [] \<Longrightarrow> bs \<noteq> flip_first bs"
proof
  assume bs: "bs \<noteq> []" and "bs = flip_first bs"
  then have "xor (bs ! 0) 0xFF = bs ! 0" by (metis flip_first_def length_greater_0_conv nth_list_update_eq)
  then have "xor (bs ! 0) (xor (bs ! 0) 0xFF) = 0" by simp
  then show False by (simp add: xor.assoc [symmetric])
qed

lemma cmac_tests_pass:
  assumes "crypto_ok X"
  shows "test_truncated_matches_nxp_an12196_odd_indices X"
    "bug_1_15_cmac_truncation_should_match_nxp_an12196 X"
    "preservation_3_3_cmac_full_output_length X" "preservation_3_3_cmac_truncated_output_length X"
    "test_sun_valid_cmac X" "test_sun_second_valid_vector X" "test_sun_tampered_cmac X"
    "test_kdf_chip_key_truncation X" "test_kdf_e2e_sun_verify X"
proof -
  have sun: "verify_sun_message X key uid ctr cmac \<longleftrightarrow>
      cmac_compute_truncated X key (test_message uid ctr) = cmac" for key uid ctr cmac
    by (simp add: verify_sun_message_def crypto_okD(4) [OF assms] test_message_def sun_message_def)
  have trunc: "cmac_compute_truncated X key m \<noteq> []" for key m
    using length_cmac_truncated [of X key m] by force
  show "test_sun_tampered_cmac X"
    using flip_first_differs [OF trunc] by (auto simp: test_sun_tampered_cmac_def sun Let_def)
qed (simp_all add: test_truncated_matches_nxp_an12196_odd_indices_def
      bug_1_15_cmac_truncation_should_match_nxp_an12196_def
      preservation_3_3_cmac_full_output_length_def preservation_3_3_cmac_truncated_output_length_def
      test_sun_valid_cmac_def test_sun_second_valid_vector_def test_kdf_chip_key_truncation_def
      test_kdf_e2e_sun_verify_def verify_sun_message_def test_message_def sun_message_def
      crypto_okD [OF assms] cmac_compute_truncated_def cmac_compute_full_def kdf_chip_key_def
      hmac_compute_def list_all_iff Let_def)

lemma root_key_tests_pass:
  "test_load_root_key_valid" "test_load_root_key_missing" "test_load_root_key_invalid_length"
  "test_load_root_key_invalid_chars" "test_load_root_key_uppercase"
  by code_simp+

lemma kms_env_tests_pass: "test_from_env_success" "test_from_env_missing_system_id"
  by code_simp+

lemma test_kms:
  "with_test_kms p \<longleftrightarrow> p \<lparr>kms_root_key = map word_of_nat [0..<32], kms_system_id = ''test-system'',
     kms_brand_key_cache = Map.empty\<rparr>"
  using root_key_tests_pass(1) by (simp add: with_test_kms_def from_env_def test_load_root_key_valid_def)

lemma kms_tests_pass:
  assumes "crypto_ok X"
  shows "test_chip_key_deterministic X" "test_honey_key_deterministic X" "test_brand_cache_hit X"
    "test_mother_key_deterministic X" "test_mother_key_short_uid_zero_padded_contract X"
    "test_kms_e2e_sun_verify X"
proof -
  have trunc: "cmac_compute_truncated X key m \<noteq> []" for key m
    using length_cmac_truncated [of X key m] by force
  show "test_kms_e2e_sun_verify X"
    using flip_first_differs [OF trunc]
    by (auto simp: test_kms_e2e_sun_verify_def test_kms derive_chip_key_def with_brand_key_def
        brand_key_fast_def brand_key_slow_def verify_sun_message_def crypto_okD(4) [OF assms]
        test_message_def sun_message_def Let_def)
qed (simp_all add: test_chip_key_deterministic_def test_honey_key_deterministic_def
      test_brand_cache_hit_def test_mother_key_deterministic_def
      test_mother_key_short_uid_zero_padded_contract_def same_twice_def test_kms derive_chip_key_def
      derive_honey_key_def derive_mother_key_def mother_uid_7_def with_brand_key_def brand_key_fast_def
      brand_key_slow_def as_bytes_def eval_nat_numeral Let_def)

text \<open>
  Two keys of the service are the same only for the same inputs of HMAC, unless HMAC collides: the
  isolation tests pass when it does not on the inputs of the tests.
\<close>

lemma isolated_iff:
  "isolated X q q' \<longleftrightarrow>
    kms_spec X (map word_of_nat [0..<32], ''test-system'') q \<noteq>
    kms_spec X (map word_of_nat [0..<32], ''test-system'') q'"
proof -
  let ?kms = "\<lparr>kms_root_key = map word_of_nat [0..<32], kms_system_id = ''test-system'',
     kms_brand_key_cache = Map.empty\<rparr> :: software_kms"
  let ?derive = "serve_request (derive_chip_key X) (derive_honey_key X) (derive_mother_key X)"
  have good: "kms_inv X ?kms" by (simp add: kms_inv_empty)
  obtain r kms1 where one: "?derive ?kms q = (r, kms1)" by fastforce
  obtain r' kms2 where two: "?derive kms1 q' = (r', kms2)" by fastforce
  from software.serve_law [OF good one] have a: "r = Inr (kms_spec X (kms_ident ?kms) q)" "kms_inv X kms1"
    "kms_ident kms1 = kms_ident ?kms" by blast+
  from software.serve_law [OF a(2) two] have b: "r' = Inr (kms_spec X (kms_ident kms1) q')" by blast
  show ?thesis
    unfolding isolated_def test_kms Let_def one prod.case two fst_conv
    unfolding a(1) b a(3) by simp
qed

definition collision_free :: "('z crypto_scheme) \<Rightarrow> (bytes \<times> bytes) list \<Rightarrow> bool" where
  "collision_free X inputs \<longleftrightarrow>
     (\<forall>p\<in>set inputs. \<forall>q\<in>set inputs. p \<noteq> q \<longrightarrow>
        take 16 (x_hmac_sha256 X (fst p) (snd p)) \<noteq> take 16 (x_hmac_sha256 X (fst q) (snd q)))"

fun mac_input :: "('z crypto_scheme) \<Rightarrow> key_request \<Rightarrow> bytes \<times> bytes" where
  "mac_input X (ChipReq b u e) =
     (brand_key_spec X (map word_of_nat [0..<32]) ''test-system'' b, u @ to_le_bytes e)"
| "mac_input X (HoneyReq b s) = (brand_key_spec X (map word_of_nat [0..<32]) ''test-system'' b, s)"
| "mac_input X (MotherReq b u e) =
     (brand_key_spec X (map word_of_nat [0..<32]) ''test-system'' b, mother_uid_7 u @ to_le_bytes e)"

definition test_requests :: "key_request list" where
  "test_requests =
     [ChipReq ''brand-A'' test_uid 1, ChipReq ''brand-A'' [0x04, 0xAA, 0xBB, 0xCC, 0xDD, 0xEE, 0xFF] 1,
      ChipReq ''brand-A'' test_uid 2, ChipReq ''brand-B'' test_uid 1,
      HoneyReq ''brand-A'' (as_bytes ''serial-001''), HoneyReq ''brand-A'' (as_bytes ''serial-002''),
      MotherReq ''brand-x'' (as_bytes ''mthr_01'') 1, MotherReq ''brand-x'' (as_bytes ''mthr_02'') 1,
      MotherReq ''brand-x'' (as_bytes ''mother01'') 1, MotherReq ''brand-x'' (as_bytes ''mother01'') 2,
      ChipReq ''brand-x'' [0x04, 0x01, 0x02, 0x03, 0x04, 0x05, 0x06] 1]"

lemma isolation:
  assumes "collision_free X (map (mac_input X) test_requests)"
    and "q \<in> set test_requests" "q' \<in> set test_requests" "mac_input X q \<noteq> mac_input X q'"
  shows "isolated X q q'"
proof -
  have "take 16 (kms_spec X (map word_of_nat [0..<32], ''test-system'') q) =
      take 16 (x_hmac_sha256 X (fst (mac_input X q)) (snd (mac_input X q)))" for q
    by (cases q) (simp_all add: kdf_chip_key_def kdf_honey_key_def hmac_compute_def)
  moreover have "take 16 (x_hmac_sha256 X (fst (mac_input X q)) (snd (mac_input X q))) \<noteq>
      take 16 (x_hmac_sha256 X (fst (mac_input X q')) (snd (mac_input X q')))"
    using assms by (simp add: collision_free_def)
  ultimately show ?thesis unfolding isolated_iff by metis
qed

lemma test_inputs_differ:
  "to_le_bytes 1 \<noteq> to_le_bytes 2" "as_bytes ''serial-001'' \<noteq> as_bytes ''serial-002''"
  "mother_uid_7 (as_bytes ''mthr_01'') \<noteq> mother_uid_7 (as_bytes ''mthr_02'')"
  "mother_uid_7 (as_bytes ''mother01'') \<noteq> [0x04, 0x01, 0x02, 0x03, 0x04, 0x05, 0x06]"
  by code_simp+

lemma isolation_tests_pass:
  assumes "collision_free X (map (mac_input X) test_requests)"
    and "brand_key_spec X (map word_of_nat [0..<32]) ''test-system'' ''brand-A'' \<noteq>
      brand_key_spec X (map word_of_nat [0..<32]) ''test-system'' ''brand-B''"
  shows "test_chip_key_uid_isolation X" "test_chip_key_epoch_isolation X"
    "test_honey_key_serial_isolation X" "test_brand_isolation X" "test_mother_key_uid_isolation X"
    "test_mother_key_epoch_isolation X" "test_mother_key_chip_key_isolation X"
  unfolding test_chip_key_uid_isolation_def test_chip_key_epoch_isolation_def
    test_honey_key_serial_isolation_def test_brand_isolation_def test_mother_key_uid_isolation_def
    test_mother_key_epoch_isolation_def test_mother_key_chip_key_isolation_def
  by (rule isolation [OF assms(1)];
      simp add: test_requests_def assms(2) test_inputs_differ test_uid_def)+

lemma concurrent_test_passes:
  assumes "collision_free X (map (mac_input X) test_requests)"
    and "brand_key_spec X (map word_of_nat [0..<32]) ''test-system'' ''brand-A'' \<noteq>
      brand_key_spec X (map word_of_nat [0..<32]) ''test-system'' ''brand-B''"
    and joined: "\<forall>i<8. 2 \<le> count_list schedule i"
  shows "test_concurrent_derive_chip_key X schedule"
proof -
  let ?kms = "\<lparr>kms_root_key = map word_of_nat [0..<32], kms_system_id = ''test-system'',
     kms_brand_key_cache = Map.empty\<rparr> :: software_kms"
  let ?q = "\<lambda>i :: nat. ChipReq (if i mod 2 = 0 then ''brand-A'' else ''brand-B'') test_uid 1"
  let ?key = "\<lambda>i. kms_spec X (kms_ident ?kms) (?q i)"
  obtain kms' ts where run: "run_threads X ?q schedule ?kms = (kms', ts)" by fastforce
  have "kms_inv X ?kms" by (simp add: kms_inv_empty)
  from run_threads_law [OF this run] have ok: "progress_ok (?key j) (count_list schedule j) (ts j)" for j
    by blast
  have every: "ts i = Answered (?key i)" if "i < 8" for i
  proof -
    from joined that have "2 \<le> count_list schedule i" by blast
    with ok [of i] show ?thesis by (cases "ts i") simp_all
  qed
  have "?key 0 \<noteq> ?key 1"
    using isolation_tests_pass(4) [OF assms(1,2)] by (simp add: test_brand_isolation_def isolated_iff)
  moreover have "ts i = ts (i mod 2)" if "i < 8" for i
    using every [OF that] every [of "i mod 2"] that by simp
  ultimately show ?thesis
    using every by (simp add: test_concurrent_derive_chip_key_def test_kms run list_all_iff)
qed

end
