(* ===== verification/Cache_Tests.thy ===== *)
theory Cache_Tests
  imports Wallet_Snapshot Db_Registry Demo
begin

text \<open>
  The tests of \<^verbatim>\<open>cache/ctr_cache.rs\<close>, \<^verbatim>\<open>cache/wallet_snapshot.rs\<close> and \<^verbatim>\<open>cli/wallet_snapshot_cli.rs\<close> on
  the model, under their own names. The world a test starts from is an argument: its clock, its
  tables and its failures to come are arbitrary. The property tests, which the sources run on
  random inputs, are proved for every input.
\<close>

section \<open>Fixtures\<close>

definition ctr_cache_new ::
  "(string \<rightharpoonup> ctr_entry) \<Rightarrow> redis_store option \<Rightarrow> fallback_strategy \<Rightarrow> world \<Rightarrow> world" where
  "ctr_cache_new l1 redis strategy w =
     w\<lparr>w_l1 := l1, w_redis := redis, w_fallback := strategy\<rparr>"

definition l1_only_cache :: "world \<Rightarrow> world" where
  "l1_only_cache w = ctr_cache_new Map.empty None DirectPg w"

text \<open>\<open>l1.insert\<close> of an entry of this very moment.\<close>

definition prefilled :: "string \<Rightarrow> u32 \<Rightarrow> world \<Rightarrow> world" where
  "prefilled uid ctr w = snd ((l1_insert uid ctr :: unit op) w)"

definition updated :: "string \<Rightarrow> u32 \<Rightarrow> world \<Rightarrow> world" where
  "updated uid ctr w = snd (update_ctr uid ctr w)"

definition reads_l1 :: "string \<Rightarrow> u32 \<Rightarrow> world \<Rightarrow> bool" where
  "reads_l1 uid ctr w \<longleftrightarrow> fst (get_ctr uid w) = Inr (ctr, L1)"

definition l1_holds :: "string \<Rightarrow> u32 \<Rightarrow> world \<Rightarrow> bool" where
  "l1_holds uid ctr w \<longleftrightarrow> map_option ce_ctr (w_l1 w uid) = Some ctr"

section \<open>\<^verbatim>\<open>ctr_cache.rs\<close>\<close>

definition ctr_l1_hit_returns_cached_value :: "world \<Rightarrow> bool" where
  "ctr_l1_hit_returns_cached_value w \<longleftrightarrow>
     reads_l1 ''04A1B2C3D4E5F6'' 42 (prefilled ''04A1B2C3D4E5F6'' 42 (l1_only_cache w))"

definition ctr_l1_expired_entry_removed :: "world \<Rightarrow> bool" where
  "ctr_l1_expired_entry_removed w \<longleftrightarrow>
     (let uid = ''04FFFFFFFFFFFF''; expired_at = w_now w - l1_ttl - 1;
          w1 = (l1_only_cache w)\<lparr>w_l1 := [uid \<mapsto> \<lparr>ce_ctr = 10, ce_cached_at = expired_at\<rparr>]\<rparr>;
          w2 = (if w_now w1 - expired_at \<ge> l1_ttl then snd ((l1_remove uid :: unit op) w1) else w1)
      in w_now w1 - expired_at > l1_ttl \<and> w_l1 w2 uid = None)"

definition ctr_update_writes_l1 :: "world \<Rightarrow> bool" where
  "ctr_update_writes_l1 w \<longleftrightarrow>
     (let uid = ''04AABBCCDDEEFF''; w1 = updated uid 100 (l1_only_cache w)
      in w_l1 (l1_only_cache w) uid = None \<and> l1_holds uid 100 w1
         \<and> w_now w1 - ce_cached_at (the (w_l1 w1 uid)) < 1)"

definition ctr_update_then_get_returns_updated_value :: "world \<Rightarrow> bool" where
  "ctr_update_then_get_returns_updated_value w \<longleftrightarrow>
     reads_l1 ''04112233445566'' 77 (updated ''04112233445566'' 77 (l1_only_cache w))"

definition ctr_redis_available_false_when_direct_pg :: "world \<Rightarrow> bool" where
  "ctr_redis_available_false_when_direct_pg w \<longleftrightarrow>
     \<not> redis_available (ctr_cache_new Map.empty None DirectPg w)"

definition ctr_redis_available_false_when_no_connection :: "world \<Rightarrow> bool" where
  "ctr_redis_available_false_when_no_connection w \<longleftrightarrow>
     \<not> redis_available (ctr_cache_new Map.empty None Auto w)"

definition ctr_update_without_redis_still_writes_l1 :: "world \<Rightarrow> bool" where
  "ctr_update_without_redis_still_writes_l1 w \<longleftrightarrow>
     l1_holds ''04DEADBEEF0001'' 55
       (updated ''04DEADBEEF0001'' 55 (ctr_cache_new Map.empty None Auto w))"

definition ctr_sequential_updates_overwrite :: "world \<Rightarrow> bool" where
  "ctr_sequential_updates_overwrite w \<longleftrightarrow>
     (let uid = ''04SEQUENTIAL01''; w1 = updated uid 1 (l1_only_cache w);
          w2 = updated uid 5 w1; w3 = updated uid 100 w2
      in l1_holds uid 1 w1 \<and> l1_holds uid 5 w2 \<and> l1_holds uid 100 w3)"

definition fallback_direct_pg_ctr_skips_redis :: "world \<Rightarrow> bool" where
  "fallback_direct_pg_ctr_skips_redis w \<longleftrightarrow>
     (let cache = ctr_cache_new Map.empty None DirectPg w
      in \<not> redis_available cache
         \<and> reads_l1 ''04FALLBACK0001'' 33 (prefilled ''04FALLBACK0001'' 33 cache))"

definition fallback_auto_with_redis_available :: "world \<Rightarrow> bool" where
  "fallback_auto_with_redis_available w \<longleftrightarrow>
     \<not> redis_available (ctr_cache_new Map.empty None Auto w)
   \<and> \<not> redis_available (ctr_cache_new Map.empty None DirectPg w)"

definition fallback_auto_redis_none_degrades_to_pg :: "world \<Rightarrow> bool" where
  "fallback_auto_redis_none_degrades_to_pg w \<longleftrightarrow>
     (let cache = ctr_cache_new Map.empty None Auto w; uid = ''04FALLBACK0002'';
          w1 = updated uid 88 cache
      in \<not> redis_available cache \<and> l1_holds uid 88 w1 \<and> reads_l1 uid 88 w1)"

text \<open>\<open>format!("04CYCLE{i:06}")\<close> of a one-digit number.\<close>

definition cycle_uid :: "nat \<Rightarrow> string" where
  "cycle_uid i = ''04CYCLE00000'' @ [char_of (48 + i)]"

fun update_get_cycle :: "nat list \<Rightarrow> world \<Rightarrow> bool" where
  "update_get_cycle [] w = True"
| "update_get_cycle (i # is) w =
     (let w1 = updated (cycle_uid i) (word_of_nat (i * 10)) w
      in reads_l1 (cycle_uid i) (word_of_nat (i * 10)) w1
         \<and> update_get_cycle is (snd (get_ctr (cycle_uid i) w1)))"

definition fallback_direct_pg_update_get_cycle :: "world \<Rightarrow> bool" where
  "fallback_direct_pg_update_get_cycle w \<longleftrightarrow>
     update_get_cycle [1, 2, 3, 4, 5] (ctr_cache_new Map.empty None DirectPg w)"

section \<open>\<^verbatim>\<open>ctr_cache.rs\<close>: the property tests\<close>

definition prop_ctr_transparency_l1_reflects_update :: "string \<Rightarrow> u32 \<Rightarrow> world \<Rightarrow> bool" where
  "prop_ctr_transparency_l1_reflects_update uid_suffix ctr_value w \<longleftrightarrow>
     (let uid = ''04'' @ uid_suffix;
          w1 = updated uid ctr_value (ctr_cache_new Map.empty None DirectPg w)
      in l1_holds uid ctr_value w1 \<and> reads_l1 uid ctr_value w1)"

definition saturating_add_u32 :: "u32 \<Rightarrow> u32 \<Rightarrow> u32" where
  "saturating_add_u32 a b = (if unat a + unat b < 2 ^ 32 then a + b else - 1)"

fun monotonic_updates :: "string \<Rightarrow> u32 list \<Rightarrow> u32 \<Rightarrow> u32 \<Rightarrow> world \<Rightarrow> bool" where
  "monotonic_updates uid [] current prev_l1_ctr w = True"
| "monotonic_updates uid (inc # incs) current prev_l1_ctr w =
     (let current' = saturating_add_u32 current inc; w1 = updated uid current' w
      in case w_l1 w1 uid of
           None \<Rightarrow> False
         | Some e \<Rightarrow> prev_l1_ctr \<le> ce_ctr e \<and> monotonic_updates uid incs current' (ce_ctr e) w1)"

definition prop_ctr_monotonic_increase ::
  "string \<Rightarrow> u32 \<Rightarrow> u32 list \<Rightarrow> world \<Rightarrow> bool" where
  "prop_ctr_monotonic_increase uid_suffix base increments w \<longleftrightarrow>
     monotonic_updates (''04'' @ uid_suffix) increments base 0
       (ctr_cache_new Map.empty None DirectPg w)"

definition prop_fallback_degradation_safety ::
  "string \<Rightarrow> u32 \<Rightarrow> bool \<Rightarrow> world \<Rightarrow> bool" where
  "prop_fallback_degradation_safety uid_suffix ctr_value use_direct_pg w \<longleftrightarrow>
     (let strategy = (if use_direct_pg then DirectPg else Auto);
          cache = ctr_cache_new Map.empty None strategy w; uid = ''04'' @ uid_suffix;
          w1 = updated uid ctr_value cache
      in \<not> redis_available cache \<and> l1_holds uid ctr_value w1 \<and> reads_l1 uid ctr_value w1)"

section \<open>Reading back\<close>

lemma backfill_keeps_l1:
  "\<exists>w'. (backfill_l2 uid ctr :: unit op) w = (Inr (), w') \<and> w_l1 w' = w_l1 w
     \<and> w_now w' = w_now w \<and> w_db w' = w_db w"
  by (auto simp: backfill_l2_def redis_set_ex_def redis_call_def attempt_def try_bind_def gets_def
      ret_def Let_def split: option.split)

lemma update_ctr_writes:
  "\<exists>w'. update_ctr uid ctr w = (Inr (), w')
     \<and> w_l1 w' = (w_l1 w)(uid \<mapsto> \<lparr>ce_ctr = ctr, ce_cached_at = w_now w\<rparr>)
     \<and> w_now w' = w_now w \<and> w_db w' = w_db w"
  using backfill_keeps_l1 [of uid ctr "snd ((l1_insert uid ctr :: unit op) w)"]
  by (auto simp: update_ctr_def l1_insert_def puts_def try_bind_def)

lemma get_ctr_fresh:
  "w_l1 w uid = Some e \<Longrightarrow> w_now w - ce_cached_at e < l1_ttl \<Longrightarrow>
    get_ctr uid w = (Inr (ce_ctr e, L1), w)"
  by (simp add: get_ctr_def try_bind_def gets_def ret_def)

text \<open>
  A counter that was just stored is read back: whatever the state of Redis and of the database,
  storing a counter succeeds, leaves the table alone, and for the next five minutes every read of
  that tag answers with it from the process's own memory.
\<close>

theorem stored_counter_is_read_back:
  assumes "0 \<le> dt" "dt < 300"
  shows "\<exists>w'. update_ctr uid ctr w = (Inr (), w') \<and> w_db w' = w_db w
    \<and> get_ctr uid (w'\<lparr>w_now := w_now w + dt\<rparr>) = (Inr (ctr, L1), w'\<lparr>w_now := w_now w + dt\<rparr>)"
proof -
  obtain w' where w': "update_ctr uid ctr w = (Inr (), w')" "w_db w' = w_db w"
    "w_l1 w' uid = Some \<lparr>ce_ctr = ctr, ce_cached_at = w_now w\<rparr>"
    using update_ctr_writes [of uid ctr w] by auto
  with get_ctr_fresh [of "w'\<lparr>w_now := w_now w + dt\<rparr>" uid] assms show ?thesis
    by (auto simp: l1_ttl_def)
qed

theorem stored_counter_is_read_back_witness:
  "\<exists>w'. update_ctr ''04040404040404'' 9 (demo_world Activated demo_physical) = (Inr (), w')
    \<and> w_db w' = demo_db Activated demo_physical
    \<and> get_ctr ''04040404040404''
        (w'\<lparr>w_now := w_now (demo_world Activated demo_physical) + 299\<rparr>) =
      (Inr (9, L1), w'\<lparr>w_now := w_now (demo_world Activated demo_physical) + 299\<rparr>)"
  using stored_counter_is_read_back
    [of 299 "''04040404040404''" 9 "demo_world Activated demo_physical"]
  by (simp add: demo_world_def)

lemma updated_simps [simp]:
  "w_l1 (updated uid ctr w) = (w_l1 w)(uid \<mapsto> \<lparr>ce_ctr = ctr, ce_cached_at = w_now w\<rparr>)"
  "w_now (updated uid ctr w) = w_now w"
  using update_ctr_writes [of uid ctr w] by (auto simp: updated_def)

lemma prefilled_simps [simp]:
  "w_l1 (prefilled uid ctr w) = (w_l1 w)(uid \<mapsto> \<lparr>ce_ctr = ctr, ce_cached_at = w_now w\<rparr>)"
  "w_now (prefilled uid ctr w) = w_now w"
  by (simp_all add: prefilled_def l1_insert_def puts_def)

lemma ctr_cache_new_simps [simp]:
  "w_l1 (ctr_cache_new l1 redis strategy w) = l1"
  "w_now (ctr_cache_new l1 redis strategy w) = w_now w"
  "redis_available (ctr_cache_new l1 redis strategy w) \<longleftrightarrow> redis \<noteq> None \<and> strategy \<noteq> DirectPg"
  by (simp_all add: ctr_cache_new_def redis_available_def)

lemma reads_l1_fresh [simp]:
  "w_l1 w uid = Some \<lparr>ce_ctr = ctr, ce_cached_at = w_now w\<rparr> \<Longrightarrow> reads_l1 uid ctr w"
  "w_l1 w uid = Some \<lparr>ce_ctr = ctr, ce_cached_at = w_now w\<rparr> \<Longrightarrow> snd (get_ctr uid w) = w"
  by (simp_all add: reads_l1_def get_ctr_fresh l1_ttl_def)

lemma ctr_cache_tests_pass:
  "ctr_l1_hit_returns_cached_value w" "ctr_l1_expired_entry_removed w" "ctr_update_writes_l1 w"
  "ctr_update_then_get_returns_updated_value w" "ctr_redis_available_false_when_direct_pg w"
  "ctr_redis_available_false_when_no_connection w" "ctr_update_without_redis_still_writes_l1 w"
  "ctr_sequential_updates_overwrite w" "fallback_direct_pg_ctr_skips_redis w"
  "fallback_auto_with_redis_available w" "fallback_auto_redis_none_degrades_to_pg w"
  "fallback_direct_pg_update_get_cycle w"
  by (simp_all add: ctr_l1_hit_returns_cached_value_def ctr_l1_expired_entry_removed_def
      ctr_update_writes_l1_def ctr_update_then_get_returns_updated_value_def
      ctr_redis_available_false_when_direct_pg_def ctr_redis_available_false_when_no_connection_def
      ctr_update_without_redis_still_writes_l1_def ctr_sequential_updates_overwrite_def
      fallback_direct_pg_ctr_skips_redis_def fallback_auto_with_redis_available_def
      fallback_auto_redis_none_degrades_to_pg_def fallback_direct_pg_update_get_cycle_def
      l1_only_cache_def l1_holds_def l1_remove_def puts_def Let_def)

lemma saturating_add_increases: "a \<le> saturating_add_u32 a b"
proof (cases "unat a + unat b < 2 ^ 32")
  case True
  then have "unat (a + b) = unat a + unat b" by (simp add: unat_word_ariths)
  with True show ?thesis by (simp add: saturating_add_u32_def word_le_nat_alt)
qed (simp add: saturating_add_u32_def)

lemma monotonic_updates_hold: "prev \<le> current \<Longrightarrow> monotonic_updates uid incs current prev w"
  by (induction incs arbitrary: current prev w)
    (auto simp: Let_def intro: order_trans [OF _ saturating_add_increases])

lemma ctr_cache_property_tests_pass:
  "prop_ctr_transparency_l1_reflects_update uid_suffix ctr_value w"
  "prop_ctr_monotonic_increase uid_suffix base increments w"
  "prop_fallback_degradation_safety uid_suffix ctr_value use_direct_pg w"
  by (simp_all add: prop_ctr_transparency_l1_reflects_update_def prop_ctr_monotonic_increase_def
      prop_fallback_degradation_safety_def monotonic_updates_hold l1_holds_def Let_def)

section \<open>\<^verbatim>\<open>wallet_snapshot.rs\<close>\<close>

text \<open>A pool that never connects: the one statement a test runs at most fails with \<open>e\<close>.\<close>

definition dummy_pg_pool :: "string \<Rightarrow> world \<Rightarrow> world" where
  "dummy_pg_pool e w = w\<lparr>w_faults := [Some e]\<rparr>"

definition wallet_snapshot_new :: "redis_store option \<Rightarrow> world \<Rightarrow> world" where
  "wallet_snapshot_new redis w = w\<lparr>w_redis := redis\<rparr>"

definition gives_no_assets ::
  "('z externs_scheme) \<Rightarrow> string \<Rightarrow> i64 \<Rightarrow> i64 \<Rightarrow> string \<Rightarrow> world \<Rightarrow> bool" where
  "gives_no_assets X user_id page sz e w \<longleftrightarrow>
     map_sum id fst (fst (get_assets X user_id page sz (wallet_snapshot_new None (dummy_pg_pool e w)))) =
     Inr []"

definition rebuilds ::
  "('z externs_scheme) \<Rightarrow> string \<Rightarrow> (string \<times> int) list \<Rightarrow> string \<Rightarrow> world \<Rightarrow> bool" where
  "rebuilds X user_id pairs e w \<longleftrightarrow>
     fst (rebuild_for_user X user_id pairs (wallet_snapshot_new None (dummy_pg_pool e w))) = Inr ()"

definition changes_nothing :: "(world, unit, unit) act \<Rightarrow> string \<Rightarrow> world \<Rightarrow> bool" where
  "changes_nothing m e w \<longleftrightarrow>
     (let w1 = wallet_snapshot_new None (dummy_pg_pool e w) in m w1 = (Inr (), w1))"

definition wallet_snapshot_get_assets_no_redis_returns_empty_on_pg_error ::
  "('z externs_scheme) \<Rightarrow> string \<Rightarrow> world \<Rightarrow> bool" where
  "wallet_snapshot_get_assets_no_redis_returns_empty_on_pg_error X e w \<longleftrightarrow>
     gives_no_assets X ''user_001'' 0 10 e w"

definition wallet_snapshot_rebuild_no_redis_returns_ok ::
  "('z externs_scheme) \<Rightarrow> string \<Rightarrow> world \<Rightarrow> bool" where
  "wallet_snapshot_rebuild_no_redis_returns_ok X e w \<longleftrightarrow>
     rebuilds X ''user_001'' [(''asset_a'', 1700000000), (''asset_b'', 1700000100)] e w"

definition wallet_snapshot_state_change_no_redis_noop ::
  "('z externs_scheme) \<Rightarrow> string \<Rightarrow> world \<Rightarrow> bool" where
  "wallet_snapshot_state_change_no_redis_noop X e w \<longleftrightarrow>
     changes_nothing (on_asset_state_change X ''asset_001'' (Some ''old_owner'') (Some ''new_owner'')
       1700000000) e w"

definition wallet_snapshot_get_assets_page_zero ::
  "('z externs_scheme) \<Rightarrow> string \<Rightarrow> world \<Rightarrow> bool" where
  "wallet_snapshot_get_assets_page_zero X e w \<longleftrightarrow> gives_no_assets X ''user_002'' 0 10 e w"

definition wallet_snapshot_get_assets_large_page ::
  "('z externs_scheme) \<Rightarrow> string \<Rightarrow> world \<Rightarrow> bool" where
  "wallet_snapshot_get_assets_large_page X e w \<longleftrightarrow> gives_no_assets X ''user_003'' 9999 50 e w"

definition wallet_snapshot_rebuild_empty_pairs ::
  "('z externs_scheme) \<Rightarrow> string \<Rightarrow> world \<Rightarrow> bool" where
  "wallet_snapshot_rebuild_empty_pairs X e w \<longleftrightarrow> rebuilds X ''user_004'' [] e w"

definition fallback_wallet_snapshot_no_redis_state_change_noop ::
  "('z externs_scheme) \<Rightarrow> string \<Rightarrow> world \<Rightarrow> bool" where
  "fallback_wallet_snapshot_no_redis_state_change_noop X e w \<longleftrightarrow>
     changes_nothing (try_bind (on_asset_state_change X ''asset_fb_01'' (Some ''old_user'')
                                  (Some ''new_user'') 1700000000) (\<lambda>_.
                      try_bind (on_asset_state_change X ''asset_fb_02'' (Some ''owner'') None
                                  1700000001) (\<lambda>_.
                      try_bind (on_asset_state_change X ''asset_fb_03'' None (Some ''buyer'')
                                  1700000002) (\<lambda>_.
                      on_asset_state_change X ''asset_fb_04'' None None 1700000003)))) e w"

definition fallback_wallet_snapshot_no_redis_get_assets_degrades ::
  "('z externs_scheme) \<Rightarrow> string \<Rightarrow> world \<Rightarrow> bool" where
  "fallback_wallet_snapshot_no_redis_get_assets_degrades X e w \<longleftrightarrow>
     gives_no_assets X ''user_fallback_01'' 0 20 e w"

definition fallback_wallet_snapshot_no_redis_rebuild_ok ::
  "('z externs_scheme) \<Rightarrow> string \<Rightarrow> world \<Rightarrow> bool" where
  "fallback_wallet_snapshot_no_redis_rebuild_ok X e w \<longleftrightarrow>
     rebuilds X ''user_fallback_02'' [(''asset_x'', 1700000000), (''asset_y'', 1700000100)] e w"

section \<open>\<^verbatim>\<open>wallet_snapshot_cli.rs\<close>\<close>

definition purge_deletes_correct_keys :: bool where
  "purge_deletes_correct_keys \<longleftrightarrow>
     wallet_keys ''user_abc_123'' = (''wallet:user_abc_123'', ''wallet:user_abc_123:assets'')"

definition purge_keys_empty_user_id :: bool where
  "purge_keys_empty_user_id \<longleftrightarrow> wallet_keys [] = (''wallet:'', ''wallet::assets'')"

definition purge_keys_special_characters :: bool where
  "purge_keys_special_characters \<longleftrightarrow>
     wallet_keys ''user:with:colons'' = (''wallet:user:with:colons'', ''wallet:user:with:colons:assets'')"

definition stats_output_with_data :: bool where
  "stats_output_with_data \<longleftrightarrow>
     (let output = format_stats_output ''user_001''
        (Some [''asset_count'' \<mapsto> ''42'', ''updated_at'' \<mapsto> ''2026-03-17T10:00:00Z'']) 42
      in contains ''Wallet snapshot stats for user: user_001'' output
         \<and> contains ''asset_count: 42'' output
         \<and> contains ''updated_at:  2026-03-17T10:00:00Z'' output
         \<and> contains ''sorted_set_size: 42'' output)"

definition stats_output_empty_hash :: bool where
  "stats_output_empty_hash \<longleftrightarrow>
     (let output = format_stats_output ''user_002'' None 0
      in contains ''Wallet snapshot stats for user: user_002'' output
         \<and> contains ''Hash wallet:user_002: (not found)'' output
         \<and> contains ''sorted_set_size: 0'' output)"

definition stats_output_partial_fields :: bool where
  "stats_output_partial_fields \<longleftrightarrow>
     (let output = format_stats_output ''user_003'' (Some [''asset_count'' \<mapsto> ''10'']) 10
      in contains ''asset_count: 10'' output \<and> contains ''updated_at:  N/A'' output
         \<and> contains ''sorted_set_size: 10'' output)"

section \<open>Without Redis\<close>

lemma no_redis_reads_nothing: "gives_no_assets X user_id page sz e w"
  by (simp add: gives_no_assets_def wallet_snapshot_new_def dummy_pg_pool_def get_assets_def
      fetch_assets_from_pg_def no_redis_def try_bind_def gets_def attempt_def select_page_def
      sql_def map_err_def db_call_def ret_def)

lemma no_redis_rebuilds: "rebuilds X user_id pairs e w"
  by (simp add: rebuilds_def wallet_snapshot_new_def rebuild_for_user_def no_redis_def try_bind_def
      gets_def ret_def)

lemma no_redis_state_change:
  "w_redis w = None \<Longrightarrow> on_asset_state_change X asset_id old new created_at w = (Inr (), w)"
  by (auto simp: on_asset_state_change_def add_asset_def remove_asset_def no_redis_def try_bind_def
      gets_def ret_def split: option.split)

lemma wallet_snapshot_tests_pass:
  "wallet_snapshot_get_assets_no_redis_returns_empty_on_pg_error X e w"
  "wallet_snapshot_rebuild_no_redis_returns_ok X e w"
  "wallet_snapshot_state_change_no_redis_noop X e w"
  "wallet_snapshot_get_assets_page_zero X e w"
  "wallet_snapshot_get_assets_large_page X e w"
  "wallet_snapshot_rebuild_empty_pairs X e w"
  "fallback_wallet_snapshot_no_redis_state_change_noop X e w"
  "fallback_wallet_snapshot_no_redis_get_assets_degrades X e w"
  "fallback_wallet_snapshot_no_redis_rebuild_ok X e w"
  by (simp_all add: wallet_snapshot_get_assets_no_redis_returns_empty_on_pg_error_def
      wallet_snapshot_rebuild_no_redis_returns_ok_def wallet_snapshot_state_change_no_redis_noop_def
      wallet_snapshot_get_assets_page_zero_def wallet_snapshot_get_assets_large_page_def
      wallet_snapshot_rebuild_empty_pairs_def fallback_wallet_snapshot_no_redis_state_change_noop_def
      fallback_wallet_snapshot_no_redis_get_assets_degrades_def
      fallback_wallet_snapshot_no_redis_rebuild_ok_def no_redis_reads_nothing no_redis_rebuilds
      changes_nothing_def no_redis_state_change wallet_snapshot_new_def try_bind_def Let_def)

lemma purge_tests_pass:
  "purge_deletes_correct_keys" "purge_keys_empty_user_id" "purge_keys_special_characters"
  by (simp_all add: purge_deletes_correct_keys_def purge_keys_empty_user_id_def
      purge_keys_special_characters_def wallet_keys_def)

lemma int_texts: "int_text 42 = ''42''" "int_text 10 = ''10''" "int_text 0 = ''0''"
  by code_simp+

lemma contains_Cons: "contains n (c # s) \<longleftrightarrow> prefix n (c # s) \<or> contains n s"
  by (auto simp: contains_def)

lemma stats_tests_pass:
  "stats_output_with_data" "stats_output_empty_hash" "stats_output_partial_fields"
  by (simp_all add: stats_output_with_data_def stats_output_empty_hash_def
      stats_output_partial_fields_def format_stats_output_def hash_lines_def line_def unwrap_or_def
      int_texts contains_Cons Let_def)

end
