(* ===== verification/Calibrate_Tests.thy ===== *)
theory Calibrate_Tests
  imports Calibrate_Properties
begin

text \<open>
  The tests of \<^verbatim>\<open>cli/ctr_calibrate.rs\<close> check pure functions, \<open>check_logic\<close> and \<open>auto_logic\<close>, that
  stand for the commands. They are modelled here with the tests on them, and the commands, which
  read and write PostgreSQL and Redis, are shown to do what the two functions say.
\<close>

section \<open>The reference functions of the tests\<close>

text \<open>A \<open>HashMap\<close> collected from pairs keeps the last value of a key.\<close>

definition redis_map :: "(string \<times> u32 option) list \<Rightarrow> string \<Rightarrow> u32 option" where
  "redis_map redis_data uid =
     (case map_of (rev redis_data) uid of None \<Rightarrow> None | Some v \<Rightarrow> v)"

fun check_loop ::
  "(string \<Rightarrow> u32 option) \<Rightarrow> (string \<times> i32) list \<Rightarrow> nat \<Rightarrow> (string \<times> u32 \<times> i32) list
    \<Rightarrow> nat \<times> (string \<times> u32 \<times> i32) list" where
  "check_loop red [] consistent mismatches = (consistent, mismatches)"
| "check_loop red ((uid, pg_ctr) # rest) consistent mismatches =
     (case red uid of
        Some redis_val \<Rightarrow>
          if redis_val = pg_ctr then check_loop red rest (consistent + 1) mismatches
          else check_loop red rest consistent (mismatches @ [(uid, redis_val, pg_ctr)])
      | None \<Rightarrow> check_loop red rest (consistent + 1) mismatches)"

definition check_logic ::
  "(string \<times> i32) list \<Rightarrow> (string \<times> u32 option) list \<Rightarrow> check_report" where
  "check_logic pg_data redis_data =
     (let (consistent, mismatches) = check_loop (redis_map redis_data) pg_data 0 []
      in \<lparr>cr_total = length pg_data, cr_consistent = consistent, cr_mismatches = mismatches\<rparr>)"

datatype calibration_op =
    UpdatePg string u32
  | UpdateRedis string u32
  | SkipUid string nat

definition auto_op :: "string \<Rightarrow> u32 option \<Rightarrow> i32 \<Rightarrow> calibration_op option" where
  "auto_op uid red pg_ctr =
     (case red of
        None \<Rightarrow> None
      | Some redis_val \<Rightarrow>
          (let diff = nat \<bar>uint redis_val - uint pg_ctr\<bar>
           in if redis_val = pg_ctr then None
              else if diff > auto_skip_threshold then Some (SkipUid uid diff)
              else if redis_val > pg_ctr then Some (UpdatePg uid redis_val)
              else Some (UpdateRedis uid pg_ctr)))"

definition auto_logic ::
  "(string \<times> i32) list \<Rightarrow> (string \<times> u32 option) list \<Rightarrow> calibration_op list" where
  "auto_logic pg_data redis_data =
     List.map_filter (\<lambda>(uid, pg_ctr). auto_op uid (redis_map redis_data uid) pg_ctr) pg_data"

section \<open>The tests\<close>

definition check_all_consistent :: bool where
  "check_all_consistent \<longleftrightarrow>
     check_logic [(''UID_A'', 10), (''UID_B'', 20)] [(''UID_A'', Some 10), (''UID_B'', Some 20)] =
     \<lparr>cr_total = 2, cr_consistent = 2, cr_mismatches = []\<rparr>"

definition check_with_mismatches :: bool where
  "check_with_mismatches \<longleftrightarrow>
     check_logic [(''UID_A'', 10), (''UID_B'', 20), (''UID_C'', 30)]
       [(''UID_A'', Some 10), (''UID_B'', Some 99), (''UID_C'', Some 30)] =
     \<lparr>cr_total = 3, cr_consistent = 2, cr_mismatches = [(''UID_B'', 99, 20)]\<rparr>"

definition check_redis_missing_counts_as_consistent :: bool where
  "check_redis_missing_counts_as_consistent \<longleftrightarrow>
     (let result = check_logic [(''UID_A'', 10)] [(''UID_A'', None)]
      in cr_consistent result = 1 \<and> cr_mismatches result = [])"

definition auto_use_max_updates_smaller_side :: bool where
  "auto_use_max_updates_smaller_side \<longleftrightarrow>
     auto_logic [(''UID_A'', 10), (''UID_B'', 50)] [(''UID_A'', Some 20), (''UID_B'', Some 30)] =
     [UpdatePg ''UID_A'' 20, UpdateRedis ''UID_B'' 50]"

definition auto_skips_large_diff :: bool where
  "auto_skips_large_diff \<longleftrightarrow>
     auto_logic [(''UID_A'', 100)] [(''UID_A'', Some 5000)] = [SkipUid ''UID_A'' 4900]"

definition auto_equal_values_no_op :: bool where
  "auto_equal_values_no_op \<longleftrightarrow> auto_logic [(''UID_A'', 42)] [(''UID_A'', Some 42)] = []"

definition auto_redis_missing_skipped :: bool where
  "auto_redis_missing_skipped \<longleftrightarrow> auto_logic [(''UID_A'', 42)] [(''UID_A'', None)] = []"

definition auto_diff_exactly_1000_not_skipped :: bool where
  "auto_diff_exactly_1000_not_skipped \<longleftrightarrow>
     auto_logic [(''UID_A'', 0)] [(''UID_A'', Some 1000)] = [UpdatePg ''UID_A'' 1000]"

definition auto_diff_1001_skipped :: bool where
  "auto_diff_1001_skipped \<longleftrightarrow>
     auto_logic [(''UID_A'', 0)] [(''UID_A'', Some 1001)] = [SkipUid ''UID_A'' 1001]"

lemma calibrate_tests_pass:
  "check_all_consistent" "check_with_mismatches" "check_redis_missing_counts_as_consistent"
  "auto_use_max_updates_smaller_side" "auto_skips_large_diff" "auto_equal_values_no_op"
  "auto_redis_missing_skipped" "auto_diff_exactly_1000_not_skipped" "auto_diff_1001_skipped"
  by code_simp+

section \<open>The commands do what the functions say\<close>

definition perform :: "calibration_op \<Rightarrow> (world, 'e, unit) act" where
  "perform op =
     (case op of
        UpdatePg uid new_ctr \<Rightarrow> update_pg_ctr uid new_ctr
      | UpdateRedis uid new_ctr \<Rightarrow> set_redis_ctr uid new_ctr
      | SkipUid uid diff \<Rightarrow> ret ())"

fun op_outcome :: "calibration_op \<Rightarrow> auto_outcome" where
  "op_outcome (SkipUid uid diff) = Skipped"
| "op_outcome _ = Corrected"

lemma check_loop_filter:
  "check_loop red pg n ms =
    (let new = List.map_filter (\<lambda>(u, p). case red u of None \<Rightarrow> None
           | Some r \<Rightarrow> if r = p then None else Some (u, r, p)) pg
     in (n + (length pg - length new), ms @ new))"
proof (induction pg arbitrary: n ms)
  case (Cons x pg)
  have "length (List.map_filter f pg) \<le> length pg" "length (List.map_filter f pg) \<le> n + length pg"
    for n and f :: "string \<times> i32 \<Rightarrow> (string \<times> u32 \<times> i32) option"
    by (simp_all add: List.map_filter_def trans_le_add2)
  with Cons show ?case
    by (cases x) (auto simp: Let_def List.map_filter_simps Suc_diff_le split: option.split)
qed (simp add: List.map_filter_simps)

lemma perform_run:
  assumes "calm w" "redis_up w" "auto_op uid red p = Some op"
  shows "\<exists>w'. (perform op :: (world, unit, unit) act) w = (Inr (), w') \<and> calm w' \<and> redis_up w'
    \<and> (\<forall>v. v \<noteq> uid \<longrightarrow> redis_ctr w' v = redis_ctr w v)"
proof (cases op)
  case (UpdatePg u c)
  with update_pg_run [OF assms(1,2), of u c] show ?thesis by (auto simp: perform_def ctrs_after_def)
next
  case (UpdateRedis u c)
  moreover from this assms(3) have "u = uid" by (auto simp: auto_op_def Let_def split: option.splits if_splits)
  ultimately show ?thesis
    using set_redis_run [OF assms(2,1), of u c] by (auto simp: perform_def ctrs_after_def)
qed (use assms in \<open>auto simp: perform_def ret_def\<close>)

lemma auto_one_performs:
  assumes "redis_up w"
  shows "(auto_one uid p :: (world, unit, auto_outcome) act) w =
    (case auto_op uid (redis_ctr w uid) p of
       None \<Rightarrow> (Inr Unchanged, w)
     | Some op \<Rightarrow> try_bind (perform op) (\<lambda>_. ret (op_outcome op)) w)"
proof (cases "redis_ctr w uid")
  case None
  then show ?thesis by (simp add: auto_one_def auto_op_def try_bind_def get_redis_run [OF assms] ret_def)
next
  case (Some r)
  note run = Some auto_one_def auto_op_def perform_def try_bind_def get_redis_run [OF assms] ret_def Let_def
  consider "r = p" | "r \<noteq> p" "auto_skip_threshold < nat \<bar>uint r - uint p\<bar>"
    | "r \<noteq> p" "\<not> auto_skip_threshold < nat \<bar>uint r - uint p\<bar>" "r > p"
    | "r \<noteq> p" "\<not> auto_skip_threshold < nat \<bar>uint r - uint p\<bar>" "\<not> r > p" by blast
  then show ?thesis by cases (simp_all add: run split: prod.split sum.split)
qed

lemma auto_all_perform:
  assumes "calm w" "redis_up w" "distinct (map fst xs)" "\<forall>(u, p)\<in>set xs. redis_ctr w u = red u"
  shows "\<exists>w'. (for_each (List.map_filter (\<lambda>(u, p). auto_op u (red u) p) xs) perform :: (world, unit, unit) act) w
      = (Inr (), w')
    \<and> (map_each (\<lambda>(uid, p). auto_one uid p) xs :: (world, unit, auto_outcome list) act) w =
      (Inr (map (\<lambda>(u, p). case auto_op u (red u) p of None \<Rightarrow> Unchanged | Some op \<Rightarrow> op_outcome op) xs), w')"
  using assms
proof (induction xs arbitrary: w)
  case (Cons x xs)
  obtain u p where x: "x = (u, p)" by fastforce
  from Cons.prems(4) have red: "redis_ctr w u = red u" by (simp add: x)
  show ?case
  proof (cases "auto_op u (red u) p")
    case None
    have "(auto_one u p :: (world, unit, auto_outcome) act) w = (Inr Unchanged, w)"
      using None by (simp add: auto_one_performs [OF Cons.prems(2)] red)
    moreover from Cons.IH [of w] Cons.prems obtain w' where
      "(for_each (List.map_filter (\<lambda>(u, p). auto_op u (red u) p) xs) perform :: (world, unit, unit) act) w
        = (Inr (), w')"
      "(map_each (\<lambda>(uid, p). auto_one uid p) xs :: (world, unit, auto_outcome list) act) w =
      (Inr (map (\<lambda>(u, p). case auto_op u (red u) p of None \<Rightarrow> Unchanged | Some op \<Rightarrow> op_outcome op) xs), w')"
      by (auto simp: x)
    ultimately show ?thesis using None by (simp add: x try_bind_def ret_def List.map_filter_simps)
  next
    case (Some op)
    from perform_run [OF Cons.prems(1,2) Some] obtain w1 where
      one: "(perform op :: (world, unit, unit) act) w = (Inr (), w1)"
      and w1: "calm w1" "redis_up w1" "\<forall>v. v \<noteq> u \<longrightarrow> redis_ctr w1 v = redis_ctr w v" by blast
    have "redis_ctr w1 v = red v" if "(v, q) \<in> set xs" for v q
    proof -
      have "u \<notin> fst ` set xs" using Cons.prems(3) by (simp add: x)
      moreover have "v \<in> fst ` set xs" using image_eqI [OF _ that, of v fst] by simp
      ultimately have "v \<noteq> u" by blast
      with w1(3) have "redis_ctr w1 v = redis_ctr w v" by blast
      also have "\<dots> = red v" using bspec [OF Cons.prems(4), of "(v, q)"] that by simp
      finally show ?thesis .
    qed
    then have "\<forall>(v, q)\<in>set xs. redis_ctr w1 v = red v" by blast
    with Cons.IH [OF w1(1,2)] Cons.prems(3) obtain w' where
      rest: "(for_each (List.map_filter (\<lambda>(u, p). auto_op u (red u) p) xs) perform :: (world, unit, unit) act) w1
        = (Inr (), w')"
      "(map_each (\<lambda>(uid, p). auto_one uid p) xs :: (world, unit, auto_outcome list) act) w1 =
      (Inr (map (\<lambda>(u, p). case auto_op u (red u) p of None \<Rightarrow> Unchanged | Some op \<Rightarrow> op_outcome op) xs), w')"
      by (auto simp: x)
    have "(auto_one u p :: (world, unit, auto_outcome) act) w = (Inr (op_outcome op), w1)"
      using one Some by (simp add: auto_one_performs [OF Cons.prems(2)] red try_bind_def ret_def)
    with one rest Some show ?thesis by (simp add: x try_bind_def ret_def List.map_filter_simps)
  qed
qed (simp add: ret_def List.map_filter_simps)

lemma outcomes_of_ops:
  "length (filter (\<lambda>x. x = s) (map (\<lambda>(u, p). case auto_op u (red u) p of None \<Rightarrow> Unchanged
      | Some op \<Rightarrow> op_outcome op) xs)) =
    length (filter (\<lambda>op. op_outcome op = s) (List.map_filter (\<lambda>(u, p). auto_op u (red u) p) xs))"
  if "s \<noteq> Unchanged"
  using that by (induction xs) (auto simp: List.map_filter_simps split: option.split)

text \<open>
  The commands do what the reference functions of their tests compute: when the database and
  Redis answer and tags have distinct uids, a check reports what \<open>check_logic\<close> says of the two
  tables of counters and changes nothing, and the automatic calibration performs the operations
  that \<open>auto_logic\<close> lists, in that order and no others, and counts them.
\<close>

theorem calibration_follows_reference:
  assumes "calm w" "redis_up w" "distinct (map fst (pg_ctrs w))"
    and "\<forall>(uid, c)\<in>set (pg_ctrs w). redis_map redis_data uid = redis_ctr w uid"
  shows "(run_check :: (world, unit, check_report) act) w = (Inr (check_logic (pg_ctrs w) redis_data), w)
    \<and> (\<exists>w'. (for_each (auto_logic (pg_ctrs w) redis_data) perform :: (world, unit, unit) act) w = (Inr (), w')
      \<and> (run_auto :: (world, unit, nat \<times> nat) act) w =
        (Inr (length (filter (\<lambda>op. op_outcome op = Corrected) (auto_logic (pg_ctrs w) redis_data)),
              length (filter (\<lambda>op. op_outcome op = Skipped) (auto_logic (pg_ctrs w) redis_data))), w'))"
proof
  have "List.map_filter (mismatch w) (pg_ctrs w) = List.map_filter (\<lambda>(u, p).
      case redis_map redis_data u of None \<Rightarrow> None | Some r \<Rightarrow> if r = p then None else Some (u, r, p)) (pg_ctrs w)"
    using assms(4) unfolding List.map_filter_def mismatch_def
    by (intro map_cong arg_cong [of _ _ "map _"] filter_cong) auto
  then show "(run_check :: (world, unit, check_report) act) w = (Inr (check_logic (pg_ctrs w) redis_data), w)"
    by (simp add: run_check_run [OF assms(1,2)] check_logic_def check_loop_filter Let_def)
next
  let ?ops = "auto_logic (pg_ctrs w) redis_data"
  let ?outs = "map (\<lambda>(u, p). case auto_op u (redis_map redis_data u) p of None \<Rightarrow> Unchanged
      | Some op \<Rightarrow> op_outcome op) (pg_ctrs w)"
  have "\<forall>(u, p)\<in>set (pg_ctrs w). redis_ctr w u = redis_map redis_data u" using assms(4) by auto
  from auto_all_perform [OF assms(1-3) this] obtain w' where
    "(for_each ?ops perform :: (world, unit, unit) act) w = (Inr (), w')"
    and outs: "(map_each (\<lambda>(uid, p). auto_one uid p) (pg_ctrs w) :: (world, unit, auto_outcome list) act) w =
      (Inr ?outs, w')" unfolding auto_logic_def by blast
  moreover from outs have "(run_auto :: (world, unit, nat \<times> nat) act) w =
      (Inr (length (filter (\<lambda>x. x = Corrected) ?outs), length (filter (\<lambda>x. x = Skipped) ?outs)), w')"
    by (simp only: run_auto_def try_bind_def fetch_all_run [OF assms(1)] ret_def prod.case sum.case)
  ultimately show "\<exists>w'. (for_each ?ops perform :: (world, unit, unit) act) w = (Inr (), w')
      \<and> (run_auto :: (world, unit, nat \<times> nat) act) w =
        (Inr (length (filter (\<lambda>op. op_outcome op = Corrected) ?ops),
              length (filter (\<lambda>op. op_outcome op = Skipped) ?ops)), w')"
    unfolding auto_logic_def by (subst (1 2) outcomes_of_ops [symmetric]) auto
qed

section \<open>Witness\<close>

definition demo_redis_data :: "(string \<times> u32 option) list" where
  "demo_redis_data = [(''04040404040404'', Some 7)]"

lemma demo_pg_ctrs: "pg_ctrs demo_drifted = [(''04040404040404'', 0)]"
  by (simp add: demo_drifted_def demo_world_def demo_db_def demo_asset_def tagged_def unwrap_or_def
      List.map_filter_simps)

lemma demo_reference:
  "check_logic [(''04040404040404'', 0)] demo_redis_data =
     \<lparr>cr_total = 1, cr_consistent = 0, cr_mismatches = [(''04040404040404'', 7, 0)]\<rparr>"
  "auto_logic [(''04040404040404'', 0)] demo_redis_data = [UpdatePg ''04040404040404'' 7]"
  by code_simp+

theorem calibration_follows_reference_witness:
  "(run_check :: (world, unit, check_report) act) demo_drifted =
      (Inr \<lparr>cr_total = 1, cr_consistent = 0, cr_mismatches = [(''04040404040404'', 7, 0)]\<rparr>, demo_drifted)
   \<and> (\<exists>w'. (run_auto :: (world, unit, nat \<times> nat) act) demo_drifted = (Inr (1, 0), w'))"
proof -
  have up: "calm demo_drifted" "redis_up demo_drifted"
    by (simp_all add: demo_drifted_def demo_world_def calm_def redis_up_def)
  have "redis_ctr demo_drifted ''04040404040404'' = Some 7"
    by (simp add: demo_drifted_def redis_ctr_def demo_asset_def demo_world_def live_value_def)
  then have "\<forall>(uid, c)\<in>set (pg_ctrs demo_drifted). redis_map demo_redis_data uid = redis_ctr demo_drifted uid"
    by (simp add: demo_pg_ctrs demo_redis_data_def redis_map_def)
  from calibration_follows_reference [OF up _ this] show ?thesis
    by (auto simp: demo_pg_ctrs demo_reference)
qed

end
