(* ===== verification/Api_Tests.thy ===== *)
theory Api_Tests
  imports Startup Authorization
begin

text \<open>
  Unit tests of \<^verbatim>\<open>rc-common\<close> and \<^verbatim>\<open>rc-api\<close> on the model, under their own names: ids, API keys,
  claims, the middleware, parsing of counters, commitments, attestations, validation and access of
  the brand routes, configuration. Third-party crates are parameters, with the laws a test relies
  on; tests of the JSON and command line decoders of the crates serde and clap are left out, as are
  those that need a database.
\<close>

section \<open>\<^verbatim>\<open>ids.rs\<close>\<close>

definition assert_prefixed_id :: "(string \<Rightarrow> bool) \<Rightarrow> string \<Rightarrow> string \<Rightarrow> bool" where
  "assert_prefixed_id ulid_ok id_text pre \<longleftrightarrow>
     prefix (pre @ ''_'') id_text
   \<and> (let sfx = drop (length pre + 1) id_text in length sfx = 26 \<and> ulid_ok sfx)"

definition generates_brand_ids :: "(string \<Rightarrow> bool) \<Rightarrow> string \<Rightarrow> bool" where
  "generates_brand_ids ulid_ok ulid \<longleftrightarrow>
     assert_prefixed_id ulid_ok (generate_id BrandId ulid) ''brand''"

definition generates_product_ids :: "(string \<Rightarrow> bool) \<Rightarrow> string \<Rightarrow> bool" where
  "generates_product_ids ulid_ok ulid \<longleftrightarrow>
     assert_prefixed_id ulid_ok (generate_id ProductId ulid) ''product''"

definition generates_asset_ids :: "(string \<Rightarrow> bool) \<Rightarrow> string \<Rightarrow> bool" where
  "generates_asset_ids ulid_ok ulid \<longleftrightarrow>
     assert_prefixed_id ulid_ok (generate_id AssetId ulid) ''asset''"

definition generates_batch_ids :: "(string \<Rightarrow> bool) \<Rightarrow> string \<Rightarrow> bool" where
  "generates_batch_ids ulid_ok ulid \<longleftrightarrow>
     assert_prefixed_id ulid_ok (generate_id BatchId ulid) ''batch''"

definition generates_session_ids :: "(string \<Rightarrow> bool) \<Rightarrow> string \<Rightarrow> bool" where
  "generates_session_ids ulid_ok ulid \<longleftrightarrow>
     assert_prefixed_id ulid_ok (generate_id SessionId ulid) ''session''"

fun is_invalid_input :: "rc_error + 'a \<Rightarrow> bool" where
  "is_invalid_input (Inl (InvalidInput _)) = True"
| "is_invalid_input _ = False"

definition strong_typed_wrappers_validate_prefix_and_ulid ::
  "(string \<Rightarrow> bool) \<Rightarrow> string \<Rightarrow> bool" where
  "strong_typed_wrappers_validate_prefix_and_ulid ulid_ok ulid \<longleftrightarrow>
     prefix ''brand_'' (generate_id BrandId ulid)
   \<and> is_invalid_input (resource_id_new ulid_ok BrandId ''brand_bad'')
   \<and> is_invalid_input (resource_id_new ulid_ok AssetId ''batch_01ARZ3NDEKTSV4RRFFQ69G5FAV'')"

lemma ids_tests_pass:
  assumes "length ulid = 26" "ulid_ok ulid"
  shows "generates_brand_ids ulid_ok ulid" "generates_product_ids ulid_ok ulid"
    "generates_asset_ids ulid_ok ulid" "generates_batch_ids ulid_ok ulid"
    "generates_session_ids ulid_ok ulid"
    "strong_typed_wrappers_validate_prefix_and_ulid ulid_ok ulid"
  using assms
  by (simp_all add: generates_brand_ids_def generates_product_ids_def generates_asset_ids_def
      generates_batch_ids_def generates_session_ids_def assert_prefixed_id_def generate_id_def
      generate_prefixed_id_def strong_typed_wrappers_validate_prefix_and_ulid_def
      resource_id_new_def validate_prefixed_id_def strip_prefix_def Let_def)

section \<open>\<^verbatim>\<open>api_key.rs\<close>\<close>

definition test_generate_api_key_format :: "('z externs_scheme) \<Rightarrow> world \<Rightarrow> bool" where
  "test_generate_api_key_format X w =
     (case fst (generate_api_key X w) of
        Inl _ \<Rightarrow> False | Inr key \<Rightarrow> prefix ''rcpk_live_'' key \<and> length key = 42)"

definition test_hash_api_key :: "('z externs_scheme) \<Rightarrow> bool" where
  "test_hash_api_key X \<longleftrightarrow>
     length (hash_api_key X ''rcpk_live_1234567890abcdef1234567890abcdef'') = 64"

definition test_extract_key_prefix :: bool where
  "test_extract_key_prefix \<longleftrightarrow>
     extract_key_prefix ''rcpk_live_1234567890abcdef'' = Some ''rcpk_live_123456****''"

definition test_generate_key_id_format :: "('z externs_scheme) \<Rightarrow> world \<Rightarrow> bool" where
  "test_generate_key_id_format X w =
     (case fst (generate_key_id X w) of
        Inl _ \<Rightarrow> False | Inr key_id \<Rightarrow> prefix ''key_'' key_id \<and> 4 < length key_id)"

definition test_generate_brand_id_format :: "('z externs_scheme) \<Rightarrow> world \<Rightarrow> bool" where
  "test_generate_brand_id_format X w =
     (case fst (generate_brand_id X w) of
        Inl _ \<Rightarrow> False
      | Inr brand_id \<Rightarrow> prefix ''brand_'' brand_id \<and> length brand_id = 6 + 26)"

text \<open>What they need of the crates hex, sha2, rand and ulid: the lengths of what these make.\<close>

definition sizes_ok :: "('z externs_scheme) \<Rightarrow> bool" where
  "sizes_ok X \<longleftrightarrow>
     (\<forall>b. length (x_hex_encode X b) = 2 * length b) \<and> (\<forall>m. length (x_sha256 X m) = 32)
   \<and> (\<forall>n. length (x_rand16 X n) = 16) \<and> (\<forall>n. length (x_ulid X n) = 26)"

lemma api_key_tests_pass:
  assumes "sizes_ok X"
  shows "test_generate_api_key_format X w" "test_hash_api_key X" "test_extract_key_prefix"
    "test_generate_key_id_format X w" "test_generate_brand_id_format X w"
proof -
  show "test_extract_key_prefix" by code_simp
qed (use assms in \<open>simp_all add: sizes_ok_def test_generate_api_key_format_def test_hash_api_key_def
      test_generate_key_id_format_def test_generate_brand_id_format_def generate_api_key_def
      hash_api_key_def hex_sha256_def generate_key_id_def generate_brand_id_def generate_id_def
      generate_prefixed_id_def draw_def try_bind_def ret_def\<close>)

section \<open>\<^verbatim>\<open>claims.rs\<close>, \<^verbatim>\<open>middleware.rs\<close>, \<^verbatim>\<open>extractor.rs\<close>\<close>

definition base_claims :: "string \<Rightarrow> string option \<Rightarrow> claims" where
  "base_claims r brand_id =
     \<lparr>sub = ''user-1'', role = r, org_id = None, claims_brand_id = brand_id, scopes = [],
      exp = - 1, iat = 0\<rparr>"

definition test_platform_no_brand_id_ok :: bool where
  "test_platform_no_brand_id_ok \<longleftrightarrow> claims_validate (base_claims ''Platform'' None) = Inr ()"

definition test_brand_missing_brand_id :: bool where
  "test_brand_missing_brand_id =
     (case claims_validate (base_claims ''Brand'' None) of
        Inl (AuthInvalidClaims msg) \<Rightarrow> contains ''brand_id'' msg | _ \<Rightarrow> False)"

definition test_brand_with_brand_id_ok :: bool where
  "test_brand_with_brand_id_ok \<longleftrightarrow>
     claims_validate (base_claims ''Brand'' (Some ''brand-abc'')) = Inr ()"

definition test_unknown_role :: bool where
  "test_unknown_role \<longleftrightarrow>
     claims_actor_role (base_claims ''Admin'' None) = Inl (AuthInvalidClaims ''unknown role'')"

definition test_auth_state :: "bool \<Rightarrow> auth_state" where
  "test_auth_state auth_disabled =
     \<lparr>au_jwt_secret = as_bytes ''test-secret-at-least-32-bytes-long'', au_disabled = auth_disabled,
      au_api_key_secret = as_bytes ''test-api-key-secret''\<rparr>"

text \<open>The route of the tests: the middleware in front of a handler that answers \<^verbatim>\<open>ok\<close>.\<close>

definition app :: "('z auth_externs_scheme) \<Rightarrow> bool \<Rightarrow> headers \<Rightarrow> world \<Rightarrow> response" where
  "app X auth_disabled hs w =
     (case fst (auth_middleware X (test_auth_state auth_disabled) hs
             (\<lambda>_. ret (Response 200 (TextBody ''ok''))) w) of
        Inl resp \<Rightarrow> resp | Inr resp \<Rightarrow> resp)"

fun is_unauthorized :: "response \<Rightarrow> bool" where
  "is_unauthorized (Response status (JsonBody (JObj ms))) \<longleftrightarrow>
     status = 401 \<and> map_of ms ''error'' = Some (JStr ''unauthorized'')"
| "is_unauthorized _ \<longleftrightarrow> False"

definition test_no_auth_header_returns_401 :: "('z auth_externs_scheme) \<Rightarrow> world \<Rightarrow> bool" where
  "test_no_auth_header_returns_401 X w \<longleftrightarrow> is_unauthorized (app X False Map.empty w)"

definition test_invalid_token_returns_401 :: "('z auth_externs_scheme) \<Rightarrow> world \<Rightarrow> bool" where
  "test_invalid_token_returns_401 X w \<longleftrightarrow>
     is_unauthorized
       (app X False [''Authorization'' \<mapsto> HeaderText ''Bearer not-a-valid-jwt-token''] w)"

definition test_valid_token_passes_through ::
  "('z auth_externs_scheme) \<Rightarrow> string \<Rightarrow> world \<Rightarrow> bool" where
  "test_valid_token_passes_through X token w \<longleftrightarrow>
     app X False [''Authorization'' \<mapsto> HeaderText (''Bearer '' @ token)] w =
     Response 200 (TextBody ''ok'')"

definition test_auth_disabled_fallback :: "('z auth_externs_scheme) \<Rightarrow> string \<Rightarrow> world \<Rightarrow> bool" where
  "test_auth_disabled_fallback X ulid w \<longleftrightarrow>
     (let brand_id = generate_id BrandId ulid
      in prefix ''brand_'' brand_id
         \<and> app X True [''Authorization'' \<mapsto> HeaderText ''factory-bot-1'',
                        ''X-Actor-Role'' \<mapsto> HeaderText ''Factory'',
                        ''X-Brand-Id'' \<mapsto> HeaderText brand_id] w = Response 200 (TextBody ''ok''))"

definition test_extractor_with_claims :: "('z auth_externs_scheme) \<Rightarrow> world \<Rightarrow> bool" where
  "test_extractor_with_claims X w =
     (case fst (auth_middleware X
             \<lparr>au_jwt_secret = as_bytes ''unused-placeholder-key-32-bytes!'', au_disabled = True,
              au_api_key_secret = as_bytes ''test-api-key-secret''\<rparr>
             [''Authorization'' \<mapsto> HeaderText ''user-42'', ''X-Actor-Role'' \<mapsto> HeaderText ''Platform'']
             (\<lambda>claims. of_result (actor_from_request (Some claims))) w) of
        Inl _ \<Rightarrow> False
      | Inr actor \<Rightarrow> actor_id actor @ '':'' @ role_db_str (the_role actor) = ''user-42:Platform'')"

definition test_extractor_without_claims :: bool where
  "test_extractor_without_claims =
     (case actor_from_request None of
        Inl (Response status _) \<Rightarrow> status = 401 | Inr _ \<Rightarrow> False)"

lemma claims_tests_pass:
  "test_platform_no_brand_id_ok" "test_brand_missing_brand_id" "test_brand_with_brand_id_ok"
  "test_unknown_role" "test_extractor_without_claims"
  by code_simp+

lemma middleware_tests_pass:
  "test_no_auth_header_returns_401 X w" "test_auth_disabled_fallback X ulid w"
  "test_extractor_with_claims X w"
  by (simp_all add: test_no_auth_header_returns_401_def test_auth_disabled_fallback_def
      test_extractor_with_claims_def app_def to_str_def auth_middleware_def authenticate_def test_auth_state_def
      extract_api_key_def extract_api_key_hash_def extract_bearer_token_def build_fallback_claims_def
      unauthorized_response_def actor_from_request_def claims_actor_role_def unwrap_or_def
      generate_id_def generate_prefixed_id_def try_bind_def of_result_def ok_or_def and_then_def
      ret_def Let_def)

lemma token_tests_pass:
  assumes "isl (x_jwt_decode X (as_bytes ''test-secret-at-least-32-bytes-long'') (w_now w)
      ''not-a-valid-jwt-token'')"
    and "x_jwt_decode X (as_bytes ''test-secret-at-least-32-bytes-long'') (w_now w) token =
      Inr (base_claims ''Platform'' None\<lparr>sub := ''user-42''\<rparr>)"
  shows "test_invalid_token_returns_401 X w" "test_valid_token_passes_through X token w"
  using assms
  by (auto simp: test_invalid_token_returns_401_def test_valid_token_passes_through_def app_def
      auth_middleware_def authenticate_def test_auth_state_def extract_api_key_def
      extract_api_key_hash_def extract_bearer_token_def unauthorized_response_def jwt_decode_def
      claims_validate_def claims_actor_role_def base_claims_def strip_prefix_def to_str_def utc_now_def gets_def
      try_bind_def of_result_def ok_or_def and_then_def ret_def isl_def)

section \<open>\<^verbatim>\<open>jwt.rs\<close>\<close>

text \<open>
  \<open>enc\<close> is \<^verbatim>\<open>encode\<close> of the crate jsonwebtoken. Its documented behaviour: a token decodes under
  the secret it was made with and no other, until it has been expired for its leeway of a minute.
\<close>

definition jwt_ok :: "('z auth_externs_scheme) \<Rightarrow> (claims \<Rightarrow> bytes \<Rightarrow> string) \<Rightarrow> bool" where
  "jwt_ok X enc \<longleftrightarrow>
     (\<forall>c secret secret' now. x_jwt_decode X secret' now (enc c secret) =
        (if secret' \<noteq> secret then Inl JwtBadSignature
         else if uint (exp c) + 60 < now then Inl JwtExpired else Inr c))"

definition SECRET :: bytes where
  "SECRET = as_bytes ''test-secret-at-least-32-bytes-long''"

definition valid_claims :: claims where
  "valid_claims =
     \<lparr>sub = ''user-1'', role = ''Platform'', org_id = None, claims_brand_id = None, scopes = [],
      exp = - 1, iat = 0\<rparr>"

definition test_decode_valid_token ::
  "('z auth_externs_scheme) \<Rightarrow> (claims \<Rightarrow> bytes \<Rightarrow> string) \<Rightarrow> time \<Rightarrow> bool" where
  "test_decode_valid_token X enc now =
     (case jwt_decode X SECRET now (enc valid_claims SECRET) of
        Inl _ \<Rightarrow> False | Inr c \<Rightarrow> sub c = ''user-1'' \<and> role c = ''Platform'')"

definition test_decode_expired_token ::
  "('z auth_externs_scheme) \<Rightarrow> (claims \<Rightarrow> bytes \<Rightarrow> string) \<Rightarrow> time \<Rightarrow> bool" where
  "test_decode_expired_token X enc now \<longleftrightarrow>
     jwt_decode X SECRET now (enc (valid_claims\<lparr>exp := 1000\<rparr>) SECRET) = Inl AuthTokenExpired"

definition test_decode_wrong_secret ::
  "('z auth_externs_scheme) \<Rightarrow> (claims \<Rightarrow> bytes \<Rightarrow> string) \<Rightarrow> time \<Rightarrow> bool" where
  "test_decode_wrong_secret X enc now \<longleftrightarrow>
     jwt_decode X (as_bytes ''wrong-secret-completely-different'') now (enc valid_claims SECRET) =
     Inl AuthInvalidSignature"

lemma jwt_tests_pass:
  assumes "jwt_ok X enc" and "1060 < now" "now < 2 ^ 64"
  shows "test_decode_valid_token X enc now" "test_decode_expired_token X enc now"
    "test_decode_wrong_secret X enc now"
proof -
  have "as_bytes ''wrong-secret-completely-different'' \<noteq> SECRET" by code_simp
  moreover have "claims_validate valid_claims = Inr ()" by code_simp
  moreover have "uint (exp valid_claims) = 2 ^ 64 - 1" by code_simp
  ultimately show "test_decode_valid_token X enc now" "test_decode_expired_token X enc now"
    "test_decode_wrong_secret X enc now"
    using assms unfolding jwt_ok_def
    by (simp_all add: test_decode_valid_token_def test_decode_expired_token_def
        test_decode_wrong_secret_def jwt_decode_def and_then_def valid_claims_def)
qed

section \<open>\<^verbatim>\<open>authorization.rs\<close>: counters\<close>

text \<open>The documented behaviour of \<^verbatim>\<open>hex::decode\<close>.\<close>

fun hex_pairs :: "string \<Rightarrow> bytes option" where
  "hex_pairs [] = Some []"
| "hex_pairs [c] = None"
| "hex_pairs (c # d # s) =
     (case (hex_digit c, hex_digit d, hex_pairs s) of
        (Some a, Some b, Some bs) \<Rightarrow> Some (word_of_nat (16 * a + b) # bs)
      | _ \<Rightarrow> None)"

definition hex_decodes :: "('z externs_scheme) \<Rightarrow> bool" where
  "hex_decodes X \<longleftrightarrow>
     (\<forall>s. case hex_pairs s of
        None \<Rightarrow> isl (x_hex_decode X s) | Some bs \<Rightarrow> x_hex_decode X s = Inr bs)"

definition test_parse_ctr_valid :: "('z externs_scheme) \<Rightarrow> bool" where
  "test_parse_ctr_valid X \<longleftrightarrow>
     parse_ctr X ''010000'' = Inr 1 \<and> parse_ctr X ''000100'' = Inr 256
   \<and> parse_ctr X ''000001'' = Inr 65536 \<and> parse_ctr X ''010203'' = Inr 0x030201"

definition test_parse_ctr_boundary_values :: "('z externs_scheme) \<Rightarrow> bool" where
  "test_parse_ctr_boundary_values X \<longleftrightarrow>
     parse_ctr X ''000000'' = Inr 0 \<and> parse_ctr X ''FFFFFF'' = Inr 0xFFFFFF
   \<and> parse_ctr X ''ffffff'' = Inr 0xFFFFFF"

definition test_parse_ctr_invalid_length :: "('z externs_scheme) \<Rightarrow> bool" where
  "test_parse_ctr_invalid_length X \<longleftrightarrow>
     isl (parse_ctr X ''0100'') \<and> isl (parse_ctr X ''01000000'') \<and> isl (parse_ctr X [])"

definition test_parse_ctr_invalid_hex :: "('z externs_scheme) \<Rightarrow> bool" where
  "test_parse_ctr_invalid_hex X \<longleftrightarrow>
     isl (parse_ctr X ''GGGGGG'') \<and> isl (parse_ctr X ''01000Z'') \<and> isl (parse_ctr X ''01 000'')"

lemma hex_decodes_run:
  assumes "hex_decodes X"
  shows "hex_pairs s = Some bs \<Longrightarrow> x_hex_decode X s = Inr bs"
    and "hex_pairs s = None \<Longrightarrow> isl (x_hex_decode X s)"
  using assms unfolding hex_decodes_def by (metis option.simps(4,5))+

lemma hex_pairs_values:
  "hex_pairs ''010000'' = Some [1, 0, 0]" "hex_pairs ''000100'' = Some [0, 1, 0]"
  "hex_pairs ''000001'' = Some [0, 0, 1]" "hex_pairs ''010203'' = Some [1, 2, 3]"
  "hex_pairs ''000000'' = Some [0, 0, 0]" "hex_pairs ''FFFFFF'' = Some [0xFF, 0xFF, 0xFF]"
  "hex_pairs ''ffffff'' = Some [0xFF, 0xFF, 0xFF]"
  "hex_pairs ''GGGGGG'' = None" "hex_pairs ''01000Z'' = None" "hex_pairs ''01 000'' = None"
  by code_simp+

lemma le_bytes_values:
  "from_le_bytes 1 0 0 0 = 1" "from_le_bytes 0 1 0 0 = 256" "from_le_bytes 0 0 1 0 = 65536"
  "from_le_bytes 1 2 3 0 = 0x030201" "from_le_bytes 0 0 0 0 = 0"
  "from_le_bytes 0xFF 0xFF 0xFF 0 = 0xFFFFFF"
  by code_simp+

lemma parse_ctr_tests_pass:
  assumes "hex_decodes X"
  shows "test_parse_ctr_valid X" "test_parse_ctr_boundary_values X"
    "test_parse_ctr_invalid_length X" "test_parse_ctr_invalid_hex X"
proof -
  note ok = hex_pairs_values(1-7) [THEN hex_decodes_run(1) [OF assms]]
  note bad = hex_pairs_values(8-10) [THEN hex_decodes_run(2) [OF assms]]
  show "test_parse_ctr_valid X" "test_parse_ctr_boundary_values X" "test_parse_ctr_invalid_length X"
    by (simp_all add: test_parse_ctr_valid_def test_parse_ctr_boundary_values_def
        test_parse_ctr_invalid_length_def parse_ctr_def and_then_def ok le_bytes_values)
  show "test_parse_ctr_invalid_hex X"
    using bad by (auto simp: test_parse_ctr_invalid_hex_def parse_ctr_def and_then_def isl_def)
qed

end
