(* ===== verification/Registry_Tests.thy ===== *)
theory Registry_Tests
  imports Startup Registry_Properties
begin

text \<open>
  Unit tests of \<^verbatim>\<open>rc-api\<close> on the model, under their own names: validation and access of the brand
  routes, chip uids, configuration, commitments and attestations. The tests of
  \<^verbatim>\<open>asset_commitment.rs\<close> that a changed field changes the commitment id are instances of
  \<open>commitment_id_identifies\<close>; the ones that read serde's JSON text or need a database are left out.
\<close>

section \<open>\<^verbatim>\<open>brand.rs\<close>\<close>

definition actor :: "actor_role \<Rightarrow> string option \<Rightarrow> actor_context" where
  "actor r b =
     \<lparr>actor_id = ''test-user'', the_role = r, actor_org = None, brand_of = b\<rparr>"

fun invalid_input :: "rc_error + 'a \<Rightarrow> bool" where
  "invalid_input (Inl (InvalidInput _)) \<longleftrightarrow> True"
| "invalid_input _ \<longleftrightarrow> False"

definition test_validate_name_empty :: bool where
  "test_validate_name_empty \<longleftrightarrow> invalid_input (validate_name [] ''brand_name'')"

definition test_validate_name_too_long :: bool where
  "test_validate_name_too_long \<longleftrightarrow>
     invalid_input (validate_name (replicate 201 (CHR ''a'')) ''brand_name'')"

definition test_validate_name_whitespace_only :: bool where
  "test_validate_name_whitespace_only \<longleftrightarrow> invalid_input (validate_name ''   '' ''brand_name'')"

definition test_validate_name_ok :: bool where
  "test_validate_name_ok \<longleftrightarrow> validate_name ''Acme Corp'' ''brand_name'' = Inr ()"

definition test_validate_email_empty :: bool where
  "test_validate_email_empty \<longleftrightarrow> invalid_input (validate_email [])"

definition test_validate_email_no_at :: bool where
  "test_validate_email_no_at \<longleftrightarrow> invalid_input (validate_email ''notanemail'')"

definition test_validate_email_too_long :: bool where
  "test_validate_email_too_long \<longleftrightarrow>
     invalid_input (validate_email (replicate 250 (CHR ''a'') @ ''@example.com''))"

definition test_validate_email_ok :: bool where
  "test_validate_email_ok \<longleftrightarrow> validate_email ''test@example.com'' = Inr ()"

definition test_validate_industry_invalid :: bool where
  "test_validate_industry_invalid \<longleftrightarrow> invalid_input (validate_industry ''InvalidIndustry'')"

definition test_validate_industry_ok :: bool where
  "test_validate_industry_ok \<longleftrightarrow>
     validate_industry ''Watches'' = Inr () \<and> validate_industry ''Fashion'' = Inr ()
   \<and> validate_industry ''Wine'' = Inr () \<and> validate_industry ''Other'' = Inr ()"

definition test_check_role_allowed_pass :: bool where
  "test_check_role_allowed_pass \<longleftrightarrow>
     check_role_allowed (actor Platform None) [Platform, Brand] = Inr ()"

definition test_check_role_allowed_reject :: bool where
  "test_check_role_allowed_reject \<longleftrightarrow>
     check_role_allowed (actor Consumer None) [Platform, Brand] = Inl PermissionDenied"

definition test_brand_read_access_platform :: bool where
  "test_brand_read_access_platform \<longleftrightarrow>
     check_brand_read_access (actor Platform None) ''brand-abc'' = Inr ()"

definition test_brand_read_access_brand_match :: bool where
  "test_brand_read_access_brand_match \<longleftrightarrow>
     check_brand_read_access (actor Brand (Some ''brand-abc'')) ''brand-abc'' = Inr ()"

definition test_brand_read_access_brand_mismatch :: bool where
  "test_brand_read_access_brand_mismatch \<longleftrightarrow>
     check_brand_read_access (actor Brand (Some ''brand-abc'')) ''brand-xyz'' =
     Inl BrandBoundaryViolation"

definition test_brand_read_access_consumer :: bool where
  "test_brand_read_access_consumer \<longleftrightarrow>
     check_brand_read_access (actor Consumer None) ''brand-abc'' = Inl PermissionDenied"

definition test_brand_write_access_factory :: bool where
  "test_brand_write_access_factory \<longleftrightarrow>
     check_brand_write_access (actor Factory (Some ''brand-abc'')) ''brand-abc'' =
     Inl PermissionDenied"

lemma brand_validation_tests_pass:
  "test_validate_name_empty" "test_validate_name_too_long" "test_validate_name_whitespace_only"
  "test_validate_name_ok" "test_validate_email_empty" "test_validate_email_no_at"
  "test_validate_email_too_long" "test_validate_email_ok" "test_validate_industry_invalid"
  "test_validate_industry_ok"
  by code_simp+

lemma brand_access_tests_pass:
  "test_check_role_allowed_pass" "test_check_role_allowed_reject"
  "test_brand_read_access_platform" "test_brand_read_access_brand_match"
  "test_brand_read_access_brand_mismatch" "test_brand_read_access_consumer"
  "test_brand_write_access_factory"
  by code_simp+

section \<open>\<^verbatim>\<open>authority_devices.rs\<close>\<close>

definition test_validate_chip_uid_format :: bool where
  "test_validate_chip_uid_format \<longleftrightarrow>
     length ''04E1A2B3C4D5E6'' = 14 \<and> list_all is_ascii_hexdigit ''04E1A2B3C4D5E6''
   \<and> length ''04E1A2B3'' \<noteq> 14 \<and> \<not> list_all is_ascii_hexdigit ''04E1A2B3C4D5EG''"

lemma chip_uid_test_passes: "test_validate_chip_uid_format"
  by code_simp

text \<open>
  The other tests of the module call the handler on a real database and are skipped without
  \<^verbatim>\<open>DATABASE_URL\<close>. Here the world is the one after their cleaning up, whatever it holds. The
  INSERT with which the second one prepares the table names the column \<^verbatim>\<open>device_id\<close> as well, so
  it fails and its error is dropped. Only the third of these tests can pass.
\<close>

definition mock_actor :: "actor_role \<Rightarrow> actor_context" where
  "mock_actor r =
     \<lparr>actor_id = ''test-user'', the_role = r, actor_org = None, brand_of = Some ''brand-001''\<rparr>"

definition register_status ::
  "('z externs_scheme) \<Rightarrow> actor_role \<Rightarrow> string \<Rightarrow> string \<Rightarrow> world \<Rightarrow> nat option" where
  "register_status X r uid asset w =
     map_option resp_status (fst (respond error_response
       (register_physical_mother_card X (mock_actor r)
          \<lparr>rp_chip_uid = uid, rp_brand_id = ''brand-001'', rp_key_epoch = 1, rp_asset_id = asset\<rparr>) w))"

definition test_register_physical_mother_card_success :: "('z externs_scheme) \<Rightarrow> world \<Rightarrow> bool" where
  "test_register_physical_mother_card_success X w \<longleftrightarrow>
     register_status X Platform ''04E1A2B3C4D5E6'' ''test-asset-001'' w = Some 201"

definition test_register_duplicate_chip_uid :: "('z externs_scheme) \<Rightarrow> world \<Rightarrow> bool" where
  "test_register_duplicate_chip_uid X w \<longleftrightarrow>
     register_status X Platform ''04E1A2B3C4D5E7'' ''test-asset-002'' w = Some 409"

definition test_register_forbidden_for_consumer :: "('z externs_scheme) \<Rightarrow> world \<Rightarrow> bool" where
  "test_register_forbidden_for_consumer X w \<longleftrightarrow>
     register_status X Consumer ''04E1A2B3C4D5E8'' ''test-asset-003'' w = Some 403"

lemma register_status:
  "register_status X r uid asset w =
    Some (if r \<notin> {Brand, Platform} then 403
     else if length uid = 14 \<and> list_all is_ascii_hexdigit uid then 500 else 400)"
  using physical_registration_fails [of X "mock_actor r"
      "\<lparr>rp_chip_uid = uid, rp_brand_id = ''brand-001'', rp_key_epoch = 1, rp_asset_id = asset\<rparr>" w]
  by (auto simp: register_status_def respond_def error_response_def mock_actor_def)

lemma registration_tests:
  "\<not> test_register_physical_mother_card_success X w" "\<not> test_register_duplicate_chip_uid X w"
  "test_register_forbidden_for_consumer X w"
  by (auto simp: test_register_physical_mother_card_success_def test_register_duplicate_chip_uid_def
      test_register_forbidden_for_consumer_def register_status)

section \<open>\<^verbatim>\<open>app.rs\<close>\<close>

text \<open>The environment of the process is an argument; a test sets or removes its variable.\<close>

definition config_redis_url_from_env :: "env \<Rightarrow> bool" where
  "config_redis_url_from_env e \<longleftrightarrow>
     parse_redis_url (e(''REDIS_URL'' \<mapsto> ''redis://custom:6380/1'')) = ''redis://custom:6380/1''"

definition config_redis_url_default :: "env \<Rightarrow> bool" where
  "config_redis_url_default e \<longleftrightarrow>
     parse_redis_url (e(''REDIS_URL'' := None)) = ''redis://redis:6379''"

definition config_fallback_strategy_direct_pg :: "env \<Rightarrow> bool" where
  "config_fallback_strategy_direct_pg e \<longleftrightarrow>
     parse_fallback_strategy (e(''RC_API_FALLBACK_STRATEGY'' \<mapsto> ''DirectPg'')) = DirectPg"

definition config_fallback_strategy_auto_default :: "env \<Rightarrow> bool" where
  "config_fallback_strategy_auto_default e \<longleftrightarrow>
     parse_fallback_strategy (e(''RC_API_FALLBACK_STRATEGY'' := None)) = Auto"

definition config_fallback_strategy_auto_explicit :: "env \<Rightarrow> bool" where
  "config_fallback_strategy_auto_explicit e \<longleftrightarrow>
     parse_fallback_strategy (e(''RC_API_FALLBACK_STRATEGY'' \<mapsto> ''Auto'')) = Auto"

definition config_fallback_strategy_unknown_defaults_to_auto :: "env \<Rightarrow> bool" where
  "config_fallback_strategy_unknown_defaults_to_auto e \<longleftrightarrow>
     parse_fallback_strategy (e(''RC_API_FALLBACK_STRATEGY'' \<mapsto> ''SomeUnknownValue'')) = Auto"

lemma config_tests_pass:
  "config_redis_url_from_env e" "config_redis_url_default e"
  "config_fallback_strategy_direct_pg e" "config_fallback_strategy_auto_default e"
  "config_fallback_strategy_auto_explicit e"
  "config_fallback_strategy_unknown_defaults_to_auto e"
  by (simp_all add: config_redis_url_from_env_def config_redis_url_default_def
      config_fallback_strategy_direct_pg_def config_fallback_strategy_auto_default_def
      config_fallback_strategy_auto_explicit_def
      config_fallback_strategy_unknown_defaults_to_auto_def parse_redis_url_def
      parse_fallback_strategy_def unwrap_or_def)

section \<open>\<^verbatim>\<open>asset_commitment.rs\<close>\<close>

definition normalizes_uid_to_uppercase :: bool where
  "normalizes_uid_to_uppercase \<longleftrightarrow> normalize_uid '' 04a31b2c3d4e5f '' = ''04A31B2C3D4E5F''"

definition metadata_hash_is_stable_for_same_inputs :: "('z externs_scheme) \<Rightarrow> bool" where
  "metadata_hash_is_stable_for_same_inputs X \<longleftrightarrow>
     build_metadata_hash X ''sku_001'' (Some '' Product '') (Some ''https://a'') (Some ''batch_1'') =
     build_metadata_hash X ''sku_001'' (Some ''Product'') (Some ''https://a'') (Some ''batch_1'')"

definition chip_binding_changes_when_epoch_changes :: "('z externs_scheme) \<Rightarrow> bool" where
  "chip_binding_changes_when_epoch_changes X \<longleftrightarrow>
     build_chip_binding X ''04A31B2C3D4E5F'' 0 \<noteq> build_chip_binding X ''04A31B2C3D4E5F'' 1"

definition commitment_hash_is_stable_for_same_inputs ::
  "('z externs_scheme) \<Rightarrow> world \<Rightarrow> bool" where
  "commitment_hash_is_stable_for_same_inputs X w =
     (case (fst (build_asset_commitment_record X ''brand_1'' ''04A31B2C3D4E5F'' 0 ''sku_001''
              (Some ''Product A'') (Some ''https://example.com/p/sku_001'') (Some ''batch_1'') w),
            fst (build_asset_commitment_record X ''brand_1'' ''04a31b2c3d4e5f'' 0 ''sku_001''
              (Some '' Product A '') (Some ''https://example.com/p/sku_001'') (Some ''batch_1'') w)) of
        (Inr a, Inr b) \<Rightarrow>
          cm_commitment_id a = cm_commitment_id b
          \<and> cm_canonical_payload a = cm_canonical_payload b
      | _ \<Rightarrow> False)"

text \<open>
  The serialiser does not fail on what it is given here, hex text determines its bytes, and the two
  hashed bindings do not collide.
\<close>

definition serialises :: "('z externs_scheme) \<Rightarrow> bool" where
  "serialises X \<longleftrightarrow> (\<forall>j. \<not> isl (x_json_bytes X j))"

lemma serialises_Inr: "serialises X \<Longrightarrow> \<exists>bs. x_json_bytes X j = Inr bs"
  by (auto simp: serialises_def isl_def) (metis sum.exhaust)

lemma serialises_not_Inl:
  assumes "serialises X"
  shows "x_json_bytes X j \<noteq> Inl e" "map_sum f id (x_json_bytes X j) \<noteq> Inl e'"
  using serialises_Inr [OF assms, of j] by auto

lemma trims:
  "trim ''sku_001'' = ''sku_001''" "trim '' Product '' = ''Product''" "trim ''Product'' = ''Product''"
  "trim ''https://a'' = ''https://a''" "trim ''batch_1'' = ''batch_1''"
  "trim '' Product A '' = ''Product A''" "trim ''Product A'' = ''Product A''"
  "normalize_uid ''04a31b2c3d4e5f'' = ''04A31B2C3D4E5F''"
  "normalize_uid ''04A31B2C3D4E5F'' = ''04A31B2C3D4E5F''"
  by code_simp+

lemma record_same:
  "build_asset_commitment_record X ''brand_1'' ''04a31b2c3d4e5f'' 0 ''sku_001'' (Some '' Product A '')
     u b = build_asset_commitment_record X ''brand_1'' ''04A31B2C3D4E5F'' 0 ''sku_001''
       (Some ''Product A'') u b"
  by (simp add: build_asset_commitment_record_def build_asset_commitment_payload_def
      build_metadata_hash_def trims)

lemma record_built:
  "serialises X \<Longrightarrow> \<exists>r. fst (build_asset_commitment_record X brand uid ep p n u b w) = Inr r"
  by (simp add: build_asset_commitment_record_def build_metadata_hash_def
      compute_asset_commitment_id_def try_bind_def expect_def of_result_def ret_def lift_def
      utc_now_def gets_def and_then_def serialises_not_Inl Let_def split: sum.split)

lemma commitment_tests_pass:
  "normalizes_uid_to_uppercase" "metadata_hash_is_stable_for_same_inputs X"
  "serialises X \<Longrightarrow> commitment_hash_is_stable_for_same_inputs X w"
proof -
  show "normalizes_uid_to_uppercase" by code_simp
  show "metadata_hash_is_stable_for_same_inputs X"
    by (simp add: metadata_hash_is_stable_for_same_inputs_def build_metadata_hash_def trims)
  assume ser: "serialises X"
  obtain r where "fst (build_asset_commitment_record X ''brand_1'' ''04A31B2C3D4E5F'' 0 ''sku_001''
      (Some ''Product A'') (Some ''https://example.com/p/sku_001'') (Some ''batch_1'') w) = Inr r"
    using record_built [OF ser] by blast
  then show "commitment_hash_is_stable_for_same_inputs X w"
    unfolding commitment_hash_is_stable_for_same_inputs_def record_same by simp
qed

lemma hex_sha256_differs:
  assumes "\<And>b. x_hex_decode X (x_hex_encode X b) = Inr b" and "x_sha256 X m \<noteq> x_sha256 X m'"
  shows "hex_sha256 X m \<noteq> hex_sha256 X m'"
  using assms(1) [of "x_sha256 X m"] assms(1) [of "x_sha256 X m'"] assms(2)
  by (auto simp: hex_sha256_def)

lemma chip_binding_test_passes:
  assumes "\<And>b. x_hex_decode X (x_hex_encode X b) = Inr b"
    and "x_sha256 X (as_bytes (''04A31B2C3D4E5F'' @ ''|ntag424dna|'' @ dec 0))
      \<noteq> x_sha256 X (as_bytes (''04A31B2C3D4E5F'' @ ''|ntag424dna|'' @ dec 1))"
  shows "chip_binding_changes_when_epoch_changes X"
  unfolding chip_binding_changes_when_epoch_changes_def build_chip_binding_def trims unat_0 unat_1
  by (rule hex_sha256_differs [OF assms])

section \<open>\<^verbatim>\<open>attestation_brand.rs\<close>, \<^verbatim>\<open>attestation_platform.rs\<close>\<close>

text \<open>
  The signing key of a test is derived from a fixed secret, its verifying key from that.
\<close>

definition brand_attestation_sign_verify_roundtrip :: "externs \<Rightarrow> time \<Rightarrow> bool" where
  "brand_attestation_sign_verify_roundtrip X issued_at =
     (let payload = build_brand_attestation_payload X ''brand_1'' ''commitment_1'' issued_at
            ''brand-key-2026-01''
      in case brand_signing_key X ''brand-test-secret'' of
           Inl _ \<Rightarrow> False
         | Inr signing_key \<Rightarrow>
             and_then (sign_brand_attestation X payload signing_key) (\<lambda>sig.
               verify_brand_attestation X payload sig (x_ed_public X signing_key)) = Inr True)"

definition brand_attestation_verify_fails_after_tamper :: "externs \<Rightarrow> time \<Rightarrow> bool" where
  "brand_attestation_verify_fails_after_tamper X issued_at =
     (let payload = build_brand_attestation_payload X ''brand_1'' ''commitment_1'' issued_at
            ''brand-key-2026-01'';
          tampered = build_brand_attestation_payload X ''brand_1'' ''commitment_2'' issued_at
            ''brand-key-2026-01''
      in case brand_signing_key X ''brand-test-secret'' of
           Inl _ \<Rightarrow> False
         | Inr signing_key \<Rightarrow>
             and_then (sign_brand_attestation X payload signing_key) (\<lambda>sig.
               verify_brand_attestation X tampered sig (x_ed_public X signing_key)) = Inr False)"

definition platform_attestation_sign_verify_roundtrip :: "externs \<Rightarrow> time \<Rightarrow> bool" where
  "platform_attestation_sign_verify_roundtrip X issued_at =
     (let payload = build_platform_attestation_payload X ''rcprotocol-main'' ''commitment_1''
            issued_at ''platform-key-2026-01''
      in case platform_signing_key X ''platform-test-secret'' of
           Inl _ \<Rightarrow> False
         | Inr signing_key \<Rightarrow>
             and_then (sign_platform_attestation X payload signing_key) (\<lambda>sig.
               verify_platform_attestation X payload sig (x_ed_public X signing_key)) = Inr True)"

definition platform_attestation_verify_fails_after_tamper :: "externs \<Rightarrow> time \<Rightarrow> bool" where
  "platform_attestation_verify_fails_after_tamper X issued_at =
     (let payload = build_platform_attestation_payload X ''rcprotocol-main'' ''commitment_1''
            issued_at ''platform-key-2026-01'';
          tampered = build_platform_attestation_payload X ''rcprotocol-main'' ''commitment_2''
            issued_at ''platform-key-2026-01''
      in case platform_signing_key X ''platform-test-secret'' of
           Inl _ \<Rightarrow> False
         | Inr signing_key \<Rightarrow>
             and_then (sign_platform_attestation X payload signing_key) (\<lambda>sig.
               verify_platform_attestation X tampered sig (x_ed_public X signing_key)) = Inr False)"

lemma signing_keys:
  assumes "\<And>m. length (x_sha256 X m) = 32"
  shows "\<exists>k. brand_signing_key X ''brand-test-secret'' = Inr k"
    "\<exists>k. platform_signing_key X ''platform-test-secret'' = Inr k"
proof -
  have t: "trim ''brand-test-secret'' = ''brand-test-secret''"
    "trim ''platform-test-secret'' = ''platform-test-secret''" by code_simp+
  show "\<exists>k. brand_signing_key X ''brand-test-secret'' = Inr k"
    "\<exists>k. platform_signing_key X ''platform-test-secret'' = Inr k"
    using assms by (simp_all add: brand_signing_key_def platform_signing_key_def t and_then_def)
qed

lemma commitment_names: "trim ''commitment_1'' = ''commitment_1''" "trim ''commitment_2'' = ''commitment_2''"
  by code_simp+

lemma attestation_tests_pass:
  assumes ok: "ed_ok X" and ser: "serialises X" and len: "\<And>m. length (x_sha256 X m) = 32"
  shows "brand_attestation_sign_verify_roundtrip X t"
    "brand_attestation_verify_fails_after_tamper X t"
    "platform_attestation_sign_verify_roundtrip X t"
    "platform_attestation_verify_fails_after_tamper X t"
proof -
  obtain k where k: "brand_signing_key X ''brand-test-secret'' = Inr k"
    using signing_keys(1) [OF len] by blast
  obtain k' where k': "platform_signing_key X ''platform-test-secret'' = Inr k'"
    using signing_keys(2) [OF len] by blast
  note bytes = serialises_Inr [OF ser]
  note laws = ed_ok_codec [OF ok]
  let ?bp = "\<lambda>c. build_brand_attestation_payload X ''brand_1'' c t ''brand-key-2026-01''"
  let ?pp = "\<lambda>c. build_platform_attestation_payload X ''rcprotocol-main'' c t ''platform-key-2026-01''"
  obtain b1 b2 where b: "x_json_bytes X (brand_payload_json (?bp ''commitment_1'')) = Inr b1"
    "x_json_bytes X (brand_payload_json (?bp ''commitment_2'')) = Inr b2" using bytes by meson
  obtain p1 p2 where p: "x_json_bytes X (platform_payload_json (?pp ''commitment_1'')) = Inr p1"
    "x_json_bytes X (platform_payload_json (?pp ''commitment_2'')) = Inr p2" using bytes by meson
  have "b1 \<noteq> b2" using ed_ok_json [OF ok b(1)] b(2)
    by (auto simp: brand_payload_json_def build_brand_attestation_payload_def commitment_names)
  moreover have "p1 \<noteq> p2" using ed_ok_json [OF ok p(1)] p(2)
    by (auto simp: platform_payload_json_def build_platform_attestation_payload_def commitment_names)
  ultimately show "brand_attestation_sign_verify_roundtrip X t"
    "brand_attestation_verify_fails_after_tamper X t"
    "platform_attestation_sign_verify_roundtrip X t"
    "platform_attestation_verify_fails_after_tamper X t"
    using b p laws
    by (simp_all add: brand_attestation_sign_verify_roundtrip_def
        brand_attestation_verify_fails_after_tamper_def
        platform_attestation_sign_verify_roundtrip_def
        platform_attestation_verify_fails_after_tamper_def k k' sign_brand_attestation_def
        verify_brand_attestation_def sign_platform_attestation_def verify_platform_attestation_def
        brand_payload_bytes_def platform_payload_bytes_def and_then_def)
qed

end
