(* ===== verification/Spec2Isabelle.thy ===== *)
theory Spec2Isabelle
  imports Asset_Lifecycle Activation_Properties Registry_Properties Transfer_Properties
    Wallet_Properties Startup_Properties Ownership Calibrate_Properties
    Webhook_Properties Action_Refinement Core_Tests Key_Tests Cache_Tests Calibrate_Tests Api_Tests Registry_Tests
begin

text \<open>
  RCProtocol follows branded goods through their life: a chip (the child tag) sits in the
  goods, a mother card proves the authority over them, and a server records what happens. This
  library models the Rust workspace under \<^verbatim>\<open>src/rust\<close>, which is the server and the libraries
  it stands on. The definitions follow the sources function by function and keep their names;
  every failure of the source is a branch of the model.

  \<^bold>\<open>Layers.\<close> The theories, in the order of the code:

  \<^item> \<open>Prelude\<close>: the type \<open>act\<close> of an operation that changes a world and may stop with an error
    (state passing around a sum), with \<open>try_bind\<close> for Rust's question mark, the run rules
    \<open>run_inv\<close> and \<open>run_simps\<close>, and the locale \<open>run_preorder\<close> of frame rules (\<open>keeps\<close>).
  \<^item> \<open>Rust_Strings\<close>: the part of the standard library on strings and bytes the sources use
    (UTF-8 bytes, trimming, hexadecimal, parsing of integers, printing).
  \<^item> \<open>Common_Types\<close> (crate \<^verbatim>\<open>rc-common\<close>), \<open>Asset_Core\<close> and \<open>Asset_Lifecycle\<close> (crate
    \<^verbatim>\<open>rc-core\<close>): states, roles, actions, the state machine, \<open>apply_action\<close>, and what it
    guarantees over an asset's life.
  \<^item> \<open>Crypto\<close> (crate \<^verbatim>\<open>rc-crypto\<close>) and \<open>Kms\<close> (crate \<^verbatim>\<open>rc-kms\<close>): the tag's message
    authentication, the key derivations, the key service with its cache.
  \<^item> \<open>World\<close>: what a handler acts on: the PostgreSQL tables with the constraints of
    \<^verbatim>\<open>deploy/postgres/init\<close>, Redis, the process-local cache, the clock, the random draws and the
    key service. Every statement may fail: \<open>w_faults\<close> is a script of outcomes that is used up
    statement by statement, so a proof over all worlds covers a database failure at any point.
  \<^item> \<open>Attestation\<close>: commitments and the two attestations. \<open>Auth\<close> and \<open>Authorization\<close>: API keys,
    tokens, the middleware, the mother cards. \<open>Db_Assets\<close>, \<open>Asset_Queries\<close>, \<open>Db_Registry\<close>: the
    modules of \<^verbatim>\<open>db\<close>. \<open>Ctr_Cache\<close> and \<open>Ctr_Calibrate\<close>: the counter of a tag behind its caches,
    and the operator's repair commands. \<open>Wallet_Snapshot\<close>: the Redis view of a user's assets and
    its commands, with Redis' sorted sets and hashes. \<open>Webhooks\<close>: the notifications of a brand,
    as rows of a queue. \<open>Seed\<close>: the demonstration data (\<^verbatim>\<open>seed.rs\<close> and the fixtures of the crate
    \<^verbatim>\<open>rc-test-helpers\<close> it calls).
  \<^item> \<open>Routes_Protocol\<close>, \<open>Routes_Transfer\<close>, \<open>Routes_Verify\<close>, \<open>Routes_Registry\<close>: the handlers.
  \<^item> \<open>Server\<close>: the router, and \<open>server_step\<close>, one request, one calibration, or anything else that
    leaves PostgreSQL alone; \<open>reaches\<close> is its closure.
  \<^item> \<open>Startup\<close> (\<^verbatim>\<open>main.rs\<close>, \<^verbatim>\<open>app.rs\<close>): the command line, the checks of the environment, the
    application state, the seeding a start may ask for, and the world a started server finds.

  \<^bold>\<open>What is shown.\<close> \<open>Frames\<close> proves once, inside the locales \<open>db_frame\<close> and \<open>db_contract\<close>,
  that every handler keeps any relation on databases that its single statements keep;
  \<open>System_Invariants\<close> interprets \<open>db_contract\<close> on four relations (histories grow, assets follow
  the state machine, counters of mother cards advance, mother cards are exclusive),
  \<open>Registry_Invariants\<close> on those of the registry (transfers, batches, keys, brands), and
  \<open>System_Properties\<close> and \<open>Registry_Properties\<close> state the results for runs of the whole server,
  with the rotation of API keys, the pages of a listing and the registration that never succeeds.
  \<open>Persistence\<close> writes the effect of \<open>persist_action\<close> as one function; \<open>Action_Properties\<close> and
  \<open>Activation_Properties\<close> use it for success, failure and replay of the write endpoints;
  \<open>Action_Refinement\<close> shows that sequences of them do what the state machine of \<^verbatim>\<open>rc-core\<close> does.
  \<open>Kms_Threads\<close> runs threads that share the key service under every schedule of its two locks.
  \<open>Verify_Properties\<close>: what an answer \<^verbatim>\<open>authentic\<close> proves, and that a tap presented again is
  flagged. \<open>Ownership\<close> interprets the frame locale \<open>db_steps\<close> on the owner of one asset: which
  requests, and by whom, hand an asset over. \<open>Transfer_Properties\<close>: what a transfer needs and
  does, and that its tap is bound to no asset. \<open>Key_Frame\<close> is the second frame, for the key
  service (locale \<open>key_frame\<close>), and
  \<open>Startup_Properties\<close> interprets it: from the checks of the environment to the keys the process
  uses throughout its life; it also shows that a start which asks for demonstration data fails.
  \<open>Calibrate_Properties\<close>: what the operator's calibration leaves behind. \<open>Wallet_Properties\<close>: a
  rebuilt snapshot answers as the table does.
  \<open>Webhook_Properties\<close>: a trigger queues one delivery for each subscriber and nothing else.
  \<open>Demo\<close> is a small concrete system on which the witnesses evaluate the handlers.

  \<^bold>\<open>The sources' own tests.\<close> \<open>Core_Tests\<close>, \<open>Key_Tests\<close>, \<open>Cache_Tests\<close>, \<open>Calibrate_Tests\<close>,
  \<open>Api_Tests\<close> and \<open>Registry_Tests\<close> state the unit and property tests of the workspace as boolean
  definitions over the model, under their own names, and show that the model passes them: a check
  of the translation against what the authors expect of the code. A test that runs on random
  inputs is proved for all of them. Two tests of \<^verbatim>\<open>authority_devices.rs\<close>, which the sources skip
  without a database, are refuted (\<open>registration_tests\<close>). \<open>Calibrate_Tests\<close> shows in addition that the calibration
  commands compute what the reference functions of their tests do, and \<open>Cache_Tests\<close> that a stored
  counter is read back. Left out are the tests that need a running database, those of the decoders
  of serde and clap, and those that compare with fixed outputs of a cryptographic crate.

  \<^bold>\<open>Bounds.\<close> There is no fuel: the loops of the sources walk lists and are recursion on
  them. Integers are words of their Rust width (\<^verbatim>\<open>u8\<close>, \<^verbatim>\<open>i32\<close>, \<^verbatim>\<open>u32\<close>, \<^verbatim>\<open>i64\<close>), with wrapping or
  panicking operations as in the source.

  \<^bold>\<open>Parameters.\<close> Third-party crates are fields of \<open>externs\<close>: HMAC, AES-CMAC, SHA-256, Ed25519,
  JSON serialisation, JWT decoding, UUID, ULID and time formatting. Theorems that need a law of
  them (lengths of digests, injective serialisation, correctness of signatures) name it as
  \<open>crypto_ok\<close> or \<open>ed_ok\<close>, and their witnesses instantiate them by concrete functions.

  \<^bold>\<open>Not modelled.\<close> The Go services, the front ends and the deployment scripts are other
  programs. Of the Rust workspace: sockets and connection pools (what a connection gives is an
  argument of \<open>Startup\<close>), tracing output, the helpers that create and drop the databases of the
  integration tests, and the delivery of a queued webhook, which is left to another program.
  No handler of the server calls \<^verbatim>\<open>webhooks\<close>, so its operations are stated on their own. The HTTP layer is modelled from the
  typed request on: a request that axum rejects while decoding reaches no handler.
\<close>

end
